(* ===== verification/Prelude.thy ===== *)
theory Prelude
  imports Main "HOL-Library.List_Lexorder" "HOL-Library.Char_ord" "HOL-Library.Word"
begin

text \<open>
  Shared vocabulary of the development: Python exceptions as values, the two result
  monads the models are written in (a pure one, and one that threads a state), and the
  generic lemmas on association lists, sorting and result lists that the components use.

  A function of the source that may raise returns \<open>pyexc + 'a\<close> (\<open>Inl\<close> the exception).
  A function that also has effects returns such a value together with the new state. The
  simp set \<open>result_simps\<close> opens the binds, so component proofs split on results rather
  than on the monad.
\<close>

named_theorems result_simps "equations and case rules of the result monads"

section \<open>Exceptions and the pure result monad\<close>

datatype pyexc =
    ValueError
  | TypeError
  | IndexError
  | KeyError
  | AttributeError
  | FetchError string
  | TimeoutError
  | RuntimeError
  | OverflowError
  | PendingRollbackError
  | InvalidOperation
  | DBAPIError string
  | GateRpcError string string

type_synonym 'a res = "pyexc + 'a"

definition bindE :: "'e + 'a \<Rightarrow> ('a \<Rightarrow> 'e + 'b) \<Rightarrow> 'e + 'b" where
  "bindE m f = (case m of Inl e \<Rightarrow> Inl e | Inr x \<Rightarrow> f x)"

lemma bindE_simps [simp, result_simps]:
  "bindE (Inl e) f = Inl e"
  "bindE (Inr x) f = f x"
  by (simp_all add: bindE_def)

lemma bindE_Inr_iff [result_simps]:
  "bindE m f = Inr y \<longleftrightarrow> (\<exists>x. m = Inr x \<and> f x = Inr y)"
  by (cases m) auto

lemma bindE_Inl_iff:
  "bindE m f = Inl e \<longleftrightarrow> m = Inl e \<or> (\<exists>x. m = Inr x \<and> f x = Inl e)"
  by (cases m) auto

lemma bindE_cong [fundef_cong]:
  "m = m' \<Longrightarrow> (\<And>x. m' = Inr x \<Longrightarrow> f x = f' x) \<Longrightarrow> bindE m f = bindE m' f'"
  by (cases m') auto

fun mapE :: "('a \<Rightarrow> 'e + 'b) \<Rightarrow> 'a list \<Rightarrow> 'e + 'b list" where
  "mapE f [] = Inr []"
| "mapE f (x # xs) = bindE (f x) (\<lambda>y. bindE (mapE f xs) (\<lambda>ys. Inr (y # ys)))"

lemma mapE_cong [fundef_cong]:
  "xs = ys \<Longrightarrow> (\<And>x. x \<in> set ys \<Longrightarrow> f x = g x) \<Longrightarrow> mapE f xs = mapE g ys"
  by (induction ys arbitrary: xs) (auto intro!: bindE_cong)

lemma mapE_Inr_iff: "mapE f xs = Inr ys \<longleftrightarrow> list_all2 (\<lambda>x y. f x = Inr y) xs ys"
  by (induction xs arbitrary: ys) (auto simp: bindE_Inr_iff list_all2_Cons1)

lemma mapE_length: "mapE f xs = Inr ys \<Longrightarrow> length ys = length xs"
  by (auto simp: mapE_Inr_iff dest: list_all2_lengthD)

lemma mapE_total: "(\<And>x. x \<in> set xs \<Longrightarrow> f x = Inr (g x)) \<Longrightarrow> mapE f xs = Inr (map g xs)"
  by (induction xs) auto

section \<open>Results with effects\<close>

type_synonym ('s, 'a) act = "'s \<Rightarrow> 'a res \<times> 's"

definition retA :: "'a \<Rightarrow> ('s, 'a) act" where
  "retA x = (\<lambda>s. (Inr x, s))"

definition raiseA :: "pyexc \<Rightarrow> ('s, 'a) act" where
  "raiseA e = (\<lambda>s. (Inl e, s))"

definition liftA :: "'a res \<Rightarrow> ('s, 'a) act" where
  "liftA m = (\<lambda>s. (m, s))"

definition bindA :: "('s, 'a) act \<Rightarrow> ('a \<Rightarrow> ('s, 'b) act) \<Rightarrow> ('s, 'b) act" where
  "bindA m f = (\<lambda>s. case m s of (Inl e, s') \<Rightarrow> (Inl e, s') | (Inr x, s') \<Rightarrow> f x s')"

definition thenA :: "('s \<Rightarrow> 's) \<Rightarrow> ('s, 'a) act \<Rightarrow> ('s, 'a) act" where
  "thenA upd m = (\<lambda>s. m (upd s))"

lemma act_simps [simp, result_simps]:
  "retA x s = (Inr x, s)"
  "raiseA e s = (Inl e, s)"
  "liftA m s = (m, s)"
  "thenA upd k s = k (upd s)"
  by (simp_all add: retA_def raiseA_def liftA_def thenA_def)

lemma bindA_simps [simp, result_simps]:
  "bindA (retA x) f = f x"
  "bindA (liftA (Inr x)) f = f x"
  "bindA (liftA (Inl e)) f = raiseA e"
  "bindA (raiseA e) f = raiseA e"
  by (simp_all add: bindA_def retA_def raiseA_def liftA_def fun_eq_iff)

lemma bindA_apply [result_simps]:
  "bindA m f s = (case m s of (Inl e, s') \<Rightarrow> (Inl e, s') | (Inr x, s') \<Rightarrow> f x s')"
  by (simp add: bindA_def)

lemma bindA_liftA_apply [simp]:
  "bindA (liftA m) f s = (case m of Inl e \<Rightarrow> (Inl e, s) | Inr x \<Rightarrow> f x s)"
  by (cases m) (simp_all add: bindA_apply)

section \<open>Association lists as dicts\<close>

text \<open>A Python dict is an association list in insertion order with distinct keys.\<close>

abbreviation keys_of :: "('k \<times> 'v) list \<Rightarrow> 'k list" where
  "keys_of d \<equiv> map fst d"

definition has_key :: "('k \<times> 'v) list \<Rightarrow> 'k \<Rightarrow> bool" where
  "has_key d k = (k \<in> set (keys_of d))"

lemma has_key_map_of: "has_key d k \<longleftrightarrow> (\<exists>v. map_of d k = Some v)"
  unfolding has_key_def by (induction d) auto

lemma has_key_simps [simp]:
  "has_key [] k = False"
  "has_key ((k', v) # d) k = (k = k' \<or> has_key d k)"
  by (auto simp: has_key_def)

lemma not_has_key_None: "\<not> has_key d k \<longleftrightarrow> map_of d k = None"
  by (simp add: has_key_map_of)

section \<open>Sorting\<close>

lemma sort_eq_iff_distinct:
  fixes xs :: "'a::linorder list"
  assumes "distinct xs" "distinct ys"
  shows "sort xs = sort ys \<longleftrightarrow> set xs = set ys"
proof
  assume "sort xs = sort ys"
  then have "set (sort xs) = set (sort ys)" by simp
  then show "set xs = set ys" by simp
next
  assume "set xs = set ys"
  with assms show "sort xs = sort ys"
    by (metis sorted_list_of_set_sort_remdups distinct_remdups_id)
qed

lemma sort_Nil_iff [simp]: "sort xs = [] \<longleftrightarrow> xs = []"
  by (metis length_0_conv length_sort)

end
