(* ===== verification/PyFloat.thy ===== *)
theory PyFloat
  imports Prelude
begin

text \<open>
  Python numbers. An \<open>int\<close> is unbounded. A \<open>float\<close> is an IEEE-754 double held exactly as
  sign, integer mantissa and binary exponent; every operation computes the exact rational
  result and rounds it once (to nearest, ties to even), as the hardware does. A \<open>Decimal\<close>
  is sign, coefficient and decimal exponent; context operations round to 28 significant
  digits. The renderings the code takes of numbers (\<open>str\<close>, \<open>format(x, ".15g")\<close>) are
  computed here from the value.
\<close>

section \<open>Decimal text of natural numbers\<close>

fun nat_digits :: "nat \<Rightarrow> nat list" where
  "nat_digits n = (if n < 10 then [n] else nat_digits (n div 10) @ [n mod 10])"

declare nat_digits.simps [simp del]

definition digit_char :: "nat \<Rightarrow> char" where
  "digit_char d = char_of (48 + d)"

definition nat_str :: "nat \<Rightarrow> string" where
  "nat_str n = map digit_char (nat_digits n)"

definition int_str :: "int \<Rightarrow> string" where
  "int_str i = (if i < 0 then CHR ''-'' # nat_str (nat (- i)) else nat_str (nat i))"

lemma nat_digits_neq_Nil [simp]: "nat_digits n \<noteq> []"
  by (subst nat_digits.simps) simp

lemma nat_digits_less_10: "d \<in> set (nat_digits n) \<Longrightarrow> d < 10"
proof (induction n rule: nat_digits.induct)
  case (1 n)
  then show ?case by (subst (asm) nat_digits.simps) (auto split: if_splits)
qed

definition digits_value :: "nat list \<Rightarrow> nat" where
  "digits_value ds = foldl (\<lambda>a d. 10 * a + d) 0 ds"

lemma digits_value_snoc: "digits_value (ds @ [d]) = 10 * digits_value ds + d"
  by (simp add: digits_value_def)

lemma digits_value_nat_digits [simp]: "digits_value (nat_digits n) = n"
proof (induction n rule: nat_digits.induct)
  case (1 n)
  show ?case
  proof (cases "n < 10")
    case True
    then show ?thesis by (subst nat_digits.simps) (simp add: digits_value_def)
  next
    case False
    with 1 show ?thesis by (subst nat_digits.simps) (simp add: digits_value_snoc)
  qed
qed

lemma nat_digits_inject [simp]: "nat_digits m = nat_digits n \<longleftrightarrow> m = n"
  by (metis digits_value_nat_digits)

lemma hd_nat_digits: "0 < n \<Longrightarrow> hd (nat_digits n) \<noteq> 0"
proof (induction n rule: nat_digits.induct)
  case (1 n)
  show ?case
  proof (cases "n < 10")
    case True
    with 1 show ?thesis by (subst nat_digits.simps) simp
  next
    case False
    then have "0 < n div 10" by simp
    with False 1 have "hd (nat_digits (n div 10)) \<noteq> 0" by simp
    with False show ?thesis by (subst nat_digits.simps) simp
  qed
qed

lemma of_char_digit_char: "d < 10 \<Longrightarrow> (of_char (digit_char d) :: nat) = 48 + d"
  by (simp add: digit_char_def)

lemma inj_on_digit_char: "inj_on digit_char {..<10}"
  by (rule inj_onI) (metis lessThan_iff of_char_digit_char add_left_cancel)

lemma nat_str_inject [simp]: "nat_str m = nat_str n \<longleftrightarrow> m = n"
proof
  assume "nat_str m = nat_str n"
  moreover have "inj_on digit_char (set (nat_digits m) \<union> set (nat_digits n))"
    by (rule inj_on_subset [OF inj_on_digit_char]) (auto dest: nat_digits_less_10)
  ultimately have "nat_digits m = nat_digits n"
    unfolding nat_str_def by (simp add: inj_on_map_eq_map)
  then show "m = n" by simp
qed simp

lemma nat_str_neq_Nil [simp]: "nat_str n \<noteq> []"
  by (simp add: nat_str_def)

definition num_digits :: "nat \<Rightarrow> nat" where
  "num_digits n = length (nat_digits n)"

lemma nat_less_pow_num_digits: "n < 10 ^ num_digits n"
proof (induction n rule: nat_digits.induct)
  case (1 n)
  show ?case
  proof (cases "n < 10")
    case True
    then show ?thesis unfolding num_digits_def by (subst nat_digits.simps) simp
  next
    case False
    with 1 have "n div 10 < 10 ^ num_digits (n div 10)" by simp
    then have "n div 10 + 1 \<le> 10 ^ num_digits (n div 10)" by simp
    then have "10 * (n div 10 + 1) \<le> 10 * 10 ^ num_digits (n div 10)"
      by (rule mult_le_mono2)
    moreover have "n < 10 * (n div 10 + 1)" by presburger
    moreover have "num_digits n = Suc (num_digits (n div 10))"
      using False unfolding num_digits_def by (subst nat_digits.simps) simp
    ultimately show ?thesis by simp
  qed
qed

lemma num_digits_pos: "0 < num_digits n"
  by (simp add: num_digits_def)

lemma pow_num_digits_le: "0 < n \<Longrightarrow> 10 ^ (num_digits n - 1) \<le> n"
proof (induction n rule: nat_digits.induct)
  case (1 n)
  show ?case
  proof (cases "n < 10")
    case True
    with 1 show ?thesis unfolding num_digits_def by (subst nat_digits.simps) simp
  next
    case False
    have nd: "num_digits n = Suc (num_digits (n div 10))"
      using False unfolding num_digits_def by (subst nat_digits.simps) simp
    have "10 ^ (num_digits (n div 10) - 1) \<le> n div 10" using False 1 by simp
    then have "10 * 10 ^ (num_digits (n div 10) - 1) \<le> 10 * (n div 10)" by simp
    also have "10 * (n div 10) \<le> n" by simp
    finally show ?thesis
      using num_digits_pos [of "n div 10"] by (simp add: nd power_Suc [symmetric] del: power_Suc)
  qed
qed

lemma num_digits_mono: "m \<le> n \<Longrightarrow> num_digits m \<le> num_digits n"
proof (cases "m = 0")
  case True
  then have "num_digits m = 1"
    unfolding num_digits_def by (subst nat_digits.simps) simp
  then show ?thesis using num_digits_pos [of n] by simp
next
  case False
  assume "m \<le> n"
  with False have "(10::nat) ^ (num_digits m - 1) < 10 ^ num_digits n"
    using pow_num_digits_le [of m] nat_less_pow_num_digits [of n] by linarith
  then have "num_digits m - 1 < num_digits n" by (simp add: power_strict_increasing_iff)
  then show ?thesis using num_digits_pos [of m] by linarith
qed

lemma num_digits_le_iff: "0 < p \<Longrightarrow> num_digits n \<le> p \<longleftrightarrow> n < 10 ^ p"
proof
  assume "num_digits n \<le> p"
  then have "(10::nat) ^ num_digits n \<le> 10 ^ p" by (simp add: power_increasing)
  with nat_less_pow_num_digits [of n] show "n < 10 ^ p" by linarith
next
  assume p: "0 < p" and n: "n < 10 ^ p"
  show "num_digits n \<le> p"
  proof (cases "n = 0")
    case True
    with p show ?thesis unfolding num_digits_def by (subst nat_digits.simps) simp
  next
    case False
    then have "(10::nat) ^ (num_digits n - 1) < 10 ^ p"
      using pow_num_digits_le [of n] n by linarith
    then have "num_digits n - 1 < p" by (simp add: power_strict_increasing_iff)
    then show ?thesis by linarith
  qed
qed

section \<open>Exact rounding\<close>

definition round_half_even :: "int \<Rightarrow> int \<Rightarrow> int" where
  \<comment> \<open>nearest integer to \<open>n / d\<close> for \<open>d > 0\<close>, ties to even\<close>
  "round_half_even n d =
     (let q = n div d; r = n mod d in
      if 2 * r < d then q else if 2 * r > d then q + 1
      else if even q then q else q + 1)"

definition round_half_up_abs :: "int \<Rightarrow> int \<Rightarrow> int" where
  \<comment> \<open>nearest integer to \<open>n / d\<close> for \<open>n \<ge> 0\<close>, \<open>d > 0\<close>, ties away from zero\<close>
  "round_half_up_abs n d = (2 * n + d) div (2 * d)"

fun bit_len :: "nat \<Rightarrow> nat" where
  "bit_len n = (if n = 0 then 0 else Suc (bit_len (n div 2)))"

declare bit_len.simps [simp del]

definition pow2 :: "int \<Rightarrow> int" where
  "pow2 e = (if e < 0 then 1 else 2 ^ nat e)"

definition pow10 :: "int \<Rightarrow> int" where
  "pow10 e = (if e < 0 then 1 else 10 ^ nat e)"

section \<open>IEEE-754 doubles\<close>

datatype pyfloat = FFin bool int int | FInf bool | FNan

text \<open>\<open>FFin neg m e\<close> is \<open>(-1)^neg * m * 2^e\<close>; a normal number has \<open>2^52 \<le> m < 2^53\<close>.\<close>

definition round_ratio :: "bool \<Rightarrow> int \<Rightarrow> int \<Rightarrow> pyfloat" where
  \<comment> \<open>the double nearest to \<open>n / d\<close>, for \<open>n \<ge> 0\<close>, \<open>d > 0\<close>\<close>
  "round_ratio neg n d =
     (if n = 0 then FFin neg 0 0 else
      let e0 = int (bit_len (nat n)) - int (bit_len (nat d)) - 53;
          e1 = (if pow2 53 * d * pow2 e0 \<le> n * pow2 (- e0) then e0 + 1 else e0);
          e2 = (if n * pow2 (- e1) < pow2 52 * d * pow2 e1 then e1 - 1 else e1);
          e = max e2 (-1074);
          m = round_half_even (n * pow2 (- e)) (d * pow2 e);
          (m', e') = (if m = pow2 53 then (pow2 52, e + 1) else (m, e))
      in if e' > 971 then FInf neg else FFin neg m' e')"

definition float_of_int :: "int \<Rightarrow> pyfloat" where
  "float_of_int i = round_ratio (i < 0) \<bar>i\<bar> 1"

definition float_of_dec :: "bool \<Rightarrow> int \<Rightarrow> int \<Rightarrow> pyfloat" where
  \<comment> \<open>the double of the decimal literal \<open>c * 10^x\<close>\<close>
  "float_of_dec neg c x = round_ratio neg (c * pow10 x) (pow10 (- x))"

abbreviation flt :: "int \<Rightarrow> nat \<Rightarrow> pyfloat" where
  "flt c k \<equiv> float_of_dec (c < 0) \<bar>c\<bar> (- int k)"

definition float_num :: "int \<Rightarrow> int \<Rightarrow> int" where "float_num m e = m * pow2 e"
definition float_den :: "int \<Rightarrow> int" where "float_den e = pow2 (- e)"

text \<open>\<open>dec_exp n d\<close> is the \<open>x\<close> with \<open>10^x \<le> n/d < 10^(x+1)\<close>.\<close>

definition dec_exp :: "int \<Rightarrow> int \<Rightarrow> int" where
  "dec_exp n d =
     (let x0 = int (num_digits (nat n)) - int (num_digits (nat d))
      in if d * pow10 x0 \<le> n * pow10 (- x0) then x0 else x0 - 1)"

fun strip_zeros_right :: "string \<Rightarrow> string" where
  "strip_zeros_right s = (if s \<noteq> [] \<and> last s = CHR ''0'' then strip_zeros_right (butlast s) else s)"

declare strip_zeros_right.simps [simp del]

definition exp_text :: "int \<Rightarrow> string" where
  \<comment> \<open>C's exponent suffix: a sign and at least two digits\<close>
  "exp_text x = (if x < 0 then ''e-'' else ''e+'')
     @ (if \<bar>x\<bar> < 10 then ''0'' else '''') @ nat_str (nat \<bar>x\<bar>)"

definition place_point :: "string \<Rightarrow> int \<Rightarrow> string \<times> string" where
  \<comment> \<open>integer and fraction part of \<open>0.DIGITS * 10^p\<close>\<close>
  "place_point ds p =
     (if p \<le> 0 then (''0'', replicate (nat (- p)) (CHR ''0'') @ ds)
      else if int (length ds) \<le> p
        then (ds @ replicate (nat (p - int (length ds))) (CHR ''0''), '''')
      else (take (nat p) ds, drop (nat p) ds))"

definition sci_text :: "string \<Rightarrow> int \<Rightarrow> string" where
  "sci_text ds x = take 1 ds @ (if length ds > 1 then ''.'' @ drop 1 ds else '''') @ exp_text x"

definition sign_text :: "bool \<Rightarrow> string" where
  "sign_text neg = (if neg then ''-'' else '''')"

text \<open>\<open>format(x, ".15g")\<close>: 15 significant digits, trailing zeros dropped.\<close>

definition format_15g :: "pyfloat \<Rightarrow> string" where
  "format_15g f = (case f of
     FNan \<Rightarrow> ''nan''
   | FInf neg \<Rightarrow> sign_text neg @ ''inf''
   | FFin neg m e \<Rightarrow>
       if m = 0 then sign_text neg @ ''0'' else
       let n = float_num m e; d = float_den e; x0 = dec_exp n d;
           D = round_half_even (n * pow10 (14 - x0)) (d * pow10 (x0 - 14));
           (D', x) = (if D = pow10 15 then (pow10 14, x0 + 1) else (D, x0));
           ds = strip_zeros_right (nat_str (nat D'))
       in sign_text neg @
          (if x < -4 \<or> x \<ge> 15 then sci_text ds x
           else case place_point ds (x + 1) of
             (i, fr) \<Rightarrow> i @ (if fr = '''' then '''' else ''.'' @ fr)))"

text \<open>\<open>repr(x)\<close>: the shortest digits that read back as \<open>x\<close>, the closest such to \<open>x\<close>.\<close>

function shortest_from :: "nat \<Rightarrow> int \<Rightarrow> int \<Rightarrow> int \<Rightarrow> int \<Rightarrow> int \<Rightarrow> int \<times> int" where
  "shortest_from k m e n d x =
     (let s = x - (int k - 1);
          num = n * pow10 (- s); den = d * pow10 s;
          lo = num div den; hi = lo + 1;
          near = round_half_even num den;
          far = (if near = lo then hi else lo);
          ok = (\<lambda>c. float_of_dec False c s = FFin False m e)
      in if ok near \<or> 17 \<le> k then (near, s)
         else if ok far then (far, s)
         else shortest_from (Suc k) m e n d x)"
  by pat_completeness auto
termination
  by (relation "measure (\<lambda>(k, _). 17 - k)") auto

declare shortest_from.simps [simp del]

definition shortest_digits :: "int \<Rightarrow> int \<Rightarrow> string \<times> int" where
  \<comment> \<open>digit string and the decimal exponent of its first digit\<close>
  "shortest_digits m e =
     (let n = float_num m e; d = float_den e; x = dec_exp n d;
          (c, s) = shortest_from 1 m e n d x
      in (strip_zeros_right (nat_str (nat c)), s + int (num_digits (nat c)) - 1))"

definition float_repr :: "pyfloat \<Rightarrow> string" where
  "float_repr f = (case f of
     FNan \<Rightarrow> ''nan''
   | FInf neg \<Rightarrow> sign_text neg @ ''inf''
   | FFin neg m e \<Rightarrow>
       if m = 0 then sign_text neg @ ''0.0'' else
       case shortest_digits m e of (ds, x) \<Rightarrow>
       sign_text neg @
       (if x < -4 \<or> x \<ge> 16 then sci_text ds x
        else case place_point ds (x + 1) of
          (i, fr) \<Rightarrow> i @ ''.'' @ (if fr = '''' then ''0'' else fr)))"

section \<open>Decimals\<close>

datatype pydec = Dec bool nat int

text \<open>\<open>Decimal(str(f))\<close> for a finite float: the digits and exponent of its \<open>repr\<close>.\<close>

definition dec_of_float :: "pyfloat \<Rightarrow> pydec option" where
  "dec_of_float f = (case f of
     FFin neg m e \<Rightarrow>
       if m = 0 then Some (Dec neg 0 (-1)) else
       (case shortest_digits m e of (ds, x) \<Rightarrow>
         let c = digits_value (map (\<lambda>ch. of_char ch - 48) ds);
             s = x - (int (length ds) - 1)
         in if x < -4 \<or> x \<ge> 16 then Some (Dec neg c s)
            else if s \<ge> 0 then Some (Dec neg (c * 10 ^ nat (s + 1)) (-1))
            else Some (Dec neg c s))
   | _ \<Rightarrow> None)"

definition dec_of_int :: "int \<Rightarrow> pydec" where
  "dec_of_int i = Dec (i < 0) (nat \<bar>i\<bar>) 0"

text \<open>\<open>str(Decimal)\<close>: the to-scientific-string conversion of the decimal specification.\<close>

definition dec_str :: "pydec \<Rightarrow> string" where
  "dec_str dc = (case dc of Dec neg c x \<Rightarrow>
     let ds = nat_str c; adj = x + int (length ds) - 1 in
     sign_text neg @
     (if x \<le> 0 \<and> -6 \<le> adj
      then (if x = 0 then ds
            else case place_point ds (x + int (length ds)) of (i, fr) \<Rightarrow> i @ ''.'' @ fr)
      else take 1 ds @ (if length ds > 1 then ''.'' @ drop 1 ds else '''')
           @ ''E'' @ (if adj < 0 then ''-'' else ''+'') @ nat_str (nat \<bar>adj\<bar>)))"

definition dec_sgn_coeff :: "pydec \<Rightarrow> int" where
  "dec_sgn_coeff dc = (case dc of Dec neg c x \<Rightarrow> (if neg then - int c else int c))"

definition dec_exponent :: "pydec \<Rightarrow> int" where
  "dec_exponent dc = (case dc of Dec neg c x \<Rightarrow> x)"

text \<open>The value of a number as a fraction with a positive denominator.\<close>

definition dec_ratio :: "pydec \<Rightarrow> int \<times> int" where
  "dec_ratio dc = (dec_sgn_coeff dc * pow10 (dec_exponent dc), pow10 (- dec_exponent dc))"

definition float_ratio :: "bool \<Rightarrow> int \<Rightarrow> int \<Rightarrow> int \<times> int" where
  "float_ratio neg m e = ((if neg then - 1 else 1) * float_num m e, float_den e)"

definition ratio_eq :: "int \<times> int \<Rightarrow> int \<times> int \<Rightarrow> bool" where
  "ratio_eq p q = (fst p * snd q = fst q * snd p)"

definition ratio_le :: "int \<times> int \<Rightarrow> int \<times> int \<Rightarrow> bool" where
  "ratio_le p q = (fst p * snd q \<le> fst q * snd p)"

lemma pow10_pos [simp]: "0 < pow10 e" and pow2_pos [simp]: "0 < pow2 e"
  by (simp_all add: pow10_def pow2_def)

lemma pow_numerals:
  "pow2 0 = 1" "pow2 (numeral k) = 2 ^ numeral k" "pow2 (- numeral k) = 1" "pow2 1 = 2" "pow2 (- 1) = 1"
  "pow10 0 = 1" "pow10 (numeral k) = 10 ^ numeral k" "pow10 (- numeral k) = 1" "pow10 1 = 10" "pow10 (- 1) = 1"
  by (simp_all add: pow2_def pow10_def)

end
