(* ===== verification/PyValue.thy ===== *)
theory PyValue
  imports PyFloat
begin

text \<open>
  The Python values that the payloads of the program carry, and the parts of the standard
  library the code applies to them: \<open>isinstance\<close>, \<open>str\<close>, truth, equality, string methods,
  UTF-8 and \<open>json.dumps\<close>.

  A \<open>str\<close> is a list of code points below 256 (an Isabelle \<open>string\<close>); its UTF-8 encoding
  takes one or two bytes per code point, so character and byte lengths differ as they do
  in the program. A \<open>UUID\<close> is held by its canonical text and a \<open>datetime\<close> or \<open>date\<close> by its
  \<open>isoformat()\<close> text. A \<open>dict\<close> is an association list in insertion order with distinct
  string keys.
\<close>

section \<open>Values\<close>

datatype pyval =
    PNone
  | PBool bool
  | PInt int
  | PFloat pyfloat
  | PDecimal pydec
  | PStr string
  | PUuid string
  | PDatetime string
  | PDate string
  | PList "pyval list"
  | PDict "(string \<times> pyval) list"

type_synonym pydict = "(string \<times> pyval) list"

definition dict_get :: "pydict \<Rightarrow> string \<Rightarrow> pyval" where
  \<comment> \<open>\<open>d.get(k)\<close>\<close>
  "dict_get d k = (case map_of d k of None \<Rightarrow> PNone | Some v \<Rightarrow> v)"

definition dict_keys :: "pydict \<Rightarrow> string list" where
  "dict_keys d = map fst d"

definition dict_set :: "('k \<times> 'v) list \<Rightarrow> 'k \<Rightarrow> 'v \<Rightarrow> ('k \<times> 'v) list" where
  \<comment> \<open>\<open>d[k] = v\<close>: an existing key keeps its position\<close>
  "dict_set d k v =
     (if has_key d k then map (\<lambda>(k', v'). if k' = k then (k', v) else (k', v')) d
      else d @ [(k, v)])"

lemma map_of_overwrite:
  "map_of (map (\<lambda>(k', v'). if k' = k then (k', v) else (k', v')) d)
    = (if has_key d k then (map_of d)(k \<mapsto> v) else map_of d)"
  by (induction d) (auto simp: fun_eq_iff)

lemma map_of_dict_set: "map_of (dict_set d k v) = (map_of d)(k \<mapsto> v)"
  by (auto simp: dict_set_def map_of_overwrite map_add_def fun_eq_iff not_has_key_None
      split: option.splits)

lemma keys_dict_set:
  "keys_of (dict_set d k v) = (if has_key d k then keys_of d else keys_of d @ [k])"
  by (auto simp: dict_set_def)

lemma distinct_dict_set: "distinct (keys_of d) \<Longrightarrow> distinct (keys_of (dict_set d k v))"
  by (auto simp: keys_dict_set has_key_def)

definition py_truth :: "pyval \<Rightarrow> bool" where
  "py_truth v = (case v of
     PNone \<Rightarrow> False
   | PBool b \<Rightarrow> b
   | PInt i \<Rightarrow> i \<noteq> 0
   | PFloat f \<Rightarrow> (case f of FFin _ m _ \<Rightarrow> m \<noteq> 0 | _ \<Rightarrow> True)
   | PDecimal d \<Rightarrow> dec_sgn_coeff d \<noteq> 0
   | PStr s \<Rightarrow> s \<noteq> ''''
   | PList xs \<Rightarrow> xs \<noteq> []
   | PDict d \<Rightarrow> d \<noteq> []
   | _ \<Rightarrow> True)"

section \<open>isinstance\<close>

definition is_str :: "pyval \<Rightarrow> bool" where
  "is_str v = (case v of PStr _ \<Rightarrow> True | _ \<Rightarrow> False)"

definition is_bool :: "pyval \<Rightarrow> bool" where
  "is_bool v = (case v of PBool _ \<Rightarrow> True | _ \<Rightarrow> False)"

definition is_int :: "pyval \<Rightarrow> bool" where
  \<comment> \<open>\<open>bool\<close> is a subclass of \<open>int\<close>\<close>
  "is_int v = (case v of PInt _ \<Rightarrow> True | PBool _ \<Rightarrow> True | _ \<Rightarrow> False)"

definition is_int_or_float :: "pyval \<Rightarrow> bool" where
  "is_int_or_float v = (case v of PFloat _ \<Rightarrow> True | _ \<Rightarrow> is_int v)"

definition is_uuid_or_str :: "pyval \<Rightarrow> bool" where
  "is_uuid_or_str v = (case v of PUuid _ \<Rightarrow> True | PStr _ \<Rightarrow> True | _ \<Rightarrow> False)"

definition is_datetime_or_str :: "pyval \<Rightarrow> bool" where
  "is_datetime_or_str v = (case v of PDatetime _ \<Rightarrow> True | PStr _ \<Rightarrow> True | _ \<Rightarrow> False)"

lemmas isinstance_defs =
  is_str_def is_bool_def is_int_def is_int_or_float_def is_uuid_or_str_def is_datetime_or_str_def

section \<open>String methods\<close>

definition py_isspace :: "char \<Rightarrow> bool" where
  "py_isspace c = (let n = (of_char c :: int) in
     (9 \<le> n \<and> n \<le> 13) \<or> (28 \<le> n \<and> n \<le> 32) \<or> n = 133 \<or> n = 160)"

definition lstrip_by :: "(char \<Rightarrow> bool) \<Rightarrow> string \<Rightarrow> string" where
  "lstrip_by p s = dropWhile p s"

definition rstrip_by :: "(char \<Rightarrow> bool) \<Rightarrow> string \<Rightarrow> string" where
  "rstrip_by p s = rev (dropWhile p (rev s))"

definition strip_by :: "(char \<Rightarrow> bool) \<Rightarrow> string \<Rightarrow> string" where
  "strip_by p s = rstrip_by p (lstrip_by p s)"

definition py_strip :: "string \<Rightarrow> string" where
  "py_strip s = strip_by py_isspace s"

definition char_lower :: "char \<Rightarrow> char" where
  "char_lower c = (let n = (of_char c :: int) in
     if (65 \<le> n \<and> n \<le> 90) \<or> (192 \<le> n \<and> n \<le> 222 \<and> n \<noteq> 215) then char_of (n + 32) else c)"

definition char_upper :: "char \<Rightarrow> string" where
  \<comment> \<open>sharp s becomes two letters; code points 181 and 255, whose upper case lies outside
     the modelled range, are left alone\<close>
  "char_upper c = (let n = (of_char c :: int) in
     if (97 \<le> n \<and> n \<le> 122) \<or> (224 \<le> n \<and> n \<le> 254 \<and> n \<noteq> 247) then [char_of (n - 32)]
     else if n = 223 then ''SS'' else [c])"

definition py_lower :: "string \<Rightarrow> string" where
  "py_lower s = map char_lower s"

definition py_upper :: "string \<Rightarrow> string" where
  "py_upper s = concat (map char_upper s)"

definition startswith :: "string \<Rightarrow> string \<Rightarrow> bool" where
  "startswith s p = (take (length p) s = p)"

fun find_sub :: "string \<Rightarrow> string \<Rightarrow> nat option" where
  \<comment> \<open>index of the first occurrence of a substring\<close>
  "find_sub p [] = (if p = [] then Some 0 else None)"
| "find_sub p (c # s) =
     (if startswith (c # s) p then Some 0 else map_option Suc (find_sub p s))"

definition contains_sub :: "string \<Rightarrow> string \<Rightarrow> bool" where
  "contains_sub s p = (find_sub p s \<noteq> None)"

fun split_char :: "char \<Rightarrow> string \<Rightarrow> string list" where
  \<comment> \<open>\<open>s.split(c)\<close> for a one-character separator\<close>
  "split_char c [] = [[]]"
| "split_char c (x # s) =
     (case split_char c s of
        [] \<Rightarrow> [[x]]
      | w # ws \<Rightarrow> if x = c then [] # w # ws else (x # w) # ws)"

fun join_with :: "string \<Rightarrow> string list \<Rightarrow> string" where
  \<comment> \<open>\<open>sep.join(parts)\<close>\<close>
  "join_with sep [] = []"
| "join_with sep [w] = w"
| "join_with sep (w # ws) = w @ sep @ join_with sep ws"

section \<open>UTF-8\<close>

type_synonym byte = "8 word"

definition ascii :: "string \<Rightarrow> byte list" where
  "ascii s = map of_char s"

definition utf8_char :: "char \<Rightarrow> byte list" where
  "utf8_char c = (let n = (of_char c :: nat) in
     if n < 128 then [of_nat n] else [of_nat (192 + n div 64), of_nat (128 + n mod 64)])"

definition utf8 :: "string \<Rightarrow> byte list" where
  "utf8 s = concat (map utf8_char s)"

lemma of_nat_byte_inject:
  "m < 256 \<Longrightarrow> n < 256 \<Longrightarrow> (of_nat m :: byte) = of_nat n \<longleftrightarrow> m = n"
  by (simp add: word_of_nat_eq_iff take_bit_nat_eq_self)

lemma of_char_byte_inject [simp]: "(of_char c :: byte) = of_char d \<longleftrightarrow> c = d"
proof -
  have "(of_char c :: byte) = of_nat (of_char c)" for c
    by (cases c) (simp add: of_char_def)
  then show ?thesis
    by (simp add: of_nat_byte_inject)
qed

lemma ascii_inject [simp]: "ascii s = ascii t \<longleftrightarrow> s = t"
  unfolding ascii_def by (rule inj_map_eq_map) (simp add: inj_def)

lemma utf8_char_head_eq:
  assumes "utf8_char c @ r = utf8_char d @ r'"
  shows "c = d \<and> r = r'"
proof -
  have le: "(of_char x :: nat) div 64 < 4" for x :: char
    using nat_of_char_less_256 [of x] by linarith
  have bounds: "(of_char x :: nat) < 256" "192 + (of_char x :: nat) div 64 < 256"
    "128 + (of_char x :: nat) mod 64 < 256" for x :: char
    using nat_of_char_less_256 [of x] le [of x] by auto
  have joined: "(of_char c :: nat) = of_char d"
    if "of_char c div 64 = (of_char d :: nat) div 64" "of_char c mod 64 = (of_char d :: nat) mod 64"
    using that by (metis div_mult_mod_eq)
  have "(of_char c :: nat) = of_char d \<and> r = r'"
    using assms bounds [of c] bounds [of d] joined
    by (auto simp: utf8_char_def Let_def of_nat_byte_inject simp del: of_nat_add of_char_eq_iff
        split: if_splits)
  then show ?thesis by simp
qed

lemma utf8_char_neq_Nil [simp]: "utf8_char c \<noteq> []"
  by (simp add: utf8_char_def Let_def)

lemma utf8_Nil_iff [simp]: "utf8 s = [] \<longleftrightarrow> s = []"
  by (cases s) (simp_all add: utf8_def)

lemma utf8_inject [simp]: "utf8 s = utf8 t \<longleftrightarrow> s = t"
proof (induction s arbitrary: t)
  case Nil
  then show ?case by (cases t) (auto simp: utf8_def)
next
  case (Cons c s)
  show ?case
  proof (cases t)
    case Nil
    then show ?thesis by (simp add: utf8_def)
  next
    case [simp]: (Cons d u)
    show ?thesis
    proof
      assume "utf8 (c # s) = utf8 t"
      then have "utf8_char c @ utf8 s = utf8_char d @ utf8 u" by (simp add: utf8_def)
      from utf8_char_head_eq [OF this] Cons.IH show "c # s = t" by simp
    qed simp
  qed
qed

section \<open>str and json.dumps\<close>

definition hex_digit :: "nat \<Rightarrow> char" where
  "hex_digit n = (if n < 10 then char_of (48 + n) else char_of (87 + n))"

definition json_escape :: "char \<Rightarrow> string" where
  \<comment> \<open>\<open>ensure_ascii=False\<close>: quotes, backslash and control characters only\<close>
  "json_escape c = (let n = (of_char c :: nat) in
     if n = 34 then [char_of (92::nat), c]
     else if n = 92 then [c, c]
     else if n = 8 then [char_of (92::nat), CHR ''b'']
     else if n = 9 then [char_of (92::nat), CHR ''t'']
     else if n = 10 then [char_of (92::nat), CHR ''n'']
     else if n = 12 then [char_of (92::nat), CHR ''f'']
     else if n = 13 then [char_of (92::nat), CHR ''r'']
     else if n < 32 then [char_of (92::nat), CHR ''u'', CHR ''0'', CHR ''0'',
                          hex_digit (n div 16), hex_digit (n mod 16)]
     else [c])"

definition json_string :: "string \<Rightarrow> string" where
  "json_string s = char_of (34::nat) # concat (map json_escape s) @ [char_of (34::nat)]"

definition json_float :: "pyfloat \<Rightarrow> string" where
  "json_float f = (case f of
     FNan \<Rightarrow> ''NaN''
   | FInf neg \<Rightarrow> sign_text neg @ ''Infinity''
   | _ \<Rightarrow> float_repr f)"

text \<open>
  \<open>json.dumps(v, sort_keys=True, ensure_ascii=False, separators=(",", ":"))\<close>: values json
  does not know (\<open>Decimal\<close>, \<open>UUID\<close>, dates) raise \<open>TypeError\<close>.
\<close>

fun json_dumps :: "pyval \<Rightarrow> string res" where
  "json_dumps PNone = Inr ''null''"
| "json_dumps (PBool b) = Inr (if b then ''true'' else ''false'')"
| "json_dumps (PInt i) = Inr (int_str i)"
| "json_dumps (PFloat f) = Inr (json_float f)"
| "json_dumps (PStr s) = Inr (json_string s)"
| "json_dumps (PList xs) =
     bindE (mapE json_dumps xs) (\<lambda>parts. Inr (''['' @ join_with '','' parts @ '']''))"
| "json_dumps (PDict d) =
     bindE (mapE (\<lambda>(k, v). bindE (json_dumps v) (\<lambda>t. Inr (k, json_string k @ '':'' @ t))) d)
       (\<lambda>items. Inr (''{'' @ join_with '','' (map snd (sort_key fst items)) @ ''}''))"
| "json_dumps _ = Inl TypeError"

text \<open>\<open>str(v)\<close> of the scalar values; containers are rendered by their JSON-free \<open>repr\<close>.\<close>

definition repr_char :: "char \<Rightarrow> char \<Rightarrow> string" where
  "repr_char q c = (let n = (of_char c :: nat) in
     if c = q \<or> n = 92 then [char_of (92::nat), c]
     else if n = 9 then [char_of (92::nat), CHR ''t'']
     else if n = 10 then [char_of (92::nat), CHR ''n'']
     else if n = 13 then [char_of (92::nat), CHR ''r'']
     else if n < 32 \<or> (127 \<le> n \<and> n \<le> 160) \<or> n = 173
       then [char_of (92::nat), CHR ''x'', hex_digit (n div 16), hex_digit (n mod 16)]
     else [c])"

definition repr_string :: "string \<Rightarrow> string" where
  "repr_string s =
     (let sq = char_of (39::nat); dq = char_of (34::nat);
          q = (if sq \<in> set s \<and> dq \<notin> set s then dq else sq)
      in q # concat (map (repr_char q) s) @ [q])"


text \<open>
  The argument list in the \<open>repr\<close> of a datetime or date inside a container is abbreviated by
  its ISO text; nothing reads that text.
\<close>

fun py_repr :: "pyval \<Rightarrow> string" where
  "py_repr PNone = ''None''"
| "py_repr (PBool b) = (if b then ''True'' else ''False'')"
| "py_repr (PInt i) = int_str i"
| "py_repr (PFloat f) = float_repr f"
| "py_repr (PDecimal d) = ''Decimal('' @ repr_string (dec_str d) @ '')''"
| "py_repr (PStr s) = repr_string s"
| "py_repr (PUuid u) = ''UUID('' @ repr_string u @ '')''"
| "py_repr (PDatetime t) = ''datetime.datetime('' @ t @ '')''"
| "py_repr (PDate t) = ''datetime.date('' @ t @ '')''"
| "py_repr (PList xs) = ''['' @ join_with '', '' (map py_repr xs) @ '']''"
| "py_repr (PDict d) =
     ''{'' @ join_with '', '' (map (\<lambda>(k, v). repr_string k @ '': '' @ py_repr v) d) @ ''}''"

definition py_str :: "pyval \<Rightarrow> string" where
  "py_str v = (case v of
     PStr s \<Rightarrow> s
   | PUuid u \<Rightarrow> u
   | PDecimal d \<Rightarrow> dec_str d
   | PDatetime t \<Rightarrow> t[10 := CHR '' '']
   | PDate t \<Rightarrow> t
   | _ \<Rightarrow> py_repr v)"

section \<open>Numbers and equality\<close>

definition num_ratio :: "pyval \<Rightarrow> (int \<times> int) option" where
  "num_ratio v = (case v of
     PBool b \<Rightarrow> Some (if b then 1 else 0, 1)
   | PInt i \<Rightarrow> Some (i, 1)
   | PFloat (FFin neg m e) \<Rightarrow> Some (float_ratio neg m e)
   | PDecimal d \<Rightarrow> Some (dec_ratio d)
   | _ \<Rightarrow> None)"

definition num_le_zero :: "pyval \<Rightarrow> bool" where
  \<comment> \<open>\<open>v <= 0\<close> for an int or a float\<close>
  "num_le_zero v = (case v of
     PFloat (FInf neg) \<Rightarrow> neg
   | _ \<Rightarrow> (case num_ratio v of Some r \<Rightarrow> fst r \<le> 0 | None \<Rightarrow> False))"

definition num_gt_zero :: "pyval \<Rightarrow> bool" where
  \<comment> \<open>\<open>v > 0\<close> for an int or a float\<close>
  "num_gt_zero v = (case v of
     PFloat (FInf neg) \<Rightarrow> \<not> neg
   | _ \<Rightarrow> (case num_ratio v of Some r \<Rightarrow> 0 < fst r | None \<Rightarrow> False))"

text \<open>
  \<open>==\<close>, as containers apply it: identical objects are equal, numbers compare by value across
  their types, dicts without regard to order. Datetimes compare by their text.
\<close>

fun py_eq :: "pyval \<Rightarrow> pyval \<Rightarrow> bool"
  and py_eq_list :: "pyval list \<Rightarrow> pyval list \<Rightarrow> bool"
  and py_eq_items :: "(string \<times> pyval) list \<Rightarrow> (string \<times> pyval) list \<Rightarrow> bool" where
  "py_eq (PList xs) w = (PList xs = w \<or> (case w of PList ys \<Rightarrow> py_eq_list xs ys | _ \<Rightarrow> False))"
| "py_eq (PDict d) w =
     (PDict d = w
      \<or> (case w of PDict d' \<Rightarrow> length d = length d' \<and> py_eq_items d d' | _ \<Rightarrow> False))"
| "py_eq v w =
     (v = w
      \<or> (case (num_ratio v, num_ratio w) of (Some p, Some q) \<Rightarrow> ratio_eq p q | _ \<Rightarrow> False))"
| "py_eq_list [] ys = (ys = [])"
| "py_eq_list (x # xs) ys = (case ys of [] \<Rightarrow> False | y # ys' \<Rightarrow> py_eq x y \<and> py_eq_list xs ys')"
| "py_eq_items [] d' = True"
| "py_eq_items ((k, v) # d) d' =
     ((case map_of d' k of None \<Rightarrow> False | Some v' \<Rightarrow> py_eq v v') \<and> py_eq_items d d')"

lemma py_eq_refl [simp]: "py_eq v v"
  by (cases v) auto

definition dict_eq :: "pydict \<Rightarrow> pydict \<Rightarrow> bool" where
  "dict_eq d d' = py_eq (PDict d) (PDict d')"

lemma dict_eq_refl [simp]: "dict_eq d d"
  by (simp add: dict_eq_def)

lemma dict_eq_Nil [simp]: "dict_eq d [] \<longleftrightarrow> d = []"
  by (auto simp: dict_eq_def)

end
