(* ===== verification/Signing.thy ===== *)
theory Signing
  imports PyValue
begin

text \<open>
  \<open>data_firewall/signing.py\<close> and \<open>signing_ordered.py\<close>: the byte-canonical form of a signed
  payload, HMAC signing and verification, and the pre-sorted wire form the persist layer
  sends to the database gate. HMAC-SHA256 is a parameter of the environment: a function of
  the key bytes and the message bytes.
\<close>

section \<open>Canonical strings and encodings\<close>

definition canonical_str :: "pyval \<Rightarrow> string option res" where
  "canonical_str v = (case v of
     PNone \<Rightarrow> Inr None
   | PBool b \<Rightarrow> Inr (Some (if b then ''true'' else ''false''))
   | PInt i \<Rightarrow> Inr (Some (int_str i))
   | PDecimal d \<Rightarrow> Inr (Some (dec_str d))
   | PFloat f \<Rightarrow> Inr (Some (format_15g f))
   | PDatetime t \<Rightarrow> Inr (Some t)
   | PDate t \<Rightarrow> Inr (Some t)
   | PUuid u \<Rightarrow> Inr (Some u)
   | PStr s \<Rightarrow> Inr (Some s)
   | PDict _ \<Rightarrow> bindE (json_dumps v) (\<lambda>t. Inr (Some t))
   | PList _ \<Rightarrow> bindE (json_dumps v) (\<lambda>t. Inr (Some t)))"

definition lp_string :: "string \<Rightarrow> byte list" where
  "lp_string s = ascii (nat_str (length (utf8 s))) @ ascii '':'' @ utf8 s"

definition val_enc :: "pyval \<Rightarrow> byte list res" where
  "val_enc v = bindE (canonical_str v) (\<lambda>so. Inr (case so of
     None \<Rightarrow> ascii ''N''
   | Some s \<Rightarrow> ascii ''S'' @ lp_string s))"

definition dict_enc :: "pydict \<Rightarrow> byte list res" where
  "dict_enc m =
     bindE (mapE (\<lambda>k. bindE (val_enc (dict_get m k)) (\<lambda>b. Inr (lp_string k @ b)))
                 (sort (dict_keys m)))
       (\<lambda>parts. Inr (ascii ''D'' @ ascii (nat_str (length m)) @ concat parts))"

definition canonical_serialize_signed_payload ::
    "string \<Rightarrow> string \<Rightarrow> pydict \<Rightarrow> pydict \<Rightarrow> byte list res" where
  "canonical_serialize_signed_payload table op flds locator =
     bindE (dict_enc locator) (\<lambda>l. bindE (dict_enc flds) (\<lambda>f.
       Inr (ascii ''T'' @ lp_string table @ ascii ''O'' @ lp_string op
            @ ascii ''L'' @ l @ ascii ''F'' @ f)))"

definition canonical_serialize_signed_batch_payload ::
    "string \<Rightarrow> string \<Rightarrow> pydict list \<Rightarrow> pydict \<Rightarrow> byte list res" where
  "canonical_serialize_signed_batch_payload table op rows locator =
     bindE (dict_enc locator) (\<lambda>l. bindE (mapE dict_enc rows) (\<lambda>parts.
       Inr (ascii ''T'' @ lp_string table @ ascii ''O'' @ lp_string op
            @ ascii ''L'' @ l @ ascii ''R'' @ ascii (nat_str (length rows)) @ concat parts)))"

section \<open>Signing and verification\<close>

record signing_env =
  hmac_sha256_hex :: "byte list \<Rightarrow> byte list \<Rightarrow> string"
  data_firewall_signing_secret :: "string option"

definition signing_secret :: "'z signing_env_scheme \<Rightarrow> string option" where
  "signing_secret env = (case data_firewall_signing_secret env of
     None \<Rightarrow> None
   | Some s \<Rightarrow> if py_strip s = '''' then None else Some s)"

definition sign ::
    "'z signing_env_scheme \<Rightarrow> string \<Rightarrow> string \<Rightarrow> pydict \<Rightarrow> pydict \<Rightarrow> string option res" where
  "sign env table op flds locator = (case signing_secret env of
     None \<Rightarrow> Inr None
   | Some secret \<Rightarrow>
       bindE (canonical_serialize_signed_payload table op flds locator)
         (\<lambda>b. Inr (Some (hmac_sha256_hex env (utf8 secret) b))))"

definition verify ::
    "'z signing_env_scheme \<Rightarrow> string \<Rightarrow> string \<Rightarrow> pydict \<Rightarrow> pydict \<Rightarrow> string option \<Rightarrow> bool res"
  where
  "verify env table op flds locator signature =
     (if signature = None \<or> signature = Some '''' then Inr False else
      bindE (sign env table op flds locator) (\<lambda>expected. Inr (expected = signature)))"

definition sign_batch ::
    "'z signing_env_scheme \<Rightarrow> string \<Rightarrow> string \<Rightarrow> pydict list \<Rightarrow> pydict \<Rightarrow> string option res" where
  "sign_batch env table op rows locator = (case signing_secret env of
     None \<Rightarrow> Inr None
   | Some secret \<Rightarrow>
       bindE (canonical_serialize_signed_batch_payload table op rows locator)
         (\<lambda>b. Inr (Some (hmac_sha256_hex env (utf8 secret) b))))"

definition verify_batch ::
    "'z signing_env_scheme \<Rightarrow> string \<Rightarrow> string \<Rightarrow> pydict list \<Rightarrow> pydict \<Rightarrow> string option \<Rightarrow> bool res"
  where
  "verify_batch env table op rows locator signature =
     (if signature = None \<or> signature = Some '''' then Inr False else
      bindE (sign_batch env table op rows locator) (\<lambda>expected. Inr (expected = signature)))"

record SignedRecord =
  sr_table :: string
  sr_operation :: string
  sr_locator :: pydict
  sr_fields :: pydict
  sr_signature :: string

record SignedBatch =
  sb_table :: string
  sb_operation :: string
  sb_locator :: pydict
  sb_rows :: "pydict list"
  sb_signature :: string

section \<open>Ordered wire entries\<close>

type_synonym wire_entry = "string \<times> bool \<times> string"

definition ordered_val_enc :: "bool \<Rightarrow> string \<Rightarrow> byte list" where
  "ordered_val_enc is_null v = (if is_null then ascii ''N'' else ascii ''S'' @ lp_string v)"

definition field_entry :: "string \<Rightarrow> pyval \<Rightarrow> wire_entry res" where
  "field_entry k v = bindE (canonical_str v) (\<lambda>so. Inr (case so of
     None \<Rightarrow> (k, True, '''')
   | Some s \<Rightarrow> (k, False, s)))"

definition ordered_entries_from_mapping :: "pydict \<Rightarrow> wire_entry list res" where
  "ordered_entries_from_mapping flds =
     mapE (\<lambda>k. field_entry k (dict_get flds k)) (sort (dict_keys flds))"

definition entry_enc :: "wire_entry \<Rightarrow> byte list" where
  "entry_enc en = (case en of (k, is_null, v) \<Rightarrow> lp_string k @ ordered_val_enc is_null v)"

definition dict_enc_ordered :: "wire_entry list \<Rightarrow> byte list" where
  "dict_enc_ordered entries =
     ascii ''D'' @ ascii (nat_str (length entries)) @ concat (map entry_enc entries)"

definition canonical_serialize_ordered_record ::
    "string \<Rightarrow> string \<Rightarrow> wire_entry list \<Rightarrow> wire_entry list \<Rightarrow> byte list" where
  "canonical_serialize_ordered_record table op locator flds =
     ascii ''T'' @ lp_string table @ ascii ''O'' @ lp_string op
     @ ascii ''L'' @ dict_enc_ordered locator @ ascii ''F'' @ dict_enc_ordered flds"

definition canonical_serialize_ordered_batch ::
    "string \<Rightarrow> string \<Rightarrow> wire_entry list \<Rightarrow> wire_entry list list \<Rightarrow> byte list" where
  "canonical_serialize_ordered_batch table op locator rows =
     ascii ''T'' @ lp_string table @ ascii ''O'' @ lp_string op
     @ ascii ''L'' @ dict_enc_ordered locator @ ascii ''R'' @ ascii (nat_str (length rows))
     @ concat (map dict_enc_ordered rows)"

section \<open>The two encoders agree\<close>

lemma val_enc_field_entry:
  "bindE (val_enc v) (\<lambda>b. Inr (lp_string k @ b)) = bindE (field_entry k v) (\<lambda>en. Inr (entry_enc en))"
  by (cases "canonical_str v")
     (auto simp: val_enc_def field_entry_def entry_enc_def ordered_val_enc_def split: option.splits)

lemma mapE_then_Inr:
  "mapE (\<lambda>x. bindE (f x) (\<lambda>y. Inr (g y))) xs = bindE (mapE f xs) (\<lambda>ys. Inr (map g ys))"
proof (induction xs)
  case Nil
  then show ?case by simp
next
  case (Cons x xs)
  then show ?case by (cases "f x"; cases "mapE f xs") auto
qed

lemma ordered_entries_length:
  "ordered_entries_from_mapping m = Inr es \<Longrightarrow> length es = length m"
  unfolding ordered_entries_from_mapping_def
  by (drule mapE_length) (simp add: dict_keys_def)

lemma dict_enc_ordered_entries:
  "dict_enc m = bindE (ordered_entries_from_mapping m) (\<lambda>es. Inr (dict_enc_ordered es))"
proof (cases "ordered_entries_from_mapping m")
  case (Inl e)
  then show ?thesis
    by (simp add: dict_enc_def val_enc_field_entry mapE_then_Inr ordered_entries_from_mapping_def)
next
  case (Inr es)
  then have "length es = length m" by (rule ordered_entries_length)
  with Inr show ?thesis
    by (simp add: dict_enc_def val_enc_field_entry mapE_then_Inr ordered_entries_from_mapping_def
        dict_enc_ordered_def)
qed

lemma mapE_dict_enc:
  "mapE dict_enc rows
     = bindE (mapE ordered_entries_from_mapping rows) (\<lambda>ess. Inr (map dict_enc_ordered ess))"
  unfolding dict_enc_ordered_entries [abs_def] by (rule mapE_then_Inr)

end
