(* ===== verification/Canonical.thy ===== *)
theory Canonical
  imports Signing
begin

text \<open>
  What the byte-canonical form distinguishes. The interface \<open>prefix_code\<close> states that an
  encoder is self-delimiting on a domain: an encoding followed by anything determines the
  value and where it ends. The length-prefixed string, the tagged value, the dict entry and
  the dict itself are instances, the last two for keys that are non-empty and hold no
  capital \<open>N\<close> or \<open>S\<close> (the tags of a value).
\<close>

section \<open>Self-delimiting encoders\<close>

locale prefix_code =
  fixes enc :: "'a \<Rightarrow> byte list"
    and valid :: "'a \<Rightarrow> bool"
  assumes decode: "valid x \<Longrightarrow> valid y \<Longrightarrow> enc x @ r = enc y @ s \<Longrightarrow> x = y \<and> r = s"
begin

lemma enc_inject: "valid x \<Longrightarrow> valid y \<Longrightarrow> enc x = enc y \<longleftrightarrow> x = y"
  using decode [of x y "[]" "[]"] by auto

lemma decode_iff: "valid x \<Longrightarrow> valid y \<Longrightarrow> enc x @ r = enc y @ s \<longleftrightarrow> x = y \<and> r = s"
  using decode [of x y r s] by auto

lemma decode_list:
  "list_all valid xs \<Longrightarrow> list_all valid ys \<Longrightarrow> length xs = length ys \<Longrightarrow>
   concat (map enc xs) @ r = concat (map enc ys) @ s \<Longrightarrow> xs = ys \<and> r = s"
proof (induction xs arbitrary: ys)
  case Nil
  then show ?case by simp
next
  case (Cons x xs)
  then obtain y ys' where ys: "ys = y # ys'" by (cases ys) auto
  with Cons.prems decode_iff [of x y] show ?case
    by (auto dest!: Cons.IH [of ys'])
qed

end

section \<open>Decimal length prefixes\<close>

lemma split_at_first:
  assumes "c \<notin> set p" "c \<notin> set q" "p @ c # u = q @ c # v"
  shows "p = q \<and> u = v"
  using assms
proof (induction p arbitrary: q)
  case Nil
  then show ?case by (cases q) auto
next
  case (Cons x p)
  then show ?case by (cases q) auto
qed

lemma length_nat_str: "length (nat_str n) = num_digits n"
  by (simp add: nat_str_def num_digits_def)

lemma colon_notin_nat_str: "CHR '':'' \<notin> set (nat_str n)"
proof
  assume "CHR '':'' \<in> set (nat_str n)"
  then obtain d where d: "d \<in> set (nat_digits n)" "digit_char d = CHR '':''"
    by (auto simp: nat_str_def)
  then have "(of_char (digit_char d) :: nat) = 48 + d"
    by (intro of_char_digit_char) (auto dest: nat_digits_less_10)
  with d have "48 + d = (of_char (CHR '':'') :: nat)" by simp
  then have "d = 10" by simp
  with d nat_digits_less_10 show False by blast
qed

lemma ascii_append [simp]: "ascii (s @ t) = ascii s @ ascii t"
  by (simp add: ascii_def)

lemma length_ascii [simp]: "length (ascii s) = length s"
  by (simp add: ascii_def)

lemma of_char_in_ascii: "of_char c \<in> set (ascii s) \<longleftrightarrow> c \<in> set s"
  by (auto simp: ascii_def)

lemma colon_notin_prefix: "of_char (CHR '':'') \<notin> set (ascii (nat_str n))"
  using colon_notin_nat_str [of n] of_char_in_ascii [of "CHR '':''" "nat_str n"] by metis

lemma colon_notin_two: "of_char (CHR '':'') \<notin> set (ascii (nat_str m @ nat_str n))"
  unfolding ascii_append set_append Un_iff using colon_notin_prefix by blast

lemma ascii_Cons: "ascii (c # s) = of_char c # ascii s"
  by (simp add: ascii_def)

lemma ascii_Nil [simp]: "ascii [] = []"
  by (simp add: ascii_def)

interpretation lp: prefix_code lp_string "\<lambda>_. True"
proof
  fix x y :: string and r s :: "byte list"
  assume "lp_string x @ r = lp_string y @ s"
  then have "ascii (nat_str (length (utf8 x))) @ of_char (CHR '':'') # (utf8 x @ r)
    = ascii (nat_str (length (utf8 y))) @ of_char (CHR '':'') # (utf8 y @ s)"
    by (simp add: lp_string_def ascii_Cons)
  from split_at_first [OF colon_notin_prefix colon_notin_prefix this]
  show "x = y \<and> r = s" by auto
qed

section \<open>Values, entries and dicts\<close>

definition wire_value_ok :: "bool \<times> string \<Rightarrow> bool" where
  "wire_value_ok nv = (fst nv \<longrightarrow> snd nv = '''')"

interpretation wire_val: prefix_code "\<lambda>(n, v). ordered_val_enc n v" wire_value_ok
proof
  fix x y :: "bool \<times> string" and r s :: "byte list"
  assume ok: "wire_value_ok x" "wire_value_ok y"
    and eq: "(case x of (n, v) \<Rightarrow> ordered_val_enc n v) @ r = (case y of (n, v) \<Rightarrow> ordered_val_enc n v) @ s"
  obtain n v m w where xy: "x = (n, v)" "y = (m, w)" by (cases x; cases y) auto
  from ok eq show "x = y \<and> r = s"
    by (cases n; cases m)
       (auto simp: xy wire_value_ok_def ordered_val_enc_def ascii_Cons lp.decode_iff)
qed

definition entry_ok :: "wire_entry \<Rightarrow> bool" where
  "entry_ok en = (case en of (k, n, v) \<Rightarrow> wire_value_ok (n, v))"

interpretation wire_entry: prefix_code entry_enc entry_ok
proof
  fix x y :: wire_entry and r s :: "byte list"
  assume ok: "entry_ok x" "entry_ok y" and eq: "entry_enc x @ r = entry_enc y @ s"
  obtain k n v l m w where xy: "x = (k, n, v)" "y = (l, m, w)" by (cases x; cases y) auto
  from eq have "k = l \<and> ordered_val_enc n v @ r = ordered_val_enc m w @ s"
    by (simp add: xy entry_enc_def lp.decode_iff)
  with ok show "x = y \<and> r = s"
    using wire_val.decode [of "(n, v)" "(m, w)" r s] by (simp add: xy entry_ok_def)
qed

text \<open>Column-like keys: non-empty, without the two letters that tag a value.\<close>

definition plain_key :: "string \<Rightarrow> bool" where
  "plain_key k = (k \<noteq> '''' \<and> CHR ''N'' \<notin> set k \<and> CHR ''S'' \<notin> set k)"

definition plain_entries :: "wire_entry list \<Rightarrow> bool" where
  "plain_entries es = (list_all entry_ok es \<and> list_all (\<lambda>(k, _). plain_key k) es)"

lemma of_char_byte_conv: "(of_char c :: byte) = of_nat (of_char c)"
  by (cases c) (simp add: of_char_def)

lemma tag_notin_utf8_char:
  assumes "t \<noteq> c" "(of_char t :: nat) < 128"
  shows "(of_char t :: byte) \<notin> set (utf8_char c)"
proof -
  have "(of_char c :: nat) div 64 < 4" using nat_of_char_less_256 [of c] by linarith
  then have b: "(of_char c :: nat) < 256" "192 + (of_char c :: nat) div 64 < 256"
    "128 + (of_char c :: nat) mod 64 < 256" "(of_char t :: nat) < 256"
    using nat_of_char_less_256 [of c] nat_of_char_less_256 [of t] by auto
  show ?thesis
    using assms b unfolding of_char_byte_conv [of t]
    by (auto simp: utf8_char_def Let_def of_nat_byte_inject simp del: of_nat_add)
qed

lemma tag_notin_utf8:
  "t \<notin> set k \<Longrightarrow> (of_char t :: nat) < 128 \<Longrightarrow> (of_char t :: byte) \<notin> set (utf8 k)"
  by (induction k) (auto simp: utf8_def dest: tag_notin_utf8_char)

lemma nat_str_0: "nat_str 0 = ''0''"
  by code_simp

lemma hd_nat_str_neq_0: "0 < n \<Longrightarrow> hd (nat_str n) \<noteq> CHR ''0''"
proof
  assume n: "0 < n" and "hd (nat_str n) = CHR ''0''"
  then have h: "digit_char (hd (nat_digits n)) = CHR ''0''"
    by (simp add: nat_str_def hd_map)
  have "hd (nat_digits n) < 10" by (rule nat_digits_less_10 [of _ n]) simp
  then have "(of_char (digit_char (hd (nat_digits n))) :: nat) = 48 + hd (nat_digits n)"
    by (rule of_char_digit_char)
  with h have "hd (nat_digits n) = 0" by simp
  with hd_nat_digits [OF n] show False by simp
qed

text \<open>
  The count and the first key's length prefix stand next to each other without a separator.
  If two readings disagree on where the count ends, one key is longer than the other and
  holds a value tag of the other reading.
\<close>

lemma count_ambiguity_needs_tag:
  assumes eq: "ascii (nat_str c1) @ lp_string k1 @ w1 = ascii (nat_str c2) @ lp_string k2 @ w2"
    and shorter: "num_digits c1 < num_digits c2"
  shows "length (utf8 k2) < length (utf8 k1) \<and> utf8 k1 ! length (utf8 k2) = hd (w2 @ [x])
         \<or> w2 = []"
proof -
  let ?L1 = "nat_str (length (utf8 k1))" and ?L2 = "nat_str (length (utf8 k2))"
  have "ascii (nat_str c1 @ ?L1) @ of_char (CHR '':'') # (utf8 k1 @ w1)
    = ascii (nat_str c2 @ ?L2) @ of_char (CHR '':'') # (utf8 k2 @ w2)"
    using eq by (simp add: lp_string_def ascii_Cons)
  then have both: "ascii (nat_str c1 @ ?L1) = ascii (nat_str c2 @ ?L2) \<and> utf8 k1 @ w1 = utf8 k2 @ w2"
    by (rule split_at_first [OF colon_notin_two colon_notin_two])
  from both have pre: "ascii (nat_str c1 @ ?L1) = ascii (nat_str c2 @ ?L2)" ..
  from both have post: "utf8 k1 @ w1 = utf8 k2 @ w2" ..
  from pre have "length (nat_str c1 @ ?L1) = length (nat_str c2 @ ?L2)"
    by (metis length_ascii)
  with shorter have "num_digits (length (utf8 k2)) < num_digits (length (utf8 k1))"
    by (simp add: length_nat_str)
  then have len: "length (utf8 k2) < length (utf8 k1)"
    using num_digits_mono linorder_not_less by blast
  show ?thesis
  proof (cases w2)
    case Nil
    then show ?thesis by simp
  next
    case (Cons b bs)
    have "utf8 k1 ! length (utf8 k2) = (utf8 k1 @ w1) ! length (utf8 k2)"
      using len by (simp add: nth_append)
    also have "\<dots> = b" using post Cons by (simp add: nth_append)
    finally show ?thesis using len Cons by simp
  qed
qed

lemma ordered_val_enc_tag: "\<exists>t \<in> {CHR ''N'', CHR ''S''}. hd (ordered_val_enc n v @ w) = of_char t"
  by (cases n) (auto simp: ordered_val_enc_def ascii_Cons)

lemma ordered_val_enc_neq_Nil [simp]: "ordered_val_enc n v \<noteq> []"
  by (simp add: ordered_val_enc_def ascii_Cons)

lemma plain_key_no_tag:
  "plain_key k \<Longrightarrow> t \<in> {CHR ''N'', CHR ''S''} \<Longrightarrow> i < length (utf8 k) \<Longrightarrow> utf8 k ! i \<noteq> of_char t"
proof -
  assume k: "plain_key k" and t: "t \<in> {CHR ''N'', CHR ''S''}" and i: "i < length (utf8 k)"
  from t have "(of_char t :: nat) < 128" by auto
  moreover from k t have "t \<notin> set k" by (auto simp: plain_key_def)
  ultimately have "(of_char t :: byte) \<notin> set (utf8 k)" by (rule tag_notin_utf8 [rotated])
  with i show ?thesis by (metis nth_mem)
qed

lemma same_count_aux:
  assumes t: "t \<in> {CHR ''N'', CHR ''S''}" and k: "plain_key k"
    and "length (utf8 l) < length (utf8 k) \<and> utf8 k ! length (utf8 l) = of_char t"
  shows False
  using plain_key_no_tag [OF k t] assms by blast

lemma same_count:
  assumes k: "plain_key k1"
    and eq: "ascii (nat_str c1) @ entry_enc (k1, n1, v1) @ r
           = ascii (nat_str c2) @ entry_enc (k2, n2, v2) @ s"
  shows "\<not> num_digits c1 < num_digits c2"
proof
  assume lt: "num_digits c1 < num_digits c2"
  let ?w2 = "ordered_val_enc n2 v2 @ s"
  from ordered_val_enc_tag [of n2 v2 "s @ [0]"]
  obtain t where t: "t \<in> {CHR ''N'', CHR ''S''}" "hd (?w2 @ [0]) = of_char t"
    unfolding append_assoc by (rule bexE)
  have ne: "?w2 \<noteq> []" by simp
  have "ascii (nat_str c1) @ lp_string k1 @ (ordered_val_enc n1 v1 @ r)
      = ascii (nat_str c2) @ lp_string k2 @ ?w2"
    using eq by (simp add: entry_enc_def)
  from count_ambiguity_needs_tag [OF this lt, of 0] ne
  have "length (utf8 k2) < length (utf8 k1) \<and> utf8 k1 ! length (utf8 k2) = hd (?w2 @ [0])"
    by blast
  then show False using same_count_aux [OF t(1) k] t(2) by metis
qed

lemma count_zero_no_entries:
  assumes "ascii (nat_str 0) @ r = ascii (nat_str c) @ s" "0 < c"
  shows False
proof -
  obtain d ds where d: "nat_str c = d # ds" by (cases "nat_str c") auto
  have "ascii (nat_str c) @ s = of_char (CHR ''0'') # (ascii [] @ r)"
    using assms(1) unfolding nat_str_0 ascii_Cons by simp
  then have "of_char d = (of_char (CHR ''0'') :: byte)"
    unfolding d ascii_Cons by (simp del: of_char_byte_inject)
  then have "d = CHR ''0''" unfolding of_char_byte_inject .
  with hd_nat_str_neq_0 [OF assms(2)] d show False by simp
qed

interpretation wire_dict: prefix_code dict_enc_ordered plain_entries
proof
  fix xs ys :: "wire_entry list" and r s :: "byte list"
  assume ok: "plain_entries xs" "plain_entries ys"
    and "dict_enc_ordered xs @ r = dict_enc_ordered ys @ s"
  then have eq: "ascii (nat_str (length xs)) @ concat (map entry_enc xs) @ r
      = ascii (nat_str (length ys)) @ concat (map entry_enc ys) @ s"
    by (simp add: dict_enc_ordered_def ascii_Cons)
  have "num_digits (length xs) = num_digits (length ys) \<and> (xs = [] \<longleftrightarrow> ys = [])"
  proof (cases xs)
    case Nil
    then show ?thesis using eq count_zero_no_entries [of _ "length ys"] by fastforce
  next
    case x: (Cons x xs')
    show ?thesis
    proof (cases ys)
      case Nil
      with eq have "ascii (nat_str 0) @ s = ascii (nat_str (length xs)) @ concat (map entry_enc xs) @ r"
        by simp
      from count_zero_no_entries [OF this] x show ?thesis by simp
    next
      case y: (Cons y ys')
      obtain k1 n1 v1 k2 n2 v2 where e: "x = (k1, n1, v1)" "y = (k2, n2, v2)"
        by (cases x; cases y) auto
      have k: "plain_key k1" "plain_key k2" using ok x y e by (auto simp: plain_entries_def)
      have eq': "ascii (nat_str (length xs)) @ entry_enc (k1, n1, v1) @ (concat (map entry_enc xs') @ r)
          = ascii (nat_str (length ys)) @ entry_enc (k2, n2, v2) @ (concat (map entry_enc ys') @ s)"
        using eq unfolding x y e by simp
      have "\<not> num_digits (length xs) < num_digits (length ys)"
        by (rule same_count [OF k(1) eq'])
      moreover have "\<not> num_digits (length ys) < num_digits (length xs)"
        by (rule same_count [OF k(2) eq' [symmetric]])
      ultimately show ?thesis using x y by simp
    qed
  qed
  then have "length (ascii (nat_str (length xs))) = length (ascii (nat_str (length ys)))"
    by (simp add: length_nat_str)
  with eq have "length xs = length ys"
    and "concat (map entry_enc xs) @ r = concat (map entry_enc ys) @ s"
    by auto
  then show "xs = ys \<and> r = s"
    using ok wire_entry.decode_list [of xs ys r s] by (simp add: plain_entries_def)
qed

section \<open>From entries to dicts\<close>

text \<open>
  Two dicts have the same content for a signature when they have the same keys and every key
  is bound to values with the same canonical string.
\<close>

definition same_content :: "pydict \<Rightarrow> pydict \<Rightarrow> bool" where
  "same_content d d' =
     (set (dict_keys d) = set (dict_keys d')
      \<and> (\<forall>k \<in> set (dict_keys d). canonical_str (dict_get d k) = canonical_str (dict_get d' k)))"

definition plain_dict :: "pydict \<Rightarrow> bool" where
  "plain_dict d = (distinct (dict_keys d) \<and> list_all plain_key (dict_keys d))"

lemma field_entry_eq_iff:
  "field_entry k v = Inr en \<Longrightarrow>
   field_entry k' v' = Inr en \<longleftrightarrow> k = k' \<and> canonical_str v = canonical_str v'"
  by (cases "canonical_str v"; cases "canonical_str v'")
     (auto simp: field_entry_def split: option.splits)

lemma field_entry_ok: "field_entry k v = Inr en \<Longrightarrow> fst en = k \<and> entry_ok en"
  by (cases "canonical_str v")
     (auto simp: field_entry_def entry_ok_def wire_value_ok_def split: option.splits)

lemma field_entries_eq_iff:
  "list_all2 (\<lambda>k en. field_entry k (f k) = Inr en) ks es \<Longrightarrow>
   list_all2 (\<lambda>k en. field_entry k (g k) = Inr en) ks' es \<longleftrightarrow>
     ks = ks' \<and> (\<forall>k \<in> set ks. canonical_str (f k) = canonical_str (g k))"
proof (induction ks es arbitrary: ks' rule: list_all2_induct)
  case Nil
  then show ?case by auto
next
  case (Cons k ks en es)
  then show ?case
    by (cases ks') (auto simp: field_entry_eq_iff)
qed

lemma ordered_entries_eq_iff:
  assumes "distinct (dict_keys d)" "distinct (dict_keys d')"
    and es: "ordered_entries_from_mapping d = Inr es"
  shows "ordered_entries_from_mapping d' = Inr es \<longleftrightarrow> same_content d d'"
proof -
  have "list_all2 (\<lambda>k en. field_entry k (dict_get d k) = Inr en) (sort (dict_keys d)) es"
    using es by (simp add: ordered_entries_from_mapping_def mapE_Inr_iff)
  from field_entries_eq_iff [OF this, of "dict_get d'" "sort (dict_keys d')"]
  show ?thesis
    by (simp add: ordered_entries_from_mapping_def mapE_Inr_iff same_content_def
        sort_eq_iff_distinct assms(1,2))
qed

lemma ordered_entries_plain:
  assumes "plain_dict d" and es: "ordered_entries_from_mapping d = Inr es"
  shows "plain_entries es"
proof -
  have l2: "list_all2 (\<lambda>k en. field_entry k (dict_get d k) = Inr en) (sort (dict_keys d)) es"
    using es by (simp add: ordered_entries_from_mapping_def mapE_Inr_iff)
  have "en \<in> set es \<Longrightarrow> entry_ok en \<and> plain_key (fst en)" for en
    using l2 assms(1) unfolding list_all2_conv_all_nth in_set_conv_nth plain_dict_def list_all_iff
    by (metis field_entry_ok nth_mem set_sort)
  then show ?thesis by (auto simp: plain_entries_def list_all_iff)
qed

text \<open>The encoder of whole dicts, on the dicts it accepts, is self-delimiting up to content.\<close>

lemma dict_enc_decode:
  assumes "plain_dict d" "plain_dict d'" "dict_enc d = Inr b" "dict_enc d' = Inr b'"
  shows "b @ r = b' @ s \<longleftrightarrow> same_content d d' \<and> r = s"
proof -
  from assms(3,4) obtain es es' where
    es: "ordered_entries_from_mapping d = Inr es" "b = dict_enc_ordered es"
    and es': "ordered_entries_from_mapping d' = Inr es'" "b' = dict_enc_ordered es'"
    by (auto simp: dict_enc_ordered_entries bindE_Inr_iff)
  have "b @ r = b' @ s \<longleftrightarrow> es = es' \<and> r = s"
    unfolding es(2) es'(2)
    by (rule wire_dict.decode_iff)
       (use assms(1,2) es(1) es'(1) in \<open>auto intro: ordered_entries_plain\<close>)
  moreover have "es = es' \<longleftrightarrow> same_content d d'"
    using ordered_entries_eq_iff [of d d' es] assms(1,2) es(1) es'(1)
    by (auto simp: plain_dict_def)
  ultimately show ?thesis by simp
qed

end
