(* ===== verification/Integrity.thy ===== *)
theory Integrity
  imports Canonical
begin

text \<open>
  What a signature protects: the properties of \<open>data_firewall/signing.py\<close> and
  \<open>signing_ordered.py\<close>, over the decoding lemmas of \<open>Canonical\<close>.
\<close>

section \<open>Bytes of whole payloads\<close>

lemma tag_cons_simps: "(ascii [c] @ r = ascii [d] @ s) = (c = d \<and> r = s)"
  by (simp add: ascii_Cons)

lemma payload_prefix_iff:
  "ascii ''T'' @ lp_string t @ ascii ''O'' @ lp_string p @ ascii ''L'' @ r
     = ascii ''T'' @ lp_string t' @ ascii ''O'' @ lp_string p' @ ascii ''L'' @ r'
   \<longleftrightarrow> t = t' \<and> p = p' \<and> r = r'"
  by (simp only: tag_cons_simps lp.decode_iff simp_thms)

lemma record_payload_Inr:
  "canonical_serialize_signed_payload t p f l = Inr b \<longleftrightarrow>
   (\<exists>bl bf. dict_enc l = Inr bl \<and> dict_enc f = Inr bf \<and>
      b = ascii ''T'' @ lp_string t @ ascii ''O'' @ lp_string p @ ascii ''L'' @ bl @ ascii ''F'' @ bf)"
  unfolding canonical_serialize_signed_payload_def bindE_Inr_iff by blast

lemma batch_payload_Inr:
  "canonical_serialize_signed_batch_payload t p rs l = Inr b \<longleftrightarrow>
   (\<exists>bl bs. dict_enc l = Inr bl \<and> mapE dict_enc rs = Inr bs \<and>
      b = ascii ''T'' @ lp_string t @ ascii ''O'' @ lp_string p @ ascii ''L'' @ bl
          @ ascii ''R'' @ ascii (nat_str (length rs)) @ concat bs)"
  unfolding canonical_serialize_signed_batch_payload_def bindE_Inr_iff by blast

lemma record_payload_eq_iff:
  assumes plain: "plain_dict f" "plain_dict f'" "plain_dict l" "plain_dict l'"
    and b: "canonical_serialize_signed_payload t p f l = Inr b"
    and b': "canonical_serialize_signed_payload t' p' f' l' = Inr b'"
  shows "b = b' \<longleftrightarrow> t = t' \<and> p = p' \<and> same_content f f' \<and> same_content l l'"
proof -
  from b obtain bl bf where d: "dict_enc l = Inr bl" "dict_enc f = Inr bf" and beq:
    "b = ascii ''T'' @ lp_string t @ ascii ''O'' @ lp_string p @ ascii ''L'' @ bl @ ascii ''F'' @ bf"
    unfolding record_payload_Inr by blast
  from b' obtain bl' bf' where d': "dict_enc l' = Inr bl'" "dict_enc f' = Inr bf'" and beq':
    "b' = ascii ''T'' @ lp_string t' @ ascii ''O'' @ lp_string p' @ ascii ''L'' @ bl' @ ascii ''F'' @ bf'"
    unfolding record_payload_Inr by blast
  have "bf = bf' \<longleftrightarrow> same_content f f'"
    using dict_enc_decode [OF plain(1,2) d(2) d'(2), of "[]" "[]"] by simp
  then show ?thesis
    unfolding beq beq' unfolding payload_prefix_iff unfolding dict_enc_decode [OF plain(3,4) d(1) d'(1)]
    unfolding tag_cons_simps by blast
qed

text \<open>The row count of a batch and the encoded rows.\<close>

lemma dict_enc_Cons: "dict_enc m = Inr b \<Longrightarrow> \<exists>b'. b = of_char (CHR ''D'') # b'"
  by (auto simp: dict_enc_def bindE_Inr_iff ascii_Cons)

lemma D_notin_nat_str: "CHR ''D'' \<notin> set (nat_str n)"
proof
  assume "CHR ''D'' \<in> set (nat_str n)"
  then obtain d where d: "d \<in> set (nat_digits n)" "digit_char d = CHR ''D''"
    by (auto simp: nat_str_def)
  then have "(of_char (digit_char d) :: nat) = 48 + d"
    by (intro of_char_digit_char) (auto dest: nat_digits_less_10)
  with d have "48 + d = (of_char (CHR ''D'') :: nat)" by simp
  then have "d = 20" by simp
  with d nat_digits_less_10 [of d n] show False by simp
qed

lemma D_notin_prefix: "of_char (CHR ''D'') \<notin> set (ascii (nat_str n))"
  using D_notin_nat_str [of n] of_char_in_ascii [of "CHR ''D''" "nat_str n"] by metis

lemma dict_encs_decode:
  assumes "mapE dict_enc rs = Inr bs" "mapE dict_enc rs' = Inr bs'"
    "list_all plain_dict rs" "list_all plain_dict rs'" "length rs = length rs'"
  shows "concat bs = concat bs' \<longleftrightarrow> list_all2 same_content rs rs'"
  using assms
proof (induction rs arbitrary: bs rs' bs')
  case Nil
  then show ?case by auto
next
  case (Cons d rs)
  then obtain d' rs'' where rs': "rs' = d' # rs''" by (cases rs') auto
  from Cons.prems(1) obtain b bt where b: "dict_enc d = Inr b" "mapE dict_enc rs = Inr bt" "bs = b # bt"
    by (auto simp: bindE_Inr_iff)
  from Cons.prems(2) obtain b' bt' where
    b': "dict_enc d' = Inr b'" "mapE dict_enc rs'' = Inr bt'" "bs' = b' # bt'"
    by (auto simp: bindE_Inr_iff rs')
  have "b @ concat bt = b' @ concat bt' \<longleftrightarrow> same_content d d' \<and> concat bt = concat bt'"
    by (rule dict_enc_decode) (use Cons.prems b b' rs' in auto)
  moreover have "concat bt = concat bt' \<longleftrightarrow> list_all2 same_content rs rs''"
    by (rule Cons.IH) (use Cons.prems b b' rs' in auto)
  ultimately show ?case by (simp add: b(3) b'(3) rs')
qed

lemma row_count_decode:
  assumes eq: "ascii (nat_str (length rs)) @ concat bs = ascii (nat_str (length rs')) @ concat bs'"
    and b: "mapE dict_enc rs = Inr bs" "mapE dict_enc rs' = Inr bs'"
  shows "length rs = length rs' \<and> concat bs = concat bs'"
proof (cases "rs = [] \<or> rs' = []")
  case True
  then have "length rs = length rs'"
    using count_zero_no_entries [of "concat bs" "length rs'" "concat bs'"]
      count_zero_no_entries [of "concat bs'" "length rs" "concat bs"] eq by fastforce
  with eq show ?thesis by simp
next
  case False
  have head: "\<exists>x. concat cs = of_char (CHR ''D'') # x"
    if "mapE dict_enc qs = Inr cs" "qs \<noteq> []" for qs :: "pydict list" and cs
    using that by (cases qs) (auto simp: bindE_Inr_iff dest!: dict_enc_Cons)
  from False head [OF b(1)] head [OF b(2)] obtain x y where
    xy: "concat bs = of_char (CHR ''D'') # x" "concat bs' = of_char (CHR ''D'') # y" by blast
  from eq have "ascii (nat_str (length rs)) = ascii (nat_str (length rs')) \<and> x = y"
    unfolding xy by (rule split_at_first [OF D_notin_prefix D_notin_prefix])
  with xy show ?thesis by simp
qed

lemma batch_payload_eq_iff:
  assumes plain: "list_all plain_dict rs" "list_all plain_dict rs'" "plain_dict l" "plain_dict l'"
    and b: "canonical_serialize_signed_batch_payload t p rs l = Inr b"
    and b': "canonical_serialize_signed_batch_payload t' p' rs' l' = Inr b'"
  shows "b = b' \<longleftrightarrow> t = t' \<and> p = p' \<and> same_content l l' \<and> list_all2 same_content rs rs'"
proof -
  from b obtain bl bs where d: "dict_enc l = Inr bl" "mapE dict_enc rs = Inr bs" and beq:
    "b = ascii ''T'' @ lp_string t @ ascii ''O'' @ lp_string p @ ascii ''L'' @ bl
         @ ascii ''R'' @ ascii (nat_str (length rs)) @ concat bs"
    unfolding batch_payload_Inr by blast
  from b' obtain bl' bs' where d': "dict_enc l' = Inr bl'" "mapE dict_enc rs' = Inr bs'" and beq':
    "b' = ascii ''T'' @ lp_string t' @ ascii ''O'' @ lp_string p' @ ascii ''L'' @ bl'
          @ ascii ''R'' @ ascii (nat_str (length rs')) @ concat bs'"
    unfolding batch_payload_Inr by blast
  have "ascii (nat_str (length rs)) @ concat bs = ascii (nat_str (length rs')) @ concat bs'
     \<longleftrightarrow> list_all2 same_content rs rs'"
    using row_count_decode [OF _ d(2) d'(2)] dict_encs_decode [OF d(2) d'(2) plain(1,2)]
      list_all2_lengthD [of same_content rs rs'] by auto
  then show ?thesis
    unfolding beq beq' unfolding payload_prefix_iff unfolding dict_enc_decode [OF plain(3,4) d(1) d'(1)]
    unfolding tag_cons_simps by blast
qed

lemma record_neq_batch:
  assumes "plain_dict l" "plain_dict l'"
    "canonical_serialize_signed_payload t p f l = Inr b"
    "canonical_serialize_signed_batch_payload t' p' rs l' = Inr b'"
  shows "b \<noteq> b'"
proof -
  from assms(3) obtain bl bf where d: "dict_enc l = Inr bl" and beq:
    "b = ascii ''T'' @ lp_string t @ ascii ''O'' @ lp_string p @ ascii ''L'' @ bl @ ascii ''F'' @ bf"
    unfolding record_payload_Inr by blast
  from assms(4) obtain bl' r where d': "dict_enc l' = Inr bl'" and beq':
    "b' = ascii ''T'' @ lp_string t' @ ascii ''O'' @ lp_string p' @ ascii ''L'' @ bl'
          @ ascii ''R'' @ r"
    unfolding batch_payload_Inr by blast
  show ?thesis
    unfolding beq beq' unfolding payload_prefix_iff unfolding dict_enc_decode [OF assms(1,2) d d']
    unfolding tag_cons_simps by simp
qed

lemma dict_enc_same_content:
  assumes "plain_dict d" "plain_dict d'" "same_content d d'" "dict_enc d = Inr b"
  shows "dict_enc d' = Inr b"
  using assms ordered_entries_eq_iff [of d d']
  by (auto simp: dict_enc_ordered_entries bindE_Inr_iff plain_dict_def)

section \<open>Properties\<close>

text \<open>
  C6: The signed bytes of a record determine its table, its operation, and the content of its
  fields and of its locator, whatever the order of the dicts' entries; and nothing else enters
  them. This holds for dicts whose keys are non-empty and hold no capital N or S, as column
  names do.
\<close>

theorem signed_payload_content:
  assumes "plain_dict f" "plain_dict f'" "plain_dict l" "plain_dict l'"
    and "canonical_serialize_signed_payload t p f l = Inr b"
  shows "canonical_serialize_signed_payload t' p' f' l' = Inr b
    \<longleftrightarrow> t' = t \<and> p' = p \<and> same_content f f' \<and> same_content l l'"
proof
  assume "canonical_serialize_signed_payload t' p' f' l' = Inr b"
  with record_payload_eq_iff [OF assms this]
  show "t' = t \<and> p' = p \<and> same_content f f' \<and> same_content l l'" by simp
next
  assume same: "t' = t \<and> p' = p \<and> same_content f f' \<and> same_content l l'"
  from assms(5) obtain bl bf where "dict_enc l = Inr bl" "dict_enc f = Inr bf"
    unfolding record_payload_Inr by blast
  then have "dict_enc l' = dict_enc l" "dict_enc f' = dict_enc f"
    using dict_enc_same_content assms(1-4) same by metis+
  with assms(5) same show "canonical_serialize_signed_payload t' p' f' l' = Inr b"
    by (simp add: canonical_serialize_signed_payload_def)
qed

theorem signed_payload_content_witness:
  "canonical_serialize_signed_payload ''fact_listings'' ''update''
     [(''title'', PNone), (''is_active'', PBool True)] [(''id'', PInt 7)]
   = Inr (ascii ''T13:fact_listingsO6:updateL'' @ ascii ''D12:idS1:7F''
          @ ascii ''D29:is_activeS4:true5:titleN'')
   \<and> canonical_serialize_signed_payload ''fact_listings'' ''update''
       [(''is_active'', PStr ''true''), (''title'', PNone)] [(''id'', PStr ''7'')]
     = Inr (ascii ''T13:fact_listingsO6:updateL'' @ ascii ''D12:idS1:7F''
            @ ascii ''D29:is_activeS4:true5:titleN'')"
proof -
  have b: "canonical_serialize_signed_payload ''fact_listings'' ''update''
     [(''title'', PNone), (''is_active'', PBool True)] [(''id'', PInt 7)]
   = Inr (ascii ''T13:fact_listingsO6:updateL'' @ ascii ''D12:idS1:7F''
          @ ascii ''D29:is_activeS4:true5:titleN'')"
    by code_simp
  have "plain_dict [(''title'', PNone), (''is_active'', PBool True)]"
    "plain_dict [(''is_active'', PStr ''true''), (''title'', PNone)]"
    "plain_dict [(''id'', PInt 7)]" "plain_dict [(''id'', PStr ''7'')]"
    by code_simp+
  moreover have "same_content [(''title'', PNone), (''is_active'', PBool True)]
      [(''is_active'', PStr ''true''), (''title'', PNone)]"
    "same_content [(''id'', PInt 7)] [(''id'', PStr ''7'')]"
    by code_simp+
  ultimately show ?thesis
    using b by (simp only: signed_payload_content [OF _ _ _ _ b] simp_thms)
qed

text \<open>
  C23: A signature binds the record it was issued for: if the signature of one record verifies
  on another, the two records have the same table, operation, fields and locator, or their two
  distinct byte strings have the same MAC under the signing secret.
\<close>

theorem signature_binds_record:
  assumes "plain_dict f" "plain_dict f'" "plain_dict l" "plain_dict l'"
    and "sign env t p f l = Inr (Some sig)"
    and "verify env t' p' f' l' (Some sig) = Inr True"
  shows "t' = t \<and> p' = p \<and> same_content f f' \<and> same_content l l'
    \<or> (\<exists>secret b b'. signing_secret env = Some secret
          \<and> canonical_serialize_signed_payload t p f l = Inr b
          \<and> canonical_serialize_signed_payload t' p' f' l' = Inr b'
          \<and> b \<noteq> b' \<and> hmac_sha256_hex env (utf8 secret) b = hmac_sha256_hex env (utf8 secret) b')"
proof -
  from assms(5) obtain secret b where s: "signing_secret env = Some secret"
    "canonical_serialize_signed_payload t p f l = Inr b" "sig = hmac_sha256_hex env (utf8 secret) b"
    by (auto simp: sign_def bindE_Inr_iff split: option.splits)
  from assms(6) s(1) obtain b' where s': "canonical_serialize_signed_payload t' p' f' l' = Inr b'"
    "sig = hmac_sha256_hex env (utf8 secret) b'"
    by (auto simp: verify_def sign_def bindE_Inr_iff split: if_splits)
  show ?thesis
    using record_payload_eq_iff [OF assms(1-4) s(2) s'(1)] s s' by metis
qed

definition length_mac_env :: signing_env where
  \<comment> \<open>a MAC for the concrete runs below\<close>
  "length_mac_env = \<lparr> hmac_sha256_hex = (\<lambda>k b. nat_str (length k) @ ''-'' @ nat_str (length b)),
                      data_firewall_signing_secret = Some ''key'' \<rparr>"

theorem signature_binds_record_witness:
  "same_content [(''price'', PInt 5)] [(''price'', PStr ''5'')]
   \<or> (\<exists>secret b b'. signing_secret length_mac_env = Some secret
       \<and> canonical_serialize_signed_payload ''fact_prices'' ''update'' [(''price'', PInt 5)] [] = Inr b
       \<and> canonical_serialize_signed_payload ''fact_prices'' ''update'' [(''price'', PStr ''5'')] [] = Inr b'
       \<and> b \<noteq> b' \<and> hmac_sha256_hex length_mac_env (utf8 secret) b
                    = hmac_sha256_hex length_mac_env (utf8 secret) b')"
proof -
  have "plain_dict [(''price'', PInt 5)]" "plain_dict [(''price'', PStr ''5'')]" "plain_dict []"
    by code_simp+
  moreover have "sign length_mac_env ''fact_prices'' ''update'' [(''price'', PInt 5)] [] = Inr (Some ''3-41'')"
    "verify length_mac_env ''fact_prices'' ''update'' [(''price'', PStr ''5'')] [] (Some ''3-41'') = Inr True"
    by code_simp+
  ultimately show ?thesis
    using signature_binds_record [of "[(''price'', PInt 5)]" "[(''price'', PStr ''5'')]" "[]" "[]"
        length_mac_env "''fact_prices''" "''update''" "''3-41''" "''fact_prices''" "''update''"]
    by blast
qed

text \<open>
  The signed bytes of a batch determine its table, operation and locator, the number and
  order of its rows and the content of each; conversely batches that agree on these have the
  same bytes.
\<close>

theorem signed_batch_content:
  assumes "list_all plain_dict rs" "list_all plain_dict rs'" "plain_dict l" "plain_dict l'"
    and "canonical_serialize_signed_batch_payload t p rs l = Inr b"
    and "canonical_serialize_signed_batch_payload t' p' rs' l' = Inr b'"
  shows "b' = b
    \<longleftrightarrow> t' = t \<and> p' = p \<and> same_content l l' \<and> list_all2 same_content rs rs'"
  using batch_payload_eq_iff [OF assms] by auto

theorem signed_batch_content_witness:
  "(ascii ''T1:tO6:insertL'' @ ascii ''D0R2'' @ ascii ''D11:aS1:1'' @ ascii ''D11:aS1:2''
    = ascii ''T1:tO6:insertL'' @ ascii ''D0R2'' @ ascii ''D11:aS1:2'' @ ascii ''D11:aS1:1'')
   \<longleftrightarrow> list_all2 same_content [[(''a'', PInt 2)], [(''a'', PInt 1)]] [[(''a'', PInt 1)], [(''a'', PInt 2)]]"
proof -
  let ?rs = "[[(''a'', PInt 2)], [(''a'', PInt 1)]]" and ?rs' = "[[(''a'', PInt 1)], [(''a'', PInt 2)]]"
  have "list_all plain_dict ?rs" "list_all plain_dict ?rs'" "plain_dict []"
    by code_simp+
  moreover have "canonical_serialize_signed_batch_payload ''t'' ''insert'' ?rs []
    = Inr (ascii ''T1:tO6:insertL'' @ ascii ''D0R2'' @ ascii ''D11:aS1:2'' @ ascii ''D11:aS1:1'')"
    by code_simp
  moreover have "canonical_serialize_signed_batch_payload ''t'' ''insert'' ?rs' []
    = Inr (ascii ''T1:tO6:insertL'' @ ascii ''D0R2'' @ ascii ''D11:aS1:1'' @ ascii ''D11:aS1:2'')"
    by code_simp
  moreover have "same_content [] []" by code_simp
  ultimately show ?thesis
    using signed_batch_content [of ?rs ?rs' "[]" "[]" "''t''" "''insert''" _ "''t''" "''insert''"]
    by blast
qed

text \<open>
  A record and a batch never share their signed bytes, so a signature issued for one is
  not a signature for the other (the section tags \<open>F\<close> and \<open>R\<close> separate them).
\<close>

theorem record_batch_separated:
  assumes "plain_dict l" "plain_dict l'"
    and "canonical_serialize_signed_payload t p f l = Inr b"
  shows "canonical_serialize_signed_batch_payload t' p' rs l' \<noteq> Inr b"
  using record_neq_batch [OF assms] by blast

theorem record_batch_separated_witness:
  "canonical_serialize_signed_batch_payload ''t'' ''insert'' [] [(''id'', PInt 1)]
     \<noteq> Inr (ascii ''T1:tO6:insertL'' @ ascii ''D12:idS1:1FD0'')"
proof (rule record_batch_separated [of "[(''id'', PInt 1)]" _ "''t''" "''insert''" "[]"])
  show "canonical_serialize_signed_payload ''t'' ''insert'' [] [(''id'', PInt 1)]
    = Inr (ascii ''T1:tO6:insertL'' @ ascii ''D12:idS1:1FD0'')"
    by code_simp
qed code_simp+

definition one_entry :: pydict where
  "one_entry = [(''S9:aaaaaaa'', PStr ''aN1:bN1:cN1:dN1:eN1:fN1:gN1:hN1:iN1:jS1:x'')]"

definition eleven_entries :: pydict where
  "eleven_entries = ('''', PStr ''aaaaaaaS4'') # map (\<lambda>c. ([c], PNone)) ''abcdefghi'' @ [(''j'', PStr ''x'')]"

text \<open>
  Without the restriction on keys the encoding is not injective: the entry count stands
  directly before the length prefix of the first key, and a crafted key and value read as
  eleven entries. The two field dicts below differ, yet have the same signed bytes.
\<close>

theorem signed_payload_collision:
  "\<not> same_content one_entry eleven_entries
   \<and> canonical_serialize_signed_payload t p one_entry l = canonical_serialize_signed_payload t p eleven_entries l
   \<and> (\<exists>b. dict_enc one_entry = Inr b)"
proof -
  have "dict_enc one_entry
     = Inr (ascii ''D110:S9:aaaaaaaS41:aN1:bN1:cN1:dN1:eN1:fN1:gN1:hN1:iN1:jS1:x'')"
    by code_simp
  moreover have "dict_enc eleven_entries
     = Inr (ascii ''D110:S9:aaaaaaaS41:aN1:bN1:cN1:dN1:eN1:fN1:gN1:hN1:iN1:jS1:x'')"
    by code_simp
  moreover have "\<not> same_content one_entry eleven_entries" by code_simp
  ultimately show ?thesis by (simp add: canonical_serialize_signed_payload_def)
qed

text \<open>
  C30: The pre-sorted entries sent to the database gate carry exactly the signed bytes: the
  gate's encoding of the ordered entries of a record or a batch is the canonical payload that
  was signed, and it fails where that fails.
\<close>

theorem ordered_wire_is_signed_payload:
  "canonical_serialize_signed_payload t p f l =
     bindE (ordered_entries_from_mapping l) (\<lambda>el. bindE (ordered_entries_from_mapping f)
       (\<lambda>ef. Inr (canonical_serialize_ordered_record t p el ef)))
   \<and> canonical_serialize_signed_batch_payload t p rows l =
     bindE (ordered_entries_from_mapping l) (\<lambda>el. bindE (mapE ordered_entries_from_mapping rows)
       (\<lambda>ers. Inr (canonical_serialize_ordered_batch t p el ers)))"
proof
  show "canonical_serialize_signed_payload t p f l =
     bindE (ordered_entries_from_mapping l) (\<lambda>el. bindE (ordered_entries_from_mapping f)
       (\<lambda>ef. Inr (canonical_serialize_ordered_record t p el ef)))"
    unfolding canonical_serialize_signed_payload_def dict_enc_ordered_entries [of l]
      dict_enc_ordered_entries [of f] canonical_serialize_ordered_record_def
    by (cases "ordered_entries_from_mapping l"; cases "ordered_entries_from_mapping f") auto
  show "canonical_serialize_signed_batch_payload t p rows l =
     bindE (ordered_entries_from_mapping l) (\<lambda>el. bindE (mapE ordered_entries_from_mapping rows)
       (\<lambda>ers. Inr (canonical_serialize_ordered_batch t p el ers)))"
    unfolding canonical_serialize_signed_batch_payload_def dict_enc_ordered_entries [of l]
      mapE_dict_enc canonical_serialize_ordered_batch_def
    by (cases "ordered_entries_from_mapping l"; cases "mapE ordered_entries_from_mapping rows")
       (auto dest: mapE_length)
qed



end
