(* ===== verification/Schema.thy ===== *)
theory Schema
  imports PyValue
begin

text \<open>
  The relational schema as the ORM classes of \<open>models/*.py\<close> declare it: for every mapped
  class its table name, its columns in declaration order (type, nullability, key, default and
  server default), its relationships, and its table arguments in order. The predicates of
  partial indexes, index methods and partitioning options are not kept: the application code
  never reads them.
\<close>

section \<open>Vocabulary\<close>

datatype sql_type =
    SString "nat option"
  | SText
  | SNumeric nat nat
  | SInteger
  | SSmallInteger
  | SBigInteger
  | SBoolean
  | SDateTime bool   \<comment> \<open>with time zone\<close>
  | SDate
  | SUuid
  | SJsonb
  | SInet
  | SArray sql_type

datatype py_default = NoDefault | DefaultValue pyval | DefaultCall string

datatype server_default = ServerText string | ServerLiteral string | ServerNow

record column_model =
  col_key :: string
  col_type :: sql_type
  col_nullable :: bool
  col_primary_key :: bool
  col_foreign_key :: "(string \<times> string \<times> string) option"   \<comment> \<open>table, column, on delete\<close>
  col_unique :: bool
  col_index :: bool
  col_identity :: bool
  col_default :: py_default
  col_server_default :: "server_default option"
  col_onupdate_now :: bool

definition mapped_column :: "string \<Rightarrow> sql_type \<Rightarrow> bool \<Rightarrow> column_model" where
  "mapped_column k ty nullable =
     \<lparr> col_key = k, col_type = ty, col_nullable = nullable, col_primary_key = False,
       col_foreign_key = None, col_unique = False, col_index = False, col_identity = False,
       col_default = NoDefault, col_server_default = None, col_onupdate_now = False \<rparr>"

abbreviation required_col :: "string \<Rightarrow> sql_type \<Rightarrow> column_model" where
  "required_col k ty \<equiv> mapped_column k ty False"

abbreviation nullable_col :: "string \<Rightarrow> sql_type \<Rightarrow> column_model" where
  "nullable_col k ty \<equiv> mapped_column k ty True"

datatype table_arg =
    CheckConstraint string string              \<comment> \<open>name, SQL text\<close>
  | UniqueConstraint string "string list"
  | Index string "string list" bool            \<comment> \<open>name, expressions, unique\<close>

record table_model =
  tm_tablename :: string
  tm_columns :: "column_model list"
  tm_relationships :: "(string \<times> string \<times> string option \<times> bool) list"
    \<comment> \<open>attribute, target class, back-populated attribute, delete-orphan cascade\<close>
  tm_args :: "table_arg list"

section \<open>\<open>models/core.py\<close>\<close>

definition User :: table_model where
  "User = \<lparr>
    tm_tablename = ''users'',
    tm_columns = [
      (required_col ''id'' SUuid)\<lparr>col_primary_key := True, col_default := DefaultCall ''uuid.uuid4'', col_server_default := Some (ServerText ''gen_random_uuid()'')\<rparr>,
      (required_col ''email'' (SString (Some 255)))\<lparr>col_unique := True, col_index := True\<rparr>,
      required_col ''password_hash'' (SString (Some 255)),
      nullable_col ''name'' (SString (Some 100)),
      nullable_col ''company_name'' (SString (Some 200)),
      (required_col ''plan'' (SString (Some 20)))\<lparr>col_default := DefaultValue (PStr ''trial'')\<rparr>,
      nullable_col ''trial_ends_at'' (SDateTime True),
      (required_col ''language'' (SString (Some 5)))\<lparr>col_default := DefaultValue (PStr ''en'')\<rparr>,
      (required_col ''timezone'' (SString (Some 50)))\<lparr>col_default := DefaultValue (PStr ''UTC'')\<rparr>,
      (required_col ''ai_tone'' (SString (Some 20)))\<lparr>col_default := DefaultValue (PStr ''balanced'')\<rparr>,
      (required_col ''default_currency'' (SString (Some 3)))\<lparr>col_default := DefaultValue (PStr ''EUR'')\<rparr>,
      nullable_col ''telegram_chat_id'' SBigInteger,
      nullable_col ''telegram_link_code'' (SString (Some 20)),
      nullable_col ''telegram_username'' (SString (Some 100)),
      (required_col ''is_superuser'' SBoolean)\<lparr>col_default := DefaultValue (PBool False)\<rparr>,
      (required_col ''force_password_change'' SBoolean)\<lparr>col_default := DefaultValue (PBool False)\<rparr>,
      (required_col ''is_active'' SBoolean)\<lparr>col_default := DefaultValue (PBool True)\<rparr>,
      nullable_col ''avatar_url'' SText,
      nullable_col ''last_login_at'' (SDateTime True),
      nullable_col ''last_login_ip'' SInet,
      (required_col ''login_count'' SInteger)\<lparr>col_default := DefaultValue (PInt 0)\<rparr>,
      (required_col ''preferences'' SJsonb)\<lparr>col_server_default := Some (ServerText ([CHR 0x27] @ ''{}'' @ [CHR 0x27] @ ''::jsonb''))\<rparr>,
      (required_col ''created_at'' (SDateTime True))\<lparr>col_server_default := Some (ServerNow)\<rparr>,
      (required_col ''updated_at'' (SDateTime True))\<lparr>col_server_default := Some (ServerNow), col_onupdate_now := True\<rparr>],
    tm_relationships = [
      (''subscriptions'', ''UserSubscription'', Some ''user'', True),
      (''user_products'', ''UserProduct'', Some ''user'', True),
      (''alerts'', ''Alert'', Some ''user'', True),
      (''digests'', ''Digest'', Some ''user'', True),
      (''chat_sessions'', ''AIChatSession'', Some ''user'', True),
      (''scrape_jobs_triggered'', ''ScrapeJob'', Some ''triggered_by_user'', False),
      (''data_exports'', ''DataExport'', Some ''user'', True)],
    tm_args = [
      Index ''idx_users_plan'' [''plan''] False,
      Index ''idx_users_telegram'' [''telegram_chat_id''] False,
      CheckConstraint ''ck_users_plan'' ''plan IN ('trial','starter','business','pro','enterprise')'',
      CheckConstraint ''ck_users_ai_tone'' ''ai_tone IN ('concise','balanced','detailed')''] \<rparr>"

definition UserSubscription :: table_model where
  "UserSubscription = \<lparr>
    tm_tablename = ''user_subscriptions'',
    tm_columns = [
      (required_col ''id'' SUuid)\<lparr>col_primary_key := True, col_default := DefaultCall ''uuid.uuid4'', col_server_default := Some (ServerText ''gen_random_uuid()'')\<rparr>,
      (required_col ''user_id'' SUuid)\<lparr>col_foreign_key := Some (''users'', ''id'', ''CASCADE''), col_index := True\<rparr>,
      required_col ''plan'' (SString (Some 20)),
      (required_col ''status'' (SString (Some 20)))\<lparr>col_default := DefaultValue (PStr ''active'')\<rparr>,
      (required_col ''started_at'' (SDateTime True))\<lparr>col_server_default := Some (ServerNow)\<rparr>,
      nullable_col ''expires_at'' (SDateTime True),
      nullable_col ''cancelled_at'' (SDateTime True),
      nullable_col ''payment_provider'' (SString (Some 30)),
      nullable_col ''external_id'' (SString (Some 255)),
      nullable_col ''amount_cents'' SInteger,
      (nullable_col ''currency_code'' (SString (Some 3)))\<lparr>col_default := DefaultValue (PStr ''EUR'')\<rparr>,
      (required_col ''created_at'' (SDateTime True))\<lparr>col_server_default := Some (ServerNow)\<rparr>],
    tm_relationships = [
      (''user'', ''User'', Some ''subscriptions'', False)],
    tm_args = [
      CheckConstraint ''ck_user_subscriptions_plan'' ''plan IN ('trial','starter','business','pro','enterprise')'',
      CheckConstraint ''ck_user_subscriptions_status'' ''status IN ('active','cancelled','expired','past_due')'',
      Index ''idx_user_subs_user'' [''user_id''] False,
      Index ''idx_user_subs_status'' [''status''] False] \<rparr>"

definition UserProduct :: table_model where
  "UserProduct = \<lparr>
    tm_tablename = ''user_products'',
    tm_columns = [
      (required_col ''id'' SUuid)\<lparr>col_primary_key := True, col_default := DefaultCall ''uuid.uuid4'', col_server_default := Some (ServerText ''gen_random_uuid()'')\<rparr>,
      (required_col ''user_id'' SUuid)\<lparr>col_foreign_key := Some (''users'', ''id'', ''CASCADE''), col_index := True\<rparr>,
      (required_col ''product_id'' SUuid)\<lparr>col_foreign_key := Some (''dim_product'', ''id'', ''CASCADE''), col_index := True\<rparr>,
      nullable_col ''custom_name'' (SString (Some 500)),
      nullable_col ''custom_sku'' (SString (Some 100)),
      nullable_col ''target_price'' (SNumeric 12 2),
      nullable_col ''cost_price'' (SNumeric 12 2),
      (nullable_col ''currency_code'' (SString (Some 3)))\<lparr>col_default := DefaultValue (PStr ''EUR'')\<rparr>,
      nullable_col ''notes'' SText,
      (required_col ''is_active'' SBoolean)\<lparr>col_default := DefaultValue (PBool True)\<rparr>,
      (required_col ''created_at'' (SDateTime True))\<lparr>col_server_default := Some (ServerNow)\<rparr>,
      (required_col ''updated_at'' (SDateTime True))\<lparr>col_server_default := Some (ServerNow), col_onupdate_now := True\<rparr>],
    tm_relationships = [
      (''user'', ''User'', Some ''user_products'', False),
      (''product'', ''DimProduct'', Some ''user_products'', False)],
    tm_args = [
      UniqueConstraint ''uq_user_products_user_product'' [''user_id'', ''product_id''],
      Index ''idx_user_products_user'' [''user_id''] False,
      Index ''idx_user_products_product'' [''product_id''] False] \<rparr>"

section \<open>\<open>models/dimensions.py\<close>\<close>

definition DimDate :: table_model where
  "DimDate = \<lparr>
    tm_tablename = ''dim_date'',
    tm_columns = [
      (required_col ''date_id'' SInteger)\<lparr>col_primary_key := True\<rparr>,
      (required_col ''full_date'' SDate)\<lparr>col_unique := True\<rparr>,
      required_col ''year'' SInteger,
      required_col ''quarter'' SInteger,
      required_col ''month'' SInteger,
      required_col ''month_name'' (SString (Some 20)),
      required_col ''week_iso'' SInteger,
      required_col ''day_of_month'' SInteger,
      required_col ''day_of_week'' SInteger,
      required_col ''day_name'' (SString (Some 15)),
      required_col ''is_weekend'' SBoolean,
      required_col ''is_last_day_of_month'' SBoolean,
      nullable_col ''fiscal_year'' SInteger,
      nullable_col ''fiscal_quarter'' SInteger],
    tm_relationships = [],
    tm_args = [
      Index ''idx_dim_date_full_date'' [''full_date''] False,
      CheckConstraint ''ck_dim_date_quarter'' ''quarter >= 1 AND quarter <= 4'',
      CheckConstraint ''ck_dim_date_month'' ''month >= 1 AND month <= 12''] \<rparr>"

definition DimCurrency :: table_model where
  "DimCurrency = \<lparr>
    tm_tablename = ''dim_currency'',
    tm_columns = [
      (required_col ''currency_code'' (SString (Some 3)))\<lparr>col_primary_key := True\<rparr>,
      required_col ''name'' (SString (Some 50)),
      required_col ''symbol'' (SString (Some 5)),
      (nullable_col ''decimal_places'' SInteger)\<lparr>col_default := DefaultValue (PInt 2)\<rparr>,
      (required_col ''is_active'' SBoolean)\<lparr>col_default := DefaultValue (PBool True)\<rparr>],
    tm_relationships = [],
    tm_args = [] \<rparr>"

definition DimCountry :: table_model where
  "DimCountry = \<lparr>
    tm_tablename = ''dim_country'',
    tm_columns = [
      (required_col ''country_code'' (SString (Some 2)))\<lparr>col_primary_key := True\<rparr>,
      required_col ''name'' (SString (Some 100)),
      nullable_col ''name_local'' (SString (Some 100)),
      required_col ''region'' (SString (Some 30)),
      nullable_col ''subregion'' (SString (Some 50)),
      (required_col ''currency_code'' (SString (Some 3)))\<lparr>col_foreign_key := Some (''dim_currency'', ''currency_code'', ''RESTRICT'')\<rparr>,
      nullable_col ''vat_rate_std'' (SNumeric 5 2),
      nullable_col ''vat_rate_reduced'' (SNumeric 5 2),
      nullable_col ''ecommerce_market_size_eur'' SInteger,
      nullable_col ''population'' SInteger,
      (required_col ''is_active'' SBoolean)\<lparr>col_default := DefaultValue (PBool True)\<rparr>],
    tm_relationships = [],
    tm_args = [
      CheckConstraint ''ck_dim_country_region'' ''region IN ('CIS','EU','EFTA','Balkans','Caucasus','Central_Asia','Turkey','Other')''] \<rparr>"

definition DimMarketplace :: table_model where
  "DimMarketplace = \<lparr>
    tm_tablename = ''dim_marketplace'',
    tm_columns = [
      (required_col ''id'' SUuid)\<lparr>col_primary_key := True, col_default := DefaultCall ''uuid.uuid4'', col_server_default := Some (ServerText ''gen_random_uuid()'')\<rparr>,
      (required_col ''marketplace_code'' (SString (Some 50)))\<lparr>col_unique := True\<rparr>,
      required_col ''name'' (SString (Some 200)),
      required_col ''source_type'' (SString (Some 30)),
      (required_col ''country_code'' (SString (Some 2)))\<lparr>col_foreign_key := Some (''dim_country'', ''country_code'', ''RESTRICT''), col_index := True\<rparr>,
      (required_col ''operates_in'' (SArray (SString (Some 2))))\<lparr>col_server_default := Some (ServerText ''ARRAY[]::varchar(2)[]'')\<rparr>,
      required_col ''domain'' (SString (Some 255)),
      required_col ''base_url'' SText,
      (required_col ''api_available'' SBoolean)\<lparr>col_default := DefaultValue (PBool False)\<rparr>,
      nullable_col ''api_type'' (SString (Some 30)),
      (required_col ''scraper_type'' (SString (Some 30)))\<lparr>col_default := DefaultValue (PStr ''web_api'')\<rparr>,
      (required_col ''currency_code'' (SString (Some 3)))\<lparr>col_foreign_key := Some (''dim_currency'', ''currency_code'', ''RESTRICT'')\<rparr>,
      nullable_col ''locale'' (SString (Some 10)),
      (required_col ''is_active'' SBoolean)\<lparr>col_default := DefaultValue (PBool True)\<rparr>,
      (nullable_col ''reliability_score'' (SNumeric 3 2))\<lparr>col_default := DefaultValue (PFloat (float_of_int 0))\<rparr>,
      nullable_col ''avg_response_ms'' SInteger,
      nullable_col ''last_scrape_at'' (SDateTime True),
      nullable_col ''last_scrape_status'' (SString (Some 20)),
      nullable_col ''logo_url'' SText,
      nullable_col ''monthly_visits'' SInteger,
      (required_col ''product_quota'' SInteger)\<lparr>col_default := DefaultValue (PInt 0), col_server_default := Some (ServerText ''0'')\<rparr>,
      (required_col ''products_in_pool'' SInteger)\<lparr>col_default := DefaultValue (PInt 0), col_server_default := Some (ServerText ''0'')\<rparr>,
      (required_col ''requires_js'' SBoolean)\<lparr>col_default := DefaultValue (PBool False), col_server_default := Some (ServerText ''false'')\<rparr>,
      (required_col ''access_mode'' (SString (Some 16)))\<lparr>col_default := DefaultValue (PStr ''direct''), col_server_default := Some (ServerText ([CHR 0x27] @ ''direct'' @ [CHR 0x27]))\<rparr>,
      (required_col ''scrape_tier'' SInteger)\<lparr>col_default := DefaultValue (PInt 1), col_server_default := Some (ServerText ''1'')\<rparr>,
      (required_col ''rate_limit_delay'' (SNumeric 4 1))\<lparr>col_default := DefaultValue (PFloat (float_of_int 2)), col_server_default := Some (ServerText ''2.0'')\<rparr>,
      nullable_col ''custom_product_link_selector'' SText,
      nullable_col ''custom_next_page_selector'' SText,
      nullable_col ''custom_price_selector'' SText,
      nullable_col ''custom_title_selector'' SText,
      nullable_col ''last_discovery_at'' (SDateTime True),
      nullable_col ''last_discovery_status'' (SString (Some 20)),
      (required_col ''last_discovery_products_found'' SInteger)\<lparr>col_default := DefaultValue (PInt 0), col_server_default := Some (ServerText ''0'')\<rparr>,
      (required_col ''discovery_error_count'' SInteger)\<lparr>col_default := DefaultValue (PInt 0), col_server_default := Some (ServerText ''0'')\<rparr>,
      (required_col ''discovered_category_urls'' SJsonb)\<lparr>col_default := DefaultCall ''list'', col_server_default := Some (ServerText ([CHR 0x27] @ ''[]'' @ [CHR 0x27] @ ''::jsonb''))\<rparr>,
      nullable_col ''catalog_size_estimate'' SInteger,
      (nullable_col ''last_category_recon_at'' (SDateTime True))\<lparr>col_default := DefaultValue PNone\<rparr>,
      (nullable_col ''recon_frontier_state'' SJsonb)\<lparr>col_default := DefaultValue PNone\<rparr>,
      (nullable_col ''sitemap_url'' (SString (Some 2048)))\<lparr>col_default := DefaultValue PNone\<rparr>,
      (nullable_col ''last_sitemap_harvest_at'' (SDateTime True))\<lparr>col_default := DefaultValue PNone\<rparr>,
      (required_col ''sitemap_resume_offset'' SInteger)\<lparr>col_default := DefaultValue (PInt 0), col_server_default := Some (ServerLiteral ''0'')\<rparr>,
      (required_col ''category_resume_index'' SInteger)\<lparr>col_default := DefaultValue (PInt 0), col_server_default := Some (ServerLiteral ''0'')\<rparr>,
      (required_col ''sitemap_bad_harvest_streak'' SInteger)\<lparr>col_default := DefaultValue (PInt 0), col_server_default := Some (ServerLiteral ''0'')\<rparr>,
      (required_col ''phase1_exhausted_streak'' SInteger)\<lparr>col_default := DefaultValue (PInt 0), col_server_default := Some (ServerLiteral ''0'')\<rparr>,
      (required_col ''created_at'' (SDateTime True))\<lparr>col_server_default := Some (ServerNow)\<rparr>,
      (required_col ''updated_at'' (SDateTime True))\<lparr>col_server_default := Some (ServerNow), col_onupdate_now := True\<rparr>],
    tm_relationships = [],
    tm_args = [
      CheckConstraint ''ck_dim_marketplace_source_type'' ''source_type IN ('marketplace','price_aggregator','direct_retail','classified','b2b_platform','brand_store')'',
      CheckConstraint ''ck_dim_marketplace_scraper_type'' ''scraper_type IN ('web_api','playwright','httpx','api_official','rss','feed')'',
      Index ''idx_marketplace_country'' [''country_code''] False,
      Index ''idx_marketplace_type'' [''source_type''] False,
      Index ''idx_marketplace_code'' [''marketplace_code''] False] \<rparr>"

definition DimCategory :: table_model where
  "DimCategory = \<lparr>
    tm_tablename = ''dim_category'',
    tm_columns = [
      (required_col ''id'' SUuid)\<lparr>col_primary_key := True, col_default := DefaultCall ''uuid.uuid4'', col_server_default := Some (ServerText ''gen_random_uuid()'')\<rparr>,
      required_col ''name'' (SString (Some 200)),
      nullable_col ''name_en'' (SString (Some 200)),
      (required_col ''slug'' (SString (Some 200)))\<lparr>col_unique := True\<rparr>,
      (nullable_col ''parent_id'' SUuid)\<lparr>col_foreign_key := Some (''dim_category'', ''id'', ''SET NULL''), col_index := True\<rparr>,
      (required_col ''level'' SInteger)\<lparr>col_default := DefaultValue (PInt 1)\<rparr>,
      required_col ''path'' SText,
      nullable_col ''hs_code_prefix'' (SString (Some 10)),
      nullable_col ''icon'' (SString (Some 50)),
      (required_col ''is_active'' SBoolean)\<lparr>col_default := DefaultValue (PBool True)\<rparr>,
      (required_col ''product_count'' SInteger)\<lparr>col_default := DefaultValue (PInt 0)\<rparr>,
      (required_col ''created_at'' (SDateTime True))\<lparr>col_server_default := Some (ServerNow)\<rparr>],
    tm_relationships = [
      (''parent'', ''DimCategory'', Some ''children'', False),
      (''children'', ''DimCategory'', Some ''parent'', False),
      (''products'', ''DimProduct'', Some ''category'', False)],
    tm_args = [
      Index ''idx_category_parent'' [''parent_id''] False,
      Index ''idx_category_path'' [''path''] False,
      Index ''idx_category_slug'' [''slug''] False] \<rparr>"

definition DimBrand :: table_model where
  "DimBrand = \<lparr>
    tm_tablename = ''dim_brand'',
    tm_columns = [
      (required_col ''id'' SUuid)\<lparr>col_primary_key := True, col_default := DefaultCall ''uuid.uuid4'', col_server_default := Some (ServerText ''gen_random_uuid()'')\<rparr>,
      required_col ''name'' (SString (Some 200)),
      (required_col ''slug'' (SString (Some 200)))\<lparr>col_unique := True\<rparr>,
      required_col ''name_normalized'' (SString (Some 200)),
      (nullable_col ''country_code'' (SString (Some 2)))\<lparr>col_foreign_key := Some (''dim_country'', ''country_code'', ''SET NULL'')\<rparr>,
      nullable_col ''website_url'' SText,
      nullable_col ''logo_url'' SText,
      (required_col ''is_active'' SBoolean)\<lparr>col_default := DefaultValue (PBool True)\<rparr>,
      (required_col ''created_at'' (SDateTime True))\<lparr>col_server_default := Some (ServerNow)\<rparr>],
    tm_relationships = [
      (''products'', ''DimProduct'', Some ''brand'', False)],
    tm_args = [
      Index ''idx_brand_slug'' [''slug''] False,
      Index ''idx_brand_normalized'' [''name_normalized''] True] \<rparr>"

definition DimProduct :: table_model where
  "DimProduct = \<lparr>
    tm_tablename = ''dim_product'',
    tm_columns = [
      (required_col ''id'' SUuid)\<lparr>col_primary_key := True, col_default := DefaultCall ''uuid.uuid4'', col_server_default := Some (ServerText ''gen_random_uuid()'')\<rparr>,
      required_col ''name'' (SString (Some 500)),
      required_col ''name_normalized'' (SString (Some 500)),
      nullable_col ''product_type'' (SString (Some 200)),
      nullable_col ''product_type_en'' (SString (Some 200)),
      nullable_col ''title_en'' (SString (Some 500)),
      nullable_col ''sku_universal'' (SString (Some 100)),
      nullable_col ''mpn'' (SString (Some 100)),
      nullable_col ''match_group_id'' SUuid,
      nullable_col ''match_method'' (SString (Some 16)),
      nullable_col ''match_confidence'' (SNumeric 3 2),
      (nullable_col ''category_id'' SUuid)\<lparr>col_foreign_key := Some (''dim_category'', ''id'', ''SET NULL'')\<rparr>,
      (nullable_col ''brand_id'' SUuid)\<lparr>col_foreign_key := Some (''dim_brand'', ''id'', ''SET NULL'')\<rparr>,
      (required_col ''attributes'' SJsonb)\<lparr>col_server_default := Some (ServerText ([CHR 0x27] @ ''{}'' @ [CHR 0x27] @ ''::jsonb''))\<rparr>,
      nullable_col ''image_url'' SText,
      (required_col ''image_urls'' (SArray SText))\<lparr>col_server_default := Some (ServerText ''ARRAY[]::text[]'')\<rparr>,
      nullable_col ''hs_code'' (SString (Some 12)),
      nullable_col ''weight_kg'' (SNumeric 10 3),
      (required_col ''is_active'' SBoolean)\<lparr>col_default := DefaultValue (PBool True)\<rparr>,
      (required_col ''created_at'' (SDateTime True))\<lparr>col_server_default := Some (ServerNow)\<rparr>,
      (required_col ''updated_at'' (SDateTime True))\<lparr>col_server_default := Some (ServerNow), col_onupdate_now := True\<rparr>],
    tm_relationships = [
      (''category'', ''DimCategory'', Some ''products'', False),
      (''brand'', ''DimBrand'', Some ''products'', False),
      (''user_products'', ''UserProduct'', Some ''product'', False)],
    tm_args = [
      Index ''idx_product_category'' [''category_id''] False,
      Index ''idx_product_brand'' [''brand_id''] False,
      Index ''idx_product_sku'' [''sku_universal''] False] \<rparr>"

definition DimSeller :: table_model where
  "DimSeller = \<lparr>
    tm_tablename = ''dim_seller'',
    tm_columns = [
      (required_col ''id'' SUuid)\<lparr>col_primary_key := True, col_default := DefaultCall ''uuid.uuid4'', col_server_default := Some (ServerText ''gen_random_uuid()'')\<rparr>,
      required_col ''name'' (SString (Some 300)),
      required_col ''name_normalized'' (SString (Some 300)),
      (required_col ''marketplace_id'' SUuid)\<lparr>col_foreign_key := Some (''dim_marketplace'', ''id'', ''CASCADE''), col_index := True\<rparr>,
      nullable_col ''external_seller_id'' (SString (Some 200)),
      (required_col ''seller_type'' (SString (Some 30)))\<lparr>col_default := DefaultValue (PStr ''third_party'')\<rparr>,
      nullable_col ''store_url'' SText,
      nullable_col ''rating'' (SNumeric 3 2),
      nullable_col ''review_count'' SInteger,
      (required_col ''is_active'' SBoolean)\<lparr>col_default := DefaultValue (PBool True)\<rparr>,
      (required_col ''created_at'' (SDateTime True))\<lparr>col_server_default := Some (ServerNow)\<rparr>,
      (required_col ''updated_at'' (SDateTime True))\<lparr>col_server_default := Some (ServerNow), col_onupdate_now := True\<rparr>],
    tm_relationships = [
      (''marketplace'', ''DimMarketplace'', None, False)],
    tm_args = [
      CheckConstraint ''ck_dim_seller_seller_type'' ''seller_type IN ('first_party','third_party','brand_official','unknown')'',
      Index ''idx_seller_marketplace'' [''marketplace_id''] False,
      Index ''idx_seller_external'' [''marketplace_id'', ''external_seller_id''] False,
      Index ''idx_seller_name'' [''name_normalized''] False] \<rparr>"

section \<open>\<open>models/facts.py\<close>\<close>

definition FactListing :: table_model where
  "FactListing = \<lparr>
    tm_tablename = ''fact_listing'',
    tm_columns = [
      (required_col ''id'' SUuid)\<lparr>col_primary_key := True, col_default := DefaultCall ''uuid.uuid4'', col_server_default := Some (ServerText ''gen_random_uuid()'')\<rparr>,
      (required_col ''product_id'' SUuid)\<lparr>col_foreign_key := Some (''dim_product'', ''id'', ''CASCADE'')\<rparr>,
      (required_col ''marketplace_id'' SUuid)\<lparr>col_foreign_key := Some (''dim_marketplace'', ''id'', ''CASCADE'')\<rparr>,
      (nullable_col ''seller_id'' SUuid)\<lparr>col_foreign_key := Some (''dim_seller'', ''id'', ''SET NULL'')\<rparr>,
      required_col ''external_url'' SText,
      nullable_col ''page_role'' (SString (Some 16)),
      required_col ''url_hash'' (SString (Some 64)),
      nullable_col ''external_id'' (SString (Some 200)),
      nullable_col ''external_name'' (SString (Some 500)),
      nullable_col ''last_price'' (SNumeric 12 2),
      nullable_col ''last_price_eur'' (SNumeric 12 2),
      nullable_col ''last_original_price'' (SNumeric 12 2),
      nullable_col ''last_currency_code'' (SString (Some 3)),
      nullable_col ''last_rating'' (SNumeric 3 2),
      nullable_col ''last_review_count'' SInteger,
      nullable_col ''last_checked_at'' (SDateTime True),
      nullable_col ''sitemap_lastmod'' (SDateTime True),
      (required_col ''scraper_type'' (SString (Some 30)))\<lparr>col_default := DefaultValue (PStr ''web_api'')\<rparr>,
      (required_col ''scraper_config'' SJsonb)\<lparr>col_server_default := Some (ServerText ([CHR 0x27] @ ''{}'' @ [CHR 0x27] @ ''::jsonb''))\<rparr>,
      (required_col ''scrape_interval_minutes'' SInteger)\<lparr>col_default := DefaultValue (PInt 360)\<rparr>,
      nullable_col ''last_price_change_pct'' (SNumeric 8 4),
      (required_col ''consecutive_errors'' SInteger)\<lparr>col_default := DefaultValue (PInt 0)\<rparr>,
      (required_col ''failure_streak'' SInteger)\<lparr>col_default := DefaultValue (PInt 0)\<rparr>,
      (required_col ''is_active'' SBoolean)\<lparr>col_default := DefaultValue (PBool True), col_server_default := Some (ServerText ''true'')\<rparr>,
      (nullable_col ''last_price_changed_at'' (SDateTime True))\<lparr>col_default := DefaultValue PNone\<rparr>,
      nullable_col ''last_error'' SText,
      (required_col ''created_at'' (SDateTime True))\<lparr>col_server_default := Some (ServerNow)\<rparr>,
      (required_col ''updated_at'' (SDateTime True))\<lparr>col_server_default := Some (ServerNow), col_onupdate_now := True\<rparr>],
    tm_relationships = [
      (''prices'', ''FactPrice'', Some ''listing'', False),
      (''reviews'', ''FactReview'', Some ''listing'', False),
      (''promos'', ''FactPromo'', Some ''listing'', False)],
    tm_args = [
      UniqueConstraint ''uq_fact_listing_product_marketplace_seller_url'' [''product_id'', ''marketplace_id'', ''seller_id'', ''external_url''],
      Index ''idx_listing_product'' [''product_id''] False,
      Index ''idx_listing_marketplace'' [''marketplace_id''] False,
      Index ''idx_listing_seller'' [''seller_id''] False,
      Index ''idx_listing_active'' [''is_active''] False,
      Index ''idx_listing_last_checked'' [''last_checked_at''] False,
      Index ''idx_listing_url_hash'' [''url_hash''] True,
      Index ''idx_listing_pool_entry_created'' [''created_at''] False,
      Index ''idx_listing_active_priced'' [''last_price''] False] \<rparr>"

definition FactPrice :: table_model where
  "FactPrice = \<lparr>
    tm_tablename = ''fact_price'',
    tm_columns = [
      (required_col ''id'' SBigInteger)\<lparr>col_primary_key := True, col_identity := True\<rparr>,
      (required_col ''listing_id'' SUuid)\<lparr>col_foreign_key := Some (''fact_listing'', ''id'', ''CASCADE'')\<rparr>,
      (required_col ''date_id'' SInteger)\<lparr>col_primary_key := True, col_foreign_key := Some (''dim_date'', ''date_id'', ''RESTRICT'')\<rparr>,
      required_col ''price'' (SNumeric 12 2),
      nullable_col ''original_price'' (SNumeric 12 2),
      required_col ''currency_code'' (SString (Some 3)),
      nullable_col ''price_eur'' (SNumeric 12 2),
      nullable_col ''discount_pct'' (SNumeric 5 2),
      nullable_col ''price_change_pct'' (SNumeric 8 4),
      nullable_col ''delivery_days'' SInteger,
      nullable_col ''delivery_cost'' (SNumeric 8 2),
      nullable_col ''seller_name'' (SString (Some 300)),
      nullable_col ''promo_label'' (SString (Some 300)),
      (nullable_col ''is_promoted'' SBoolean)\<lparr>col_default := DefaultValue (PBool False)\<rparr>,
      nullable_col ''promo_type'' (SString (Some 30)),
      (required_col ''scraped_at'' (SDateTime True))\<lparr>col_server_default := Some (ServerNow)\<rparr>,
      (nullable_col ''scrape_job_id'' SUuid)\<lparr>col_foreign_key := Some (''scrape_jobs'', ''id'', ''SET NULL'')\<rparr>],
    tm_relationships = [
      (''listing'', ''FactListing'', Some ''prices'', False)],
    tm_args = [
      Index ''idx_fact_price_listing'' [''listing_id''] False,
      Index ''idx_fact_price_date'' [''date_id''] False,
      Index ''idx_fact_price_scraped'' [''scraped_at''] False,
      Index ''idx_fact_price_listing_date_scraped'' [''listing_id'', ''date_id'', ''scraped_at DESC''] False] \<rparr>"

definition FactReview :: table_model where
  "FactReview = \<lparr>
    tm_tablename = ''fact_review'',
    tm_columns = [
      (required_col ''id'' SBigInteger)\<lparr>col_primary_key := True, col_identity := True\<rparr>,
      (required_col ''listing_id'' SUuid)\<lparr>col_foreign_key := Some (''fact_listing'', ''id'', ''CASCADE''), col_index := True\<rparr>,
      (required_col ''date_id'' SInteger)\<lparr>col_foreign_key := Some (''dim_date'', ''date_id'', ''RESTRICT''), col_index := True\<rparr>,
      nullable_col ''rating_avg'' (SNumeric 3 2),
      (required_col ''review_count'' SInteger)\<lparr>col_default := DefaultValue (PInt 0)\<rparr>,
      (required_col ''rating_1_count'' SInteger)\<lparr>col_default := DefaultValue (PInt 0)\<rparr>,
      (required_col ''rating_2_count'' SInteger)\<lparr>col_default := DefaultValue (PInt 0)\<rparr>,
      (required_col ''rating_3_count'' SInteger)\<lparr>col_default := DefaultValue (PInt 0)\<rparr>,
      (required_col ''rating_4_count'' SInteger)\<lparr>col_default := DefaultValue (PInt 0)\<rparr>,
      (required_col ''rating_5_count'' SInteger)\<lparr>col_default := DefaultValue (PInt 0)\<rparr>,
      nullable_col ''sentiment_score'' (SNumeric 4 3),
      nullable_col ''sentiment_summary'' SText,
      (required_col ''new_reviews_24h'' SInteger)\<lparr>col_default := DefaultValue (PInt 0)\<rparr>,
      (required_col ''scraped_at'' (SDateTime True))\<lparr>col_server_default := Some (ServerNow)\<rparr>],
    tm_relationships = [
      (''listing'', ''FactListing'', Some ''reviews'', False)],
    tm_args = [
      Index ''idx_fact_review_listing'' [''listing_id''] False,
      Index ''idx_fact_review_date'' [''date_id''] False,
      Index ''idx_fact_review_listing_date'' [''listing_id'', ''date_id''] False] \<rparr>"

definition FactSearchTrend :: table_model where
  "FactSearchTrend = \<lparr>
    tm_tablename = ''fact_search_trend'',
    tm_columns = [
      (required_col ''id'' SBigInteger)\<lparr>col_primary_key := True, col_identity := True\<rparr>,
      (required_col ''date_id'' SInteger)\<lparr>col_foreign_key := Some (''dim_date'', ''date_id'', ''RESTRICT''), col_index := True\<rparr>,
      (required_col ''country_code'' (SString (Some 2)))\<lparr>col_foreign_key := Some (''dim_country'', ''country_code'', ''RESTRICT''), col_index := True\<rparr>,
      required_col ''keyword'' (SString (Some 300)),
      required_col ''keyword_normalized'' (SString (Some 300)),
      required_col ''trend_index'' SInteger,
      nullable_col ''search_volume'' SInteger,
      required_col ''source'' (SString (Some 30)),
      (nullable_col ''category_id'' SUuid)\<lparr>col_foreign_key := Some (''dim_category'', ''id'', ''SET NULL'')\<rparr>,
      (nullable_col ''related_product_id'' SUuid)\<lparr>col_foreign_key := Some (''dim_product'', ''id'', ''SET NULL'')\<rparr>,
      (required_col ''scraped_at'' (SDateTime True))\<lparr>col_server_default := Some (ServerNow)\<rparr>],
    tm_relationships = [],
    tm_args = [
      CheckConstraint ''ck_fact_search_trend_source'' ''source IN ('google_trends','amazon_trends','custom')'',
      Index ''idx_trend_keyword'' [''keyword_normalized''] False,
      Index ''idx_trend_date'' [''date_id''] False,
      Index ''idx_trend_country'' [''country_code''] False,
      Index ''idx_trend_source'' [''source''] False] \<rparr>"

definition FactPriceWeekly :: table_model where
  "FactPriceWeekly = \<lparr>
    tm_tablename = ''fact_price_weekly'',
    tm_columns = [
      (required_col ''listing_id'' SUuid)\<lparr>col_primary_key := True, col_foreign_key := Some (''fact_listing'', ''id'', ''CASCADE'')\<rparr>,
      (required_col ''week_start'' SDate)\<lparr>col_primary_key := True\<rparr>,
      (required_col ''currency_code'' (SString (Some 3)))\<lparr>col_primary_key := True\<rparr>,
      required_col ''price_open'' (SNumeric 12 2),
      required_col ''price_close'' (SNumeric 12 2),
      required_col ''price_min'' (SNumeric 12 2),
      required_col ''price_max'' (SNumeric 12 2),
      required_col ''price_avg'' (SNumeric 12 2),
      nullable_col ''price_eur_close'' (SNumeric 12 2),
      required_col ''n_changes'' SInteger,
      (required_col ''created_at'' (SDateTime True))\<lparr>col_server_default := Some (ServerNow)\<rparr>],
    tm_relationships = [],
    tm_args = [] \<rparr>"

definition FactCurrencyRate :: table_model where
  "FactCurrencyRate = \<lparr>
    tm_tablename = ''fact_currency_rate'',
    tm_columns = [
      (required_col ''id'' SBigInteger)\<lparr>col_primary_key := True, col_identity := True\<rparr>,
      (required_col ''date_id'' SInteger)\<lparr>col_foreign_key := Some (''dim_date'', ''date_id'', ''RESTRICT''), col_index := True\<rparr>,
      (required_col ''currency_code'' (SString (Some 3)))\<lparr>col_foreign_key := Some (''dim_currency'', ''currency_code'', ''RESTRICT''), col_index := True\<rparr>,
      required_col ''rate_to_eur'' (SNumeric 18 8),
      required_col ''rate_to_usd'' (SNumeric 18 8),
      required_col ''source'' (SString (Some 30)),
      (required_col ''fetched_at'' (SDateTime True))\<lparr>col_server_default := Some (ServerNow)\<rparr>],
    tm_relationships = [],
    tm_args = [
      CheckConstraint ''ck_fact_currency_rate_source'' ''source IN ('ecb','cbr','nbu','nbk','nbb','cbu','nbg','cba','cbar','openexchangerates','custom')'',
      UniqueConstraint ''uq_fact_currency_rate_date_ccy_source'' [''date_id'', ''currency_code'', ''source''],
      Index ''idx_rate_date'' [''date_id''] False,
      Index ''idx_rate_currency'' [''currency_code''] False,
      Index ''idx_rate_date_currency'' [''date_id'', ''currency_code''] False] \<rparr>"

definition FactTariff :: table_model where
  "FactTariff = \<lparr>
    tm_tablename = ''fact_tariff'',
    tm_columns = [
      (required_col ''id'' SUuid)\<lparr>col_primary_key := True, col_default := DefaultCall ''uuid.uuid4'', col_server_default := Some (ServerText ''gen_random_uuid()'')\<rparr>,
      required_col ''hs_code'' (SString (Some 12)),
      (required_col ''origin_country'' (SString (Some 2)))\<lparr>col_foreign_key := Some (''dim_country'', ''country_code'', ''RESTRICT''), col_index := True\<rparr>,
      (required_col ''destination_country'' (SString (Some 2)))\<lparr>col_foreign_key := Some (''dim_country'', ''country_code'', ''RESTRICT''), col_index := True\<rparr>,
      required_col ''duty_pct'' (SNumeric 6 3),
      nullable_col ''vat_pct'' (SNumeric 5 2),
      nullable_col ''excise_pct'' (SNumeric 5 2),
      nullable_col ''trade_agreement'' (SString (Some 100)),
      required_col ''effective_from'' SDate,
      nullable_col ''effective_to'' SDate,
      nullable_col ''source'' (SString (Some 100)),
      nullable_col ''source_url'' SText,
      (required_col ''created_at'' (SDateTime True))\<lparr>col_server_default := Some (ServerNow)\<rparr>,
      (required_col ''updated_at'' (SDateTime True))\<lparr>col_server_default := Some (ServerNow), col_onupdate_now := True\<rparr>],
    tm_relationships = [],
    tm_args = [
      Index ''idx_tariff_hs'' [''hs_code''] False,
      Index ''idx_tariff_route'' [''origin_country'', ''destination_country''] False,
      Index ''idx_tariff_effective'' [''effective_from'', ''effective_to''] False] \<rparr>"

definition FactPromo :: table_model where
  "FactPromo = \<lparr>
    tm_tablename = ''fact_promo'',
    tm_columns = [
      (required_col ''id'' SUuid)\<lparr>col_primary_key := True, col_default := DefaultCall ''uuid.uuid4'', col_server_default := Some (ServerText ''gen_random_uuid()'')\<rparr>,
      (nullable_col ''listing_id'' SUuid)\<lparr>col_foreign_key := Some (''fact_listing'', ''id'', ''SET NULL''), col_index := True\<rparr>,
      (required_col ''marketplace_id'' SUuid)\<lparr>col_foreign_key := Some (''dim_marketplace'', ''id'', ''CASCADE''), col_index := True\<rparr>,
      (required_col ''start_date_id'' SInteger)\<lparr>col_foreign_key := Some (''dim_date'', ''date_id'', ''RESTRICT'')\<rparr>,
      (nullable_col ''end_date_id'' SInteger)\<lparr>col_foreign_key := Some (''dim_date'', ''date_id'', ''SET NULL'')\<rparr>,
      required_col ''promo_type'' (SString (Some 30)),
      nullable_col ''promo_name'' (SString (Some 300)),
      nullable_col ''discount_pct'' (SNumeric 5 2),
      nullable_col ''discount_amount'' (SNumeric 12 2),
      nullable_col ''currency_code'' (SString (Some 3)),
      (required_col ''is_marketplace_wide'' SBoolean)\<lparr>col_default := DefaultValue (PBool False)\<rparr>,
      (nullable_col ''category_id'' SUuid)\<lparr>col_foreign_key := Some (''dim_category'', ''id'', ''SET NULL'')\<rparr>,
      (required_col ''detected_at'' (SDateTime True))\<lparr>col_server_default := Some (ServerNow)\<rparr>,
      (required_col ''created_at'' (SDateTime True))\<lparr>col_server_default := Some (ServerNow)\<rparr>],
    tm_relationships = [
      (''listing'', ''FactListing'', Some ''promos'', False)],
    tm_args = [
      CheckConstraint ''ck_fact_promo_promo_type'' ''promo_type IN ('flash_sale','seasonal','clearance','bundle','coupon','loyalty','marketplace_campaign','black_friday','singles_day','new_year','other')'',
      Index ''idx_promo_marketplace'' [''marketplace_id''] False,
      Index ''idx_promo_listing'' [''listing_id''] False,
      Index ''idx_promo_dates'' [''start_date_id'', ''end_date_id''] False,
      Index ''idx_promo_type'' [''promo_type''] False] \<rparr>"

definition FactCryptoPrice :: table_model where
  "FactCryptoPrice = \<lparr>
    tm_tablename = ''fact_crypto_price'',
    tm_columns = [
      (required_col ''id'' SBigInteger)\<lparr>col_primary_key := True, col_identity := True\<rparr>,
      (required_col ''date_id'' SInteger)\<lparr>col_foreign_key := Some (''dim_date'', ''date_id'', ''RESTRICT'')\<rparr>,
      required_col ''symbol'' (SString (Some 20)),
      nullable_col ''name'' (SString (Some 100)),
      required_col ''price_usd'' (SNumeric 18 8),
      nullable_col ''price_eur'' (SNumeric 18 8),
      nullable_col ''market_cap_usd'' (SNumeric 20 2),
      nullable_col ''volume_24h_usd'' (SNumeric 20 2),
      nullable_col ''change_1h_pct'' (SNumeric 8 4),
      nullable_col ''change_24h_pct'' (SNumeric 8 4),
      nullable_col ''change_7d_pct'' (SNumeric 8 4),
      nullable_col ''high_24h_usd'' (SNumeric 18 8),
      nullable_col ''low_24h_usd'' (SNumeric 18 8),
      nullable_col ''circulating_supply'' (SNumeric 20 2),
      nullable_col ''total_supply'' (SNumeric 20 2),
      required_col ''source'' (SString (Some 30)),
      nullable_col ''rank'' SSmallInteger,
      (required_col ''fetched_at'' (SDateTime True))\<lparr>col_server_default := Some (ServerNow)\<rparr>],
    tm_relationships = [],
    tm_args = [
      CheckConstraint ''ck_crypto_source'' ''source IN ('binance','coingecko','coinmarketcap','custom')'',
      UniqueConstraint ''uq_crypto_date_symbol_source'' [''date_id'', ''symbol'', ''source''],
      Index ''idx_crypto_date'' [''date_id''] False,
      Index ''idx_crypto_symbol'' [''symbol''] False,
      Index ''idx_crypto_date_symbol'' [''date_id'', ''symbol''] False] \<rparr>"

definition FactCommodityPrice :: table_model where
  "FactCommodityPrice = \<lparr>
    tm_tablename = ''fact_commodity_price'',
    tm_columns = [
      (required_col ''id'' SBigInteger)\<lparr>col_primary_key := True, col_identity := True\<rparr>,
      (required_col ''date_id'' SInteger)\<lparr>col_foreign_key := Some (''dim_date'', ''date_id'', ''RESTRICT'')\<rparr>,
      required_col ''symbol'' (SString (Some 20)),
      required_col ''name'' (SString (Some 100)),
      required_col ''commodity_type'' (SString (Some 20)),
      required_col ''price_usd'' (SNumeric 12 4),
      nullable_col ''price_eur'' (SNumeric 12 4),
      nullable_col ''change_24h_pct'' (SNumeric 8 4),
      nullable_col ''change_7d_pct'' (SNumeric 8 4),
      required_col ''unit'' (SString (Some 20)),
      required_col ''source'' (SString (Some 30)),
      (required_col ''fetched_at'' (SDateTime True))\<lparr>col_server_default := Some (ServerNow)\<rparr>],
    tm_relationships = [],
    tm_args = [
      CheckConstraint ''ck_commodity_type'' ''commodity_type IN ('metal','energy','agricultural')'',
      CheckConstraint ''ck_commodity_source'' ''source IN ('goldapi','alpha_vantage','eia','custom')'',
      UniqueConstraint ''uq_commodity_date_symbol_source'' [''date_id'', ''symbol'', ''source''],
      Index ''idx_commodity_date'' [''date_id''] False,
      Index ''idx_commodity_symbol'' [''symbol''] False,
      Index ''idx_commodity_date_symbol'' [''date_id'', ''symbol''] False] \<rparr>"

definition FactFuelPrice :: table_model where
  "FactFuelPrice = \<lparr>
    tm_tablename = ''fact_fuel_price'',
    tm_columns = [
      (required_col ''id'' SBigInteger)\<lparr>col_primary_key := True, col_identity := True\<rparr>,
      (required_col ''date_id'' SInteger)\<lparr>col_foreign_key := Some (''dim_date'', ''date_id'', ''RESTRICT'')\<rparr>,
      (required_col ''country_code'' (SString (Some 2)))\<lparr>col_foreign_key := Some (''dim_country'', ''country_code'', ''RESTRICT'')\<rparr>,
      required_col ''fuel_type'' (SString (Some 20)),
      required_col ''price_local'' (SNumeric 8 4),
      (required_col ''currency_code'' (SString (Some 3)))\<lparr>col_foreign_key := Some (''dim_currency'', ''currency_code'', ''RESTRICT'')\<rparr>,
      nullable_col ''price_eur'' (SNumeric 8 4),
      nullable_col ''change_week_pct'' (SNumeric 8 4),
      nullable_col ''change_month_pct'' (SNumeric 8 4),
      required_col ''source'' (SString (Some 50)),
      (required_col ''fetched_at'' (SDateTime True))\<lparr>col_server_default := Some (ServerNow)\<rparr>],
    tm_relationships = [],
    tm_args = [
      CheckConstraint ''ck_fuel_type'' ''fuel_type IN ('gasoline_92','gasoline_95','gasoline_98','gasoline_100','diesel','diesel_premium','lpg','cng','electricity')'',
      UniqueConstraint ''uq_fuel_date_country_type_source'' [''date_id'', ''country_code'', ''fuel_type'', ''source''],
      Index ''idx_fuel_date'' [''date_id''] False,
      Index ''idx_fuel_country'' [''country_code''] False,
      Index ''idx_fuel_date_country_type'' [''date_id'', ''country_code'', ''fuel_type''] False] \<rparr>"

section \<open>\<open>models/app_tables.py\<close>\<close>

definition Alert :: table_model where
  "Alert = \<lparr>
    tm_tablename = ''alerts'',
    tm_columns = [
      (required_col ''id'' SUuid)\<lparr>col_primary_key := True, col_default := DefaultCall ''uuid.uuid4'', col_server_default := Some (ServerText ''gen_random_uuid()'')\<rparr>,
      (required_col ''user_id'' SUuid)\<lparr>col_foreign_key := Some (''users'', ''id'', ''CASCADE''), col_index := True\<rparr>,
      (nullable_col ''product_id'' SUuid)\<lparr>col_foreign_key := Some (''dim_product'', ''id'', ''SET NULL''), col_index := True\<rparr>,
      (nullable_col ''listing_id'' SUuid)\<lparr>col_foreign_key := Some (''fact_listing'', ''id'', ''SET NULL''), col_index := True\<rparr>,
      (nullable_col ''marketplace_id'' SUuid)\<lparr>col_foreign_key := Some (''dim_marketplace'', ''id'', ''SET NULL''), col_index := True\<rparr>,
      (nullable_col ''category_id'' SUuid)\<lparr>col_foreign_key := Some (''dim_category'', ''id'', ''SET NULL''), col_index := True\<rparr>,
      (nullable_col ''country_code'' (SString (Some 2)))\<lparr>col_foreign_key := Some (''dim_country'', ''country_code'', ''SET NULL''), col_index := True\<rparr>,
      (required_col ''alert_class'' (SString (Some 20)))\<lparr>col_server_default := Some (ServerText ([CHR 0x27] @ ''analytic'' @ [CHR 0x27]))\<rparr>,
      required_col ''alert_type'' (SString (Some 30)),
      nullable_col ''threshold_pct'' (SNumeric 5 2),
      nullable_col ''threshold_value'' (SNumeric 12 2),
      (required_col ''channel'' (SString (Some 20)))\<lparr>col_default := DefaultValue (PStr ''email'')\<rparr>,
      nullable_col ''channels'' SJsonb,
      nullable_col ''webhook_url'' SText,
      (required_col ''cooldown_minutes'' SInteger)\<lparr>col_default := DefaultValue (PInt 60)\<rparr>,
      nullable_col ''last_triggered_at'' (SDateTime True),
      (required_col ''trigger_count'' SInteger)\<lparr>col_default := DefaultValue (PInt 0)\<rparr>,
      (required_col ''is_active'' SBoolean)\<lparr>col_default := DefaultValue (PBool True)\<rparr>,
      (required_col ''created_at'' (SDateTime True))\<lparr>col_server_default := Some (ServerNow)\<rparr>,
      (required_col ''updated_at'' (SDateTime True))\<lparr>col_server_default := Some (ServerNow), col_onupdate_now := True\<rparr>],
    tm_relationships = [
      (''user'', ''User'', Some ''alerts'', False),
      (''events'', ''AlertEvent'', Some ''alert'', True)],
    tm_args = [
      CheckConstraint ''ck_alerts_alert_type'' ''alert_type IN ('price_rise','availability','price_drop','price_increase','price_threshold','new_competitor','competitor_promo','review_drop','review_spike','trend_spike','trend_drop','currency_shift')'',
      CheckConstraint ''ck_alerts_channel'' ''channel IN ('email','telegram','push','webhook','all','in_app')'',
      CheckConstraint ''ck_alerts_channels'' ''channels IS NULL OR (jsonb_typeof(channels) = 'array' AND jsonb_array_length(channels) >= 1 AND channels <@ '[\"email\",\"telegram\",\"push\",\"webhook\",\"all\",\"in_app\"]'::jsonb)'',
      Index ''idx_alerts_user'' [''user_id''] False,
      Index ''idx_alerts_active'' [''is_active''] False,
      Index ''idx_alerts_type'' [''alert_type''] False] \<rparr>"

definition AlertEvent :: table_model where
  "AlertEvent = \<lparr>
    tm_tablename = ''alert_events'',
    tm_columns = [
      (required_col ''id'' SBigInteger)\<lparr>col_primary_key := True\<rparr>,
      (required_col ''alert_id'' SUuid)\<lparr>col_foreign_key := Some (''alerts'', ''id'', ''CASCADE''), col_index := True\<rparr>,
      (required_col ''alert_class'' (SString (Some 20)))\<lparr>col_server_default := Some (ServerText ([CHR 0x27] @ ''analytic'' @ [CHR 0x27]))\<rparr>,
      (nullable_col ''listing_id'' SUuid)\<lparr>col_foreign_key := Some (''fact_listing'', ''id'', ''SET NULL''), col_index := True\<rparr>,
      nullable_col ''fact_price_id'' SBigInteger,
      nullable_col ''old_value'' (SNumeric 12 2),
      nullable_col ''new_value'' (SNumeric 12 2),
      nullable_col ''change_pct'' (SNumeric 8 4),
      required_col ''message'' SText,
      (required_col ''severity'' (SString (Some 10)))\<lparr>col_default := DefaultValue (PStr ''medium'')\<rparr>,
      nullable_col ''ai_explanation'' SText,
      nullable_col ''ai_recommendation'' SText,
      nullable_col ''ai_recommended_price'' (SNumeric 12 2),
      nullable_col ''ai_confidence'' (SNumeric 3 2),
      nullable_col ''sent_via'' (SString (Some 20)),
      nullable_col ''delivered_at'' (SDateTime True),
      nullable_col ''read_at'' (SDateTime True),
      (required_col ''triggered_at'' (SDateTime True))\<lparr>col_server_default := Some (ServerNow)\<rparr>],
    tm_relationships = [
      (''alert'', ''Alert'', Some ''events'', False)],
    tm_args = [
      CheckConstraint ''ck_alert_events_severity'' ''severity IN ('low','medium','high','critical')'',
      Index ''idx_alert_events_alert'' [''alert_id''] False,
      Index ''idx_alert_events_triggered'' [''triggered_at''] False,
      Index ''idx_alert_events_severity'' [''severity''] False] \<rparr>"

definition Digest :: table_model where
  "Digest = \<lparr>
    tm_tablename = ''digests'',
    tm_columns = [
      (required_col ''id'' SUuid)\<lparr>col_primary_key := True, col_default := DefaultCall ''uuid.uuid4'', col_server_default := Some (ServerText ''gen_random_uuid()'')\<rparr>,
      (required_col ''user_id'' SUuid)\<lparr>col_foreign_key := Some (''users'', ''id'', ''CASCADE''), col_index := True\<rparr>,
      required_col ''period_type'' (SString (Some 10)),
      (required_col ''digest_type'' (SString (Some 30)))\<lparr>col_default := DefaultValue (PStr ''market_overview'')\<rparr>,
      required_col ''period_start'' (SDateTime True),
      required_col ''period_end'' (SDateTime True),
      nullable_col ''title'' (SString (Some 300)),
      nullable_col ''content_md'' SText,
      nullable_col ''summary_json'' SJsonb,
      nullable_col ''product_ids'' (SArray SUuid),
      nullable_col ''marketplace_ids'' (SArray SUuid),
      nullable_col ''country_codes'' (SArray (SString (Some 2))),
      nullable_col ''sent_at'' (SDateTime True),
      nullable_col ''sent_via'' (SString (Some 20)),
      nullable_col ''tokens_used'' SInteger,
      nullable_col ''model_used'' (SString (Some 50)),
      nullable_col ''generation_ms'' SInteger,
      (required_col ''created_at'' (SDateTime True))\<lparr>col_server_default := Some (ServerNow)\<rparr>],
    tm_relationships = [
      (''user'', ''User'', Some ''digests'', False)],
    tm_args = [
      CheckConstraint ''ck_digests_period_type'' ''period_type IN ('daily','weekly','monthly','custom')'',
      CheckConstraint ''ck_digests_digest_type'' ''digest_type IN ('market_overview','price_changes','competitor_analysis','trend_report','anomaly_digest','custom')'',
      Index ''idx_digests_user'' [''user_id''] False,
      Index ''idx_digests_period'' [''period_start'', ''period_end''] False,
      Index ''idx_digests_type'' [''digest_type''] False] \<rparr>"

definition AIChatSession :: table_model where
  "AIChatSession = \<lparr>
    tm_tablename = ''ai_chat_sessions'',
    tm_columns = [
      (required_col ''id'' SUuid)\<lparr>col_primary_key := True, col_default := DefaultCall ''uuid.uuid4'', col_server_default := Some (ServerText ''gen_random_uuid()'')\<rparr>,
      (required_col ''user_id'' SUuid)\<lparr>col_foreign_key := Some (''users'', ''id'', ''CASCADE''), col_index := True\<rparr>,
      nullable_col ''title'' (SString (Some 300)),
      (required_col ''context_type'' (SString (Some 30)))\<lparr>col_default := DefaultValue (PStr ''general'')\<rparr>,
      nullable_col ''context_id'' SUuid,
      (required_col ''message_count'' SInteger)\<lparr>col_default := DefaultValue (PInt 0)\<rparr>,
      (required_col ''total_tokens'' SInteger)\<lparr>col_default := DefaultValue (PInt 0)\<rparr>,
      (required_col ''is_archived'' SBoolean)\<lparr>col_default := DefaultValue (PBool False)\<rparr>,
      nullable_col ''last_message_at'' (SDateTime True),
      (required_col ''created_at'' (SDateTime True))\<lparr>col_server_default := Some (ServerNow)\<rparr>,
      (required_col ''updated_at'' (SDateTime True))\<lparr>col_server_default := Some (ServerNow), col_onupdate_now := True\<rparr>],
    tm_relationships = [
      (''user'', ''User'', Some ''chat_sessions'', False),
      (''messages'', ''AIChatMessage'', Some ''session'', True)],
    tm_args = [
      CheckConstraint ''ck_ai_chat_sessions_context_type'' ''context_type IN ('general','product','marketplace','category','competitor','digest','alert')'',
      Index ''idx_chat_sessions_user'' [''user_id''] False,
      Index ''idx_chat_sessions_context'' [''context_type'', ''context_id''] False] \<rparr>"

definition AIChatMessage :: table_model where
  "AIChatMessage = \<lparr>
    tm_tablename = ''ai_chat_messages'',
    tm_columns = [
      (required_col ''id'' SBigInteger)\<lparr>col_primary_key := True\<rparr>,
      (required_col ''session_id'' SUuid)\<lparr>col_foreign_key := Some (''ai_chat_sessions'', ''id'', ''CASCADE''), col_index := True\<rparr>,
      required_col ''role'' (SString (Some 10)),
      required_col ''content'' SText,
      nullable_col ''tokens_used'' SInteger,
      nullable_col ''model_used'' (SString (Some 50)),
      nullable_col ''duration_ms'' SInteger,
      nullable_col ''tool_calls'' SJsonb,
      nullable_col ''user_rating'' SSmallInteger,
      (required_col ''created_at'' (SDateTime True))\<lparr>col_server_default := Some (ServerNow)\<rparr>],
    tm_relationships = [
      (''session'', ''AIChatSession'', Some ''messages'', False)],
    tm_args = [
      CheckConstraint ''ck_ai_chat_messages_role'' ''role IN ('user','assistant','system','tool')'',
      CheckConstraint ''ck_ai_chat_messages_user_rating'' ''user_rating IS NULL OR (user_rating BETWEEN 1 AND 5)'',
      Index ''idx_chat_messages_session'' [''session_id''] False,
      Index ''idx_chat_messages_created'' [''created_at''] False] \<rparr>"

definition ScrapeJob :: table_model where
  "ScrapeJob = \<lparr>
    tm_tablename = ''scrape_jobs'',
    tm_columns = [
      (required_col ''id'' SUuid)\<lparr>col_primary_key := True, col_default := DefaultCall ''uuid.uuid4'', col_server_default := Some (ServerText ''gen_random_uuid()'')\<rparr>,
      required_col ''job_type'' (SString (Some 30)),
      (nullable_col ''marketplace_id'' SUuid)\<lparr>col_foreign_key := Some (''dim_marketplace'', ''id'', ''SET NULL''), col_index := True\<rparr>,
      (nullable_col ''parent_job_id'' SUuid)\<lparr>col_foreign_key := Some (''scrape_jobs'', ''id'', ''SET NULL''), col_default := DefaultValue PNone\<rparr>,
      (required_col ''status'' (SString (Some 20)))\<lparr>col_default := DefaultValue (PStr ''pending'')\<rparr>,
      nullable_col ''started_at'' (SDateTime True),
      nullable_col ''completed_at'' (SDateTime True),
      nullable_col ''duration_ms'' SInteger,
      (required_col ''total_listings'' SInteger)\<lparr>col_default := DefaultValue (PInt 0)\<rparr>,
      (required_col ''successful'' SInteger)\<lparr>col_default := DefaultValue (PInt 0)\<rparr>,
      (required_col ''failed'' SInteger)\<lparr>col_default := DefaultValue (PInt 0)\<rparr>,
      (required_col ''skipped'' SInteger)\<lparr>col_default := DefaultValue (PInt 0)\<rparr>,
      (required_col ''config'' SJsonb)\<lparr>col_server_default := Some (ServerText ([CHR 0x27] @ ''{}'' @ [CHR 0x27] @ ''::jsonb''))\<rparr>,
      (nullable_col ''triggered_by'' SUuid)\<lparr>col_foreign_key := Some (''users'', ''id'', ''SET NULL'')\<rparr>,
      (required_col ''created_at'' (SDateTime True))\<lparr>col_server_default := Some (ServerNow)\<rparr>],
    tm_relationships = [
      (''triggered_by_user'', ''User'', Some ''scrape_jobs_triggered'', False),
      (''logs'', ''ScrapeLog'', Some ''job'', True)],
    tm_args = [
      CheckConstraint ''ck_scrape_jobs_job_type'' ''job_type IN ('scheduled','manual','retry','backfill','discovery','full_pipeline_test','scrape')'',
      CheckConstraint ''ck_scrape_jobs_status'' ''status IN ('pending','running','completed','failed','cancelled','partial')'',
      Index ''idx_scrape_jobs_status'' [''status''] False,
      Index ''idx_scrape_jobs_marketplace'' [''marketplace_id''] False,
      Index ''idx_scrape_jobs_created'' [''created_at''] False,
      Index ''idx_scrape_jobs_parent_status'' [''parent_job_id'', ''status''] False] \<rparr>"

definition ScrapeLog :: table_model where
  "ScrapeLog = \<lparr>
    tm_tablename = ''scrape_logs'',
    tm_columns = [
      (required_col ''id'' SBigInteger)\<lparr>col_primary_key := True\<rparr>,
      (nullable_col ''scrape_job_id'' SUuid)\<lparr>col_foreign_key := Some (''scrape_jobs'', ''id'', ''SET NULL''), col_index := True\<rparr>,
      (required_col ''listing_id'' SUuid)\<lparr>col_foreign_key := Some (''fact_listing'', ''id'', ''CASCADE''), col_index := True\<rparr>,
      (required_col ''marketplace_id'' SUuid)\<lparr>col_foreign_key := Some (''dim_marketplace'', ''id'', ''CASCADE''), col_index := True\<rparr>,
      required_col ''status'' (SString (Some 50)),
      required_col ''url'' SText,
      nullable_col ''price_found'' (SNumeric 12 2),
      nullable_col ''duration_ms'' SInteger,
      nullable_col ''response_code'' SInteger,
      nullable_col ''proxy_used'' (SString (Some 100)),
      nullable_col ''scraper_type'' (SString (Some 30)),
      nullable_col ''error_message'' SText,
      nullable_col ''error_category'' (SString (Some 30)),
      (required_col ''retry_count'' SInteger)\<lparr>col_default := DefaultValue (PInt 0)\<rparr>,
      (required_col ''created_at'' (SDateTime True))\<lparr>col_server_default := Some (ServerNow)\<rparr>],
    tm_relationships = [
      (''job'', ''ScrapeJob'', Some ''logs'', False)],
    tm_args = [
      CheckConstraint ''ck_scrape_logs_status'' ''status IN ('success','no_change','error','timeout','blocked','captcha','not_found','price_not_found','parse_error','currency_rejected','not_a_product','missing_critical_data','technical_error','fetch_failed','parse_failed','quota_exceeded','persist_failed')'',
      Index ''idx_scrape_logs_job'' [''scrape_job_id''] False,
      Index ''idx_scrape_logs_listing'' [''listing_id''] False,
      Index ''idx_scrape_logs_status'' [''status''] False,
      Index ''idx_scrape_logs_created'' [''created_at''] False] \<rparr>"

definition ApiLog :: table_model where
  "ApiLog = \<lparr>
    tm_tablename = ''api_logs'',
    tm_columns = [
      (required_col ''id'' SBigInteger)\<lparr>col_primary_key := True\<rparr>,
      (required_col ''service'' (SString (Some 50)))\<lparr>col_index := True\<rparr>,
      nullable_col ''endpoint'' (SString (Some 500)),
      (required_col ''method'' (SString (Some 10)))\<lparr>col_default := DefaultValue (PStr ''GET'')\<rparr>,
      required_col ''status'' (SString (Some 20)),
      nullable_col ''status_code'' SInteger,
      nullable_col ''duration_ms'' SInteger,
      nullable_col ''tokens_used'' SInteger,
      nullable_col ''request_size_bytes'' SInteger,
      nullable_col ''response_size_bytes'' SInteger,
      nullable_col ''error_message'' SText,
      (nullable_col ''user_id'' SUuid)\<lparr>col_foreign_key := Some (''users'', ''id'', ''SET NULL''), col_index := True\<rparr>,
      (required_col ''created_at'' (SDateTime True))\<lparr>col_server_default := Some (ServerNow)\<rparr>],
    tm_relationships = [],
    tm_args = [
      CheckConstraint ''ck_api_logs_status'' ''status IN ('success','error','timeout','rate_limited')'',
      Index ''idx_api_logs_service'' [''service''] False,
      Index ''idx_api_logs_status'' [''status''] False,
      Index ''idx_api_logs_created'' [''created_at''] False,
      Index ''idx_api_logs_user'' [''user_id''] False] \<rparr>"

definition ServiceAlert :: table_model where
  "ServiceAlert = \<lparr>
    tm_tablename = ''service_alerts'',
    tm_columns = [
      (required_col ''id'' SUuid)\<lparr>col_primary_key := True, col_default := DefaultCall ''uuid.uuid4'', col_server_default := Some (ServerText ''gen_random_uuid()'')\<rparr>,
      (required_col ''alert_class'' (SString (Some 20)))\<lparr>col_server_default := Some (ServerText ([CHR 0x27] @ ''service'' @ [CHR 0x27]))\<rparr>,
      required_col ''module'' (SString (Some 64)),
      required_col ''submodule'' (SString (Some 64)),
      required_col ''severity'' (SString (Some 10)),
      required_col ''anomaly_type'' (SString (Some 64)),
      required_col ''message'' SText,
      nullable_col ''context'' SJsonb,
      (required_col ''triggered_at'' (SDateTime True))\<lparr>col_server_default := Some (ServerNow)\<rparr>,
      nullable_col ''resolved_at'' (SDateTime True)],
    tm_relationships = [],
    tm_args = [
      CheckConstraint ''ck_service_alerts_severity'' ''severity IN ('info','warning','error','critical')'',
      CheckConstraint ''ck_service_alerts_alert_class'' (''alert_class = '' @ [CHR 0x27] @ ''service'' @ [CHR 0x27]),
      Index ''idx_service_alerts_module_submodule_triggered'' [''module'', ''submodule'', ''triggered_at''] False] \<rparr>"

definition DataExport :: table_model where
  "DataExport = \<lparr>
    tm_tablename = ''data_exports'',
    tm_columns = [
      (required_col ''id'' SUuid)\<lparr>col_primary_key := True, col_default := DefaultCall ''uuid.uuid4'', col_server_default := Some (ServerText ''gen_random_uuid()'')\<rparr>,
      (required_col ''user_id'' SUuid)\<lparr>col_foreign_key := Some (''users'', ''id'', ''CASCADE''), col_index := True\<rparr>,
      required_col ''export_type'' (SString (Some 30)),
      required_col ''tables_included'' (SArray (SString (Some 50))),
      nullable_col ''filters'' SJsonb,
      nullable_col ''row_count'' SInteger,
      nullable_col ''file_size_bytes'' SBigInteger,
      nullable_col ''file_url'' SText,
      nullable_col ''expires_at'' (SDateTime True),
      (required_col ''status'' (SString (Some 20)))\<lparr>col_default := DefaultValue (PStr ''pending'')\<rparr>,
      (required_col ''created_at'' (SDateTime True))\<lparr>col_server_default := Some (ServerNow)\<rparr>,
      nullable_col ''completed_at'' (SDateTime True)],
    tm_relationships = [
      (''user'', ''User'', Some ''data_exports'', False)],
    tm_args = [
      CheckConstraint ''ck_data_exports_export_type'' ''export_type IN ('csv','xlsx','json','parquet','pdf_report','powerbi_dataset','api_bulk')'',
      CheckConstraint ''ck_data_exports_status'' ''status IN ('pending','generating','ready','downloaded','expired','error')'',
      Index ''idx_exports_user'' [''user_id''] False,
      Index ''idx_exports_status'' [''status''] False] \<rparr>"

section \<open>\<open>models/reject_data.py\<close>\<close>

definition RejectData :: table_model where
  "RejectData = \<lparr>
    tm_tablename = ''reject_data'',
    tm_columns = [
      (required_col ''id'' SBigInteger)\<lparr>col_primary_key := True, col_identity := True\<rparr>,
      (required_col ''created_at'' (SDateTime True))\<lparr>col_server_default := Some (ServerNow)\<rparr>,
      required_col ''source'' (SString (Some 50)),
      required_col ''table_target'' (SString (Some 50)),
      (required_col ''operation'' (SString (Some 10)))\<lparr>col_server_default := Some (ServerText ([CHR 0x27] @ ''insert'' @ [CHR 0x27]))\<rparr>,
      nullable_col ''marketplace_id'' SUuid,
      nullable_col ''listing_id'' SUuid,
      required_col ''reject_reason'' (SString (Some 100)),
      nullable_col ''failed_rules'' SJsonb,
      required_col ''raw_payload'' SJsonb,
      (required_col ''signature_present'' SBoolean)\<lparr>col_default := DefaultValue (PBool False)\<rparr>,
      required_col ''rejected_by'' (SString (Some 20))],
    tm_relationships = [],
    tm_args = [
      Index ''idx_reject_data_created_at'' [''created_at''] False,
      Index ''idx_reject_data_source'' [''source''] False,
      Index ''idx_reject_data_reject_reason'' [''reject_reason''] False] \<rparr>"

section \<open>The metadata\<close>

definition all_models :: "(string \<times> table_model) list" where
  \<comment> \<open>the mapped classes by name\<close>
  "all_models = [
    (''User'', User),
    (''UserSubscription'', UserSubscription),
    (''UserProduct'', UserProduct),
    (''DimDate'', DimDate),
    (''DimCurrency'', DimCurrency),
    (''DimCountry'', DimCountry),
    (''DimMarketplace'', DimMarketplace),
    (''DimCategory'', DimCategory),
    (''DimBrand'', DimBrand),
    (''DimProduct'', DimProduct),
    (''DimSeller'', DimSeller),
    (''FactListing'', FactListing),
    (''FactPrice'', FactPrice),
    (''FactReview'', FactReview),
    (''FactSearchTrend'', FactSearchTrend),
    (''FactPriceWeekly'', FactPriceWeekly),
    (''FactCurrencyRate'', FactCurrencyRate),
    (''FactTariff'', FactTariff),
    (''FactPromo'', FactPromo),
    (''FactCryptoPrice'', FactCryptoPrice),
    (''FactCommodityPrice'', FactCommodityPrice),
    (''FactFuelPrice'', FactFuelPrice),
    (''Alert'', Alert),
    (''AlertEvent'', AlertEvent),
    (''Digest'', Digest),
    (''AIChatSession'', AIChatSession),
    (''AIChatMessage'', AIChatMessage),
    (''ScrapeJob'', ScrapeJob),
    (''ScrapeLog'', ScrapeLog),
    (''ApiLog'', ApiLog),
    (''ServiceAlert'', ServiceAlert),
    (''DataExport'', DataExport),
    (''RejectData'', RejectData)]"

end
