(* ===== verification/Contracts.thy ===== *)
theory Contracts
  imports Schema
begin

text \<open>
  \<open>data_firewall/contracts.py\<close>: the per-column contracts derived from the ORM classes, the
  CHECK texts they are parsed from, and the locator keys of every signed table.
\<close>

section \<open>Type names\<close>

text \<open>
  SQLAlchemy's class tree: \<open>Text\<close> is a \<open>String\<close>, \<open>SmallInteger\<close> and \<open>BigInteger\<close> are
  \<open>Integer\<close>s. The tests run in the order of the code.
\<close>

definition is_Numeric :: "sql_type \<Rightarrow> bool" where
  "is_Numeric t = (case t of SNumeric _ _ \<Rightarrow> True | _ \<Rightarrow> False)"

definition is_String :: "sql_type \<Rightarrow> bool" where
  "is_String t = (case t of SString _ \<Rightarrow> True | SText \<Rightarrow> True | _ \<Rightarrow> False)"

definition is_Integer :: "sql_type \<Rightarrow> bool" where
  "is_Integer t = (t \<in> {SInteger, SSmallInteger, SBigInteger})"

definition sql_type_name :: "sql_type \<Rightarrow> string" where
  "sql_type_name t =
     (if is_Numeric t then ''numeric''
      else if is_String t then ''string''
      else if t = SText then ''text''
      else if is_Integer t then ''integer''
      else if t = SSmallInteger then ''smallint''
      else case t of
        SBoolean \<Rightarrow> ''boolean''
      | SDateTime _ \<Rightarrow> ''datetime''
      | SDate \<Rightarrow> ''date''
      | SUuid \<Rightarrow> ''uuid''
      | SJsonb \<Rightarrow> ''jsonb''
      | SInet \<Rightarrow> ''INET''
      | _ \<Rightarrow> ''ARRAY'')"

definition type_length :: "sql_type \<Rightarrow> nat option" where
  \<comment> \<open>\<open>col_type.length\<close>\<close>
  "type_length t = (case t of SString n \<Rightarrow> n | _ \<Rightarrow> None)"

section \<open>CHECK texts\<close>

definition word_char :: "char \<Rightarrow> bool" where
  \<comment> \<open>\<open>\w\<close>: \<open>str.isalnum\<close> or an underscore, on code points below 256\<close>
  "word_char c = (let n = (of_char c :: int) in
     (48 \<le> n \<and> n \<le> 57) \<or> (65 \<le> n \<and> n \<le> 90) \<or> n = 95 \<or> (97 \<le> n \<and> n \<le> 122)
     \<or> n \<in> {170, 178, 179, 181, 185, 186, 188, 189, 190}
     \<or> (192 \<le> n \<and> n \<noteq> 215 \<and> n \<noteq> 247))"

definition in_check_column :: "string \<Rightarrow> string option" where
  \<comment> \<open>the column group of \<open>_IN_CHECK_COLUMN_PATTERN.match\<close>. Blanks, word characters and the
     parenthesis are disjoint classes, so the greedy scan is the only way to match\<close>
  "in_check_column s =
     (let s1 = dropWhile py_isspace s;
          column = takeWhile word_char s1;
          s2 = dropWhile word_char s1;
          s3 = dropWhile py_isspace s2;
          s4 = dropWhile py_isspace (drop 2 s3)
      in if column \<noteq> '''' \<and> s3 \<noteq> s2 \<and> py_upper (take 2 s3) = ''IN'' \<and> startswith s4 ''(''
         then Some column else None)"

definition split_once :: "string \<Rightarrow> string \<Rightarrow> (string \<times> string) option" where
  \<comment> \<open>\<open>s.split(sep, 1)\<close> when the separator occurs\<close>
  "split_once sep s = (case find_sub sep s of
     None \<Rightarrow> None
   | Some i \<Rightarrow> Some (take i s, drop (i + length sep) s))"

definition rsplit_paren_head :: "string \<Rightarrow> string" where
  \<comment> \<open>\<open>s.rsplit(")", 1)[0]\<close>\<close>
  "rsplit_paren_head s =
     (if CHR '')'' \<in> set s then rev (tl (dropWhile (\<lambda>c. c \<noteq> CHR '')'') (rev s))) else s)"

definition check_list_values :: "string \<Rightarrow> string list" where
  "check_list_values inner =
     map (\<lambda>part. strip_by (\<lambda>c. c = CHR 0x22) (strip_by (\<lambda>c. c = CHR 0x27) (py_strip part)))
         (filter (\<lambda>part. py_strip part \<noteq> '''') (split_char (CHR '','') inner))"

fun check_values_for_table :: "table_arg list \<Rightarrow> string \<Rightarrow> string list option res" where
  "check_values_for_table [] column_name = Inr None"
| "check_values_for_table (CheckConstraint _ sqltext # args) column_name =
     (if \<not> contains_sub (py_upper sqltext) '' IN ('' then check_values_for_table args column_name
      else case in_check_column sqltext of
        None \<Rightarrow> check_values_for_table args column_name
      | Some column \<Rightarrow>
          if py_lower column \<noteq> py_lower column_name then check_values_for_table args column_name
          else (case split_once '' IN ('' sqltext of
            None \<Rightarrow> Inl IndexError
          | Some (_, rest) \<Rightarrow>
              let values = check_list_values (rsplit_paren_head rest)
              in Inr (if values = [] then None else Some values)))"
| "check_values_for_table (_ # args) column_name = check_values_for_table args column_name"

section \<open>Contracts\<close>

record ColumnContract =
  cc_type :: string
  cc_nullable :: bool
  cc_max_len :: "nat option"
  cc_precision :: "nat option"
  cc_scale :: "nat option"
  cc_check_values :: "string list option"

type_synonym table_contract = "(string \<times> ColumnContract) list"

definition contract_from_column :: "table_arg list \<Rightarrow> column_model \<Rightarrow> ColumnContract res" where
  "contract_from_column args column =
     bindE (check_values_for_table args (col_key column)) (\<lambda>checks.
       Inr \<lparr> cc_type = sql_type_name (col_type column),
             cc_nullable = col_nullable column,
             cc_max_len = (if is_String (col_type column) then type_length (col_type column) else None),
             cc_precision = (case col_type column of SNumeric p _ \<Rightarrow> Some p | _ \<Rightarrow> None),
             cc_scale = (case col_type column of SNumeric _ s \<Rightarrow> Some s | _ \<Rightarrow> None),
             cc_check_values = checks \<rparr>)"

definition build_table_contract :: "table_model \<Rightarrow> table_contract res" where
  "build_table_contract model =
     mapE (\<lambda>column. bindE (contract_from_column (tm_args model) column)
                      (\<lambda>c. Inr (col_key column, c)))
          (tm_columns model)"

definition contract_models :: "(string \<times> table_model) list" where
  "contract_models = [
     (''dim_date'', DimDate),
     (''dim_product'', DimProduct),
     (''dim_marketplace'', DimMarketplace),
     (''dim_brand'', DimBrand),
     (''dim_category'', DimCategory),
     (''alerts'', Alert),
     (''alert_events'', AlertEvent),
     (''fact_listing'', FactListing),
     (''fact_price'', FactPrice),
     (''fact_review'', FactReview),
     (''fact_promo'', FactPromo),
     (''fact_search_trend'', FactSearchTrend),
     (''fact_currency_rate'', FactCurrencyRate),
     (''fact_tariff'', FactTariff),
     (''fact_crypto_price'', FactCryptoPrice),
     (''fact_commodity_price'', FactCommodityPrice),
     (''fact_fuel_price'', FactFuelPrice),
     (''scrape_jobs'', ScrapeJob),
     (''scrape_logs'', ScrapeLog),
     (''api_logs'', ApiLog),
     (''service_alerts'', ServiceAlert),
     (''reject_data'', RejectData),
     (''users'', User),
     (''ai_chat_sessions'', AIChatSession),
     (''ai_chat_messages'', AIChatMessage)]"

text \<open>
  \<open>FACT_TABLE_CONTRACTS.get(table)\<close>. The dict is built when the module is imported, from all
  the classes at once; a lookup here builds the one contract it returns.
\<close>

definition FACT_TABLE_CONTRACTS :: "string \<Rightarrow> table_contract option" where
  "FACT_TABLE_CONTRACTS table = (case map_of contract_models table of
     None \<Rightarrow> None
   | Some model \<Rightarrow> (case build_table_contract model of Inl _ \<Rightarrow> None | Inr c \<Rightarrow> Some c))"

definition TABLE_LOCATORS :: "(string \<times> string list) list" where
  "TABLE_LOCATORS = [
     (''dim_date'', [''date_id'']),
     (''fact_price'', [''listing_id'', ''date_id'']),
     (''fact_listing'', [''url_hash'']),
     (''dim_product'', [''id'']),
     (''dim_marketplace'', [''id'']),
     (''dim_brand'', [''id'']),
     (''dim_category'', [''id'']),
     (''alerts'', [''id'']),
     (''alert_events'', []),
     (''scrape_jobs'', [''id'']),
     (''fact_currency_rate'', [''date_id'', ''currency_code'', ''source'']),
     (''fact_crypto_price'', [''date_id'', ''symbol'', ''source'']),
     (''fact_commodity_price'', [''date_id'', ''symbol'', ''source'']),
     (''scrape_logs'', []),
     (''api_logs'', []),
     (''service_alerts'', [''id'']),
     (''reject_data'', []),
     (''users'', [''id'']),
     (''ai_chat_sessions'', [''id'']),
     (''ai_chat_messages'', [''id''])]"

definition extract_locator :: "string \<Rightarrow> pydict \<Rightarrow> pydict res" where
  "extract_locator table flds = (case map_of TABLE_LOCATORS table of
     None \<Rightarrow> Inl ValueError
   | Some locator_keys \<Rightarrow>
       mapE (\<lambda>key. if has_key flds key then Inr (key, dict_get flds key) else Inl ValueError)
            locator_keys)"

end
