(* ===== verification/RejectStore.thy ===== *)
theory RejectStore
  imports Signing Contracts
begin

text \<open>
  The diagnostic store of rejected payloads (\<open>data_firewall/reject_store.py\<close>) and of service
  alerts (\<open>service_alert_store.py\<close>), with the environment and the state that every door of the
  firewall shares: what the doors read (secret, thresholds, whether a database accepts a row)
  and what they leave behind (committed and pending diagnostics, the reject burst window).
\<close>

section \<open>Environment and state\<close>

record reject_row =
  rr_source :: string
  rr_table_target :: string
  rr_operation :: string
  rr_marketplace_id :: "string option"
  rr_listing_id :: "string option"
  rr_reject_reason :: string
  rr_failed_rules :: "string list option"
  rr_raw_payload :: pydict
  rr_signature_present :: bool
  rr_rejected_by :: string

record service_alert_row =
  sa_alert_class :: string
  sa_module :: string
  sa_submodule :: string
  sa_severity :: string
  sa_anomaly_type :: string
  sa_message :: string
  sa_context :: "pydict option"

text \<open>
  The databases are not part of the program: whether an INSERT goes through is a function of
  the row.
\<close>

record gate_env = signing_env +
  reject_db_accepts :: "reject_row \<Rightarrow> bool"
  alert_db_accepts :: "service_alert_row \<Rightarrow> bool"
  data_firewall_reject_spike_threshold :: nat
  sentry_is_initialized :: bool

text \<open>What the program sends to the gate functions of the database: SQL text and bound parameters.\<close>

record gate_statement =
  gt_sql :: string
  gt_params :: pydict

text \<open>
  The caller's session. After a statement fails inside its transaction the database refuses
  every further statement; after a flush fails the session itself demands a rollback.
\<close>

datatype session_status = SessionLive | TransactionAborted | RollbackPending

text \<open>
  Times are milliseconds of the process's monotonic clock. What the session has written is
  durable only once it is committed.
\<close>

record gate_state =
  gs_now :: int
  gs_recent_reject_timestamps :: "int list"
  gs_spike_messages :: "(nat \<times> string \<times> string \<times> string) list"
  gs_reject_data :: "reject_row list"
  gs_service_alerts :: "service_alert_row list"
  gs_committed_writes :: "gate_statement list"
  gs_session :: session_status
  gs_session_rejects :: "reject_row list"
  gs_session_writes :: "gate_statement list"

definition rollback_session :: "'s gate_state_scheme \<Rightarrow> 's gate_state_scheme" where
  "rollback_session s =
     s\<lparr>gs_session := SessionLive, gs_session_rejects := [], gs_session_writes := []\<rparr>"

text \<open>
  A commit after a failed statement ends the transaction without making anything durable; the
  session refuses one while it demands a rollback.
\<close>

definition commit_session :: "('s gate_state_scheme, unit) act" where
  "commit_session s = (case gs_session s of
     SessionLive \<Rightarrow>
       (Inr (), s\<lparr>gs_reject_data := gs_reject_data s @ gs_session_rejects s,
                   gs_committed_writes := gs_committed_writes s @ gs_session_writes s,
                   gs_session_rejects := [], gs_session_writes := []\<rparr>)
   | TransactionAborted \<Rightarrow> (Inr (), rollback_session s)
   | RollbackPending \<Rightarrow> (Inl PendingRollbackError, s))"

text \<open>
  A new session starts empty, and closing it gives back what it has not committed. The caller's
  own session, if there is one, is not touched.
\<close>

definition in_new_session :: "('s gate_state_scheme, 'a) act \<Rightarrow> ('s gate_state_scheme, 'a) act" where
  "in_new_session body s =
     (case body (rollback_session s) of (r, s') \<Rightarrow>
        (r, s'\<lparr>gs_session := gs_session s, gs_session_rejects := gs_session_rejects s,
               gs_session_writes := gs_session_writes s\<rparr>))"

definition fail_flush :: "'s gate_state_scheme \<Rightarrow> 's gate_state_scheme" where
  \<comment> \<open>a failed flush rolls the session's transaction back\<close>
  "fail_flush s =
     s\<lparr>gs_session := RollbackPending, gs_session_rejects := [], gs_session_writes := []\<rparr>"

section \<open>Burst detection\<close>

definition prune_old_rejects :: "int \<Rightarrow> int list \<Rightarrow> int list" where
  "prune_old_rejects now ts = filter (\<lambda>t. now - 60000 \<le> t) ts"

definition record_reject_spike_signal ::
    "'e gate_env_scheme \<Rightarrow> string \<Rightarrow> string \<Rightarrow> string \<Rightarrow> 's gate_state_scheme \<Rightarrow> 's gate_state_scheme"
  where
  "record_reject_spike_signal env source reject_reason rejected_by s =
     (let ts = prune_old_rejects (gs_now s) (gs_recent_reject_timestamps s) @ [gs_now s];
          s' = s\<lparr>gs_recent_reject_timestamps := ts\<rparr>
      in if data_firewall_reject_spike_threshold env \<le> length ts \<and> sentry_is_initialized env
         then s'\<lparr>gs_spike_messages := gs_spike_messages s' @ [(length ts, source, reject_reason, rejected_by)]\<rparr>
         else s')"

section \<open>Rows\<close>

fun json_safe :: "pyval \<Rightarrow> pyval" where
  "json_safe (PDict d) = PDict (map (\<lambda>(k, v). (k, json_safe v)) d)"
| "json_safe (PList xs) = PList (map json_safe xs)"
| "json_safe (PUuid u) = PStr (py_str (PUuid u))"
| "json_safe (PDatetime t) = PStr (py_str (PDatetime t))"
| "json_safe (PDate t) = PStr (py_str (PDate t))"
| "json_safe (PDecimal d) = PStr (py_str (PDecimal d))"
| "json_safe v = v"

definition json_safe_dict :: "pydict \<Rightarrow> pydict" where
  "json_safe_dict d = map (\<lambda>(k, v). (k, json_safe v)) d"

definition reject_data_row :: "reject_row \<Rightarrow> reject_row" where
  \<comment> \<open>the row built from the keyword arguments\<close>
  "reject_data_row args = args\<lparr>rr_raw_payload := json_safe_dict (rr_raw_payload args)\<rparr>"

definition signal_reject ::
    "'e gate_env_scheme \<Rightarrow> reject_row \<Rightarrow> 's gate_state_scheme \<Rightarrow> 's gate_state_scheme" where
  "signal_reject env args s =
     record_reject_spike_signal env (rr_source args) (rr_reject_reason args) (rr_rejected_by args) s"

text \<open>
  On the caller's session the row is only flushed: it becomes durable with the caller's commit.
  A flush that fails is logged, and the session's transaction is gone.
\<close>

definition write_reject_data ::
    "'e gate_env_scheme \<Rightarrow> reject_row \<Rightarrow> 's gate_state_scheme \<Rightarrow> 's gate_state_scheme" where
  "write_reject_data env args s =
     (let s1 = signal_reject env args s; row = reject_data_row args
      in if gs_session s1 = SessionLive \<and> reject_db_accepts env row
         then s1\<lparr>gs_session_rejects := gs_session_rejects s1 @ [row]\<rparr>
         else fail_flush s1)"

definition write_reject_data_isolated ::
    "'e gate_env_scheme \<Rightarrow> reject_row \<Rightarrow> 's gate_state_scheme \<Rightarrow> 's gate_state_scheme" where
  "write_reject_data_isolated env args s =
     (let s1 = signal_reject env args s; row = reject_data_row args
      in if reject_db_accepts env row
         then s1\<lparr>gs_reject_data := gs_reject_data s1 @ [row]\<rparr>
         else s1)"

definition write_service_alert_isolated ::
    "'e gate_env_scheme \<Rightarrow> service_alert_row \<Rightarrow> 's gate_state_scheme \<Rightarrow> 's gate_state_scheme" where
  "write_service_alert_isolated env row s =
     (if alert_db_accepts env row
      then s\<lparr>gs_service_alerts := gs_service_alerts s @ [row]\<rparr>
      else s)"

definition write_all_isolated ::
    "'e gate_env_scheme \<Rightarrow> reject_row list \<Rightarrow> 's gate_state_scheme \<Rightarrow> 's gate_state_scheme" where
  \<comment> \<open>one isolated write after the other\<close>
  "write_all_isolated env rows s = foldl (\<lambda>t r. write_reject_data_isolated env r t) s rows"

section \<open>Lemmas\<close>

named_theorems gate_frame "fields of the gate state that an operation leaves alone"

lemma spike_frame [simp, gate_frame]:
  "gs_reject_data (record_reject_spike_signal env a b c s) = gs_reject_data s"
  "gs_session_rejects (record_reject_spike_signal env a b c s) = gs_session_rejects s"
  "gs_session (record_reject_spike_signal env a b c s) = gs_session s"
  "gs_session_writes (record_reject_spike_signal env a b c s) = gs_session_writes s"
  "gs_committed_writes (record_reject_spike_signal env a b c s) = gs_committed_writes s"
  "gs_service_alerts (record_reject_spike_signal env a b c s) = gs_service_alerts s"
  "gs_now (record_reject_spike_signal env a b c s) = gs_now s"
  by (simp_all add: record_reject_spike_signal_def Let_def)

lemma isolated_frame [simp, gate_frame]:
  "gs_session_rejects (write_reject_data_isolated env r s) = gs_session_rejects s"
  "gs_session (write_reject_data_isolated env r s) = gs_session s"
  "gs_session_writes (write_reject_data_isolated env r s) = gs_session_writes s"
  "gs_committed_writes (write_reject_data_isolated env r s) = gs_committed_writes s"
  "gs_service_alerts (write_reject_data_isolated env r s) = gs_service_alerts s"
  "gs_now (write_reject_data_isolated env r s) = gs_now s"
  by (simp_all add: write_reject_data_isolated_def signal_reject_def Let_def)

lemma isolated_reject_data:
  "gs_reject_data (write_reject_data_isolated env r s) =
     gs_reject_data s @ (if reject_db_accepts env (reject_data_row r) then [reject_data_row r] else [])"
  by (simp add: write_reject_data_isolated_def signal_reject_def Let_def)

lemma write_all_simps [simp]:
  "write_all_isolated env [] s = s"
  "write_all_isolated env (r # rs) s = write_all_isolated env rs (write_reject_data_isolated env r s)"
  by (simp_all add: write_all_isolated_def)

lemma write_all_frame [simp, gate_frame]:
  "gs_session_rejects (write_all_isolated env rs s) = gs_session_rejects s"
  "gs_session (write_all_isolated env rs s) = gs_session s"
  "gs_session_writes (write_all_isolated env rs s) = gs_session_writes s"
  "gs_committed_writes (write_all_isolated env rs s) = gs_committed_writes s"
  "gs_service_alerts (write_all_isolated env rs s) = gs_service_alerts s"
  by (induction rs arbitrary: s) simp_all

lemma write_all_reject_data:
  "gs_reject_data (write_all_isolated env rs s) =
     gs_reject_data s @ filter (reject_db_accepts env) (map reject_data_row rs)"
  by (induction rs arbitrary: s) (simp_all add: isolated_reject_data)

fun json_plain :: "pyval \<Rightarrow> bool" where
  \<comment> \<open>a value the JSONB serialiser accepts\<close>
  "json_plain (PDict d) = list_all (\<lambda>(_, v). json_plain v) d"
| "json_plain (PList xs) = list_all json_plain xs"
| "json_plain (PUuid _) = False"
| "json_plain (PDatetime _) = False"
| "json_plain (PDate _) = False"
| "json_plain (PDecimal _) = False"
| "json_plain _ = True"

lemma json_plain_safe: "json_plain (json_safe v)"
  by (induction v rule: json_safe.induct) (auto simp: list_all_iff)

lemma json_plain_dumps: "json_plain v \<Longrightarrow> \<exists>t. json_dumps v = Inr t"
proof (induction v rule: json_dumps.induct)
  case (6 xs)
  then have "\<forall>x \<in> set xs. \<exists>t. json_dumps x = Inr t" by (auto simp: list_all_iff)
  then obtain f where "\<And>x. x \<in> set xs \<Longrightarrow> json_dumps x = Inr (f x)" by metis
  then have "mapE json_dumps xs = Inr (map f xs)" by (rule mapE_total)
  then show ?case by simp
next
  case (7 d)
  then have "\<forall>kv \<in> set d. \<exists>t. json_dumps (snd kv) = Inr t"
    by (fastforce simp: list_all_iff)
  then obtain f where f: "\<And>kv. kv \<in> set d \<Longrightarrow> json_dumps (snd kv) = Inr (f kv)" by metis
  have "\<exists>ys. mapE (\<lambda>(k, v). bindE (json_dumps v) (\<lambda>t. Inr (k, json_string k @ '':'' @ t))) d = Inr ys"
    using mapE_total [of d "\<lambda>(k, v). bindE (json_dumps v) (\<lambda>t. Inr (k, json_string k @ '':'' @ t))"
        "\<lambda>kv. (fst kv, json_string (fst kv) @ '':'' @ f kv)"] f
    by (auto simp: split_beta)
  then show ?case by auto
qed simp_all

text \<open>The burst window never holds a timestamp older than a minute before its latest one.\<close>

lemma prune_recent: "t \<in> set (prune_old_rejects now ts) \<Longrightarrow> now - 60000 \<le> t"
  by (simp add: prune_old_rejects_def)

section \<open>Property\<close>

definition reject_at :: "'e gate_env_scheme \<Rightarrow> int \<Rightarrow> 's gate_state_scheme \<Rightarrow> 's gate_state_scheme" where
  "reject_at env t s = record_reject_spike_signal env ''source'' ''reason'' ''by'' (s\<lparr>gs_now := t\<rparr>)"

lemma reject_at_window:
  "gs_recent_reject_timestamps (reject_at env t s) = prune_old_rejects t (gs_recent_reject_timestamps s) @ [t]"
  by (simp add: reject_at_def record_reject_spike_signal_def Let_def)

lemma reject_at_messages:
  "length (gs_spike_messages (reject_at env t s)) = length (gs_spike_messages s)
     + (if data_firewall_reject_spike_threshold env \<le> length (gs_recent_reject_timestamps (reject_at env t s))
           \<and> sentry_is_initialized env then 1 else 0)"
  by (simp add: reject_at_def record_reject_spike_signal_def Let_def)

lemma window_exact:
  "sorted (ts @ [t]) \<Longrightarrow> gs_recent_reject_timestamps s = [] \<Longrightarrow>
   gs_recent_reject_timestamps (fold (reject_at env) (ts @ [t]) s) = filter (\<lambda>u. t - 60000 \<le> u) (ts @ [t])"
proof (induction ts arbitrary: t rule: rev_induct)
  case Nil
  then show ?case by (simp add: reject_at_window prune_old_rejects_def)
next
  case (snoc u ts)
  from snoc.prems have ord: "sorted (ts @ [u])" "u \<le> t" "\<forall>v \<in> set ts. v \<le> u"
    by (auto simp: sorted_append)
  have "gs_recent_reject_timestamps (fold (reject_at env) ((ts @ [u]) @ [t]) s)
     = prune_old_rejects t (filter (\<lambda>v. u - 60000 \<le> v) (ts @ [u])) @ [t]"
    using snoc.IH [OF ord(1) snoc.prems(2)] by (simp add: reject_at_window)
  also have "prune_old_rejects t (filter (\<lambda>v. u - 60000 \<le> v) (ts @ [u])) = filter (\<lambda>v. t - 60000 \<le> v) (ts @ [u])"
    using ord(2) unfolding prune_old_rejects_def filter_filter by (intro filter_cong) auto
  finally show ?case by simp
qed

text \<open>
  The burst window counts exactly the rejections of the last minute: after any sequence
  of rejections at non-decreasing times, starting from an empty window, it holds the times
  within sixty seconds of the latest one, and a burst message is sent for a rejection exactly
  when that count reaches the threshold and the reporter is initialised.
\<close>

theorem spike_window_exact:
  assumes "sorted (ts @ [t])" "gs_recent_reject_timestamps s = []"
  shows "gs_recent_reject_timestamps (reject_at env t (fold (reject_at env) ts s))
      = filter (\<lambda>u. t - 60000 \<le> u) (ts @ [t])
    \<and> (length (gs_spike_messages (reject_at env t (fold (reject_at env) ts s)))
          = length (gs_spike_messages (fold (reject_at env) ts s)) + 1
       \<longleftrightarrow> sentry_is_initialized env
           \<and> data_firewall_reject_spike_threshold env \<le> length (filter (\<lambda>u. t - 60000 \<le> u) (ts @ [t])))"
proof -
  have "gs_recent_reject_timestamps (reject_at env t (fold (reject_at env) ts s))
      = filter (\<lambda>u. t - 60000 \<le> u) (ts @ [t])"
    using window_exact [OF assms, of env] by simp
  then show ?thesis by (auto simp: reject_at_messages)
qed

definition quiet_state :: gate_state where
  "quiet_state = \<lparr> gs_now = 0, gs_recent_reject_timestamps = [], gs_spike_messages = [],
     gs_reject_data = [], gs_service_alerts = [], gs_committed_writes = [],
     gs_session = SessionLive, gs_session_rejects = [], gs_session_writes = [] \<rparr>"

definition watchful_env :: gate_env where
  "watchful_env = \<lparr> hmac_sha256_hex = (\<lambda>_ _. ''mac''), data_firewall_signing_secret = None,
     reject_db_accepts = (\<lambda>_. True), alert_db_accepts = (\<lambda>_. True),
     data_firewall_reject_spike_threshold = 2, sentry_is_initialized = True \<rparr>"

theorem spike_window_exact_witness:
  "gs_recent_reject_timestamps (reject_at watchful_env 70000 (fold (reject_at watchful_env) [0, 20000] quiet_state))
     = [20000, 70000]"
  using spike_window_exact [of "[0, 20000]" 70000 quiet_state watchful_env] by (simp add: quiet_state_def)

end
