(* ===== verification/Rules.thy ===== *)
theory Rules
  imports RejectStore
begin

text \<open>
  \<open>data_firewall/rules.py\<close>: the currency whitelist of a marketplace, memoised per resolver,
  and the five-check gate on an extracted product. What the resolver reads from the database
  (\<open>dim_marketplace\<close>, \<open>dim_country\<close>) is a parameter.
\<close>

section \<open>Currency whitelist\<close>

record marketplace_row =
  mp_country_code :: "string option"
  mp_currency_code :: pyval
  mp_scraper_config :: pyval

record country_row =
  co_currency_code :: pyval
  co_main_currency_code :: pyval

record currency_db =
  get_marketplace :: "string \<Rightarrow> marketplace_row option"
  get_country :: "string \<Rightarrow> country_row option"

type_synonym currency_cache = "(string \<times> string set) list"

definition currency_code_of :: "pyval \<Rightarrow> string option" where
  \<comment> \<open>\<open>isinstance(v, str) and len(v.strip()) == 3\<close>, then \<open>v.strip().upper()\<close>\<close>
  "currency_code_of v = (case v of
     PStr s \<Rightarrow> if length (py_strip s) = 3 then Some (py_upper (py_strip s)) else None
   | _ \<Rightarrow> None)"

definition or_else :: "pyval \<Rightarrow> pyval \<Rightarrow> pyval" where
  \<comment> \<open>\<open>a or b\<close>\<close>
  "or_else a b = (if py_truth a then a else b)"

definition allowed_currencies :: "currency_db \<Rightarrow> marketplace_row \<Rightarrow> string set" where
  "allowed_currencies db marketplace =
     (let country_code = py_upper (py_strip (case mp_country_code marketplace of None \<Rightarrow> '''' | Some c \<Rightarrow> c));
          from_country = (if country_code = '''' then None else
            (case get_country db country_code of
               None \<Rightarrow> None
             | Some country \<Rightarrow>
                 currency_code_of (or_else (co_currency_code country) (co_main_currency_code country))));
          extra = (case or_else (mp_scraper_config marketplace) (PDict []) of
               PDict config \<Rightarrow> dict_get config ''allowed_currencies''
             | _ \<Rightarrow> PNone);
          extra_codes = (case extra of PList codes \<Rightarrow> map currency_code_of codes | _ \<Rightarrow> [])
      in set_option from_country \<union> {''EUR'', ''USD''}
         \<union> set_option (currency_code_of (mp_currency_code marketplace))
         \<union> \<Union> (set (map set_option extra_codes)))"

definition whitelist_for ::
    "currency_db \<Rightarrow> string \<Rightarrow> currency_cache \<Rightarrow> string set \<times> currency_cache" where
  "whitelist_for db marketplace_id cache = (case map_of cache marketplace_id of
     Some cached \<Rightarrow> (cached, cache)
   | None \<Rightarrow>
       (let result = (case get_marketplace db marketplace_id of
              None \<Rightarrow> {}
            | Some marketplace \<Rightarrow> allowed_currencies db marketplace)
        in (result, dict_set cache marketplace_id result)))"

definition currency_matches ::
    "currency_db \<Rightarrow> string \<Rightarrow> string option \<Rightarrow> currency_cache \<Rightarrow> bool \<times> currency_cache" where
  "currency_matches db marketplace_id currency cache =
     (case whitelist_for db marketplace_id cache of (whitelist, cache') \<Rightarrow>
        (if whitelist = {} then True
         else case currency of
           None \<Rightarrow> False
         | Some c \<Rightarrow> c \<noteq> '''' \<and> py_upper (py_strip c) \<in> whitelist, cache'))"

section \<open>The five checks\<close>

record extracted =
  ex_product_name :: "string option"
  ex_title :: "string option"
  ex_price :: pyval
  ex_currency :: "string option"
  ex_currency_raw :: "string option"
  ex_page_role :: "string option"

definition no_extract :: extracted where
  \<comment> \<open>\<open>getattr(None, name, None)\<close>\<close>
  "no_extract = \<lparr> ex_product_name = None, ex_title = None, ex_price = PNone, ex_currency = None,
                  ex_currency_raw = None, ex_page_role = None \<rparr>"

definition MAX_CURRENCY_RAW_LEN :: nat where
  "MAX_CURRENCY_RAW_LEN = 50"

record GateOutcome =
  go_product_name_ok :: bool
  go_price_ok :: bool
  go_currency_ok :: bool
  go_currency_raw_sane_ok :: bool
  go_currency_country_match_ok :: bool
  go_skip_reason :: "string option"
  go_forced_log_status :: "string option"

definition go_passed :: "GateOutcome \<Rightarrow> bool" where
  "go_passed g = (go_product_name_ok g \<and> go_price_ok g \<and> go_currency_ok g
                  \<and> go_currency_raw_sane_ok g \<and> go_currency_country_match_ok g)"

definition text_given :: "string option \<Rightarrow> bool" where
  \<comment> \<open>truth of an optional string\<close>
  "text_given s = (s \<noteq> None \<and> s \<noteq> Some '''')"

definition price_positive :: "pyval \<Rightarrow> bool res" where
  \<comment> \<open>\<open>price is not None and price > 0\<close>\<close>
  "price_positive v = (case v of
     PNone \<Rightarrow> Inr False
   | PBool _ \<Rightarrow> Inr (num_gt_zero v)
   | PInt _ \<Rightarrow> Inr (num_gt_zero v)
   | PFloat _ \<Rightarrow> Inr (num_gt_zero v)
   | PDecimal _ \<Rightarrow> Inr (num_gt_zero v)
   | _ \<Rightarrow> Inl TypeError)"

definition skip_and_status ::
    "bool \<Rightarrow> bool \<Rightarrow> bool \<Rightarrow> bool \<Rightarrow> bool \<Rightarrow> string option \<times> string option" where
  \<comment> \<open>the chain of conditions that names the first failed check\<close>
  "skip_and_status name_ok price_ok currency_ok raw_ok match_ok =
     (if name_ok \<and> price_ok \<and> currency_ok \<and> raw_ok \<and> match_ok then (None, None)
      else if \<not> name_ok \<or> \<not> currency_ok then (Some ''missing_name_or_currency'', None)
      else if \<not> price_ok then (Some ''price_not_positive'', None)
      else if \<not> raw_ok then (Some ''currency_raw_too_long'', Some ''currency_rejected'')
      else if \<not> match_ok then (Some ''currency_country_mismatch'', Some ''currency_rejected'')
      else (None, None))"

definition evaluate_ecommerce_rules ::
    "currency_db \<Rightarrow> extracted option \<Rightarrow> string \<Rightarrow> currency_cache \<Rightarrow> GateOutcome res \<times> currency_cache"
  where
  "evaluate_ecommerce_rules db data marketplace_id cache =
     (let d = (case data of None \<Rightarrow> no_extract | Some d \<Rightarrow> d);
          name_ok = (text_given (ex_product_name d) \<or> text_given (ex_title d));
          raw_text = (case ex_currency_raw d of None \<Rightarrow> '''' | Some r \<Rightarrow> r);
          currency_ok = (case ex_currency d of None \<Rightarrow> False | Some c \<Rightarrow> py_strip c \<noteq> '''')
      in case price_positive (ex_price d) of
           Inl e \<Rightarrow> (Inl e, cache)
         | Inr price_ok \<Rightarrow>
             (let raw_ok = (length raw_text < MAX_CURRENCY_RAW_LEN) in
              case currency_matches db marketplace_id (ex_currency d) cache of
                (match_ok, cache') \<Rightarrow>
                  (let (skip, status) = skip_and_status name_ok price_ok currency_ok raw_ok match_ok in
                   (Inr \<lparr> go_product_name_ok = name_ok, go_price_ok = price_ok,
                          go_currency_ok = currency_ok, go_currency_raw_sane_ok = raw_ok,
                          go_currency_country_match_ok = match_ok, go_skip_reason = skip,
                          go_forced_log_status = status \<rparr>, cache'))))"

section \<open>Lemmas\<close>

text \<open>The whitelist as a function of the database alone, and caches that agree with it.\<close>

definition whitelist_spec :: "currency_db \<Rightarrow> string \<Rightarrow> string set" where
  "whitelist_spec db mp = (case get_marketplace db mp of
     None \<Rightarrow> {} | Some marketplace \<Rightarrow> allowed_currencies db marketplace)"

definition cache_coherent :: "currency_db \<Rightarrow> currency_cache \<Rightarrow> bool" where
  "cache_coherent db cache = list_all (\<lambda>(mp, w). w = whitelist_spec db mp) cache"

lemma cache_coherent_lookup:
  "cache_coherent db cache \<Longrightarrow> map_of cache mp = Some w \<Longrightarrow> w = whitelist_spec db mp"
  by (auto simp: cache_coherent_def list_all_iff dest!: map_of_SomeD)

lemma whitelist_for_spec:
  assumes "cache_coherent db cache"
  shows "fst (whitelist_for db mp cache) = whitelist_spec db mp
    \<and> cache_coherent db (snd (whitelist_for db mp cache))"
proof (cases "map_of cache mp")
  case None
  then have "\<not> has_key cache mp" by (simp add: not_has_key_None)
  with None assms show ?thesis
    by (simp add: whitelist_for_def whitelist_spec_def cache_coherent_def dict_set_def Let_def)
next
  case (Some w)
  then show ?thesis using assms cache_coherent_lookup by (simp add: whitelist_for_def)
qed

definition currency_allowed :: "currency_db \<Rightarrow> string \<Rightarrow> string option \<Rightarrow> bool" where
  "currency_allowed db mp currency =
     (get_marketplace db mp = None
      \<or> (\<exists>c. currency = Some c \<and> c \<noteq> '''' \<and> py_upper (py_strip c) \<in> whitelist_spec db mp))"

lemma whitelist_spec_empty: "whitelist_spec db mp = {} \<longleftrightarrow> get_marketplace db mp = None"
  by (auto simp: whitelist_spec_def allowed_currencies_def Let_def split: option.splits)

lemma currency_matches_spec:
  assumes "cache_coherent db cache"
  shows "fst (currency_matches db mp currency cache) = currency_allowed db mp currency
    \<and> cache_coherent db (snd (currency_matches db mp currency cache))"
proof -
  obtain w c where w: "whitelist_for db mp cache = (w, c)" by fastforce
  with whitelist_for_spec [OF assms, of mp]
  have spec: "w = whitelist_spec db mp" "cache_coherent db c" by simp_all
  have "fst (currency_matches db mp currency cache) =
     (w = {} \<or> (\<exists>x. currency = Some x \<and> x \<noteq> [] \<and> py_upper (py_strip x) \<in> w))"
    by (cases currency) (simp_all add: currency_matches_def w)
  then have "fst (currency_matches db mp currency cache) = currency_allowed db mp currency"
    by (simp only: spec(1) whitelist_spec_empty currency_allowed_def)
  with spec(2) show ?thesis by (simp add: currency_matches_def w)
qed

lemma skip_and_status_passed:
  "fst (skip_and_status n p c r m) = None \<longleftrightarrow> n \<and> p \<and> c \<and> r \<and> m"
  by (auto simp: skip_and_status_def)

lemma evaluate_ecommerce_rules_Inr:
  assumes "evaluate_ecommerce_rules db data mp cache = (Inr g, cache')"
  obtains d where "d = (case data of None \<Rightarrow> no_extract | Some d \<Rightarrow> d)"
    and "go_product_name_ok g = (text_given (ex_product_name d) \<or> text_given (ex_title d))"
    and "price_positive (ex_price d) = Inr (go_price_ok g)"
    and "go_currency_ok g = (case ex_currency d of None \<Rightarrow> False | Some c \<Rightarrow> py_strip c \<noteq> '''')"
    and "(go_currency_country_match_ok g, cache') = currency_matches db mp (ex_currency d) cache"
    and "(go_skip_reason g, go_forced_log_status g) = skip_and_status (go_product_name_ok g)
           (go_price_ok g) (go_currency_ok g) (go_currency_raw_sane_ok g) (go_currency_country_match_ok g)"
proof -
  define d where "d = (case data of None \<Rightarrow> no_extract | Some d \<Rightarrow> d)"
  obtain m c where mc: "currency_matches db mp (ex_currency d) cache = (m, c)" by fastforce
  have "price_positive (ex_price d) \<noteq> Inl e" for e
    using assms by (auto simp: evaluate_ecommerce_rules_def Let_def d_def [symmetric])
  then obtain b where b: "price_positive (ex_price d) = Inr b"
    by (cases "price_positive (ex_price d)") auto
  obtain sk st where sk: "skip_and_status (text_given (ex_product_name d) \<or> text_given (ex_title d)) b
      (case ex_currency d of None \<Rightarrow> False | Some c \<Rightarrow> py_strip c \<noteq> '''')
      (length (case ex_currency_raw d of None \<Rightarrow> '''' | Some r \<Rightarrow> r) < MAX_CURRENCY_RAW_LEN) m = (sk, st)"
    by fastforce
  from assms have "g = \<lparr> go_product_name_ok = text_given (ex_product_name d) \<or> text_given (ex_title d),
      go_price_ok = b,
      go_currency_ok = (case ex_currency d of None \<Rightarrow> False | Some c \<Rightarrow> py_strip c \<noteq> ''''),
      go_currency_raw_sane_ok =
        length (case ex_currency_raw d of None \<Rightarrow> '''' | Some r \<Rightarrow> r) < MAX_CURRENCY_RAW_LEN,
      go_currency_country_match_ok = m, go_skip_reason = sk, go_forced_log_status = st \<rparr> \<and> cache' = c"
    by (simp add: evaluate_ecommerce_rules_def Let_def d_def [symmetric] mc b sk)
  with b mc sk show thesis by (intro that [of d]) (simp_all add: d_def)
qed

lemma rules_skip_reason:
  assumes "evaluate_ecommerce_rules db data mp cache = (Inr g, cache')"
  shows "go_skip_reason g = None \<longleftrightarrow> go_passed g"
  using assms
  by (elim evaluate_ecommerce_rules_Inr)
     (metis fst_conv go_passed_def skip_and_status_passed)

end
