(* ===== verification/SchemaFacts.thy ===== *)
theory SchemaFacts
  imports Contracts
begin

text \<open>
  Consistency of the declared schema and of the contracts derived from it: foreign keys and
  relationships resolve, every contract builds, CHECK lists are parsed, locators name
  mandatory columns.
\<close>

section \<open>Keys of the declared tables\<close>

definition primary_keys :: "table_model \<Rightarrow> (string \<times> sql_type) list" where
  "primary_keys m = map (\<lambda>c. (col_key c, col_type c)) (filter col_primary_key (tm_columns m))"

definition foreign_keys :: "table_model \<Rightarrow> (sql_type \<times> bool \<times> string \<times> string \<times> string) list" where
  \<comment> \<open>type and nullability of the column, target table and column, action on delete\<close>
  "foreign_keys m =
     concat (map (\<lambda>c. case col_foreign_key c of
         None \<Rightarrow> []
       | Some r \<Rightarrow> [(col_type c, col_nullable c, r)]) (tm_columns m))"

definition foreign_key_ok ::
    "(string \<times> (string \<times> sql_type) list) list \<Rightarrow> sql_type \<times> bool \<times> string \<times> string \<times> string \<Rightarrow> bool" where
  "foreign_key_ok keys fk = (case fk of (ty, nullable, table, col, on_delete) \<Rightarrow>
     map_of keys table = Some [(col, ty)] \<and> (on_delete = ''SET NULL'' \<longrightarrow> nullable)
     \<and> on_delete \<in> {''CASCADE'', ''RESTRICT'', ''SET NULL''})"

definition table_keys :: "(string \<times> (string \<times> sql_type) list) list" where
  "table_keys = map (\<lambda>(_, m). (tm_tablename m, primary_keys m)) all_models"

definition table_foreign_keys :: "(sql_type \<times> bool \<times> string \<times> string \<times> string) list" where
  "table_foreign_keys = concat (map (\<lambda>(_, m). foreign_keys m) all_models)"

lemma table_keys_eq:
  "table_keys = [(''users'', [(''id'', SUuid)]),
     (''user_subscriptions'', [(''id'', SUuid)]),
     (''user_products'', [(''id'', SUuid)]),
     (''dim_date'', [(''date_id'', SInteger)]),
     (''dim_currency'', [(''currency_code'', SString (Some 3))]),
     (''dim_country'', [(''country_code'', SString (Some 2))]),
     (''dim_marketplace'', [(''id'', SUuid)]),
     (''dim_category'', [(''id'', SUuid)]), (''dim_brand'', [(''id'', SUuid)]),
     (''dim_product'', [(''id'', SUuid)]), (''dim_seller'', [(''id'', SUuid)]),
     (''fact_listing'', [(''id'', SUuid)]),
     (''fact_price'', [(''id'', SBigInteger), (''date_id'', SInteger)]),
     (''fact_review'', [(''id'', SBigInteger)]),
     (''fact_search_trend'', [(''id'', SBigInteger)]),
     (''fact_price_weekly'',
      [(''listing_id'', SUuid), (''week_start'', SDate),
       (''currency_code'', SString (Some 3))]),
     (''fact_currency_rate'', [(''id'', SBigInteger)]),
     (''fact_tariff'', [(''id'', SUuid)]), (''fact_promo'', [(''id'', SUuid)]),
     (''fact_crypto_price'', [(''id'', SBigInteger)]),
     (''fact_commodity_price'', [(''id'', SBigInteger)]),
     (''fact_fuel_price'', [(''id'', SBigInteger)]),
     (''alerts'', [(''id'', SUuid)]),
     (''alert_events'', [(''id'', SBigInteger)]),
     (''digests'', [(''id'', SUuid)]),
     (''ai_chat_sessions'', [(''id'', SUuid)]),
     (''ai_chat_messages'', [(''id'', SBigInteger)]),
     (''scrape_jobs'', [(''id'', SUuid)]),
     (''scrape_logs'', [(''id'', SBigInteger)]),
     (''api_logs'', [(''id'', SBigInteger)]),
     (''service_alerts'', [(''id'', SUuid)]),
     (''data_exports'', [(''id'', SUuid)]),
     (''reject_data'', [(''id'', SBigInteger)])]"
  by code_simp

definition table_relationships ::
    "(string \<times> (string \<times> string \<times> string option \<times> bool) list) list" where
  "table_relationships = map (\<lambda>(n, m). (n, tm_relationships m)) all_models"

definition relationship_ok ::
    "(string \<times> (string \<times> string \<times> string option \<times> bool) list) list \<Rightarrow> string
      \<Rightarrow> string \<times> string \<times> string option \<times> bool \<Rightarrow> bool" where
  "relationship_ok rels cls r = (case r of (attr, target, back, delete_orphan) \<Rightarrow>
     (case map_of rels target of
        None \<Rightarrow> False
      | Some rs \<Rightarrow> (case back of
          None \<Rightarrow> \<not> delete_orphan
        | Some b \<Rightarrow> (case map_of rs b of
            None \<Rightarrow> False
          | Some (target', back', _) \<Rightarrow> target' = cls \<and> back' = Some attr))))"


lemma table_foreign_keys_eq:
  "table_foreign_keys = [(SUuid, False, ''users'', ''id'', ''CASCADE''),
     (SUuid, False, ''users'', ''id'', ''CASCADE''),
     (SUuid, False, ''dim_product'', ''id'', ''CASCADE''),
     (SString (Some 3), False, ''dim_currency'', ''currency_code'',
      ''RESTRICT''),
     (SString (Some 2), False, ''dim_country'', ''country_code'',
      ''RESTRICT''),
     (SString (Some 3), False, ''dim_currency'', ''currency_code'',
      ''RESTRICT''),
     (SUuid, True, ''dim_category'', ''id'', ''SET NULL''),
     (SString (Some 2), True, ''dim_country'', ''country_code'', ''SET NULL''),
     (SUuid, True, ''dim_category'', ''id'', ''SET NULL''),
     (SUuid, True, ''dim_brand'', ''id'', ''SET NULL''),
     (SUuid, False, ''dim_marketplace'', ''id'', ''CASCADE''),
     (SUuid, False, ''dim_product'', ''id'', ''CASCADE''),
     (SUuid, False, ''dim_marketplace'', ''id'', ''CASCADE''),
     (SUuid, True, ''dim_seller'', ''id'', ''SET NULL''),
     (SUuid, False, ''fact_listing'', ''id'', ''CASCADE''),
     (SInteger, False, ''dim_date'', ''date_id'', ''RESTRICT''),
     (SUuid, True, ''scrape_jobs'', ''id'', ''SET NULL''),
     (SUuid, False, ''fact_listing'', ''id'', ''CASCADE''),
     (SInteger, False, ''dim_date'', ''date_id'', ''RESTRICT''),
     (SInteger, False, ''dim_date'', ''date_id'', ''RESTRICT''),
     (SString (Some 2), False, ''dim_country'', ''country_code'',
      ''RESTRICT''),
     (SUuid, True, ''dim_category'', ''id'', ''SET NULL''),
     (SUuid, True, ''dim_product'', ''id'', ''SET NULL''),
     (SUuid, False, ''fact_listing'', ''id'', ''CASCADE''),
     (SInteger, False, ''dim_date'', ''date_id'', ''RESTRICT''),
     (SString (Some 3), False, ''dim_currency'', ''currency_code'',
      ''RESTRICT''),
     (SString (Some 2), False, ''dim_country'', ''country_code'',
      ''RESTRICT''),
     (SString (Some 2), False, ''dim_country'', ''country_code'',
      ''RESTRICT''),
     (SUuid, True, ''fact_listing'', ''id'', ''SET NULL''),
     (SUuid, False, ''dim_marketplace'', ''id'', ''CASCADE''),
     (SInteger, False, ''dim_date'', ''date_id'', ''RESTRICT''),
     (SInteger, True, ''dim_date'', ''date_id'', ''SET NULL''),
     (SUuid, True, ''dim_category'', ''id'', ''SET NULL''),
     (SInteger, False, ''dim_date'', ''date_id'', ''RESTRICT''),
     (SInteger, False, ''dim_date'', ''date_id'', ''RESTRICT''),
     (SInteger, False, ''dim_date'', ''date_id'', ''RESTRICT''),
     (SString (Some 2), False, ''dim_country'', ''country_code'',
      ''RESTRICT''),
     (SString (Some 3), False, ''dim_currency'', ''currency_code'',
      ''RESTRICT''),
     (SUuid, False, ''users'', ''id'', ''CASCADE''),
     (SUuid, True, ''dim_product'', ''id'', ''SET NULL''),
     (SUuid, True, ''fact_listing'', ''id'', ''SET NULL''),
     (SUuid, True, ''dim_marketplace'', ''id'', ''SET NULL''),
     (SUuid, True, ''dim_category'', ''id'', ''SET NULL''),
     (SString (Some 2), True, ''dim_country'', ''country_code'', ''SET NULL''),
     (SUuid, False, ''alerts'', ''id'', ''CASCADE''),
     (SUuid, True, ''fact_listing'', ''id'', ''SET NULL''),
     (SUuid, False, ''users'', ''id'', ''CASCADE''),
     (SUuid, False, ''users'', ''id'', ''CASCADE''),
     (SUuid, False, ''ai_chat_sessions'', ''id'', ''CASCADE''),
     (SUuid, True, ''dim_marketplace'', ''id'', ''SET NULL''),
     (SUuid, True, ''scrape_jobs'', ''id'', ''SET NULL''),
     (SUuid, True, ''users'', ''id'', ''SET NULL''),
     (SUuid, True, ''scrape_jobs'', ''id'', ''SET NULL''),
     (SUuid, False, ''fact_listing'', ''id'', ''CASCADE''),
     (SUuid, False, ''dim_marketplace'', ''id'', ''CASCADE''),
     (SUuid, True, ''users'', ''id'', ''SET NULL''),
     (SUuid, False, ''users'', ''id'', ''CASCADE'')]"
  by code_simp

lemma table_relationships_eq:
  "table_relationships = [(''User'',
      [(''subscriptions'', ''UserSubscription'', Some ''user'', True),
       (''user_products'', ''UserProduct'', Some ''user'', True),
       (''alerts'', ''Alert'', Some ''user'', True),
       (''digests'', ''Digest'', Some ''user'', True),
       (''chat_sessions'', ''AIChatSession'', Some ''user'', True),
       (''scrape_jobs_triggered'', ''ScrapeJob'', Some ''triggered_by_user'',
        False),
       (''data_exports'', ''DataExport'', Some ''user'', True)]),
     (''UserSubscription'',
      [(''user'', ''User'', Some ''subscriptions'', False)]),
     (''UserProduct'',
      [(''user'', ''User'', Some ''user_products'', False),
       (''product'', ''DimProduct'', Some ''user_products'', False)]),
     (''DimDate'', []), (''DimCurrency'', []), (''DimCountry'', []),
     (''DimMarketplace'', []),
     (''DimCategory'',
      [(''parent'', ''DimCategory'', Some ''children'', False),
       (''children'', ''DimCategory'', Some ''parent'', False),
       (''products'', ''DimProduct'', Some ''category'', False)]),
     (''DimBrand'', [(''products'', ''DimProduct'', Some ''brand'', False)]),
     (''DimProduct'',
      [(''category'', ''DimCategory'', Some ''products'', False),
       (''brand'', ''DimBrand'', Some ''products'', False),
       (''user_products'', ''UserProduct'', Some ''product'', False)]),
     (''DimSeller'', [(''marketplace'', ''DimMarketplace'', None, False)]),
     (''FactListing'',
      [(''prices'', ''FactPrice'', Some ''listing'', False),
       (''reviews'', ''FactReview'', Some ''listing'', False),
       (''promos'', ''FactPromo'', Some ''listing'', False)]),
     (''FactPrice'', [(''listing'', ''FactListing'', Some ''prices'', False)]),
     (''FactReview'',
      [(''listing'', ''FactListing'', Some ''reviews'', False)]),
     (''FactSearchTrend'', []), (''FactPriceWeekly'', []),
     (''FactCurrencyRate'', []), (''FactTariff'', []),
     (''FactPromo'', [(''listing'', ''FactListing'', Some ''promos'', False)]),
     (''FactCryptoPrice'', []), (''FactCommodityPrice'', []),
     (''FactFuelPrice'', []),
     (''Alert'',
      [(''user'', ''User'', Some ''alerts'', False),
       (''events'', ''AlertEvent'', Some ''alert'', True)]),
     (''AlertEvent'', [(''alert'', ''Alert'', Some ''events'', False)]),
     (''Digest'', [(''user'', ''User'', Some ''digests'', False)]),
     (''AIChatSession'',
      [(''user'', ''User'', Some ''chat_sessions'', False),
       (''messages'', ''AIChatMessage'', Some ''session'', True)]),
     (''AIChatMessage'',
      [(''session'', ''AIChatSession'', Some ''messages'', False)]),
     (''ScrapeJob'',
      [(''triggered_by_user'', ''User'', Some ''scrape_jobs_triggered'',
        False),
       (''logs'', ''ScrapeLog'', Some ''job'', True)]),
     (''ScrapeLog'', [(''job'', ''ScrapeJob'', Some ''logs'', False)]),
     (''ApiLog'', []), (''ServiceAlert'', []),
     (''DataExport'', [(''user'', ''User'', Some ''data_exports'', False)]),
     (''RejectData'', [])]"
  by code_simp

lemma foreign_keys_ok: "list_all (foreign_key_ok table_keys) table_foreign_keys"
  unfolding table_keys_eq table_foreign_keys_eq by code_simp

lemma relationships_ok:
  "list_all (\<lambda>(cls, rs). list_all (relationship_ok table_relationships cls) rs) table_relationships"
  unfolding table_relationships_eq by code_simp

section \<open>Contracts\<close>

definition contract_columns :: "(string \<times> (string \<times> bool) list) list" where
  \<comment> \<open>key and nullability of the columns of every table under contract\<close>
  "contract_columns =
     map (\<lambda>(t, m). (t, map (\<lambda>c. (col_key c, col_nullable c)) (tm_columns m))) contract_models"

definition check_ok :: "table_arg \<Rightarrow> bool" where
  \<comment> \<open>no CHECK text that only matches the pattern in another letter case\<close>
  "check_ok a = (case a of
     CheckConstraint _ s \<Rightarrow> contains_sub s '' IN ('' \<or> \<not> contains_sub (py_upper s) '' IN (''
   | _ \<Rightarrow> True)"

lemma check_values_total:
  "list_all check_ok args \<Longrightarrow> \<exists>v. check_values_for_table args c = Inr v"
  by (induction args c rule: check_values_for_table.induct)
     (auto simp: check_ok_def split_once_def contains_sub_def Let_def split: option.splits)

lemma build_table_contract_total:
  assumes "list_all check_ok (tm_args m)"
  obtains c where "build_table_contract m = Inr c"
    and "list_all2 (\<lambda>column (k, cc). k = col_key column
           \<and> contract_from_column (tm_args m) column = Inr cc) (tm_columns m) c"
proof -
  have "\<exists>cc. contract_from_column (tm_args m) column = Inr cc" for column
    using check_values_total [OF assms, of "col_key column"]
    by (auto simp: contract_from_column_def)
  then obtain f where f: "\<And>column. contract_from_column (tm_args m) column = Inr (f column)"
    by metis
  have "build_table_contract m = Inr (map (\<lambda>column. (col_key column, f column)) (tm_columns m))"
    unfolding build_table_contract_def by (rule mapE_total) (simp add: f)
  moreover have "list_all2 (\<lambda>column (k, cc). k = col_key column
      \<and> contract_from_column (tm_args m) column = Inr cc)
      (tm_columns m) (map (\<lambda>column. (col_key column, f column)) (tm_columns m))"
    by (simp add: list_all2_conv_all_nth f)
  ultimately show thesis by (rule that)
qed

lemma contract_keys_distinct: "distinct (map fst contract_models)"
  by code_simp

lemma contract_checks_ok: "list_all (\<lambda>(_, m). list_all check_ok (tm_args m)) contract_models"
  by code_simp

lemma contract_names_ok: "list_all (\<lambda>(t, m). tm_tablename m = t) contract_models"
  by code_simp

lemma FACT_TABLE_CONTRACTS_Some:
  assumes "(t, m) \<in> set contract_models"
  obtains c where "FACT_TABLE_CONTRACTS t = Some c"
    and "list_all2 (\<lambda>column (k, cc). k = col_key column
           \<and> contract_from_column (tm_args m) column = Inr cc) (tm_columns m) c"
proof -
  have "list_all check_ok (tm_args m)"
    using contract_checks_ok assms by (auto simp: list_all_iff)
  from build_table_contract_total [OF this] obtain c where
    c: "build_table_contract m = Inr c" "list_all2 (\<lambda>column (k, cc). k = col_key column
       \<and> contract_from_column (tm_args m) column = Inr cc) (tm_columns m) c" .
  moreover have "map_of contract_models t = Some m"
    using assms contract_keys_distinct by simp
  ultimately have "FACT_TABLE_CONTRACTS t = Some c" by (simp add: FACT_TABLE_CONTRACTS_def)
  with c that show thesis by blast
qed

lemma contract_columns_eq:
  "contract_columns = [(''dim_date'',
      [(''date_id'', False), (''full_date'', False), (''year'', False),
       (''quarter'', False), (''month'', False), (''month_name'', False),
       (''week_iso'', False), (''day_of_month'', False),
       (''day_of_week'', False), (''day_name'', False),
       (''is_weekend'', False), (''is_last_day_of_month'', False),
       (''fiscal_year'', True), (''fiscal_quarter'', True)]),
     (''dim_product'',
      [(''id'', False), (''name'', False), (''name_normalized'', False),
       (''product_type'', True), (''product_type_en'', True),
       (''title_en'', True), (''sku_universal'', True), (''mpn'', True),
       (''match_group_id'', True), (''match_method'', True),
       (''match_confidence'', True), (''category_id'', True),
       (''brand_id'', True), (''attributes'', False), (''image_url'', True),
       (''image_urls'', False), (''hs_code'', True), (''weight_kg'', True),
       (''is_active'', False), (''created_at'', False),
       (''updated_at'', False)]),
     (''dim_marketplace'',
      [(''id'', False), (''marketplace_code'', False), (''name'', False),
       (''source_type'', False), (''country_code'', False),
       (''operates_in'', False), (''domain'', False), (''base_url'', False),
       (''api_available'', False), (''api_type'', True),
       (''scraper_type'', False), (''currency_code'', False),
       (''locale'', True), (''is_active'', False),
       (''reliability_score'', True), (''avg_response_ms'', True),
       (''last_scrape_at'', True), (''last_scrape_status'', True),
       (''logo_url'', True), (''monthly_visits'', True),
       (''product_quota'', False), (''products_in_pool'', False),
       (''requires_js'', False), (''access_mode'', False),
       (''scrape_tier'', False), (''rate_limit_delay'', False),
       (''custom_product_link_selector'', True),
       (''custom_next_page_selector'', True),
       (''custom_price_selector'', True), (''custom_title_selector'', True),
       (''last_discovery_at'', True), (''last_discovery_status'', True),
       (''last_discovery_products_found'', False),
       (''discovery_error_count'', False),
       (''discovered_category_urls'', False),
       (''catalog_size_estimate'', True), (''last_category_recon_at'', True),
       (''recon_frontier_state'', True), (''sitemap_url'', True),
       (''last_sitemap_harvest_at'', True), (''sitemap_resume_offset'', False),
       (''category_resume_index'', False),
       (''sitemap_bad_harvest_streak'', False),
       (''phase1_exhausted_streak'', False), (''created_at'', False),
       (''updated_at'', False)]),
     (''dim_brand'',
      [(''id'', False), (''name'', False), (''slug'', False),
       (''name_normalized'', False), (''country_code'', True),
       (''website_url'', True), (''logo_url'', True), (''is_active'', False),
       (''created_at'', False)]),
     (''dim_category'',
      [(''id'', False), (''name'', False), (''name_en'', True),
       (''slug'', False), (''parent_id'', True), (''level'', False),
       (''path'', False), (''hs_code_prefix'', True), (''icon'', True),
       (''is_active'', False), (''product_count'', False),
       (''created_at'', False)]),
     (''alerts'',
      [(''id'', False), (''user_id'', False), (''product_id'', True),
       (''listing_id'', True), (''marketplace_id'', True),
       (''category_id'', True), (''country_code'', True),
       (''alert_class'', False), (''alert_type'', False),
       (''threshold_pct'', True), (''threshold_value'', True),
       (''channel'', False), (''channels'', True), (''webhook_url'', True),
       (''cooldown_minutes'', False), (''last_triggered_at'', True),
       (''trigger_count'', False), (''is_active'', False),
       (''created_at'', False), (''updated_at'', False)]),
     (''alert_events'',
      [(''id'', False), (''alert_id'', False), (''alert_class'', False),
       (''listing_id'', True), (''fact_price_id'', True),
       (''old_value'', True), (''new_value'', True), (''change_pct'', True),
       (''message'', False), (''severity'', False), (''ai_explanation'', True),
       (''ai_recommendation'', True), (''ai_recommended_price'', True),
       (''ai_confidence'', True), (''sent_via'', True),
       (''delivered_at'', True), (''read_at'', True),
       (''triggered_at'', False)]),
     (''fact_listing'',
      [(''id'', False), (''product_id'', False), (''marketplace_id'', False),
       (''seller_id'', True), (''external_url'', False), (''page_role'', True),
       (''url_hash'', False), (''external_id'', True),
       (''external_name'', True), (''last_price'', True),
       (''last_price_eur'', True), (''last_original_price'', True),
       (''last_currency_code'', True), (''last_rating'', True),
       (''last_review_count'', True), (''last_checked_at'', True),
       (''sitemap_lastmod'', True), (''scraper_type'', False),
       (''scraper_config'', False), (''scrape_interval_minutes'', False),
       (''last_price_change_pct'', True), (''consecutive_errors'', False),
       (''failure_streak'', False), (''is_active'', False),
       (''last_price_changed_at'', True), (''last_error'', True),
       (''created_at'', False), (''updated_at'', False)]),
     (''fact_price'',
      [(''id'', False), (''listing_id'', False), (''date_id'', False),
       (''price'', False), (''original_price'', True),
       (''currency_code'', False), (''price_eur'', True),
       (''discount_pct'', True), (''price_change_pct'', True),
       (''delivery_days'', True), (''delivery_cost'', True),
       (''seller_name'', True), (''promo_label'', True),
       (''is_promoted'', True), (''promo_type'', True),
       (''scraped_at'', False), (''scrape_job_id'', True)]),
     (''fact_review'',
      [(''id'', False), (''listing_id'', False), (''date_id'', False),
       (''rating_avg'', True), (''review_count'', False),
       (''rating_1_count'', False), (''rating_2_count'', False),
       (''rating_3_count'', False), (''rating_4_count'', False),
       (''rating_5_count'', False), (''sentiment_score'', True),
       (''sentiment_summary'', True), (''new_reviews_24h'', False),
       (''scraped_at'', False)]),
     (''fact_promo'',
      [(''id'', False), (''listing_id'', True), (''marketplace_id'', False),
       (''start_date_id'', False), (''end_date_id'', True),
       (''promo_type'', False), (''promo_name'', True),
       (''discount_pct'', True), (''discount_amount'', True),
       (''currency_code'', True), (''is_marketplace_wide'', False),
       (''category_id'', True), (''detected_at'', False),
       (''created_at'', False)]),
     (''fact_search_trend'',
      [(''id'', False), (''date_id'', False), (''country_code'', False),
       (''keyword'', False), (''keyword_normalized'', False),
       (''trend_index'', False), (''search_volume'', True),
       (''source'', False), (''category_id'', True),
       (''related_product_id'', True), (''scraped_at'', False)]),
     (''fact_currency_rate'',
      [(''id'', False), (''date_id'', False), (''currency_code'', False),
       (''rate_to_eur'', False), (''rate_to_usd'', False), (''source'', False),
       (''fetched_at'', False)]),
     (''fact_tariff'',
      [(''id'', False), (''hs_code'', False), (''origin_country'', False),
       (''destination_country'', False), (''duty_pct'', False),
       (''vat_pct'', True), (''excise_pct'', True),
       (''trade_agreement'', True), (''effective_from'', False),
       (''effective_to'', True), (''source'', True), (''source_url'', True),
       (''created_at'', False), (''updated_at'', False)]),
     (''fact_crypto_price'',
      [(''id'', False), (''date_id'', False), (''symbol'', False),
       (''name'', True), (''price_usd'', False), (''price_eur'', True),
       (''market_cap_usd'', True), (''volume_24h_usd'', True),
       (''change_1h_pct'', True), (''change_24h_pct'', True),
       (''change_7d_pct'', True), (''high_24h_usd'', True),
       (''low_24h_usd'', True), (''circulating_supply'', True),
       (''total_supply'', True), (''source'', False), (''rank'', True),
       (''fetched_at'', False)]),
     (''fact_commodity_price'',
      [(''id'', False), (''date_id'', False), (''symbol'', False),
       (''name'', False), (''commodity_type'', False), (''price_usd'', False),
       (''price_eur'', True), (''change_24h_pct'', True),
       (''change_7d_pct'', True), (''unit'', False), (''source'', False),
       (''fetched_at'', False)]),
     (''fact_fuel_price'',
      [(''id'', False), (''date_id'', False), (''country_code'', False),
       (''fuel_type'', False), (''price_local'', False),
       (''currency_code'', False), (''price_eur'', True),
       (''change_week_pct'', True), (''change_month_pct'', True),
       (''source'', False), (''fetched_at'', False)]),
     (''scrape_jobs'',
      [(''id'', False), (''job_type'', False), (''marketplace_id'', True),
       (''parent_job_id'', True), (''status'', False), (''started_at'', True),
       (''completed_at'', True), (''duration_ms'', True),
       (''total_listings'', False), (''successful'', False),
       (''failed'', False), (''skipped'', False), (''config'', False),
       (''triggered_by'', True), (''created_at'', False)]),
     (''scrape_logs'',
      [(''id'', False), (''scrape_job_id'', True), (''listing_id'', False),
       (''marketplace_id'', False), (''status'', False), (''url'', False),
       (''price_found'', True), (''duration_ms'', True),
       (''response_code'', True), (''proxy_used'', True),
       (''scraper_type'', True), (''error_message'', True),
       (''error_category'', True), (''retry_count'', False),
       (''created_at'', False)]),
     (''api_logs'',
      [(''id'', False), (''service'', False), (''endpoint'', True),
       (''method'', False), (''status'', False), (''status_code'', True),
       (''duration_ms'', True), (''tokens_used'', True),
       (''request_size_bytes'', True), (''response_size_bytes'', True),
       (''error_message'', True), (''user_id'', True),
       (''created_at'', False)]),
     (''service_alerts'',
      [(''id'', False), (''alert_class'', False), (''module'', False),
       (''submodule'', False), (''severity'', False),
       (''anomaly_type'', False), (''message'', False), (''context'', True),
       (''triggered_at'', False), (''resolved_at'', True)]),
     (''reject_data'',
      [(''id'', False), (''created_at'', False), (''source'', False),
       (''table_target'', False), (''operation'', False),
       (''marketplace_id'', True), (''listing_id'', True),
       (''reject_reason'', False), (''failed_rules'', True),
       (''raw_payload'', False), (''signature_present'', False),
       (''rejected_by'', False)]),
     (''users'',
      [(''id'', False), (''email'', False), (''password_hash'', False),
       (''name'', True), (''company_name'', True), (''plan'', False),
       (''trial_ends_at'', True), (''language'', False), (''timezone'', False),
       (''ai_tone'', False), (''default_currency'', False),
       (''telegram_chat_id'', True), (''telegram_link_code'', True),
       (''telegram_username'', True), (''is_superuser'', False),
       (''force_password_change'', False), (''is_active'', False),
       (''avatar_url'', True), (''last_login_at'', True),
       (''last_login_ip'', True), (''login_count'', False),
       (''preferences'', False), (''created_at'', False),
       (''updated_at'', False)]),
     (''ai_chat_sessions'',
      [(''id'', False), (''user_id'', False), (''title'', True),
       (''context_type'', False), (''context_id'', True),
       (''message_count'', False), (''total_tokens'', False),
       (''is_archived'', False), (''last_message_at'', True),
       (''created_at'', False), (''updated_at'', False)]),
     (''ai_chat_messages'',
      [(''id'', False), (''session_id'', False), (''role'', False),
       (''content'', False), (''tokens_used'', True), (''model_used'', True),
       (''duration_ms'', True), (''tool_calls'', True),
       (''user_rating'', True), (''created_at'', False)])]"
  by code_simp

text \<open>The keys and nullability of a contract are those of the table.\<close>

lemma contract_columns_iff:
  assumes "map_of contract_columns t = Some cols"
  obtains c where "FACT_TABLE_CONTRACTS t = Some c" "map (\<lambda>(k, cc). (k, cc_nullable cc)) c = cols"
proof -
  from assms obtain m where m: "(t, m) \<in> set contract_models"
    "cols = map (\<lambda>c. (col_key c, col_nullable c)) (tm_columns m)"
    by (auto simp: contract_columns_def dest!: map_of_SomeD)
  from FACT_TABLE_CONTRACTS_Some [OF m(1)] obtain c where
    c: "FACT_TABLE_CONTRACTS t = Some c" "list_all2 (\<lambda>column (k, cc). k = col_key column
       \<and> contract_from_column (tm_args m) column = Inr cc) (tm_columns m) c" .
  from c(2) have "map (\<lambda>(k, cc). (k, cc_nullable cc)) c = cols"
    unfolding m(2)
    by (induction rule: list_all2_induct) (auto simp: contract_from_column_def bindE_Inr_iff)
  with c(1) that show thesis by blast
qed

definition locator_ok :: "string \<times> string list \<Rightarrow> bool" where
  "locator_ok tk = (case map_of contract_columns (fst tk) of
     None \<Rightarrow> False
   | Some cols \<Rightarrow> list_all (\<lambda>k. map_of cols k = Some False) (snd tk))"

lemma locators_ok: "list_all locator_ok TABLE_LOCATORS"
  unfolding locator_ok_def contract_columns_eq by code_simp

text \<open>One column of a contract, without building the others.\<close>

definition column_contract :: "string \<Rightarrow> string \<Rightarrow> ColumnContract option" where
  "column_contract t k = (case map_of contract_models t of
     None \<Rightarrow> None
   | Some m \<Rightarrow> (case find (\<lambda>c. col_key c = k) (tm_columns m) of
        None \<Rightarrow> None
      | Some column \<Rightarrow> (case contract_from_column (tm_args m) column of Inl _ \<Rightarrow> None | Inr cc \<Rightarrow> Some cc)))"

lemma contract_lookup:
  assumes "FACT_TABLE_CONTRACTS t = Some c"
  shows "map_of c k = column_contract t k"
proof -
  from assms obtain m where m: "map_of contract_models t = Some m"
    by (auto simp: FACT_TABLE_CONTRACTS_def split: option.splits)
  from FACT_TABLE_CONTRACTS_Some [OF map_of_SomeD [OF m]] assms
  have "list_all2 (\<lambda>column (k, cc). k = col_key column
      \<and> contract_from_column (tm_args m) column = Inr cc) (tm_columns m) c" by auto
  then have "map_of c k = (case find (\<lambda>c. col_key c = k) (tm_columns m) of
        None \<Rightarrow> None
      | Some column \<Rightarrow> (case contract_from_column (tm_args m) column of Inl _ \<Rightarrow> None | Inr cc \<Rightarrow> Some cc))"
    by (induction rule: list_all2_induct) auto
  with m show ?thesis by (simp add: column_contract_def)
qed

lemma contract_exists: "map_of contract_models t \<noteq> None \<Longrightarrow> \<exists>c. FACT_TABLE_CONTRACTS t = Some c"
  by (auto dest!: map_of_SomeD elim: FACT_TABLE_CONTRACTS_Some)

section \<open>Properties\<close>

text \<open>
  Every foreign key of a mapped class names a declared table whose whole primary key is
  the referenced column, of the same type; a key that is set to null when its target goes is
  nullable.
\<close>

theorem foreign_key_resolves:
  assumes "(n, m) \<in> set all_models" "c \<in> set (tm_columns m)"
    and "col_foreign_key c = Some (t, k, on_delete)"
  shows "\<exists>n' m'. (n', m') \<in> set all_models \<and> tm_tablename m' = t
           \<and> primary_keys m' = [(k, col_type c)] \<and> (on_delete = ''SET NULL'' \<longrightarrow> col_nullable c)"
proof -
  have "(col_type c, col_nullable c, t, k, on_delete) \<in> set (foreign_keys m)"
    using assms(2,3) by (force simp: foreign_keys_def)
  then have "(col_type c, col_nullable c, t, k, on_delete) \<in> set table_foreign_keys"
    using assms(1) by (force simp: table_foreign_keys_def)
  then have "foreign_key_ok table_keys (col_type c, col_nullable c, t, k, on_delete)"
    using foreign_keys_ok by (auto simp: list_all_iff)
  then have "(t, [(k, col_type c)]) \<in> set table_keys" "on_delete = ''SET NULL'' \<longrightarrow> col_nullable c"
    by (auto simp: foreign_key_ok_def dest: map_of_SomeD)
  then show ?thesis by (force simp: table_keys_def)
qed

theorem foreign_key_resolves_witness:
  "\<exists>n' m'. (n', m') \<in> set all_models \<and> tm_tablename m' = ''dim_date'' \<and> primary_keys m' = [(''date_id'', SInteger)]"
proof -
  have "(''FactPrice'', FactPrice) \<in> set all_models" by (simp add: all_models_def)
  moreover have "tm_columns FactPrice ! 2 \<in> set (tm_columns FactPrice)"
    by (rule nth_mem) code_simp
  moreover have "col_foreign_key (tm_columns FactPrice ! 2) = Some (''dim_date'', ''date_id'', ''RESTRICT'')"
    "col_type (tm_columns FactPrice ! 2) = SInteger"
    by code_simp+
  ultimately show ?thesis
    using foreign_key_resolves [of "''FactPrice''" FactPrice "tm_columns FactPrice ! 2"
        "''dim_date''" "''date_id''" "''RESTRICT''"] by fastforce
qed



text \<open>
  Every table that can be signed is under contract, and its locator keys are mandatory
  columns of that contract.
\<close>

theorem locator_columns_mandatory:
  assumes "map_of TABLE_LOCATORS t = Some ks"
  shows "\<exists>c. FACT_TABLE_CONTRACTS t = Some c
           \<and> (\<forall>k \<in> set ks. \<exists>cc. map_of c k = Some cc \<and> \<not> cc_nullable cc)"
proof -
  have "locator_ok (t, ks)"
    using locators_ok map_of_SomeD [OF assms] by (auto simp: list_all_iff)
  then obtain cols where cols: "map_of contract_columns t = Some cols"
    "\<And>k. k \<in> set ks \<Longrightarrow> map_of cols k = Some False"
    by (auto simp: locator_ok_def list_all_iff split: option.splits)
  from contract_columns_iff [OF cols(1)] obtain c where
    c: "FACT_TABLE_CONTRACTS t = Some c" "map (\<lambda>(k, cc). (k, cc_nullable cc)) c = cols" .
  have "map_of (map (\<lambda>(k, cc). (k, cc_nullable cc)) c) k = map_option cc_nullable (map_of c k)" for k
    by (induction c) auto
  with cols(2) c show ?thesis by fastforce
qed

theorem locator_columns_mandatory_witness:
  "\<exists>c. FACT_TABLE_CONTRACTS ''fact_price'' = Some c
     \<and> (\<forall>k \<in> {''listing_id'', ''date_id''}. \<exists>cc. map_of c k = Some cc \<and> \<not> cc_nullable cc)"
  using locator_columns_mandatory [of "''fact_price''" "[''listing_id'', ''date_id'']"]
  by (simp add: TABLE_LOCATORS_def)

text \<open>
  \<open>extract_locator\<close> returns the table's locator keys with their values from the fields,
  in the declared order, exactly when the table can be signed and no key is absent; otherwise
  it raises \<open>ValueError\<close>.
\<close>

theorem extract_locator_result:
  "extract_locator t f =
     (case map_of TABLE_LOCATORS t of
        None \<Rightarrow> Inl ValueError
      | Some ks \<Rightarrow> if list_all (has_key f) ks then Inr (map (\<lambda>k. (k, dict_get f k)) ks)
                   else Inl ValueError)"
proof -
  have "mapE (\<lambda>key. if has_key f key then Inr (key, dict_get f key) else Inl ValueError) ks =
      (if list_all (has_key f) ks then Inr (map (\<lambda>k. (k, dict_get f k)) ks) else Inl ValueError)" for ks
    by (induction ks) auto
  then show ?thesis by (simp add: extract_locator_def split: option.splits)
qed

text \<open>
  Two branches of \<open>_sql_type_name\<close> are never taken: a \<open>Text\<close> column is reported as
  \<open>string\<close> and a \<open>SmallInteger\<close> column as \<open>integer\<close>.
\<close>

theorem type_name_dead_branches:
  "sql_type_name t \<noteq> ''text'' \<and> sql_type_name t \<noteq> ''smallint''
   \<and> sql_type_name SText = ''string'' \<and> sql_type_name SSmallInteger = ''integer''"
  by (cases t) (auto simp: sql_type_name_def is_Numeric_def is_String_def is_Integer_def)

end
