(* ===== verification/Firewall.thy ===== *)
theory Firewall
  imports Rules SchemaFacts
begin

text \<open>
  \<open>data_firewall/firewall.py\<close>: validation of a payload against its table's contract and the
  three evaluation rails (logs, e-commerce, market), which sign what passes and record what
  does not.
\<close>

section \<open>Outcomes\<close>

record FirewallOutcome =
  fo_passed :: bool
  fo_reject_reason :: "string option"
  fo_failed_rules :: "string list"
  fo_forced_log_status :: "string option"
  fo_page_role_verdict :: "string option"
  fo_notes :: pydict
  fo_product_name_ok :: bool
  fo_price_ok :: bool
  fo_currency_ok :: bool
  fo_currency_raw_sane_ok :: bool
  fo_currency_country_match_ok :: bool
  fo_signed_record :: "SignedRecord option"

record LogsOutcome =
  lo_inserted_count :: nat
  lo_rejected_count :: nat
  lo_signed_batch :: "SignedBatch option"

definition lo_passed :: "LogsOutcome \<Rightarrow> bool" where
  "lo_passed o' = (lo_signed_batch o' \<noteq> None \<and> 0 < lo_inserted_count o')"

definition failed_rules_from_gate :: "GateOutcome \<Rightarrow> string list" where
  "failed_rules_from_gate g =
     (if go_product_name_ok g then [] else [''product_name_ok''])
     @ (if go_price_ok g then [] else [''price_ok''])
     @ (if go_currency_ok g then [] else [''currency_ok''])
     @ (if go_currency_raw_sane_ok g then [] else [''currency_raw_sane_ok''])
     @ (if go_currency_country_match_ok g then [] else [''currency_country_match_ok''])"

definition page_role_verdict :: "string option \<Rightarrow> string option" where
  "page_role_verdict page_role = (case page_role of
     None \<Rightarrow> None
   | Some r \<Rightarrow>
       Some (if r = ''product'' then ''product''
             else if r = ''listing'' \<or> r = ''hub'' then ''non_product'' else ''unknown''))"

section \<open>Contract validation\<close>

definition dec_fits :: "pydec \<Rightarrow> nat \<Rightarrow> nat \<Rightarrow> bool" where
  "dec_fits d precision scale = (case d of Dec _ coeff exponent \<Rightarrow>
     let (int_digits, frac_digits) =
       (if 0 \<le> exponent then (num_digits coeff, 0)
        else (num_digits coeff - nat (- exponent), nat (- exponent)))
     in int_digits + frac_digits \<le> precision \<and> frac_digits \<le> scale)"

text \<open>
  \<open>Decimal(str(value))\<close> of a bool is no number (False); of an infinity or a NaN it is a special
  value whose exponent is a string, and comparing that with 0 raises \<open>TypeError\<close>.
\<close>

definition numeric_fits :: "pyval \<Rightarrow> nat option \<Rightarrow> nat option \<Rightarrow> bool res" where
  "numeric_fits value precision scale = (case (precision, scale) of
     (Some p, Some s) \<Rightarrow>
       (case value of
          PInt i \<Rightarrow> Inr (dec_fits (dec_of_int i) p s)
        | PFloat f \<Rightarrow> (case dec_of_float f of
             None \<Rightarrow> Inl TypeError
           | Some d \<Rightarrow> Inr (dec_fits d p s))
        | _ \<Rightarrow> Inr False)
   | _ \<Rightarrow> Inr True)"

definition type_mismatch :: "string \<Rightarrow> pyval \<Rightarrow> bool" where
  "type_mismatch expected_type value =
     (expected_type = ''string'' \<and> \<not> is_str value
      \<or> expected_type \<in> {''integer'', ''smallint''} \<and> \<not> is_int value
      \<or> expected_type = ''boolean'' \<and> \<not> is_bool value
      \<or> expected_type = ''numeric'' \<and> \<not> is_int_or_float value
      \<or> expected_type = ''uuid'' \<and> \<not> is_uuid_or_str value
      \<or> expected_type = ''datetime'' \<and> \<not> is_datetime_or_str value)"

definition positive_columns :: "string list" where
  "positive_columns = [''price'', ''price_usd'', ''rate_to_eur'', ''rate_to_usd'']"

definition str_length :: "pyval \<Rightarrow> nat" where
  "str_length v = (case v of PStr s \<Rightarrow> length s | _ \<Rightarrow> 0)"

definition column_failures :: "ColumnContract \<Rightarrow> string \<Rightarrow> pyval \<Rightarrow> string list res" where
  "column_failures spec column_name value =
     (if value = PNone then
        Inr (if cc_nullable spec then [] else [''null:'' @ column_name])
      else if type_mismatch (cc_type spec) value then Inr [''type:'' @ column_name]
      else
        bindE (if cc_type spec = ''numeric''
               then numeric_fits value (cc_precision spec) (cc_scale spec) else Inr True)
          (\<lambda>fits. Inr (
             (if cc_type spec = ''string''
                 \<and> (case cc_max_len spec of None \<Rightarrow> False | Some n \<Rightarrow> n < str_length value)
              then [''length:'' @ column_name] else [])
             @ (if fits then [] else [''precision:'' @ column_name])
             @ (if cc_type spec = ''numeric'' \<and> num_le_zero value \<and> column_name \<in> set positive_columns
                then [''non_positive:'' @ column_name] else [])
             @ (case cc_check_values spec of
                  None \<Rightarrow> []
                | Some vs \<Rightarrow> if py_str value \<notin> set vs then [''check:'' @ column_name] else []))))"

definition field_failures :: "table_contract \<Rightarrow> string \<times> pyval \<Rightarrow> string list res" where
  "field_failures contract kv = (case map_of contract (fst kv) of
     None \<Rightarrow> Inr []
   | Some spec \<Rightarrow> column_failures spec (fst kv) (snd kv))"

definition validate_against_contract ::
    "pydict \<Rightarrow> table_contract \<Rightarrow> (bool \<times> string list \<times> string option) res" where
  "validate_against_contract record contract =
     bindE (mapE (field_failures contract) record) (\<lambda>fs.
       let failed = concat fs
       in Inr (if failed \<noteq> [] then (False, failed, Some ''contract_violation'') else (True, [], None)))"

definition sign_fields ::
    "'e signing_env_scheme \<Rightarrow> string \<Rightarrow> string \<Rightarrow> pydict \<Rightarrow> SignedRecord option res" where
  "sign_fields env table operation flds =
     bindE (extract_locator table flds) (\<lambda>locator.
       bindE (sign env table operation flds locator) (\<lambda>signature.
         Inr (case signature of
           None \<Rightarrow> None
         | Some sg \<Rightarrow> Some \<lparr> sr_table = table, sr_operation = operation, sr_locator = locator,
                            sr_fields = flds, sr_signature = sg \<rparr>)))"

section \<open>The market rail\<close>

definition firewall_reject ::
    "string \<Rightarrow> string \<Rightarrow> string \<Rightarrow> string list \<Rightarrow> pydict \<Rightarrow> string \<Rightarrow> reject_row" where
  \<comment> \<open>the keyword arguments the firewall passes to the reject store\<close>
  "firewall_reject source table reason rules payload operation =
     \<lparr> rr_source = source, rr_table_target = table, rr_operation = operation,
       rr_marketplace_id = None, rr_listing_id = None, rr_reject_reason = reason,
       rr_failed_rules = Some rules, rr_raw_payload = payload, rr_signature_present = False,
       rr_rejected_by = ''data_firewall'' \<rparr>"

definition market_outcome ::
    "bool \<Rightarrow> string option \<Rightarrow> string list \<Rightarrow> string \<Rightarrow> SignedRecord option \<Rightarrow> FirewallOutcome" where
  "market_outcome passed reason rules table signed_rec =
     \<lparr> fo_passed = passed, fo_reject_reason = reason, fo_failed_rules = rules,
       fo_forced_log_status = None, fo_page_role_verdict = None,
       fo_notes = [(''table'', PStr table)], fo_product_name_ok = False, fo_price_ok = False,
       fo_currency_ok = False, fo_currency_raw_sane_ok = False,
       fo_currency_country_match_ok = False, fo_signed_record = signed_rec \<rparr>"

definition evaluate_market ::
    "'e gate_env_scheme \<Rightarrow> pydict \<Rightarrow> string \<Rightarrow> string \<Rightarrow> bool \<Rightarrow> string
      \<Rightarrow> ('s gate_state_scheme, FirewallOutcome) act" where
  "evaluate_market env record table operation has_db reject_source =
     (case FACT_TABLE_CONTRACTS table of
        None \<Rightarrow> retA (market_outcome False (Some ''unknown_table'') [''unknown_table''] table None)
      | Some contract \<Rightarrow>
          bindA (liftA (validate_against_contract record contract)) (\<lambda>(ok, rules, reason).
          bindA (liftA (if ok then sign_fields env table operation record else Inr None)) (\<lambda>signed_rec.
            let (passed, rules', reason') =
              (if ok \<and> signed_rec = None
               then (False, [''signing_secret_missing''], Some ''signing_unavailable'')
               else (ok, rules, reason));
              out = market_outcome passed reason' rules' table signed_rec
            in if \<not> passed \<and> has_db
               then thenA (write_reject_data_isolated env
                      (firewall_reject reject_source table
                         (case reason' of None \<Rightarrow> ''data_firewall_reject'' | Some r \<Rightarrow> r)
                         rules' record operation))
                      (retA out)
               else retA out)))"

section \<open>The logs rail\<close>

definition logs_reject :: "string \<Rightarrow> string \<Rightarrow> string \<Rightarrow> string list \<Rightarrow> pydict \<Rightarrow> reject_row" where
  "logs_reject source table reason rules row = firewall_reject source table reason rules row ''insert''"

fun validate_rows ::
    "'e gate_env_scheme \<Rightarrow> table_contract \<Rightarrow> string \<Rightarrow> bool \<Rightarrow> string \<Rightarrow> pydict list
      \<Rightarrow> ('s gate_state_scheme, pydict list \<times> nat) act" where
  \<comment> \<open>the loop over the rows: the valid ones and the count of the others\<close>
  "validate_rows env contract table has_db source [] = retA ([], 0)"
| "validate_rows env contract table has_db source (row # rows) =
     bindA (liftA (validate_against_contract row contract)) (\<lambda>(ok, rules, reason).
       if ok then
         bindA (validate_rows env contract table has_db source rows)
           (\<lambda>(valid, rejected). retA (row # valid, rejected))
       else
         thenA (if has_db
                then write_reject_data_isolated env
                       (logs_reject source table
                          (case reason of None \<Rightarrow> ''contract_violation'' | Some r \<Rightarrow> r) rules row)
                else id)
           (bindA (validate_rows env contract table has_db source rows)
              (\<lambda>(valid, rejected). retA (valid, Suc rejected))))"

definition evaluate_logs ::
    "'e gate_env_scheme \<Rightarrow> pydict list \<Rightarrow> string \<Rightarrow> bool \<Rightarrow> string
      \<Rightarrow> ('s gate_state_scheme, LogsOutcome) act" where
  "evaluate_logs env rows table has_db reject_source =
     (if rows = [] then retA \<lparr> lo_inserted_count = 0, lo_rejected_count = 0, lo_signed_batch = None \<rparr>
      else case FACT_TABLE_CONTRACTS table of
        None \<Rightarrow>
          thenA (if has_db
                 then write_all_isolated env
                        (map (logs_reject reject_source table ''unknown_table'' [''unknown_table'']) rows)
                 else id)
            (retA \<lparr> lo_inserted_count = 0, lo_rejected_count = length rows, lo_signed_batch = None \<rparr>)
      | Some contract \<Rightarrow>
          bindA (validate_rows env contract table has_db reject_source rows) (\<lambda>(valid, rejected).
            if valid = [] then
              retA \<lparr> lo_inserted_count = 0, lo_rejected_count = rejected, lo_signed_batch = None \<rparr>
            else
              bindA (liftA (extract_locator table (hd valid))) (\<lambda>locator.
              bindA (liftA (sign_batch env table ''insert'' valid locator)) (\<lambda>signature.
                case signature of
                  None \<Rightarrow>
                    thenA (if has_db
                           then write_all_isolated env
                                  (map (logs_reject reject_source table ''signing_unavailable''
                                          [''signing_secret_missing'']) valid)
                           else id)
                      (retA \<lparr> lo_inserted_count = 0, lo_rejected_count = rejected + length valid,
                              lo_signed_batch = None \<rparr>)
                | Some sg \<Rightarrow>
                    retA \<lparr> lo_inserted_count = length valid, lo_rejected_count = rejected,
                           lo_signed_batch = Some \<lparr> sb_table = table, sb_operation = ''insert'',
                             sb_locator = locator, sb_rows = valid, sb_signature = sg \<rparr> \<rparr>))))"

section \<open>The e-commerce rail\<close>

record firewall_state = gate_state +
  fs_currency_cache :: currency_cache

definition opt_text :: "string option \<Rightarrow> pyval" where
  "opt_text s = (case s of None \<Rightarrow> PNone | Some t \<Rightarrow> PStr t)"

definition extract_snapshot :: "extracted option \<Rightarrow> pydict" where
  "extract_snapshot record =
     (let d = (case record of None \<Rightarrow> no_extract | Some d \<Rightarrow> d)
      in [(''product_name'', opt_text (ex_product_name d)),
          (''title'', opt_text (ex_title d)),
          (''price'', ex_price d),
          (''currency'', opt_text (ex_currency d)),
          (''currency_raw'', opt_text (ex_currency_raw d)),
          (''page_role'', opt_text (ex_page_role d))])"

record ecommerce_verdict =
  ev_passed :: bool
  ev_reason :: "string option"
  ev_rules :: "string list"
  ev_status :: "string option"
  ev_signed :: "SignedRecord option"

definition role_verdict :: "GateOutcome \<Rightarrow> string option \<Rightarrow> ecommerce_verdict" where
  \<comment> \<open>the rules' verdict, then the page role\<close>
  "role_verdict g role =
     (if go_passed g \<and> (role = Some ''listing'' \<or> role = Some ''hub'')
      then \<lparr> ev_passed = False, ev_reason = Some ''not_a_product'', ev_rules = [''page_role_not_product''],
             ev_status = Some ''not_a_product'', ev_signed = None \<rparr>
      else \<lparr> ev_passed = go_passed g, ev_reason = go_skip_reason g, ev_rules = failed_rules_from_gate g,
             ev_status = go_forced_log_status g, ev_signed = None \<rparr>)"

definition persist_verdict ::
    "'e gate_env_scheme \<Rightarrow> string \<Rightarrow> pydict option \<Rightarrow> ecommerce_verdict \<Rightarrow> ecommerce_verdict res" where
  \<comment> \<open>contract and signature of the fields to persist\<close>
  "persist_verdict env table persist_fields ev = (case persist_fields of
     None \<Rightarrow> Inr ev
   | Some flds \<Rightarrow>
       if \<not> ev_passed ev then Inr ev
       else
         bindE (validate_against_contract flds
                  (case FACT_TABLE_CONTRACTS table of None \<Rightarrow> [] | Some c \<Rightarrow> c))
           (\<lambda>(ok, rules, reason).
             if \<not> ok then
               Inr (ev\<lparr>ev_passed := False, ev_reason := reason, ev_rules := rules,
                       ev_status := Some ''currency_rejected''\<rparr>)
             else
               bindE (sign_fields env table ''insert'' flds) (\<lambda>signed_rec. Inr (case signed_rec of
                 None \<Rightarrow> ev\<lparr>ev_passed := False, ev_reason := Some ''signing_unavailable'',
                            ev_rules := [''signing_secret_missing''], ev_status := Some ''persist_failed''\<rparr>
               | Some sr \<Rightarrow> ev\<lparr>ev_signed := Some sr\<rparr>))))"

definition ecommerce_reject ::
    "string \<Rightarrow> string \<Rightarrow> ecommerce_verdict \<Rightarrow> pydict \<Rightarrow> string \<Rightarrow> string option \<Rightarrow> reject_row" where
  "ecommerce_reject source table ev payload marketplace_id listing_id =
     (firewall_reject source table
        (case ev_reason ev of None \<Rightarrow> ''data_firewall_reject'' | Some r \<Rightarrow> r)
        (ev_rules ev) payload ''insert'')
     \<lparr>rr_marketplace_id := Some marketplace_id, rr_listing_id := listing_id\<rparr>"

definition evaluate_ecommerce ::
    "'e gate_env_scheme \<Rightarrow> currency_db \<Rightarrow> extracted option \<Rightarrow> string \<Rightarrow> string option
      \<Rightarrow> pydict option \<Rightarrow> string \<Rightarrow> bool \<Rightarrow> string \<Rightarrow> string option
      \<Rightarrow> ('s firewall_state_scheme, FirewallOutcome) act" where
  "evaluate_ecommerce env cdb record marketplace_id page_role persist_fields table has_db
       reject_source listing_id s =
     (case evaluate_ecommerce_rules cdb record marketplace_id (fs_currency_cache s) of
        (Inl e, cache) \<Rightarrow> (Inl e, s\<lparr>fs_currency_cache := cache\<rparr>)
      | (Inr g, cache) \<Rightarrow>
          (let s1 = s\<lparr>fs_currency_cache := cache\<rparr>;
               role = (case page_role of Some r \<Rightarrow> Some r
                       | None \<Rightarrow> (case record of None \<Rightarrow> None | Some d \<Rightarrow> ex_page_role d))
           in case persist_verdict env table persist_fields (role_verdict g role) of
                Inl e \<Rightarrow> (Inl e, s1)
              | Inr ev \<Rightarrow>
                  (Inr \<lparr> fo_passed = ev_passed ev, fo_reject_reason = ev_reason ev,
                         fo_failed_rules = ev_rules ev, fo_forced_log_status = ev_status ev,
                         fo_page_role_verdict = page_role_verdict role,
                         fo_notes = [(''page_role'', opt_text role)],
                         fo_product_name_ok = go_product_name_ok g, fo_price_ok = go_price_ok g,
                         fo_currency_ok = go_currency_ok g,
                         fo_currency_raw_sane_ok = go_currency_raw_sane_ok g,
                         fo_currency_country_match_ok = go_currency_country_match_ok g,
                         fo_signed_record = ev_signed ev \<rparr>,
                   if \<not> ev_passed ev \<and> has_db
                   then write_reject_data_isolated env
                          (ecommerce_reject reject_source table ev
                             (case persist_fields of Some f \<Rightarrow> f | None \<Rightarrow> extract_snapshot record)
                             marketplace_id listing_id) s1
                   else s1)))"

end
