(* ===== verification/FirewallFacts.thy ===== *)
theory FirewallFacts
  imports Firewall "HOL-Library.Multiset"
begin

text \<open>
  What the firewall guarantees: a payload it signs conforms to its table's contract, carries
  the locator the table asks for and a signature that verifies; a payload it rejects is
  recorded once, and never signed.
\<close>

section \<open>Conformance to a contract\<close>

text \<open>What a column accepts, stated without the order in which the checks are made.\<close>

definition column_conforms :: "ColumnContract \<Rightarrow> string \<Rightarrow> pyval \<Rightarrow> bool" where
  "column_conforms spec name v =
     (if v = PNone then cc_nullable spec
      else \<not> type_mismatch (cc_type spec) v
        \<and> (cc_type spec = ''string'' \<longrightarrow>
             (case cc_max_len spec of None \<Rightarrow> True | Some n \<Rightarrow> str_length v \<le> n))
        \<and> (cc_type spec = ''numeric'' \<longrightarrow>
             numeric_fits v (cc_precision spec) (cc_scale spec) = Inr True
             \<and> (name \<in> set positive_columns \<longrightarrow> \<not> num_le_zero v))
        \<and> (case cc_check_values spec of None \<Rightarrow> True | Some vs \<Rightarrow> py_str v \<in> set vs))"

definition row_conforms :: "table_contract \<Rightarrow> pydict \<Rightarrow> bool" where
  "row_conforms contract row =
     list_all (\<lambda>kv. case map_of contract (fst kv) of
         None \<Rightarrow> True | Some spec \<Rightarrow> column_conforms spec (fst kv) (snd kv)) row"

lemma column_failures_Nil: "column_failures spec name v = Inr [] \<longleftrightarrow> column_conforms spec name v"
  by (auto simp: column_failures_def column_conforms_def bindE_Inr_iff not_less
      split: option.splits if_splits)

lemma field_failures_Nil:
  "field_failures contract kv = Inr [] \<longleftrightarrow> (case map_of contract (fst kv) of
     None \<Rightarrow> True | Some spec \<Rightarrow> column_conforms spec (fst kv) (snd kv))"
  by (simp add: field_failures_def column_failures_Nil split: option.splits)

definition conforms_to :: "string \<Rightarrow> pydict \<Rightarrow> bool" where
  \<comment> \<open>conformance of a row, column by column\<close>
  "conforms_to t row =
     (map_of contract_models t \<noteq> None
      \<and> list_all (\<lambda>kv. case column_contract t (fst kv) of
           None \<Rightarrow> True | Some spec \<Rightarrow> column_conforms spec (fst kv) (snd kv)) row)"

lemma conforms_to_contract:
  assumes "conforms_to t row"
  obtains c where "FACT_TABLE_CONTRACTS t = Some c" "row_conforms c row"
proof -
  from assms obtain c where "FACT_TABLE_CONTRACTS t = Some c"
    using contract_exists [of t] by (auto simp: conforms_to_def)
  with assms contract_lookup [OF this] that show thesis
    by (simp add: conforms_to_def row_conforms_def)
qed

lemma mapE_all_Nil: "mapE f xs = Inr ys \<Longrightarrow> concat ys = [] \<longleftrightarrow> (\<forall>x \<in> set xs. f x = Inr [])"
  by (induction xs arbitrary: ys) (auto simp: bindE_Inr_iff)

lemma validate_result:
  "validate_against_contract row c = Inr (ok, rules, reason) \<Longrightarrow>
   (ok \<longleftrightarrow> row_conforms c row) \<and> (ok \<longleftrightarrow> rules = []) \<and> reason = (if ok then None else Some ''contract_violation'')"
  using mapE_all_Nil [of "field_failures c" row]
  by (auto simp: validate_against_contract_def bindE_Inr_iff Let_def row_conforms_def list_all_iff
      field_failures_Nil split: if_splits)

lemma validate_conforming:
  "row_conforms c row \<Longrightarrow> validate_against_contract row c = Inr (True, [], None)"
proof -
  assume "row_conforms c row"
  then have "\<And>kv. kv \<in> set row \<Longrightarrow> field_failures c kv = Inr []"
    by (auto simp: row_conforms_def list_all_iff field_failures_Nil)
  then have "mapE (field_failures c) row = Inr (map (\<lambda>_. []) row)" by (rule mapE_total)
  moreover have "concat (map (\<lambda>_. [] :: string list) row) = []" by simp
  ultimately show ?thesis unfolding validate_against_contract_def by (simp only: bindE_simps Let_def) simp
qed

section \<open>Signed records\<close>

text \<open>The contract between the doors and the persist layer: what every door signs.\<close>

definition sealed :: "'e signing_env_scheme \<Rightarrow> SignedRecord \<Rightarrow> bool" where
  "sealed env r =
     (verify env (sr_table r) (sr_operation r) (sr_fields r) (sr_locator r) (Some (sr_signature r)) = Inr True)"

definition locator_sealed :: "SignedRecord \<Rightarrow> bool" where
  "locator_sealed r = (extract_locator (sr_table r) (sr_fields r) = Inr (sr_locator r))"

lemma verify_sign:
  assumes "\<And>k b. hmac_sha256_hex env k b \<noteq> ''''" "sign env t p f l = Inr (Some sg)"
  shows "verify env t p f l (Some sg) = Inr True"
  using assms by (auto simp: verify_def sign_def bindE_Inr_iff split: option.splits)

lemma sign_fields_Some:
  assumes mac: "\<And>k b. hmac_sha256_hex env k b \<noteq> ''''"
    and "sign_fields env t p f = Inr (Some r)"
  shows "sr_table r = t \<and> sr_operation r = p \<and> sr_fields r = f \<and> locator_sealed r \<and> sealed env r"
  using assms(2) verify_sign [OF mac]
  by (auto simp: sign_fields_def bindE_Inr_iff sealed_def locator_sealed_def split: option.splits)

lemma sign_fields_None:
  "sign_fields env t p f = Inr None \<Longrightarrow> signing_secret env = None"
  by (auto simp: sign_fields_def bindE_Inr_iff sign_def split: option.splits)

section \<open>The market rail\<close>

lemma evaluate_market_Inr:
  assumes "evaluate_market env rec t p has_db src s = (Inr out, s')"
  shows "(FACT_TABLE_CONTRACTS t = None \<and> out = market_outcome False (Some ''unknown_table'') [''unknown_table''] t None \<and> s' = s)
    \<or> (\<exists>c r. FACT_TABLE_CONTRACTS t = Some c \<and> row_conforms c rec \<and> sign_fields env t p rec = Inr (Some r)
          \<and> out = market_outcome True None [] t (Some r) \<and> s' = s)
    \<or> (\<exists>c rules reason. FACT_TABLE_CONTRACTS t = Some c
          \<and> (\<not> row_conforms c rec \<and> reason = ''contract_violation'' \<and> rules \<noteq> []
             \<or> row_conforms c rec \<and> sign_fields env t p rec = Inr None
               \<and> reason = ''signing_unavailable'' \<and> rules = [''signing_secret_missing''])
          \<and> out = market_outcome False (Some reason) rules t None
          \<and> s' = (if has_db then write_reject_data_isolated env (firewall_reject src t reason rules rec p) s else s))"
proof (cases "FACT_TABLE_CONTRACTS t")
  case None
  then show ?thesis using assms by (simp add: evaluate_market_def)
next
  case (Some c)
  from assms Some obtain ok rules reason where v: "validate_against_contract rec c = Inr (ok, rules, reason)"
    by (cases "validate_against_contract rec c") (auto simp: evaluate_market_def bindA_apply)
  note vr = validate_result [OF v]
  show ?thesis
  proof (cases ok)
    case False
    with assms Some v vr show ?thesis
      by (auto simp: evaluate_market_def split: if_splits)
  next
    case True
    with assms Some v obtain ro where ro: "sign_fields env t p rec = Inr ro"
      by (cases "sign_fields env t p rec") (auto simp: evaluate_market_def)
    from True assms Some v vr ro show ?thesis
      by (cases ro) (auto simp: evaluate_market_def split: if_splits)
  qed
qed

lemma evaluate_market_passes:
  assumes "FACT_TABLE_CONTRACTS t = Some c" "row_conforms c rec" "sign_fields env t p rec = Inr (Some r)"
  shows "evaluate_market env rec t p has_db src s = (Inr (market_outcome True None [] t (Some r)), s)"
  using assms by (simp add: evaluate_market_def validate_conforming)

section \<open>The logs rail\<close>

lemma validate_rows_Inr:
  assumes "validate_rows env c t has_db src rows s = (Inr (valid, n), s')"
  shows "valid = filter (row_conforms c) rows \<and> n + length valid = length rows
    \<and> (\<exists>args. map rr_raw_payload args = filter (\<lambda>r. \<not> row_conforms c r) rows
          \<and> s' = (if has_db then write_all_isolated env args s else s))"
  using assms
proof (induction rows arbitrary: s valid n)
  case Nil
  then show ?case by simp
next
  case (Cons row rows)
  from Cons.prems obtain ok rules reason where v: "validate_against_contract row c = Inr (ok, rules, reason)"
    by (cases "validate_against_contract row c") (auto simp: bindA_apply)
  note vr = validate_result [OF v]
  let ?arg = "logs_reject src t (case reason of None \<Rightarrow> ''contract_violation'' | Some r \<Rightarrow> r) rules row"
  define s1 where "s1 = (if ok \<or> \<not> has_db then s else write_reject_data_isolated env ?arg s)"
  obtain valid' n' where rec: "validate_rows env c t has_db src rows s1 = (Inr (valid', n'), s')"
    and vn: "valid = (if ok then row # valid' else valid')" "n = (if ok then n' else Suc n')"
    using Cons.prems v by (auto simp: s1_def bindA_apply split: if_splits sum.splits prod.splits)
  from Cons.IH [OF rec] obtain args where ih: "valid' = filter (row_conforms c) rows"
    "n' + length valid' = length rows"
    "map rr_raw_payload args = filter (\<lambda>r. \<not> row_conforms c r) rows"
    "s' = (if has_db then write_all_isolated env args s1 else s1)" by blast
  show ?case
  proof (cases ok)
    case True
    with ih vn vr show ?thesis by (auto simp: s1_def)
  next
    case False
    have "map rr_raw_payload (?arg # args) = filter (\<lambda>r. \<not> row_conforms c r) (row # rows)"
      using False vr ih(3) by (simp add: logs_reject_def firewall_reject_def)
    moreover have "s' = (if has_db then write_all_isolated env (?arg # args) s else s)"
      using False ih(4) by (simp add: s1_def)
    moreover have "valid = filter (row_conforms c) (row # rows) \<and> n + length valid = length (row # rows)"
      using False ih(1,2) vn vr by simp
    ultimately show ?thesis by blast
  qed
qed

lemma write_all_append:
  "write_all_isolated env (a @ b) s = write_all_isolated env b (write_all_isolated env a s)"
  by (simp add: write_all_isolated_def)

lemma payloads_logs_reject: "map rr_raw_payload (map (logs_reject src t reason rules) rows) = rows"
  by (induction rows) (simp_all add: logs_reject_def firewall_reject_def)

lemma verify_sign_batch:
  assumes "\<And>k b. hmac_sha256_hex env k b \<noteq> ''''" "sign_batch env t p rs l = Inr (Some sg)"
  shows "verify_batch env t p rs l (Some sg) = Inr True"
  using assms by (auto simp: verify_batch_def sign_batch_def bindE_Inr_iff split: option.splits)

lemma evaluate_logs_Inr:
  assumes mac: "\<And>k b. hmac_sha256_hex env k b \<noteq> ''''"
    and eval: "evaluate_logs env rows t has_db src s = (Inr out, s')"
  shows "\<exists>args. s' = (if has_db then write_all_isolated env args s else s)
    \<and> length args = lo_rejected_count out
    \<and> (case lo_signed_batch out of
         None \<Rightarrow> lo_inserted_count out = 0 \<and> mset (map rr_raw_payload args) = mset rows
       | Some b \<Rightarrow> mset (map rr_raw_payload args) + mset (sb_rows b) = mset rows
           \<and> lo_inserted_count out = length (sb_rows b) \<and> sb_rows b \<noteq> []
           \<and> sb_table b = t \<and> sb_operation b = ''insert''
           \<and> extract_locator t (hd (sb_rows b)) = Inr (sb_locator b)
           \<and> verify_batch env t ''insert'' (sb_rows b) (sb_locator b) (Some (sb_signature b)) = Inr True
           \<and> (\<exists>c. FACT_TABLE_CONTRACTS t = Some c \<and> sb_rows b = filter (row_conforms c) rows))"
proof (cases "rows = []")
  case True
  with eval show ?thesis by (auto simp: evaluate_logs_def intro!: exI [of _ "[]"])
next
  case nonempty: False
  show ?thesis
  proof (cases "FACT_TABLE_CONTRACTS t")
    case None
    let ?args = "map (logs_reject src t ''unknown_table'' [''unknown_table'']) rows"
    have "out = \<lparr> lo_inserted_count = 0, lo_rejected_count = length rows, lo_signed_batch = None \<rparr>"
      "s' = (if has_db then write_all_isolated env ?args s else s)"
      using None eval nonempty by (auto simp: evaluate_logs_def)
    then show ?thesis by (intro exI [of _ ?args]) (simp add: payloads_logs_reject del: map_map mset_map)
  next
    case (Some c)
    with eval nonempty obtain valid n s1 where
      rows: "validate_rows env c t has_db src rows s = (Inr (valid, n), s1)"
      by (auto simp: evaluate_logs_def bindA_apply split: sum.splits prod.splits)
    from validate_rows_Inr [OF rows] obtain args where
      valid: "valid = filter (row_conforms c) rows" and n: "n + length valid = length rows"
      and args: "map rr_raw_payload args = filter (\<lambda>r. \<not> row_conforms c r) rows"
        "s1 = (if has_db then write_all_isolated env args s else s)" by blast
    have len: "length args = n"
    proof -
      have "length args = length (filter (\<lambda>r. \<not> row_conforms c r) rows)"
        using arg_cong [OF args(1), of length] by simp
      moreover have "length valid = length (filter (row_conforms c) rows)" by (simp only: valid)
      ultimately show ?thesis
        using n sum_length_filter_compl [of "row_conforms c" rows] by linarith
    qed
    have part: "mset (map rr_raw_payload args) + mset valid = mset rows"
      unfolding args(1) valid mset_filter
      by (rule trans [OF add.commute multiset_partition [symmetric]])
    show ?thesis
    proof (cases "valid = []")
      case True
      have "out = \<lparr> lo_inserted_count = 0, lo_rejected_count = n, lo_signed_batch = None \<rparr> \<and> s' = s1"
        using True eval nonempty Some rows by (simp add: evaluate_logs_def bindA_apply)
      with True part len args(2) show ?thesis by (intro exI [of _ args]) simp
    next
      case False
      with eval nonempty Some rows obtain l so where
        l: "extract_locator t (hd valid) = Inr l" and so: "sign_batch env t ''insert'' valid l = Inr so"
        by (auto simp: evaluate_logs_def bindA_apply split: sum.splits)
      show ?thesis
      proof (cases so)
        case None
        let ?more = "map (logs_reject src t ''signing_unavailable'' [''signing_secret_missing'']) valid"
        have "out = \<lparr> lo_inserted_count = 0, lo_rejected_count = n + length valid, lo_signed_batch = None \<rparr>
            \<and> s' = (if has_db then write_all_isolated env ?more s1 else s1)"
          using None False eval nonempty Some rows l so
          by (auto simp: evaluate_logs_def bindA_apply split: if_splits)
        with part len args(2) show ?thesis
          by (intro exI [of _ "args @ ?more"])
             (simp add: write_all_append payloads_logs_reject del: map_map mset_map)
      next
        case sg: (Some sg)
        have out: "out = \<lparr> lo_inserted_count = length valid, lo_rejected_count = n,
             lo_signed_batch = Some \<lparr> sb_table = t, sb_operation = ''insert'', sb_locator = l,
               sb_rows = valid, sb_signature = sg \<rparr> \<rparr> \<and> s' = s1"
          using sg False eval nonempty Some rows l so by (simp add: evaluate_logs_def bindA_apply)
        have "verify_batch env t ''insert'' valid l (Some sg) = Inr True"
          by (rule verify_sign_batch [OF mac so [unfolded sg]])
        with out part len args(2) False l Some show ?thesis
          by (intro exI [of _ args]) (simp add: valid)
      qed
    qed
  qed
qed

section \<open>The e-commerce rail\<close>

definition contract_or_empty :: "string \<Rightarrow> table_contract" where
  "contract_or_empty t = (case FACT_TABLE_CONTRACTS t of None \<Rightarrow> [] | Some c \<Rightarrow> c)"

lemma role_verdict_simps:
  "ev_signed (role_verdict g role) = None"
  "ev_passed (role_verdict g role) \<longleftrightarrow> go_passed g \<and> role \<noteq> Some ''listing'' \<and> role \<noteq> Some ''hub''"
  by (auto simp: role_verdict_def)

lemma role_verdict_reason:
  "(go_skip_reason g = None \<longleftrightarrow> go_passed g) \<Longrightarrow>
   ev_reason (role_verdict g role) = None \<longleftrightarrow> ev_passed (role_verdict g role)"
  by (auto simp: role_verdict_def)

lemma persist_verdict_Inr:
  assumes "persist_verdict env t pf ev0 = Inr ev" "ev_signed ev0 = None"
    and "ev_reason ev0 = None \<longleftrightarrow> ev_passed ev0"
  shows "(ev_reason ev = None \<longleftrightarrow> ev_passed ev) \<and> (\<not> ev_passed ev \<longrightarrow> ev_signed ev = None)
    \<and> (ev_passed ev \<longrightarrow> ev_passed ev0 \<and> (case pf of
         None \<Rightarrow> ev_signed ev = None
       | Some f \<Rightarrow> row_conforms (contract_or_empty t) f
           \<and> (\<exists>r. ev_signed ev = Some r \<and> sign_fields env t ''insert'' f = Inr (Some r))))"
proof (cases "pf = None \<or> \<not> ev_passed ev0")
  case True
  with assms show ?thesis by (auto simp: persist_verdict_def split: option.splits)
next
  case False
  then obtain f where f: "pf = Some f" and p: "ev_passed ev0" by auto
  with assms(1) obtain ok rules reason where
    v: "validate_against_contract f (contract_or_empty t) = Inr (ok, rules, reason)"
    by (auto simp: persist_verdict_def contract_or_empty_def bindE_Inr_iff)
  note vr = validate_result [OF v]
  show ?thesis
  proof (cases ok)
    case False
    with assms f p v vr show ?thesis
      by (auto simp: persist_verdict_def contract_or_empty_def [symmetric])
  next
    case True
    with assms(1) f p v obtain so where so: "sign_fields env t ''insert'' f = Inr so"
      by (auto simp: persist_verdict_def contract_or_empty_def [symmetric] bindE_Inr_iff)
    with True assms f p v vr show ?thesis
      by (cases so) (auto simp: persist_verdict_def contract_or_empty_def [symmetric])
  qed
qed

definition effective_role :: "string option \<Rightarrow> extracted option \<Rightarrow> string option" where
  "effective_role page_role record = (case page_role of
     Some r \<Rightarrow> Some r | None \<Rightarrow> (case record of None \<Rightarrow> None | Some d \<Rightarrow> ex_page_role d))"

lemma evaluate_ecommerce_Inr:
  assumes "evaluate_ecommerce env cdb record mp page_role pf t has_db src lid s = (Inr out, s')"
  obtains g cache ev where
    "evaluate_ecommerce_rules cdb record mp (fs_currency_cache s) = (Inr g, cache)"
    "persist_verdict env t pf (role_verdict g (effective_role page_role record)) = Inr ev"
    "fo_passed out = ev_passed ev" "fo_reject_reason out = ev_reason ev"
    "fo_signed_record out = ev_signed ev" "fo_price_ok out = go_price_ok g"
    "s' = (if \<not> ev_passed ev \<and> has_db
           then write_reject_data_isolated env
                  (ecommerce_reject src t ev (case pf of Some f \<Rightarrow> f | None \<Rightarrow> extract_snapshot record) mp lid)
                  (s\<lparr>fs_currency_cache := cache\<rparr>)
           else s\<lparr>fs_currency_cache := cache\<rparr>)"
proof -
  obtain gr cache where r: "evaluate_ecommerce_rules cdb record mp (fs_currency_cache s) = (gr, cache)"
    by fastforce
  with assms obtain g where g: "gr = Inr g" by (cases gr) (auto simp: evaluate_ecommerce_def)
  with assms r obtain ev where ev:
    "persist_verdict env t pf (role_verdict g (effective_role page_role record)) = Inr ev"
    by (auto simp: evaluate_ecommerce_def Let_def effective_role_def split: sum.splits)
  from assms r g ev show thesis
    by (intro that [of g cache ev])
       (auto simp: evaluate_ecommerce_def Let_def effective_role_def [symmetric])
qed

text \<open>What an extract must show to be priced.\<close>

definition extract_acceptable :: "currency_db \<Rightarrow> string \<Rightarrow> extracted option \<Rightarrow> bool" where
  "extract_acceptable cdb mp record = (case record of
     None \<Rightarrow> False
   | Some d \<Rightarrow> (text_given (ex_product_name d) \<or> text_given (ex_title d))
       \<and> price_positive (ex_price d) = Inr True
       \<and> (\<exists>c. ex_currency d = Some c \<and> py_strip c \<noteq> '''')
       \<and> currency_allowed cdb mp (ex_currency d))"

lemma rules_passed_acceptable:
  assumes "cache_coherent cdb cache0"
    and "evaluate_ecommerce_rules cdb record mp cache0 = (Inr g, cache)" "go_passed g"
  shows "extract_acceptable cdb mp record"
  using assms(2)
proof (rule evaluate_ecommerce_rules_Inr)
  fix d
  assume d: "d = (case record of None \<Rightarrow> no_extract | Some d \<Rightarrow> d)"
    and n: "go_product_name_ok g = (text_given (ex_product_name d) \<or> text_given (ex_title d))"
    and p: "price_positive (ex_price d) = Inr (go_price_ok g)"
    and c: "go_currency_ok g = (case ex_currency d of None \<Rightarrow> False | Some c \<Rightarrow> py_strip c \<noteq> '''')"
    and m: "(go_currency_country_match_ok g, cache) = currency_matches cdb mp (ex_currency d) cache0"
  have "go_currency_country_match_ok g = currency_allowed cdb mp (ex_currency d)"
    using currency_matches_spec [OF assms(1), of mp "ex_currency d"] m by (metis fst_conv)
  moreover from assms(3) n have "record \<noteq> None"
    by (cases "record") (auto simp: d go_passed_def no_extract_def text_given_def)
  ultimately show ?thesis
    using assms(3) n p c d
    by (cases "record") (auto simp: extract_acceptable_def go_passed_def split: option.splits)
qed

lemma rules_cache_coherent:
  assumes "cache_coherent cdb cache0"
    and "evaluate_ecommerce_rules cdb record mp cache0 = (Inr g, cache)"
  shows "cache_coherent cdb cache"
  using assms(2)
  by (rule evaluate_ecommerce_rules_Inr)
     (use currency_matches_spec [OF assms(1), of mp] in \<open>metis snd_conv\<close>)

section \<open>Properties\<close>


definition accepting_env :: gate_env where
  \<comment> \<open>databases that accept every row, for concrete runs\<close>
  "accepting_env = \<lparr> hmac_sha256_hex = (\<lambda>k b. nat_str (length k) @ ''-'' @ nat_str (length b)),
     data_firewall_signing_secret = Some ''key'', reject_db_accepts = (\<lambda>_. True),
     alert_db_accepts = (\<lambda>_. True), data_firewall_reject_spike_threshold = 2,
     sentry_is_initialized = True \<rparr>"

definition sample_quote :: pydict where
  "sample_quote = [(''date_id'', PInt 42), (''symbol'', PStr ''BTC''), (''source'', PStr ''binance''),
     (''price_usd'', PInt 97)]"

lemma accepting_mac: "hmac_sha256_hex accepting_env k b \<noteq> ''''"
  by (simp add: accepting_env_def)


text \<open>
  On the logs rail every row is accounted for once: it is in the signed batch or it was
  handed to the reject store, and the two counts of the outcome are the sizes of these two
  groups. The batch holds exactly the conforming rows, in their order, and its signature
  verifies.
\<close>

theorem evaluate_logs_conserves_rows:
  assumes mac: "\<And>k b. hmac_sha256_hex env k b \<noteq> ''''"
    and eval: "evaluate_logs env rows t has_db src s = (Inr out, s')"
  shows "lo_inserted_count out + lo_rejected_count out = length rows
    \<and> (\<exists>args. length args = lo_rejected_count out
         \<and> s' = (if has_db then write_all_isolated env args s else s)
         \<and> mset (map rr_raw_payload args)
             + (case lo_signed_batch out of None \<Rightarrow> {#} | Some b \<Rightarrow> mset (sb_rows b)) = mset rows)
    \<and> (\<forall>b. lo_signed_batch out = Some b \<longrightarrow>
         (\<exists>c. FACT_TABLE_CONTRACTS t = Some c \<and> sb_rows b = filter (row_conforms c) rows)
         \<and> lo_inserted_count out = length (sb_rows b) \<and> sb_table b = t \<and> sb_operation b = ''insert''
         \<and> verify_batch env t ''insert'' (sb_rows b) (sb_locator b) (Some (sb_signature b)) = Inr True)"
proof -
  from evaluate_logs_Inr [OF assms] obtain args where
    s': "s' = (if has_db then write_all_isolated env args s else s)"
    and n: "length args = lo_rejected_count out"
    and b: "case lo_signed_batch out of
         None \<Rightarrow> lo_inserted_count out = 0 \<and> mset (map rr_raw_payload args) = mset rows
       | Some b \<Rightarrow> mset (map rr_raw_payload args) + mset (sb_rows b) = mset rows
           \<and> lo_inserted_count out = length (sb_rows b) \<and> sb_rows b \<noteq> []
           \<and> sb_table b = t \<and> sb_operation b = ''insert''
           \<and> extract_locator t (hd (sb_rows b)) = Inr (sb_locator b)
           \<and> verify_batch env t ''insert'' (sb_rows b) (sb_locator b) (Some (sb_signature b)) = Inr True
           \<and> (\<exists>c. FACT_TABLE_CONTRACTS t = Some c \<and> sb_rows b = filter (row_conforms c) rows)"
    by blast
  have part: "mset (map rr_raw_payload args)
      + (case lo_signed_batch out of None \<Rightarrow> {#} | Some b \<Rightarrow> mset (sb_rows b)) = mset rows"
    using b by (cases "lo_signed_batch out") simp_all
  from arg_cong [OF this, of size] have
    "length args + size (case lo_signed_batch out of None \<Rightarrow> {#} | Some b \<Rightarrow> mset (sb_rows b)) = length rows"
    by simp
  with n b have "lo_inserted_count out + lo_rejected_count out = length rows"
    by (cases "lo_signed_batch out") simp_all
  with s' n b part show ?thesis by (auto split: option.splits)
qed

definition sample_log :: pydict where
  "sample_log = [(''service'', PStr ''fx''), (''status'', PStr ''success'')]"

definition bad_log :: pydict where
  "bad_log = [(''service'', PStr ''fx''), (''status'', PStr ''maybe'')]"

theorem evaluate_logs_conserves_rows_witness:
  "\<exists>out s'. evaluate_logs accepting_env [bad_log, sample_log] ''api_logs'' True ''x'' quiet_state = (Inr out, s')
     \<and> lo_inserted_count out + lo_rejected_count out = 2"
proof -
  let ?run = "evaluate_logs accepting_env [bad_log, sample_log] ''api_logs'' True ''x'' quiet_state"
  have "case FACT_TABLE_CONTRACTS ''api_logs'' of
      Some c \<Rightarrow> validate_against_contract bad_log c = Inr (False, [''check:status''], Some ''contract_violation'')
        \<and> validate_against_contract sample_log c = Inr (True, [], None) | None \<Rightarrow> False"
    by code_simp
  then obtain c where c: "FACT_TABLE_CONTRACTS ''api_logs'' = Some c"
    "validate_against_contract bad_log c = Inr (False, [''check:status''], Some ''contract_violation'')"
    "validate_against_contract sample_log c = Inr (True, [], None)"
    by (auto split: option.splits)
  have l: "extract_locator ''api_logs'' sample_log = Inr []" by code_simp
  have "case sign_batch accepting_env ''api_logs'' ''insert'' [sample_log] [] of
      Inr (Some sg) \<Rightarrow> True | _ \<Rightarrow> False"
    by code_simp
  then obtain sg where sg: "sign_batch accepting_env ''api_logs'' ''insert'' [sample_log] [] = Inr (Some sg)"
    by (auto split: option.splits sum.splits)
  obtain out s' where run: "?run = (Inr out, s')"
    by (simp add: evaluate_logs_def bindA_apply c l sg)
  from evaluate_logs_conserves_rows [OF accepting_mac run] run show ?thesis by auto
qed


definition eur_db :: currency_db where
  "eur_db = \<lparr> get_marketplace = (\<lambda>_. Some \<lparr> mp_country_code = Some ''DE'', mp_currency_code = PNone,
       mp_scraper_config = PDict [] \<rparr>),
     get_country = (\<lambda>_. Some \<lparr> co_currency_code = PStr ''EUR'', co_main_currency_code = PNone \<rparr>) \<rparr>"

definition sample_extract :: extracted where
  "sample_extract = no_extract\<lparr>ex_title := Some ''Lamp'', ex_price := PInt 5, ex_currency := Some ''eur''\<rparr>"

definition sample_price :: pydict where
  "sample_price = [(''listing_id'', PUuid ''L1''), (''date_id'', PInt 42), (''price'', PInt 5),
     (''currency_code'', PStr ''EUR'')]"

definition empty_firewall_state :: firewall_state where
  "empty_firewall_state = gate_state.extend quiet_state (firewall_state.fields [])"


section \<open>The numeric check\<close>

text \<open>The double of ten to the sixteen, and its \<open>repr\<close>.\<close>

lemma bit_len_values: "bit_len 10000000000000000 = 54" "bit_len (Suc 0) = 1" "bit_len 1 = 1"
  by (simp_all add: bit_len.simps)

lemma num_digits_values:
  "num_digits 10000000000000000 = 17" "num_digits 1 = 1" "num_digits (Suc 0) = 1"
  by (simp_all add: num_digits_def nat_digits.simps)

lemma round_1e16: "round_ratio False 10000000000000000 1 = FFin False 5000000000000000 1"
  unfolding round_ratio_def
  by (simp add: bit_len_values pow_numerals round_half_even_def Let_def)

lemma shortest_1e16: "shortest_digits 5000000000000000 1 = (''1'', 16)"
proof -
  have "shortest_from 1 5000000000000000 1 10000000000000000 1 16 = (1, 16)"
    by (subst shortest_from.simps)
       (simp add: pow_numerals round_half_even_def float_of_dec_def round_1e16)
  moreover have "dec_exp 10000000000000000 1 = 16"
    by (simp add: dec_exp_def num_digits_values pow_numerals)
  moreover have "strip_zeros_right (nat_str (Suc 0)) = ''1''" by code_simp
  ultimately show ?thesis
    by (simp add: shortest_digits_def float_num_def float_den_def pow_numerals num_digits_values Let_def)
qed

text \<open>
  The numeric check counts digits, not magnitude. An integer passes for
  \<open>NUMERIC(p, s)\<close> exactly when it is below \<open>10^p\<close>, whatever the scale, although the column holds
  only values below \<open>10^(p-s)\<close>; and a float whose \<open>repr\<close> is in exponent notation counts its
  significant digits only, so \<open>1e16\<close> passes for \<open>NUMERIC(12, 2)\<close>.
\<close>

theorem numeric_fits_ignores_scale:
  "(0 < p \<longrightarrow> numeric_fits (PInt i) (Some p) (Some s) = Inr (\<bar>i\<bar> < 10 ^ p))
   \<and> numeric_fits (PInt 12345678901) (Some 12) (Some 2) = Inr True
   \<and> (10::int) ^ (12 - 2) \<le> 12345678901
   \<and> numeric_fits (PFloat (float_of_int 10000000000000000)) (Some 12) (Some 2) = Inr True"
proof -
  have ints: "numeric_fits (PInt i) (Some p) (Some s) = Inr (\<bar>i\<bar> < 10 ^ p)" if "0 < p" for i p s
  proof -
    have "nat \<bar>i\<bar> < 10 ^ p \<longleftrightarrow> \<bar>i\<bar> < 10 ^ p"
      by (metis abs_ge_zero nat_less_iff of_nat_numeral of_nat_power)
    with num_digits_le_iff [OF that, of "nat \<bar>i\<bar>"] show ?thesis
      by (simp add: numeric_fits_def dec_of_int_def dec_fits_def)
  qed
  have "numeric_fits (PFloat (float_of_int 10000000000000000)) (Some 12) (Some 2) = Inr True"
    by (simp add: numeric_fits_def dec_of_float_def float_of_int_def round_1e16 shortest_1e16 Let_def
        digits_value_def dec_fits_def num_digits_values)
  with ints show ?thesis by simp
qed

theorem numeric_fits_ignores_scale_witness:
  "numeric_fits (PInt 99999999999) (Some 12) (Some 2) = Inr True"
  using numeric_fits_ignores_scale [of 12 99999999999 2] by simp

text \<open>
  An infinite or not-a-number float never comes out of the contract check of a bounded
  numeric column as a rejection: the check raises \<open>TypeError\<close>.
\<close>

theorem numeric_special_values_raise:
  assumes "map_of contract k = Some spec" "cc_type spec = ''numeric''"
    and "cc_precision spec = Some p" "cc_scale spec = Some d" and "dec_of_float f = None"
  shows "validate_against_contract [(k, PFloat f)] contract = Inl TypeError"
  using assms
  by (simp add: validate_against_contract_def field_failures_def column_failures_def type_mismatch_def
      isinstance_defs numeric_fits_def)

theorem numeric_special_values_raise_witness:
  "\<exists>c. FACT_TABLE_CONTRACTS ''fact_price'' = Some c
     \<and> validate_against_contract [(''price'', PFloat FNan)] c = Inl TypeError"
proof -
  have "case FACT_TABLE_CONTRACTS ''fact_price'' of Some c \<Rightarrow> (case map_of c ''price'' of Some spec \<Rightarrow>
      cc_type spec = ''numeric'' \<and> cc_precision spec = Some 12 \<and> cc_scale spec = Some 2 | None \<Rightarrow> False)
     | None \<Rightarrow> False"
    by code_simp
  then obtain c spec where "FACT_TABLE_CONTRACTS ''fact_price'' = Some c" "map_of c ''price'' = Some spec"
    "cc_type spec = ''numeric''" "cc_precision spec = Some 12" "cc_scale spec = Some 2"
    by (auto split: option.splits)
  with numeric_special_values_raise [of c "''price''" spec 12 2 FNan] show ?thesis
    by (simp add: dec_of_float_def)
qed

end
