(* ===== verification/Verification.thy ===== *)
theory Verification
  imports FirewallFacts
begin

text \<open>
  The checks of \<open>persist/writer.py\<close> on a signed record or batch before anything is written,
  the registry of \<open>persist/retention_config.py\<close>, and the interface \<open>write_door\<close>: what the
  persist layer relies on from every door of the firewall that signs records.
\<close>

section \<open>Registries\<close>

record RetentionTableConfig =
  cutoff_column :: string
  window_days :: nat

definition RETENTION_TABLES :: "(string \<times> RetentionTableConfig) list" where
  "RETENTION_TABLES = [
     (''service_alerts'', \<lparr> cutoff_column = ''triggered_at'', window_days = 3 \<rparr>),
     (''reject_data'', \<lparr> cutoff_column = ''created_at'', window_days = 3 \<rparr>),
     (''scrape_logs'', \<lparr> cutoff_column = ''created_at'', window_days = 14 \<rparr>),
     (''api_logs'', \<lparr> cutoff_column = ''created_at'', window_days = 60 \<rparr>)]"

definition SUPPORTED_WRITE_OPERATIONS :: "(string \<times> string list) list" where
  "SUPPORTED_WRITE_OPERATIONS = [
     (''dim_date'', [''insert'']),
     (''dim_product'', [''insert'', ''update'', ''delete'']),
     (''dim_marketplace'', [''insert'', ''update'', ''delete'']),
     (''dim_brand'', [''insert'', ''update'']),
     (''dim_category'', [''insert'', ''update'']),
     (''alerts'', [''insert'', ''update'', ''delete'']),
     (''alert_events'', [''insert'']),
     (''scrape_jobs'', [''insert'', ''update'', ''delete'']),
     (''fact_listing'', [''insert'', ''update'', ''delete'']),
     (''fact_price'', [''insert'', ''delete'']),
     (''fact_currency_rate'', [''insert'', ''delete'']),
     (''fact_crypto_price'', [''insert'', ''delete'']),
     (''fact_commodity_price'', [''insert'', ''delete'']),
     (''scrape_logs'', [''insert'', ''retention_delete'']),
     (''api_logs'', [''insert'', ''retention_delete'']),
     (''service_alerts'', [''insert'', ''update'', ''retention_delete'']),
     (''reject_data'', [''retention_delete'']),
     (''users'', [''insert'', ''update'', ''delete'']),
     (''ai_chat_sessions'', [''insert'']),
     (''ai_chat_messages'', [''insert''])]"

definition supports :: "string \<Rightarrow> string \<Rightarrow> bool" where
  \<comment> \<open>\<open>supported is not None and operation in supported\<close>\<close>
  "supports table operation = (case map_of SUPPORTED_WRITE_OPERATIONS table of
     None \<Rightarrow> False | Some ops \<Rightarrow> operation \<in> set ops)"

section \<open>Verification\<close>

definition locator_matches_fields :: "string \<Rightarrow> pydict \<Rightarrow> pydict \<Rightarrow> bool" where
  "locator_matches_fields table flds locator = (case extract_locator table flds of
     Inl _ \<Rightarrow> False
   | Inr expected \<Rightarrow> dict_eq expected locator)"

definition verify_retention_delete_record :: "'e signing_env_scheme \<Rightarrow> SignedRecord \<Rightarrow> string option res" where
  "verify_retention_delete_record env r =
     bindE (verify env (sr_table r) (sr_operation r) (sr_fields r) (sr_locator r) (Some (sr_signature r)))
       (\<lambda>ok. Inr (
         if \<not> ok then Some ''invalid_signature''
         else if sr_locator r \<noteq> [] then Some ''locator_mismatch''
         else case map_of RETENTION_TABLES (sr_table r) of
           None \<Rightarrow> Some ''unsupported_table''
         | Some config \<Rightarrow>
             if set (dict_keys (sr_fields r)) \<noteq> {''cutoff_column'', ''cutoff''}
             then Some ''invalid_retention_fields''
             else if dict_get (sr_fields r) ''cutoff_column'' \<noteq> PStr (cutoff_column config)
             then Some ''cutoff_column_mismatch''
             else if \<not> supports (sr_table r) ''retention_delete'' then Some ''unsupported_operation''
             else None))"

definition verify_signed_record :: "'e signing_env_scheme \<Rightarrow> SignedRecord \<Rightarrow> string option res" where
  "verify_signed_record env r =
     (if sr_operation r = ''retention_delete'' then verify_retention_delete_record env r
      else
        bindE (verify env (sr_table r) (sr_operation r) (sr_fields r) (sr_locator r) (Some (sr_signature r)))
          (\<lambda>ok. Inr (
            if \<not> ok then Some ''invalid_signature''
            else if \<not> locator_matches_fields (sr_table r) (sr_fields r) (sr_locator r)
            then Some ''locator_mismatch''
            else if \<not> supports (sr_table r) (sr_operation r) then Some ''unsupported_operation''
            else None)))"

definition verify_signed_batch :: "'e signing_env_scheme \<Rightarrow> SignedBatch \<Rightarrow> string option res" where
  "verify_signed_batch env b =
     bindE (verify_batch env (sb_table b) (sb_operation b) (sb_rows b) (sb_locator b) (Some (sb_signature b)))
       (\<lambda>ok. Inr (
         if \<not> ok then Some ''invalid_signature''
         else if sb_locator b \<noteq> []
              \<and> list_ex (\<lambda>row. \<not> locator_matches_fields (sb_table b) row (sb_locator b)) (sb_rows b)
         then Some ''locator_mismatch''
         else if \<not> supports (sb_table b) (sb_operation b) then Some ''unsupported_operation''
         else None))"

section \<open>Lemmas\<close>

lemma locator_sealed_matches:
  "locator_sealed r \<Longrightarrow> locator_matches_fields (sr_table r) (sr_fields r) (sr_locator r)"
  by (simp add: locator_sealed_def locator_matches_fields_def)

lemma verify_signed_record_accepts:
  assumes "sealed env r" "locator_sealed r" "supports (sr_table r) (sr_operation r)"
    and "sr_operation r \<noteq> ''retention_delete''"
  shows "verify_signed_record env r = Inr None"
  using assms locator_sealed_matches [of r] by (simp add: verify_signed_record_def sealed_def)

lemma verify_signed_record_None:
  assumes "verify_signed_record env r = Inr None"
  shows "sealed env r \<and> supports (sr_table r) (sr_operation r)
    \<and> (if sr_operation r = ''retention_delete''
       then sr_locator r = [] \<and> (\<exists>config. map_of RETENTION_TABLES (sr_table r) = Some config
              \<and> dict_get (sr_fields r) ''cutoff_column'' = PStr (cutoff_column config))
       else locator_matches_fields (sr_table r) (sr_fields r) (sr_locator r))"
  using assms
  by (auto simp: verify_signed_record_def verify_retention_delete_record_def bindE_Inr_iff sealed_def
      split: if_splits option.splits)

definition mac_ok :: "'e signing_env_scheme \<Rightarrow> bool" where
  \<comment> \<open>the text of a MAC is never empty\<close>
  "mac_ok env = (\<forall>k b. hmac_sha256_hex env k b \<noteq> '''')"

lemma mac_okD: "mac_ok env \<Longrightarrow> hmac_sha256_hex env k b \<noteq> ''''"
  by (simp add: mac_ok_def)

section \<open>The interface of a door\<close>

text \<open>
  A door decides on a payload. What it passes is a sealed record of that payload for a table
  and operation of its own, and it leaves the state alone; what it refuses has a reason and no
  signed record.
\<close>

locale signing_door =
  fixes door :: "'e gate_env_scheme \<Rightarrow> pydict \<Rightarrow> 's gate_state_scheme
                   \<Rightarrow> FirewallOutcome res \<times> 's gate_state_scheme"
    and may_write :: "string \<Rightarrow> string \<Rightarrow> bool"
  assumes seals: "mac_ok env \<Longrightarrow> door env f s = (Inr out, s') \<Longrightarrow> fo_passed out \<Longrightarrow>
      \<exists>r. fo_signed_record out = Some r \<and> sr_fields r = f \<and> sealed env r \<and> locator_sealed r
        \<and> may_write (sr_table r) (sr_operation r) \<and> s' = s"
    and refuses: "door env f s = (Inr out, s') \<Longrightarrow> \<not> fo_passed out \<Longrightarrow>
      fo_signed_record out = None \<and> fo_reject_reason out \<noteq> None"
begin

lemma signed_iff_passed:
  assumes "mac_ok env" "door env f s = (Inr out, s')"
  shows "(\<exists>r. fo_signed_record out = Some r) \<longleftrightarrow> fo_passed out"
  using seals [OF assms] refuses [OF assms(2)] by (cases "fo_passed out") auto

lemma signed_sealed:
  assumes "mac_ok env" "door env f s = (Inr out, s')" "fo_signed_record out = Some r"
  shows "sr_fields r = f \<and> sealed env r \<and> locator_sealed r \<and> may_write (sr_table r) (sr_operation r)"
  using seals [OF assms(1,2)] signed_iff_passed [OF assms(1,2)] assms(3) by auto

end

text \<open>A door whose tables and operations the persist layer supports.\<close>

locale write_door = signing_door door may_write
  for door :: "'e gate_env_scheme \<Rightarrow> pydict \<Rightarrow> 's gate_state_scheme
                   \<Rightarrow> FirewallOutcome res \<times> 's gate_state_scheme"
    and may_write :: "string \<Rightarrow> string \<Rightarrow> bool" +
  assumes supported: "may_write t p \<Longrightarrow> supports t p \<and> p \<noteq> ''retention_delete''"
begin

lemma persist_accepts:
  assumes "mac_ok env" "door env f s = (Inr out, s')" "fo_signed_record out = Some r"
  shows "verify_signed_record env r = Inr None"
  using signed_sealed [OF assms] supported verify_signed_record_accepts by blast

end

section \<open>The market rail as a door\<close>

interpretation market: signing_door
  "\<lambda>env f. evaluate_market env f t p has_db src" "\<lambda>t' p'. t' = t \<and> p' = p"
  for t p has_db src
proof
  fix env :: "'a gate_env_scheme" and f s out and s' :: "'b gate_state_scheme"
  assume mac: "mac_ok env" and run: "evaluate_market env f t p has_db src s = (Inr out, s')"
    and "fo_passed out"
  with evaluate_market_Inr [OF run] sign_fields_Some [OF mac_okD [OF mac], of t p f]
  show "\<exists>r. fo_signed_record out = Some r \<and> sr_fields r = f \<and> sealed env r \<and> locator_sealed r
        \<and> (sr_table r = t \<and> sr_operation r = p) \<and> s' = s"
    by (auto simp: market_outcome_def)
next
  fix env :: "'a gate_env_scheme" and f s out and s' :: "'b gate_state_scheme"
  assume run: "evaluate_market env f t p has_db src s = (Inr out, s')" and "\<not> fo_passed out"
  with evaluate_market_Inr [OF run]
  show "fo_signed_record out = None \<and> fo_reject_reason out \<noteq> None"
    by (auto simp: market_outcome_def)
qed

end
