(* ===== verification/Doors.thy ===== *)
theory Doors
  imports Verification
begin

text \<open>
  What the per-kind doors of the firewall share: a decision is either a refusal (its reason,
  the failed rules and notes) or a grant of a signed record, and settling it records a refusal
  on the isolated diagnostic session. Each door's module decides by its own chain of early
  returns (\<open>UpdateValidator\<close>, \<open>RetentionGate\<close>, \<open>UserDoor\<close>, \<open>ChatDoor\<close>, \<open>AlertDoor\<close>).
\<close>

datatype door_verdict =
    Refuse string "string list" pydict
  | Grant SignedRecord pydict

definition reject_outcome :: "string \<Rightarrow> string list \<Rightarrow> pydict \<Rightarrow> FirewallOutcome" where
  "reject_outcome reason rules ns =
     \<lparr> fo_passed = False, fo_reject_reason = Some reason, fo_failed_rules = rules,
       fo_forced_log_status = None, fo_page_role_verdict = None, fo_notes = ns,
       fo_product_name_ok = False, fo_price_ok = False, fo_currency_ok = False,
       fo_currency_raw_sane_ok = False, fo_currency_country_match_ok = False,
       fo_signed_record = None \<rparr>"

definition granted_outcome :: "SignedRecord \<Rightarrow> pydict \<Rightarrow> FirewallOutcome" where
  "granted_outcome r ns =
     \<lparr> fo_passed = True, fo_reject_reason = None, fo_failed_rules = [],
       fo_forced_log_status = None, fo_page_role_verdict = None, fo_notes = ns,
       fo_product_name_ok = False, fo_price_ok = False, fo_currency_ok = False,
       fo_currency_raw_sane_ok = False, fo_currency_country_match_ok = False,
       fo_signed_record = Some r \<rparr>"

definition isolated_reject ::
    "'e gate_env_scheme \<Rightarrow> bool \<Rightarrow> string \<Rightarrow> string \<Rightarrow> string \<Rightarrow> string \<Rightarrow> string list \<Rightarrow> pydict
      \<Rightarrow> 's gate_state_scheme \<Rightarrow> 's gate_state_scheme" where
  "isolated_reject env has_db source table operation reason rules flds s =
     (if has_db
      then write_reject_data_isolated env (firewall_reject source table reason rules flds operation) s
      else s)"

definition settle ::
    "'e gate_env_scheme \<Rightarrow> bool \<Rightarrow> string \<Rightarrow> string \<Rightarrow> string \<Rightarrow> pydict \<Rightarrow> door_verdict res
      \<Rightarrow> ('s gate_state_scheme, FirewallOutcome) act" where
  "settle env has_db source table operation flds verdict =
     bindA (liftA verdict) (\<lambda>v. case v of
       Grant r ns \<Rightarrow> retA (granted_outcome r ns)
     | Refuse reason rules ns \<Rightarrow>
         thenA (isolated_reject env has_db source table operation reason rules flds)
           (retA (reject_outcome reason rules ns)))"

definition sign_verdict ::
    "'e signing_env_scheme \<Rightarrow> string \<Rightarrow> string \<Rightarrow> pydict \<Rightarrow> pydict \<Rightarrow> door_verdict res" where
  \<comment> \<open>the last step of a door: sign, or refuse when no secret is configured\<close>
  "sign_verdict env table operation flds ns =
     bindE (sign_fields env table operation flds) (\<lambda>ro. Inr (case ro of
       None \<Rightarrow> Refuse ''signing_unavailable'' [''signing_secret_missing''] []
     | Some r \<Rightarrow> Grant r ns))"

definition not_allowed :: "string \<Rightarrow> string list \<Rightarrow> pydict \<Rightarrow> door_verdict" where
  \<comment> \<open>one rule per offending column, the first of them the reason\<close>
  "not_allowed label columns ns =
     (let rules = map (\<lambda>c. label @ '':'' @ c) columns in Refuse (hd rules) rules ns)"

section \<open>Lemmas\<close>

lemma settle_Inr:
  assumes "settle env has_db source table operation flds verdict s = (Inr out, s')"
  obtains r ns where "verdict = Inr (Grant r ns)" "out = granted_outcome r ns" "s' = s"
  | reason rules ns where "verdict = Inr (Refuse reason rules ns)"
      "out = reject_outcome reason rules ns"
      "s' = isolated_reject env has_db source table operation reason rules flds s"
  using assms by (cases verdict) (auto simp: settle_def split: door_verdict.splits)

lemma outcome_simps [simp]:
  "fo_passed (granted_outcome r ns)" "\<not> fo_passed (reject_outcome reason rules ns)"
  "fo_signed_record (granted_outcome r ns) = Some r"
  "fo_signed_record (reject_outcome reason rules ns) = None"
  "fo_reject_reason (granted_outcome r ns) = None"
  "fo_reject_reason (reject_outcome reason rules ns) = Some reason"
  by (simp_all add: granted_outcome_def reject_outcome_def)

lemma not_allowed_neq_Grant [simp]: "not_allowed l cs n \<noteq> Grant r m"
  by (simp add: not_allowed_def Let_def)

lemma sign_verdict_Grant:
  assumes "mac_ok env" "sign_verdict env t p f ns = Inr (Grant r ns')"
  shows "sr_table r = t \<and> sr_operation r = p \<and> sr_fields r = f \<and> locator_sealed r \<and> sealed env r"
  using assms(2) sign_fields_Some [OF mac_okD [OF assms(1)], of t p f]
  by (auto simp: sign_verdict_def bindE_Inr_iff split: option.splits)

lemma settle_passed:
  assumes "settle env has_db source table operation flds verdict s = (Inr out, s')" "fo_passed out"
  obtains r ns where "verdict = Inr (Grant r ns)" "fo_signed_record out = Some r" "s' = s"
  using assms by (elim settle_Inr) auto

text \<open>
  A door that settles a verdict is a signing door as soon as its verdict grants only sealed
  records of the payload.
\<close>

lemma signing_door_settle:
  assumes grants: "\<And>env f r ns. mac_ok env \<Longrightarrow> verdict env f = Inr (Grant r ns) \<Longrightarrow>
      sr_fields r = f \<and> sealed env r \<and> locator_sealed r \<and> may_write (sr_table r) (sr_operation r)"
  shows "signing_door (\<lambda>env f. settle env has_db source table operation f (verdict env f)) may_write"
proof
  fix env :: "'a gate_env_scheme" and f s out and s' :: "'b gate_state_scheme"
  assume mac: "mac_ok env" and "settle env has_db source table operation f (verdict env f) s = (Inr out, s')"
    and "fo_passed out"
  then obtain r ns where "verdict env f = Inr (Grant r ns)" "fo_signed_record out = Some r" "s' = s"
    by (elim settle_passed)
  with grants [OF mac this(1)]
  show "\<exists>r. fo_signed_record out = Some r \<and> sr_fields r = f \<and> sealed env r \<and> locator_sealed r
        \<and> may_write (sr_table r) (sr_operation r) \<and> s' = s"
    by blast
next
  fix env :: "'a gate_env_scheme" and f s out and s' :: "'b gate_state_scheme"
  assume "settle env has_db source table operation f (verdict env f) s = (Inr out, s')" "\<not> fo_passed out"
  then show "fo_signed_record out = None \<and> fo_reject_reason out \<noteq> None"
    by (elim settle_Inr) auto
qed

lemma supports_simps:
  "supports ''fact_listing'' ''update''" "supports ''fact_listing'' ''delete''"
  "supports ''dim_category'' ''update''" "supports ''dim_product'' ''update''"
  "supports ''dim_product'' ''delete''" "supports ''users'' ''insert''" "supports ''users'' ''update''"
  "supports ''users'' ''delete''" "supports ''ai_chat_sessions'' ''insert''"
  "supports ''ai_chat_messages'' ''insert''" "supports ''alerts'' ''insert''"
  "supports ''alerts'' ''update''" "supports ''alerts'' ''delete''" "supports ''alert_events'' ''insert''"
  by (simp_all add: supports_def SUPPORTED_WRITE_OPERATIONS_def)

end
