(* ===== verification/UpdateValidator.thy ===== *)
theory UpdateValidator
  imports Doors
begin

text \<open>
  \<open>data_firewall/update_validator.py\<close>: the scrape-owned updates (an allowlist of columns per
  table and kind, no reactivation) and deletes (the locator alone).
\<close>

definition SCRAPE_UPDATE_ALLOWLIST :: "(string \<times> (string \<times> string list) list) list" where
  "SCRAPE_UPDATE_ALLOWLIST = [
     (''fact_listing'', [
        (''listing_scrape_start_reset'', [''consecutive_errors'', ''last_error'']),
        (''listing_success_streak_reset'', [''failure_streak'']),
        (''listing_housekeeping_failure'', [''consecutive_errors'', ''last_error'', ''failure_streak'']),
        (''listing_deactivate'', [''is_active'']),
        (''listing_checked'', [''last_checked_at'']),
        (''listing_sitemap_lastmod'', [''sitemap_lastmod'']),
        (''listing_denorm_success'',
           [''last_price'', ''last_currency_code'', ''last_price_changed_at'', ''last_price_eur'',
            ''last_price_change_pct'', ''scrape_interval_minutes'']),
        (''listing_denorm_no_change'',
           [''last_checked_at'', ''last_price'', ''last_currency_code'', ''last_price_eur'',
            ''scrape_interval_minutes''])]),
     (''dim_category'', [
        (''category_translate'', [''name_en''])]),
     (''dim_product'', [
        (''product_enrich'',
           [''name'', ''name_normalized'', ''image_url'', ''brand_id'', ''category_id'', ''attributes'',
            ''product_type'', ''product_type_en'', ''title_en'', ''sku_universal'', ''mpn'']),
        (''product_match'', [''match_group_id'', ''match_method'', ''match_confidence''])])]"

definition SCRAPE_DELETE_TABLES :: "string list" where
  "SCRAPE_DELETE_TABLES = [''fact_listing'', ''dim_product'']"

definition update_allowlist :: "string \<Rightarrow> string \<Rightarrow> string list option" where
  "update_allowlist table kind = (case map_of SCRAPE_UPDATE_ALLOWLIST table of
     None \<Rightarrow> None | Some kinds \<Rightarrow> map_of kinds kind)"

definition locator_keys_of :: "string \<Rightarrow> string list" where
  \<comment> \<open>the locator keys, empty when the table has no locator contract\<close>
  "locator_keys_of table = (case map_of TABLE_LOCATORS table of None \<Rightarrow> [] | Some ks \<Rightarrow> ks)"

definition scrape_update_verdict ::
    "'e signing_env_scheme \<Rightarrow> string \<Rightarrow> string \<Rightarrow> pydict \<Rightarrow> door_verdict res" where
  "scrape_update_verdict env table kind flds =
     (case update_allowlist table kind of
        None \<Rightarrow> Inr (Refuse ''unknown_update_kind'' [''unknown_update_kind'']
                      [(''table'', PStr table), (''kind'', PStr kind)])
      | Some allowed \<Rightarrow>
          (let locator_keys = locator_keys_of table;
               missing = filter (\<lambda>k. \<not> has_key flds k) locator_keys;
               changed = filter (\<lambda>k. k \<notin> set locator_keys) (dict_keys flds);
               disallowed = sort (filter (\<lambda>k. k \<notin> set allowed) changed)
           in if locator_keys = [] then
                Inr (Refuse ''missing_locator'' [''missing_locator_contract''] [])
              else if missing \<noteq> [] then
                Inr (Refuse ''missing_locator'' [''missing_locator''] [(''missing'', PList (map PStr missing))])
              else if changed = [] then
                Inr (Refuse ''nothing_to_update'' [''nothing_to_update''] [])
              else if disallowed \<noteq> [] then
                Inr (not_allowed ''column_not_allowed'' disallowed [(''kind'', PStr kind)])
              else if dict_get flds ''is_active'' = PBool True then
                Inr (Refuse ''reactivation_forbidden'' [''reactivation_forbidden''] [])
              else
                sign_verdict env table ''update'' flds [(''table'', PStr table), (''kind'', PStr kind)]))"

definition authorize_scrape_update ::
    "'e gate_env_scheme \<Rightarrow> string \<Rightarrow> string \<Rightarrow> pydict \<Rightarrow> bool \<Rightarrow> string
      \<Rightarrow> ('s gate_state_scheme, FirewallOutcome) act" where
  "authorize_scrape_update env table kind flds has_db reject_source =
     settle env has_db reject_source table ''update'' flds (scrape_update_verdict env table kind flds)"

definition scrape_delete_verdict ::
    "'e signing_env_scheme \<Rightarrow> string \<Rightarrow> pydict \<Rightarrow> door_verdict res" where
  "scrape_delete_verdict env table flds =
     (let locator_keys = locator_keys_of table;
          extra = sort (filter (\<lambda>k. k \<notin> set locator_keys) (dict_keys flds))
      in if table \<notin> set SCRAPE_DELETE_TABLES then
           Inr (Refuse ''unknown_delete_table'' [''unknown_delete_table''] [(''table'', PStr table)])
         else if locator_keys = [] then
           Inr (Refuse ''missing_locator'' [''missing_locator''] [])
         else case extract_locator table flds of
           Inl _ \<Rightarrow> Inr (Refuse ''missing_locator'' [''missing_locator''] [])
         | Inr _ \<Rightarrow>
             if extra \<noteq> [] then Inr (not_allowed ''unexpected_delete_field'' extra [])
             else sign_verdict env table ''delete'' flds [(''table'', PStr table)])"

definition authorize_scrape_delete ::
    "'e gate_env_scheme \<Rightarrow> string \<Rightarrow> pydict \<Rightarrow> bool \<Rightarrow> string
      \<Rightarrow> ('s gate_state_scheme, FirewallOutcome) act" where
  "authorize_scrape_delete env table flds has_db reject_source =
     settle env has_db reject_source table ''delete'' flds (scrape_delete_verdict env table flds)"

section \<open>Lemmas\<close>

text \<open>What each verdict has checked when it grants.\<close>

lemma scrape_update_grants:
  assumes "scrape_update_verdict env table kind flds = Inr (Grant r ns)"
  obtains allowed where "update_allowlist table kind = Some allowed"
    and "\<And>k. k \<in> set (locator_keys_of table) \<Longrightarrow> has_key flds k"
    and "set (dict_keys flds) \<subseteq> set (locator_keys_of table) \<union> set allowed"
    and "\<not> set (dict_keys flds) \<subseteq> set (locator_keys_of table)"
    and "dict_get flds ''is_active'' \<noteq> PBool True"
    and "sign_verdict env table ''update'' flds [(''table'', PStr table), (''kind'', PStr kind)] = Inr (Grant r ns)"
  using assms
  by (auto simp: scrape_update_verdict_def Let_def filter_empty_conv subset_iff
      split: option.splits if_splits)

lemma scrape_delete_grants:
  assumes "scrape_delete_verdict env table flds = Inr (Grant r ns)"
  shows "table \<in> set SCRAPE_DELETE_TABLES \<and> set (dict_keys flds) = set (locator_keys_of table)
    \<and> sign_verdict env table ''delete'' flds [(''table'', PStr table)] = Inr (Grant r ns)"
proof -
  have "has_key flds k" if "extract_locator table flds = Inr l" "k \<in> set (locator_keys_of table)" for l k
    using that by (auto simp: extract_locator_def locator_keys_of_def mapE_Inr_iff list_all2_conv_all_nth
        in_set_conv_nth split: option.splits if_splits)
  with assms show ?thesis
    by (auto simp: scrape_delete_verdict_def Let_def filter_empty_conv has_key_def dict_keys_def
        split: sum.splits if_splits)
qed

lemma update_allowlist_tables:
  "update_allowlist table kind = Some allowed \<Longrightarrow>
   table = ''fact_listing'' \<or> table = ''dim_category'' \<or> table = ''dim_product''"
  by (auto simp: update_allowlist_def SCRAPE_UPDATE_ALLOWLIST_def split: option.splits if_splits)

section \<open>The doors\<close>

definition scrape_may_write :: "string \<Rightarrow> string \<Rightarrow> string \<Rightarrow> bool" where
  "scrape_may_write op t p = (p = op \<and>
     (op = ''update'' \<and> t \<in> {''fact_listing'', ''dim_category'', ''dim_product''}
      \<or> op = ''delete'' \<and> t \<in> {''fact_listing'', ''dim_product''}))"

interpretation scrape_update: write_door
  "\<lambda>env f. authorize_scrape_update env table kind f has_db src" "scrape_may_write ''update''"
  for table kind has_db src
  unfolding authorize_scrape_update_def
proof (intro write_door.intro signing_door_settle write_door_axioms.intro)
  fix env :: "'a gate_env_scheme" and f r ns
  assume mac: "mac_ok env" and "scrape_update_verdict env table kind f = Inr (Grant r ns)"
  then show "sr_fields r = f \<and> sealed env r \<and> locator_sealed r
      \<and> scrape_may_write ''update'' (sr_table r) (sr_operation r)"
    by (elim scrape_update_grants)
       (auto simp: scrape_may_write_def dest!: sign_verdict_Grant [OF mac] update_allowlist_tables)
qed (auto simp: scrape_may_write_def supports_simps)

interpretation scrape_delete: write_door
  "\<lambda>env f. authorize_scrape_delete env table f has_db src" "scrape_may_write ''delete''"
  for table has_db src
  unfolding authorize_scrape_delete_def
proof (intro write_door.intro signing_door_settle write_door_axioms.intro)
  fix env :: "'a gate_env_scheme" and f r ns
  assume mac: "mac_ok env" and "scrape_delete_verdict env table f = Inr (Grant r ns)"
  from scrape_delete_grants [OF this(2)] sign_verdict_Grant [OF mac]
  show "sr_fields r = f \<and> sealed env r \<and> locator_sealed r
      \<and> scrape_may_write ''delete'' (sr_table r) (sr_operation r)"
    by (auto simp: scrape_may_write_def SCRAPE_DELETE_TABLES_def)
qed (auto simp: scrape_may_write_def supports_simps)

end
