(* ===== verification/UserDoor.thy ===== *)
theory UserDoor
  imports Doors
begin

text \<open>
  \<open>data_firewall/user_door.py\<close> with its two predicates (\<open>user_active_predicate.py\<close>,
  \<open>user_superuser_predicate.py\<close>): writes of \<open>public.users\<close> by kind, with the privilege
  invariants on \<open>is_superuser\<close>, \<open>password_hash\<close>, \<open>plan\<close> and \<open>is_active\<close>.
\<close>

definition USER_TABLE :: string where
  "USER_TABLE = ''users''"

definition USER_INSERT_ALLOWLIST :: "(string \<times> string list) list" where
  "USER_INSERT_ALLOWLIST = [
     (''register'',
        [''email'', ''password_hash'', ''name'', ''company_name'', ''plan'', ''trial_ends_at'', ''language'']),
     (''admin_create'',
        [''email'', ''password_hash'', ''name'', ''company_name'', ''plan'', ''language'', ''timezone'',
         ''is_superuser'', ''force_password_change''])]"

definition USER_UPDATE_ALLOWLIST :: "(string \<times> string list) list" where
  "USER_UPDATE_ALLOWLIST = [
     (''login_touch'', [''last_login_at'']),
     (''password_change'', [''email'', ''password_hash'', ''force_password_change'']),
     (''self_update'',
        [''name'', ''company_name'', ''language'', ''timezone'', ''ai_tone'', ''default_currency'',
         ''avatar_url'', ''preferences'']),
     (''telegram_link'', [''telegram_chat_id'', ''telegram_link_code'']),
     (''admin_update'',
        [''email'', ''name'', ''company_name'', ''plan'', ''language'', ''timezone'', ''is_active'',
         ''is_superuser'']),
     (''admin_password_reset'', [''password_hash'', ''force_password_change''])]"

definition USER_DELETE_KINDS :: "string list" where
  "USER_DELETE_KINDS = [''admin_delete'']"

definition PASSWORD_HASH_KINDS :: "string list" where
  "PASSWORD_HASH_KINDS = [''register'', ''password_change'', ''admin_create'', ''admin_password_reset'']"

definition PLAN_KINDS :: "string list" where
  "PLAN_KINDS = [''register'', ''admin_create'', ''admin_update'']"

definition may_set_superuser :: "string \<Rightarrow> pydict \<Rightarrow> bool" where
  "may_set_superuser kind target_fields = (kind \<in> {''admin_create'', ''admin_update''})"

definition may_set_active :: "string \<Rightarrow> pydict \<Rightarrow> bool" where
  "may_set_active kind target_fields =
     (if \<not> has_key target_fields ''is_active'' then True
      else case dict_get target_fields ''is_active'' of
        PBool True \<Rightarrow> False
      | PBool False \<Rightarrow> kind = ''admin_update''
      | _ \<Rightarrow> False)"

definition check_semantic_invariants ::
    "string \<Rightarrow> string list \<Rightarrow> pydict \<Rightarrow> (string \<times> string list) option" where
  "check_semantic_invariants kind changed flds =
     (if ''is_superuser'' \<in> set changed \<and> \<not> may_set_superuser kind flds
      then Some (''privilege_escalation'', [''privilege_escalation''])
      else if ''password_hash'' \<in> set changed \<and> kind \<notin> set PASSWORD_HASH_KINDS
      then Some (''password_hash_forbidden'', [''password_hash_forbidden''])
      else if ''plan'' \<in> set changed \<and> kind \<notin> set PLAN_KINDS
      then Some (''plan_forbidden'', [''plan_forbidden''])
      else if ''is_active'' \<in> set changed \<and> \<not> may_set_active kind flds
      then (if dict_get flds ''is_active'' = PBool True
            then Some (''reactivation_forbidden'', [''reactivation_forbidden''])
            else Some (''is_active_forbidden'', [''is_active_forbidden'']))
      else None)"

definition validate_user_contract :: "pydict \<Rightarrow> (bool \<times> string list \<times> string option) res" where
  "validate_user_contract flds = (case FACT_TABLE_CONTRACTS USER_TABLE of
     None \<Rightarrow> Inr (False, [''unknown_table''], Some ''unknown_table'')
   | Some contract \<Rightarrow> validate_against_contract flds contract)"

definition user_locator_keys :: "string list" where
  "user_locator_keys = (case map_of TABLE_LOCATORS USER_TABLE of None \<Rightarrow> [] | Some ks \<Rightarrow> ks)"

text \<open>The common tail of the insert and update branches: invariants, contract, signature.\<close>

definition user_write_tail ::
    "'e signing_env_scheme \<Rightarrow> string \<Rightarrow> string \<Rightarrow> string list \<Rightarrow> pydict \<Rightarrow> pydict \<Rightarrow> door_verdict res" where
  "user_write_tail env operation kind changed flds checked =
     (case check_semantic_invariants kind changed flds of
        Some (reason, rules) \<Rightarrow> Inr (Refuse reason rules [])
      | None \<Rightarrow>
          bindE (validate_user_contract checked) (\<lambda>(passed, rules, reason).
            if \<not> passed then
              Inr (Refuse (case reason of None \<Rightarrow> ''contract_violation'' | Some r \<Rightarrow> r) rules [])
            else
              sign_verdict env USER_TABLE operation flds
                [(''table'', PStr USER_TABLE), (''kind'', PStr kind)]))"

definition user_write_verdict ::
    "'e signing_env_scheme \<Rightarrow> string \<Rightarrow> string \<Rightarrow> pydict \<Rightarrow> door_verdict res" where
  "user_write_verdict env operation kind flds =
     (let locator_keys = user_locator_keys;
          missing = filter (\<lambda>k. \<not> has_key flds k) locator_keys;
          changed = filter (\<lambda>k. k \<notin> set locator_keys) (dict_keys flds);
          unknown_kind = Inr (Refuse ''unknown_user_kind'' [''unknown_user_kind''] [(''kind'', PStr kind)])
      in if locator_keys = [] then Inr (Refuse ''missing_locator'' [''missing_locator_contract''] [])
         else if missing \<noteq> [] then
           Inr (Refuse ''missing_locator'' [''missing_locator''] [(''missing'', PList (map PStr missing))])
         else if operation = ''insert'' then
           (case map_of USER_INSERT_ALLOWLIST kind of
              None \<Rightarrow> unknown_kind
            | Some allowed \<Rightarrow>
                (let disallowed = sort (filter (\<lambda>k. k \<notin> set allowed) changed)
                 in if disallowed \<noteq> []
                    then Inr (not_allowed ''column_not_allowed'' disallowed [(''kind'', PStr kind)])
                    else user_write_tail env operation kind changed flds flds))
         else if operation = ''update'' then
           (case map_of USER_UPDATE_ALLOWLIST kind of
              None \<Rightarrow> unknown_kind
            | Some allowed \<Rightarrow>
                (let disallowed = sort (filter (\<lambda>k. k \<notin> set allowed) changed)
                 in if changed = [] then Inr (Refuse ''nothing_to_update'' [''nothing_to_update''] [])
                    else if disallowed \<noteq> []
                    then Inr (not_allowed ''column_not_allowed'' disallowed [(''kind'', PStr kind)])
                    else user_write_tail env operation kind changed flds
                           (map (\<lambda>k. (k, dict_get flds k)) changed)))
         else if operation = ''delete'' then
           (if kind \<notin> set USER_DELETE_KINDS then unknown_kind
            else case extract_locator USER_TABLE flds of
              Inl _ \<Rightarrow> Inr (Refuse ''missing_locator'' [''missing_locator''] [])
            | Inr _ \<Rightarrow>
                (if changed \<noteq> []
                 then Inr (not_allowed ''unexpected_delete_field'' (sort changed) [])
                 else sign_verdict env USER_TABLE operation flds
                        [(''table'', PStr USER_TABLE), (''kind'', PStr kind)]))
         else Inr (Refuse ''unsupported_operation'' [''unsupported_operation''] []))"

definition authorize_user_write ::
    "'e gate_env_scheme \<Rightarrow> pydict \<Rightarrow> string \<Rightarrow> string \<Rightarrow> bool \<Rightarrow> string
      \<Rightarrow> ('s gate_state_scheme, FirewallOutcome) act" where
  "authorize_user_write env flds operation kind has_db reject_source =
     settle env has_db reject_source USER_TABLE operation flds (user_write_verdict env operation kind flds)"

section \<open>Lemmas\<close>

lemma user_locator_keys_eq: "user_locator_keys = [''id'']"
  by (simp add: user_locator_keys_def USER_TABLE_def TABLE_LOCATORS_def)

definition user_contract :: table_contract where
  "user_contract = (case FACT_TABLE_CONTRACTS USER_TABLE of None \<Rightarrow> [] | Some c \<Rightarrow> c)"

lemma user_contract_exists: "FACT_TABLE_CONTRACTS USER_TABLE = Some user_contract"
proof -
  have "(''users'', User) \<in> set contract_models" by (simp add: contract_models_def)
  then obtain c where "FACT_TABLE_CONTRACTS ''users'' = Some c"
    by (rule FACT_TABLE_CONTRACTS_Some)
  then show ?thesis unfolding user_contract_def USER_TABLE_def by simp
qed

lemma user_write_tail_Grant:
  assumes "user_write_tail env operation kind changed flds checked = Inr (Grant r ns)"
  shows "check_semantic_invariants kind changed flds = None \<and> row_conforms user_contract checked
    \<and> sign_verdict env USER_TABLE operation flds [(''table'', PStr USER_TABLE), (''kind'', PStr kind)] = Inr (Grant r ns)"
proof -
  from assms have inv: "check_semantic_invariants kind changed flds = None"
    by (auto simp: user_write_tail_def split: option.splits)
  from assms inv obtain passed rules reason where
    v: "validate_against_contract checked user_contract = Inr (passed, rules, reason)"
    by (auto simp: user_write_tail_def validate_user_contract_def user_contract_exists bindE_Inr_iff)
  from assms inv validate_result [OF v] show ?thesis
    by (auto simp: user_write_tail_def validate_user_contract_def user_contract_exists v split: if_splits)
qed

text \<open>What a granted user write has passed, by operation.\<close>

lemma user_write_grants:
  assumes "user_write_verdict env operation kind flds = Inr (Grant r ns)"
  shows "has_key flds ''id''
    \<and> sign_verdict env USER_TABLE operation flds [(''table'', PStr USER_TABLE), (''kind'', PStr kind)] = Inr (Grant r ns)
    \<and> (if operation = ''delete'' then kind = ''admin_delete'' \<and> set (dict_keys flds) = {''id''}
       else (operation = ''insert'' \<or> operation = ''update'')
         \<and> (\<exists>allowed. map_of (if operation = ''insert'' then USER_INSERT_ALLOWLIST else USER_UPDATE_ALLOWLIST) kind
                = Some allowed \<and> set (dict_keys flds) \<subseteq> insert ''id'' (set allowed))
         \<and> check_semantic_invariants kind (filter (\<lambda>k. k \<noteq> ''id'') (dict_keys flds)) flds = None
         \<and> row_conforms user_contract
             (if operation = ''insert'' then flds
              else map (\<lambda>k. (k, dict_get flds k)) (filter (\<lambda>k. k \<noteq> ''id'') (dict_keys flds))))"
proof -
  let ?changed = "filter (\<lambda>k. k \<noteq> ''id'') (dict_keys flds)"
  have id: "has_key flds ''id''"
    using assms by (auto simp: user_write_verdict_def user_locator_keys_eq Let_def split: if_splits)
  consider "operation = ''insert''" | "operation = ''update''" | "operation = ''delete''"
    using assms by (auto simp: user_write_verdict_def user_locator_keys_eq Let_def split: if_splits)
  then show ?thesis
  proof cases
    case 1
    with assms id obtain allowed where a: "map_of USER_INSERT_ALLOWLIST kind = Some allowed"
      "filter (\<lambda>k. k \<notin> set allowed) ?changed = []"
      "user_write_tail env operation kind ?changed flds flds = Inr (Grant r ns)"
      by (auto simp: user_write_verdict_def user_locator_keys_eq Let_def split: option.splits if_splits)
    with 1 id user_write_tail_Grant [OF a(3)] show ?thesis
      by (auto simp: filter_empty_conv)
  next
    case 2
    with assms id obtain allowed where a: "map_of USER_UPDATE_ALLOWLIST kind = Some allowed"
      "filter (\<lambda>k. k \<notin> set allowed) ?changed = []"
      "user_write_tail env operation kind ?changed flds (map (\<lambda>k. (k, dict_get flds k)) ?changed) = Inr (Grant r ns)"
      by (auto simp: user_write_verdict_def user_locator_keys_eq Let_def split: option.splits if_splits)
    with 2 id user_write_tail_Grant [OF a(3)] show ?thesis
      by (auto simp: filter_empty_conv)
  next
    case 3
    with assms id show ?thesis
      by (auto simp: user_write_verdict_def user_locator_keys_eq Let_def USER_DELETE_KINDS_def
          filter_empty_conv has_key_def dict_keys_def split: sum.splits if_splits)
  qed
qed

section \<open>The door\<close>

definition user_may_write :: "string \<Rightarrow> string \<Rightarrow> bool" where
  "user_may_write t p = (t = ''users'' \<and> p \<in> {''insert'', ''update'', ''delete''})"

interpretation user: write_door
  "\<lambda>env f. authorize_user_write env f operation kind has_db src" user_may_write
  for operation kind has_db src
  unfolding authorize_user_write_def
proof (intro write_door.intro signing_door_settle write_door_axioms.intro)
  fix env :: "'a gate_env_scheme" and f r ns
  assume mac: "mac_ok env" and "user_write_verdict env operation kind f = Inr (Grant r ns)"
  from user_write_grants [OF this(2)] sign_verdict_Grant [OF mac]
  show "sr_fields r = f \<and> sealed env r \<and> locator_sealed r \<and> user_may_write (sr_table r) (sr_operation r)"
    by (auto simp: user_may_write_def USER_TABLE_def split: if_splits)
qed (auto simp: user_may_write_def supports_simps)

end
