(* ===== verification/PyNumber.thy ===== *)
theory PyNumber
  imports PyValue
begin

text \<open>\<open>float(v)\<close> and \<open>int(v)\<close> of the payload values, the text forms included.\<close>

definition is_digit_char :: "char \<Rightarrow> bool" where
  "is_digit_char c = (let n = (of_char c :: int) in 48 \<le> n \<and> n \<le> 57)"

definition digit_val :: "char \<Rightarrow> int" where
  "digit_val c = of_char c - 48"

definition digits_int :: "string \<Rightarrow> int" where
  "digits_int s = foldl (\<lambda>a c. 10 * a + digit_val c) 0 s"

fun drop_underscores :: "bool \<Rightarrow> string \<Rightarrow> string option" where
  \<comment> \<open>underscores are dropped where they stand between two digits, and an error elsewhere; the
     flag says whether the previous character was a digit\<close>
  "drop_underscores prev [] = Some []"
| "drop_underscores prev (c # s) =
     (if c = CHR ''_'' then
        (if prev \<and> s \<noteq> [] \<and> is_digit_char (hd s) then drop_underscores False s else None)
      else map_option (Cons c) (drop_underscores (is_digit_char c) s))"

definition split_sign :: "string \<Rightarrow> bool \<times> string" where
  "split_sign s = (case s of
     [] \<Rightarrow> (False, [])
   | c # t \<Rightarrow> if c = CHR ''-'' then (True, t) else if c = CHR ''+'' then (False, t) else (False, s))"

definition parse_unsigned_decimal :: "string \<Rightarrow> (int \<times> int) option" where
  \<comment> \<open>coefficient and decimal exponent\<close>
  "parse_unsigned_decimal s =
     (let mantissa = takeWhile (\<lambda>c. c \<noteq> CHR ''e'' \<and> c \<noteq> CHR ''E'') s;
          rest = dropWhile (\<lambda>c. c \<noteq> CHR ''e'' \<and> c \<noteq> CHR ''E'') s;
          whole = takeWhile (\<lambda>c. c \<noteq> CHR ''.'') mantissa;
          frac = drop 1 (dropWhile (\<lambda>c. c \<noteq> CHR ''.'') mantissa);
          (eneg, edigits) = split_sign (drop 1 rest);
          e = (if eneg then - digits_int edigits else digits_int edigits)
      in if list_all is_digit_char whole \<and> list_all is_digit_char frac \<and> whole @ frac \<noteq> []
            \<and> (rest = [] \<or> (edigits \<noteq> [] \<and> list_all is_digit_char edigits))
         then Some (digits_int (whole @ frac), (if rest = [] then 0 else e) - int (length frac))
         else None)"

definition float_of_text :: "string \<Rightarrow> pyfloat option" where
  "float_of_text s = (case drop_underscores False (py_strip s) of
     None \<Rightarrow> None
   | Some t \<Rightarrow>
       (case split_sign t of (neg, u) \<Rightarrow>
          if py_lower u \<in> {''inf'', ''infinity''} then Some (FInf neg)
          else if py_lower u = ''nan'' then Some FNan
          else map_option (\<lambda>(c, x). float_of_dec neg c x) (parse_unsigned_decimal u)))"

definition int_of_text :: "string \<Rightarrow> int option" where
  "int_of_text s = (case drop_underscores False (py_strip s) of
     None \<Rightarrow> None
   | Some t \<Rightarrow>
       (case split_sign t of (neg, u) \<Rightarrow>
          if u \<noteq> [] \<and> list_all is_digit_char u
          then Some (if neg then - digits_int u else digits_int u) else None))"

definition py_float :: "pyval \<Rightarrow> pyfloat res" where
  "py_float v = (case v of
     PBool b \<Rightarrow> Inr (float_of_int (if b then 1 else 0))
   | PInt i \<Rightarrow> (case float_of_int i of FInf _ \<Rightarrow> Inl OverflowError | f \<Rightarrow> Inr f)
   | PFloat f \<Rightarrow> Inr f
   | PDecimal (Dec neg c x) \<Rightarrow> Inr (float_of_dec neg (int c) x)
   | PStr s \<Rightarrow> (case float_of_text s of None \<Rightarrow> Inl ValueError | Some f \<Rightarrow> Inr f)
   | _ \<Rightarrow> Inl TypeError)"

definition trunc_ratio :: "int \<times> int \<Rightarrow> int" where
  "trunc_ratio r = (if fst r < 0 then - ((- fst r) div snd r) else fst r div snd r)"

definition py_int :: "pyval \<Rightarrow> int res" where
  "py_int v = (case v of
     PBool b \<Rightarrow> Inr (if b then 1 else 0)
   | PInt i \<Rightarrow> Inr i
   | PFloat f \<Rightarrow> (case f of
        FNan \<Rightarrow> Inl ValueError
      | FInf _ \<Rightarrow> Inl OverflowError
      | FFin neg m e \<Rightarrow> Inr (trunc_ratio (float_ratio neg m e)))
   | PDecimal d \<Rightarrow> Inr (trunc_ratio (dec_ratio d))
   | PStr s \<Rightarrow> (case int_of_text s of None \<Rightarrow> Inl ValueError | Some i \<Rightarrow> Inr i)
   | _ \<Rightarrow> Inl TypeError)"

definition float_le :: "pyfloat \<Rightarrow> pyfloat \<Rightarrow> bool" where
  \<comment> \<open>\<open>x <= y\<close>: false as soon as a NaN is involved\<close>
  "float_le x y = (case (x, y) of
     (FNan, _) \<Rightarrow> False
   | (_, FNan) \<Rightarrow> False
   | (FInf a, FInf b) \<Rightarrow> a \<or> \<not> b
   | (FInf a, FFin _ _ _) \<Rightarrow> a
   | (FFin _ _ _, FInf b) \<Rightarrow> \<not> b
   | (FFin n m e, FFin n' m' e') \<Rightarrow> ratio_le (float_ratio n m e) (float_ratio n' m' e'))"

definition float_lt :: "pyfloat \<Rightarrow> pyfloat \<Rightarrow> bool" where
  "float_lt x y = (float_le x y \<and> \<not> float_le y x)"

definition py_in_strs :: "pyval \<Rightarrow> string list \<Rightarrow> bool res" where
  \<comment> \<open>\<open>v in S\<close> for a frozenset of strings: a list or dict is unhashable\<close>
  "py_in_strs v S = (case v of
     PStr s \<Rightarrow> Inr (s \<in> set S)
   | PList _ \<Rightarrow> Inl TypeError
   | PDict _ \<Rightarrow> Inl TypeError
   | _ \<Rightarrow> Inr False)"

end
