(* ===== verification/ChatDoor.thy ===== *)
theory ChatDoor
  imports Doors PyNumber
begin

text \<open>
  \<open>data_firewall/chat_door.py\<close>: inserts of chat sessions and messages, bound to an owner, with
  an allowlist of columns per kind and the message roles a client may append.
\<close>

definition SESSIONS_TABLE :: string where "SESSIONS_TABLE = ''ai_chat_sessions''"

definition MESSAGES_TABLE :: string where "MESSAGES_TABLE = ''ai_chat_messages''"

definition MESSAGE_APPEND_ROLES :: "string list" where
  "MESSAGE_APPEND_ROLES = [''user'', ''assistant'']"

definition CHAT_INSERT_ALLOWLIST :: "(string \<times> (string \<times> string list) list) list" where
  "CHAT_INSERT_ALLOWLIST = [
     (SESSIONS_TABLE, [
        (''session_create'', [''user_id'', ''title'', ''context_type'', ''context_id''])]),
     (MESSAGES_TABLE, [
        (''message_append'',
           [''session_id'', ''role'', ''content'', ''tokens_used'', ''model_used'', ''duration_ms'',
            ''tool_calls'', ''user_rating''])])]"

definition chat_allowlist :: "string \<Rightarrow> string \<Rightarrow> string list option" where
  "chat_allowlist table kind = (case map_of CHAT_INSERT_ALLOWLIST table of
     None \<Rightarrow> None | Some kinds \<Rightarrow> map_of kinds kind)"

definition value_present :: "pyval \<Rightarrow> bool" where
  \<comment> \<open>\<open>v is not None and str(v).strip() != ""\<close>\<close>
  "value_present v = (v \<noteq> PNone \<and> py_strip (py_str v) \<noteq> '''')"

definition owner_present :: "string \<Rightarrow> pydict \<Rightarrow> bool" where
  "owner_present table flds =
     (if table = SESSIONS_TABLE then value_present (dict_get flds ''user_id'')
      else if table = MESSAGES_TABLE then value_present (dict_get flds ''session_id'')
      else False)"

definition validate_contract_subset ::
    "string \<Rightarrow> pydict \<Rightarrow> (bool \<times> string list \<times> string option) res" where
  "validate_contract_subset table flds = (case FACT_TABLE_CONTRACTS table of
     None \<Rightarrow> Inr (False, [''unknown_table''], Some ''unknown_table'')
   | Some contract \<Rightarrow> validate_against_contract flds contract)"

definition contract_then ::
    "string \<Rightarrow> pydict \<Rightarrow> pydict option \<Rightarrow> door_verdict res \<Rightarrow> door_verdict res" where
  \<comment> \<open>refuse when the contract does; the notes, when given, are built from the failed rules\<close>
  "contract_then table flds ns next =
     bindE (validate_contract_subset table flds) (\<lambda>(passed, rules, reason).
       if \<not> passed then
         Inr (Refuse (case reason of None \<Rightarrow> ''contract_violation'' | Some r \<Rightarrow> r) rules
               (case ns of None \<Rightarrow> []
                | Some base \<Rightarrow> base @ [(''kind'', PList (map PStr (take 1 rules)))]))
       else next)"

definition chat_write_verdict ::
    "'e signing_env_scheme \<Rightarrow> string \<Rightarrow> string \<Rightarrow> string \<Rightarrow> pydict \<Rightarrow> door_verdict res" where
  "chat_write_verdict env operation table kind flds =
     (if operation \<noteq> ''insert'' then
        Inr (Refuse ''unsupported_operation'' [''unsupported_operation''] [])
      else case chat_allowlist table kind of
        None \<Rightarrow> Inr (Refuse ''unknown_chat_kind'' [''unknown_chat_kind'']
                      [(''table'', PStr table), (''kind'', PStr kind)])
      | Some allowed \<Rightarrow>
          (let locator_keys = (case map_of TABLE_LOCATORS table of None \<Rightarrow> [] | Some ks \<Rightarrow> ks);
               missing = filter (\<lambda>k. \<not> has_key flds k) locator_keys;
               disallowed = sort (filter (\<lambda>k. k \<notin> set locator_keys \<and> k \<notin> set allowed) (dict_keys flds))
           in if locator_keys = [] then
                Inr (Refuse ''missing_locator'' [''missing_locator_contract''] [])
              else if missing \<noteq> [] then
                Inr (Refuse ''missing_locator'' [''missing_locator''] [(''missing'', PList (map PStr missing))])
              else if \<not> owner_present table flds then
                Inr (Refuse ''owner_missing'' [''owner_missing''] [])
              else if disallowed \<noteq> [] then
                Inr (not_allowed ''column_not_allowed'' disallowed [(''kind'', PStr kind)])
              else
                bindE (if table = MESSAGES_TABLE \<and> kind = ''message_append''
                       then py_in_strs (dict_get flds ''role'') MESSAGE_APPEND_ROLES else Inr True)
                  (\<lambda>role_ok.
                    if \<not> role_ok then
                      Inr (Refuse ''invalid_message_role'' [''invalid_message_role''] [])
                    else
                      contract_then table flds None
                        (sign_verdict env table operation flds
                           [(''table'', PStr table), (''kind'', PStr kind)]))))"

definition authorize_chat_write ::
    "'e gate_env_scheme \<Rightarrow> pydict \<Rightarrow> string \<Rightarrow> string \<Rightarrow> string \<Rightarrow> bool \<Rightarrow> string
      \<Rightarrow> ('s gate_state_scheme, FirewallOutcome) act" where
  "authorize_chat_write env flds operation table kind has_db reject_source =
     settle env has_db reject_source table operation flds (chat_write_verdict env operation table kind flds)"

section \<open>Lemmas\<close>

lemma contract_then_Grant:
  assumes "contract_then table flds ns nxt = Inr (Grant r n)"
  shows "(\<exists>c. FACT_TABLE_CONTRACTS table = Some c \<and> row_conforms c flds) \<and> nxt = Inr (Grant r n)"
proof -
  from assms obtain c passed rules reason where c: "FACT_TABLE_CONTRACTS table = Some c"
    and v: "validate_against_contract flds c = Inr (passed, rules, reason)"
    by (auto simp: contract_then_def validate_contract_subset_def bindE_Inr_iff split: option.splits)
  with assms validate_result [OF v] show ?thesis
    by (auto simp: contract_then_def validate_contract_subset_def split: if_splits)
qed

lemma chat_write_grants:
  assumes "chat_write_verdict env operation table kind flds = Inr (Grant r n)"
  obtains allowed where "chat_allowlist table kind = Some allowed" "operation = ''insert''"
    and "owner_present table flds"
    and "set (dict_keys flds) \<subseteq> set (case map_of TABLE_LOCATORS table of None \<Rightarrow> [] | Some ks \<Rightarrow> ks) \<union> set allowed"
    and "table = MESSAGES_TABLE \<and> kind = ''message_append'' \<longrightarrow> dict_get flds ''role'' \<in> PStr ` set MESSAGE_APPEND_ROLES"
    and "\<exists>c. FACT_TABLE_CONTRACTS table = Some c \<and> row_conforms c flds"
    and "sign_verdict env table operation flds [(''table'', PStr table), (''kind'', PStr kind)] = Inr (Grant r n)"
proof -
  from assms obtain allowed where a: "chat_allowlist table kind = Some allowed" "operation = ''insert''"
    by (auto simp: chat_write_verdict_def split: option.splits if_splits)
  from assms a have o1: "owner_present table flds"
    and o2: "set (dict_keys flds) \<subseteq> set (case map_of TABLE_LOCATORS table of None \<Rightarrow> [] | Some ks \<Rightarrow> ks) \<union> set allowed"
    by (auto simp: chat_write_verdict_def Let_def filter_empty_conv split: if_splits)
  from assms a have role: "bindE (if table = MESSAGES_TABLE \<and> kind = ''message_append''
        then py_in_strs (dict_get flds ''role'') MESSAGE_APPEND_ROLES else Inr True)
      (\<lambda>ok. if \<not> ok then Inr (Refuse ''invalid_message_role'' [''invalid_message_role''] [])
        else contract_then table flds None (sign_verdict env table operation flds
          [(''table'', PStr table), (''kind'', PStr kind)])) = Inr (Grant r n)"
    by (auto simp: chat_write_verdict_def Let_def split: if_splits)
  then have r: "(if table = MESSAGES_TABLE \<and> kind = ''message_append''
        then py_in_strs (dict_get flds ''role'') MESSAGE_APPEND_ROLES else Inr True) = Inr True"
    and c: "contract_then table flds None (sign_verdict env table operation flds
          [(''table'', PStr table), (''kind'', PStr kind)]) = Inr (Grant r n)"
    by (auto simp: bindE_Inr_iff split: if_splits)
  from r have "table = MESSAGES_TABLE \<and> kind = ''message_append'' \<longrightarrow>
      dict_get flds ''role'' \<in> PStr ` set MESSAGE_APPEND_ROLES"
    by (auto simp: py_in_strs_def split: pyval.splits)
  with that [OF a o1 o2 this] contract_then_Grant [OF c] show thesis by blast
qed

lemma chat_allowlist_tables:
  "chat_allowlist table kind = Some allowed \<Longrightarrow>
   table = SESSIONS_TABLE \<and> kind = ''session_create'' \<or> table = MESSAGES_TABLE \<and> kind = ''message_append''"
  by (auto simp: chat_allowlist_def CHAT_INSERT_ALLOWLIST_def split: option.splits if_splits)

section \<open>The door\<close>

definition chat_may_write :: "string \<Rightarrow> string \<Rightarrow> bool" where
  "chat_may_write t p = (t \<in> {SESSIONS_TABLE, MESSAGES_TABLE} \<and> p = ''insert'')"

interpretation chat: write_door
  "\<lambda>env f. authorize_chat_write env f operation table kind has_db src" chat_may_write
  for operation table kind has_db src
  unfolding authorize_chat_write_def
proof (intro write_door.intro signing_door_settle write_door_axioms.intro)
  fix env :: "'a gate_env_scheme" and f r n
  assume mac: "mac_ok env" and "chat_write_verdict env operation table kind f = Inr (Grant r n)"
  then show "sr_fields r = f \<and> sealed env r \<and> locator_sealed r \<and> chat_may_write (sr_table r) (sr_operation r)"
    by (elim chat_write_grants)
       (auto simp: chat_may_write_def dest!: sign_verdict_Grant [OF mac] chat_allowlist_tables)
qed (auto simp: chat_may_write_def SESSIONS_TABLE_def MESSAGES_TABLE_def supports_simps)

end
