(* ===== verification/AlertDoor.thy ===== *)
theory AlertDoor
  imports ChatDoor
begin

text \<open>
  \<open>data_firewall/alert_door.py\<close>: writes of price-alert rules and alert events, by kind, with the
  checks on channels, webhook, threshold and cooldown.
\<close>

definition ALERTS_TABLE :: string where "ALERTS_TABLE = ''alerts''"

definition ALERT_EVENTS_TABLE :: string where "ALERT_EVENTS_TABLE = ''alert_events''"

definition ALERT_TYPES :: "string list" where
  "ALERT_TYPES = [''price_drop'', ''price_rise'', ''availability'']"

definition ALERT_CHANNELS :: "string list" where
  "ALERT_CHANNELS = [''email'', ''telegram'', ''webhook'', ''in_app'']"

definition EVENT_SEVERITIES :: "string list" where
  "EVENT_SEVERITIES = [''low'', ''medium'', ''high'', ''critical'']"

definition ALERT_WRITE_ALLOWLIST :: "(string \<times> string list) list" where
  "ALERT_WRITE_ALLOWLIST = [
     (''rule_create'',
        [''id'', ''user_id'', ''listing_id'', ''product_id'', ''marketplace_id'', ''category_id'',
         ''country_code'', ''alert_type'', ''threshold_pct'', ''threshold_value'', ''channel'',
         ''channels'', ''webhook_url'', ''cooldown_minutes'', ''is_active'', ''trigger_count'',
         ''alert_class'']),
     (''rule_update'',
        [''id'', ''alert_type'', ''threshold_pct'', ''threshold_value'', ''channel'', ''channels'',
         ''webhook_url'', ''cooldown_minutes'', ''is_active'']),
     (''rule_delete'', [''id'']),
     (''rule_trigger'', [''id'', ''last_triggered_at'', ''trigger_count'']),
     (''event_create'',
        [''alert_id'', ''alert_class'', ''listing_id'', ''fact_price_id'', ''old_value'', ''new_value'',
         ''change_pct'', ''message'', ''severity'', ''sent_via'', ''delivered_at'', ''triggered_at''])]"

definition KIND_TARGETS :: "(string \<times> string \<times> string) list" where
  "KIND_TARGETS = [
     (''rule_create'', ALERTS_TABLE, ''insert''),
     (''rule_update'', ALERTS_TABLE, ''update''),
     (''rule_delete'', ALERTS_TABLE, ''delete''),
     (''rule_trigger'', ALERTS_TABLE, ''update''),
     (''event_create'', ALERT_EVENTS_TABLE, ''insert'')]"

section \<open>Semantic checks\<close>

definition fail_if :: "bool \<Rightarrow> string \<Rightarrow> string list" where
  "fail_if b label = (if b then [label] else [])"

definition optional_in :: "pyval \<Rightarrow> string list \<Rightarrow> string \<Rightarrow> string list res" where
  \<comment> \<open>\<open>if v is not None and v not in S: failed.append(label)\<close>\<close>
  "optional_in v S label =
     (if v = PNone then Inr [] else bindE (py_in_strs v S) (\<lambda>ok. Inr (fail_if (\<not> ok) label)))"

fun any_not_in :: "pyval list \<Rightarrow> string list \<Rightarrow> bool res" where
  "any_not_in [] S = Inr False"
| "any_not_in (v # vs) S = bindE (py_in_strs v S) (\<lambda>ok. if \<not> ok then Inr True else any_not_in vs S)"

definition channels_failures :: "pyval \<Rightarrow> string list res" where
  "channels_failures channels = (case channels of
     PNone \<Rightarrow> Inr []
   | PList vs \<Rightarrow>
       if vs = [] then Inr [''channels_invalid'']
       else bindE (any_not_in vs ALERT_CHANNELS) (\<lambda>bad. Inr (
         if bad then [''channels_value_invalid''] else fail_if (\<not> distinct vs) ''channels_duplicate''))
   | _ \<Rightarrow> Inr [''channels_invalid''])"

definition effective_channels :: "pyval \<Rightarrow> pyval \<Rightarrow> pyval list option" where
  "effective_channels channels channel = (case channels of
     PList (v # vs) \<Rightarrow> Some (v # vs)
   | _ \<Rightarrow> if channel \<noteq> PNone then Some [channel] else None)"

definition webhook_failures :: "pyval list option \<Rightarrow> pyval \<Rightarrow> string list" where
  "webhook_failures effective webhook_url =
     (case effective of
        None \<Rightarrow> []
      | Some chs \<Rightarrow>
          if PStr ''webhook'' \<in> set chs then
            fail_if (\<not> (case webhook_url of PStr u \<Rightarrow> startswith u ''https://'' | _ \<Rightarrow> False))
              ''webhook_url_https_required''
          else fail_if (webhook_url \<noteq> PNone) ''webhook_url_only_for_webhook_channel'')"

definition try_number :: "'a res \<Rightarrow> string \<Rightarrow> ('a \<Rightarrow> string list) \<Rightarrow> string list res" where
  \<comment> \<open>\<open>try: x = ... except (TypeError, ValueError): failed.append(label) else: ...\<close>\<close>
  "try_number m label check = (case m of
     Inl TypeError \<Rightarrow> Inr [label]
   | Inl ValueError \<Rightarrow> Inr [label]
   | Inl e \<Rightarrow> Inl e
   | Inr x \<Rightarrow> Inr (check x))"

definition threshold_failures :: "pyval \<Rightarrow> string list res" where
  "threshold_failures v =
     (if v = PNone then Inr []
      else try_number (py_float v) ''threshold_pct_invalid'' (\<lambda>x.
        fail_if (\<not> (float_lt (float_of_int 0) x \<and> float_le x (float_of_int 100)))
          ''threshold_pct_out_of_range''))"

definition cooldown_failures :: "pyval \<Rightarrow> string list res" where
  "cooldown_failures v =
     (if v = PNone then Inr []
      else try_number (py_int v) ''cooldown_invalid'' (\<lambda>minutes.
        fail_if (minutes < 0 \<or> 10080 < minutes) ''cooldown_out_of_range''))"

definition semantic_failures :: "string \<Rightarrow> pydict \<Rightarrow> string list res" where
  "semantic_failures kind flds =
     (let alert_type = dict_get flds ''alert_type''; channel = dict_get flds ''channel'';
          channels = dict_get flds ''channels''; webhook_url = dict_get flds ''webhook_url''
      in bindE (optional_in alert_type ALERT_TYPES ''alert_type_invalid'') (\<lambda>f1.
         bindE (optional_in channel ALERT_CHANNELS ''channel_invalid'') (\<lambda>f2.
         bindE (channels_failures channels) (\<lambda>f3.
         bindE (threshold_failures (dict_get flds ''threshold_pct'')) (\<lambda>f4.
         bindE (cooldown_failures (dict_get flds ''cooldown_minutes'')) (\<lambda>f5.
           Inr (fail_if (kind = ''rule_create'' \<and> \<not> py_truth (dict_get flds ''user_id'')) ''user_id_required''
                @ f1
                @ fail_if (kind = ''rule_create'' \<and> alert_type = PNone) ''alert_type_required''
                @ f2 @ f3
                @ webhook_failures (effective_channels channels channel) webhook_url
                @ f4 @ f5)))))))"

definition numeric_key_failures :: "pydict \<Rightarrow> string \<Rightarrow> string list res" where
  "numeric_key_failures flds key =
     (if dict_get flds key = PNone then Inr []
      else try_number (py_float (dict_get flds key)) (key @ ''_invalid'') (\<lambda>_. []))"

definition event_create_failures :: "pydict \<Rightarrow> string list res" where
  "event_create_failures flds =
     bindE (optional_in (dict_get flds ''severity'') EVENT_SEVERITIES ''severity_invalid'') (\<lambda>f1.
     bindE (optional_in (dict_get flds ''sent_via'') ALERT_CHANNELS ''sent_via_invalid'') (\<lambda>f2.
     bindE (mapE (numeric_key_failures flds) [''old_value'', ''new_value'', ''change_pct'']) (\<lambda>fs.
       Inr (fail_if (\<not> py_truth (dict_get flds ''alert_id'')) ''alert_id_required''
            @ fail_if (\<not> (case dict_get flds ''message'' of PStr m \<Rightarrow> py_strip m \<noteq> '''' | _ \<Rightarrow> False))
                ''message_required''
            @ f1 @ f2 @ concat fs))))"

definition rule_trigger_failures :: "pydict \<Rightarrow> string list res" where
  "rule_trigger_failures flds =
     (let count = dict_get flds ''trigger_count'' in
      bindE (if count = PNone then Inr [''trigger_count_invalid'']
             else try_number (py_int count) ''trigger_count_invalid'' (\<lambda>n.
               fail_if (n < 1) ''trigger_count_invalid''))
        (\<lambda>f. Inr (fail_if (\<not> py_truth (dict_get flds ''last_triggered_at'')) ''last_triggered_at_required'' @ f)))"

definition event_semantic_failures :: "string \<Rightarrow> pydict \<Rightarrow> string list res" where
  "event_semantic_failures kind flds =
     bindE (if kind = ''event_create'' then event_create_failures flds else Inr []) (\<lambda>f1.
     bindE (if kind = ''rule_trigger'' then rule_trigger_failures flds else Inr []) (\<lambda>f2.
       Inr (f1 @ f2)))"

section \<open>The door\<close>

definition alert_target :: "string \<Rightarrow> string \<times> string" where
  "alert_target kind = (case map_of KIND_TARGETS kind of
     None \<Rightarrow> (ALERTS_TABLE, ''insert'') | Some tp \<Rightarrow> tp)"

definition alert_reject_notes :: "string \<Rightarrow> string list \<Rightarrow> pydict" where
  "alert_reject_notes table rules = [(''table'', PStr table), (''kind'', PList (map PStr (take 1 rules)))]"

definition alert_refuse :: "string \<Rightarrow> string \<Rightarrow> string list \<Rightarrow> door_verdict" where
  "alert_refuse table reason rules = Refuse reason rules (alert_reject_notes table rules)"

definition alert_write_verdict ::
    "'e signing_env_scheme \<Rightarrow> string \<Rightarrow> pydict \<Rightarrow> door_verdict res" where
  "alert_write_verdict env kind flds =
     (case alert_target kind of (table, operation) \<Rightarrow>
        case map_of ALERT_WRITE_ALLOWLIST kind of
          None \<Rightarrow> Inr (alert_refuse table ''unknown_alert_kind'' [''kind:'' @ kind])
        | Some allowlist \<Rightarrow>
            (let extra = sort (filter (\<lambda>k. k \<notin> set allowlist) (dict_keys flds))
             in if extra \<noteq> [] then
                  Inr (alert_refuse table ''alert_field_not_allowed'' (map (\<lambda>n. ''field:'' @ n) extra))
                else
                  bindE (if table = ALERTS_TABLE then semantic_failures kind flds else Inr []) (\<lambda>failed1.
                  bindE (event_semantic_failures kind flds) (\<lambda>failed2.
                    if failed1 @ failed2 \<noteq> [] then
                      Inr (alert_refuse table ''alert_semantics'' (failed1 @ failed2))
                    else
                      contract_then table flds (Some [(''table'', PStr table)])
                        (bindE (sign_fields env table operation flds) (\<lambda>ro. Inr (case ro of
                           None \<Rightarrow> alert_refuse table ''signing_unavailable'' [''signing_secret_missing'']
                         | Some r \<Rightarrow> Grant r [(''table'', PStr table), (''kind'', PStr kind)])))))))"

definition authorize_alert_write ::
    "'e gate_env_scheme \<Rightarrow> pydict \<Rightarrow> string \<Rightarrow> string
      \<Rightarrow> ('s gate_state_scheme, FirewallOutcome) act" where
  "authorize_alert_write env flds kind reject_source =
     settle env True reject_source (fst (alert_target kind)) (snd (alert_target kind)) flds
       (alert_write_verdict env kind flds)"

section \<open>Lemmas\<close>

lemma fail_if_Nil [simp]: "fail_if b l = [] \<longleftrightarrow> \<not> b"
  by (simp add: fail_if_def)

lemma alert_refuse_neq_Grant [simp]: "alert_refuse t a b \<noteq> Grant r n"
  by (simp add: alert_refuse_def)

lemma alert_write_grants:
  assumes mac: "mac_ok env" and grant: "alert_write_verdict env kind flds = Inr (Grant r n)"
  obtains allowlist where "map_of ALERT_WRITE_ALLOWLIST kind = Some allowlist"
    and "set (dict_keys flds) \<subseteq> set allowlist"
    and "fst (alert_target kind) = ALERTS_TABLE \<longrightarrow> semantic_failures kind flds = Inr []"
    and "event_semantic_failures kind flds = Inr []"
    and "\<exists>c. FACT_TABLE_CONTRACTS (fst (alert_target kind)) = Some c \<and> row_conforms c flds"
    and "sr_table r = fst (alert_target kind) \<and> sr_operation r = snd (alert_target kind)
         \<and> sr_fields r = flds \<and> locator_sealed r \<and> sealed env r"
proof -
  obtain table operation where t: "alert_target kind = (table, operation)" by fastforce
  from grant obtain allowlist where a: "map_of ALERT_WRITE_ALLOWLIST kind = Some allowlist"
    by (auto simp: alert_write_verdict_def t split: option.splits)
  let ?sign = "bindE (sign_fields env table operation flds) (\<lambda>ro. Inr (case ro of
       None \<Rightarrow> alert_refuse table ''signing_unavailable'' [''signing_secret_missing'']
     | Some r \<Rightarrow> Grant r [(''table'', PStr table), (''kind'', PStr kind)]))"
  from grant a obtain f1 f2 where
    keys: "set (dict_keys flds) \<subseteq> set allowlist"
    and f: "(if table = ALERTS_TABLE then semantic_failures kind flds else Inr []) = Inr f1"
      "event_semantic_failures kind flds = Inr f2" "f1 = []" "f2 = []"
    and c: "contract_then table flds (Some [(''table'', PStr table)]) ?sign = Inr (Grant r n)"
    by (auto simp: alert_write_verdict_def t Let_def filter_empty_conv bindE_Inr_iff split: if_splits)
  from contract_then_Grant [OF c] have con: "\<exists>c. FACT_TABLE_CONTRACTS table = Some c \<and> row_conforms c flds"
    and "?sign = Inr (Grant r n)" by auto
  then have "sign_fields env table operation flds = Inr (Some r)"
    by (auto simp: bindE_Inr_iff split: option.splits)
  from sign_fields_Some [OF mac_okD [OF mac] this] con keys f a show thesis
    by (intro that [OF a]) (auto simp: t split: if_splits)
qed

definition alert_may_write :: "string \<Rightarrow> string \<Rightarrow> bool" where
  "alert_may_write t p =
     (t = ALERTS_TABLE \<and> p \<in> {''insert'', ''update'', ''delete''} \<or> t = ALERT_EVENTS_TABLE \<and> p = ''insert'')"

lemma alert_target_may_write: "alert_may_write (fst (alert_target kind)) (snd (alert_target kind))"
  by (auto simp: alert_may_write_def alert_target_def KIND_TARGETS_def split: option.splits if_splits)

interpretation alert: write_door
  "\<lambda>env f. authorize_alert_write env f kind src" alert_may_write
  for kind src
  unfolding authorize_alert_write_def
proof (intro write_door.intro signing_door_settle write_door_axioms.intro)
  fix env :: "'a gate_env_scheme" and f r n
  assume mac: "mac_ok env" and "alert_write_verdict env kind f = Inr (Grant r n)"
  with alert_target_may_write [of kind]
  show "sr_fields r = f \<and> sealed env r \<and> locator_sealed r \<and> alert_may_write (sr_table r) (sr_operation r)"
    by (elim alert_write_grants) auto
qed (auto simp: alert_may_write_def ALERTS_TABLE_def ALERT_EVENTS_TABLE_def supports_simps)

end
