(* ===== verification/RetentionGate.thy ===== *)
theory RetentionGate
  imports Doors
begin

text \<open>
  \<open>data_firewall/retention_gate.py\<close>: authorisation of the bulk deletes of service data. Whether
  a text is accepted by \<open>datetime.fromisoformat\<close> (compiled code of the interpreter) is a
  parameter.
\<close>

definition retention_delete_verdict ::
    "'e signing_env_scheme \<Rightarrow> (string \<Rightarrow> bool) \<Rightarrow> string \<Rightarrow> pydict \<Rightarrow> door_verdict res" where
  "retention_delete_verdict env iso_ok table flds =
     (case map_of RETENTION_TABLES table of
        None \<Rightarrow> Inr (Refuse ''retention_table_not_whitelisted'' [''retention_table_not_whitelisted'']
                      [(''table'', PStr table)])
      | Some config \<Rightarrow>
          if set (dict_keys flds) \<noteq> {''cutoff_column'', ''cutoff''} then
            Inr (Refuse ''retention_invalid_fields'' [''retention_invalid_fields''] [])
          else if dict_get flds ''cutoff_column'' \<noteq> PStr (cutoff_column config) then
            Inr (Refuse ''retention_cutoff_column_mismatch'' [''retention_cutoff_column_mismatch''] [])
          else if \<not> iso_ok (py_str (dict_get flds ''cutoff'')) then
            Inr (Refuse ''retention_invalid_cutoff'' [''retention_invalid_cutoff''] [])
          else
            bindE (sign env table ''retention_delete'' flds []) (\<lambda>signature. Inr (case signature of
              None \<Rightarrow> Refuse ''signing_unavailable'' [''signing_unavailable''] []
            | Some sg \<Rightarrow>
                Grant \<lparr> sr_table = table, sr_operation = ''retention_delete'', sr_locator = [],
                        sr_fields = flds, sr_signature = sg \<rparr>
                  [(''table'', PStr table), (''cutoff_column'', PStr (cutoff_column config))])))"

definition authorize_retention_delete ::
    "'e gate_env_scheme \<Rightarrow> (string \<Rightarrow> bool) \<Rightarrow> string \<Rightarrow> pydict \<Rightarrow> bool \<Rightarrow> string
      \<Rightarrow> ('s gate_state_scheme, FirewallOutcome) act" where
  "authorize_retention_delete env iso_ok table flds has_db reject_source =
     settle env has_db reject_source table ''retention_delete'' flds
       (retention_delete_verdict env iso_ok table flds)"

section \<open>Lemmas\<close>

lemma retention_grants:
  assumes mac: "mac_ok env" and grant: "retention_delete_verdict env iso_ok table flds = Inr (Grant r n)"
  shows "\<exists>config. map_of RETENTION_TABLES table = Some config
    \<and> set (dict_keys flds) = {''cutoff_column'', ''cutoff''}
    \<and> dict_get flds ''cutoff_column'' = PStr (cutoff_column config)
    \<and> iso_ok (py_str (dict_get flds ''cutoff''))
    \<and> sr_table r = table \<and> sr_operation r = ''retention_delete'' \<and> sr_locator r = [] \<and> sr_fields r = flds
    \<and> sealed env r"
proof -
  from grant obtain config where c: "map_of RETENTION_TABLES table = Some config"
    by (auto simp: retention_delete_verdict_def split: option.splits)
  with grant obtain sg where ok: "set (dict_keys flds) = {''cutoff_column'', ''cutoff''}"
    "dict_get flds ''cutoff_column'' = PStr (cutoff_column config)" "iso_ok (py_str (dict_get flds ''cutoff''))"
    and sg: "sign env table ''retention_delete'' flds [] = Inr (Some sg)"
    and r: "r = \<lparr> sr_table = table, sr_operation = ''retention_delete'', sr_locator = [],
       sr_fields = flds, sr_signature = sg \<rparr>"
    by (auto simp: retention_delete_verdict_def bindE_Inr_iff split: if_splits option.splits)
  from verify_sign [OF mac_okD [OF mac] sg] c ok r show ?thesis by (simp add: sealed_def)
qed

lemma retention_table_supported:
  "map_of RETENTION_TABLES table = Some config \<Longrightarrow> supports table ''retention_delete''"
  by (auto simp: RETENTION_TABLES_def supports_def SUPPORTED_WRITE_OPERATIONS_def split: if_splits)

lemma retention_persist_accepts:
  assumes "mac_ok env" "retention_delete_verdict env iso_ok table flds = Inr (Grant r n)"
  shows "verify_signed_record env r = Inr None"
  using retention_grants [OF assms] retention_table_supported
  by (auto simp: verify_signed_record_def verify_retention_delete_record_def sealed_def)

end
