(* ===== verification/DoorFacts.thy ===== *)
theory DoorFacts
  imports UpdateValidator UserDoor AlertDoor RetentionGate
begin

text \<open>
  What each door of the firewall lets through, and what slips past two of them.
\<close>

section \<open>Scrape updates and deletes\<close>


definition deactivation :: "pyval \<Rightarrow> pydict" where
  "deactivation v = [(''url_hash'', PStr ''h''), (''is_active'', v)]"

lemma run_scrape_update:
  assumes "scrape_update_verdict env table kind flds = Inr (Grant r ns)"
  shows "authorize_scrape_update env table kind flds has_db src s = (Inr (granted_outcome r ns), s)"
  using assms by (simp add: authorize_scrape_update_def settle_def)


text \<open>
  The guard against reactivation looks for the object \<open>True\<close> alone, and this rail does not
  check the payload against the contract: the integer 1, whose wire text the database reads as
  true, is granted for the deactivation kind.
\<close>

theorem scrape_update_reactivation_gap:
  assumes "signing_secret env = Some secret"
  shows "(\<exists>r n. scrape_update_verdict env ''fact_listing'' ''listing_deactivate'' (deactivation (PInt 1)) = Inr (Grant r n))
    \<and> canonical_str (PInt 1) = Inr (Some ''1'')
    \<and> (\<forall>c. FACT_TABLE_CONTRACTS ''fact_listing'' = Some c \<longrightarrow> \<not> row_conforms c (deactivation (PInt 1)))"
proof -
  have "case canonical_serialize_signed_payload ''fact_listing'' ''update'' (deactivation (PInt 1))
      [(''url_hash'', PStr ''h'')] of Inr b \<Rightarrow> True | _ \<Rightarrow> False"
    by code_simp
  then obtain b where "canonical_serialize_signed_payload ''fact_listing'' ''update'' (deactivation (PInt 1))
      [(''url_hash'', PStr ''h'')] = Inr b"
    by (auto split: sum.splits)
  moreover have "extract_locator ''fact_listing'' (deactivation (PInt 1)) = Inr [(''url_hash'', PStr ''h'')]"
    by code_simp
  ultimately have sg: "\<exists>r. sign_fields env ''fact_listing'' ''update'' (deactivation (PInt 1)) = Inr (Some r)"
    using assms by (simp add: sign_fields_def sign_def)
  have "update_allowlist ''fact_listing'' ''listing_deactivate'' = Some [''is_active'']"
    "locator_keys_of ''fact_listing'' = [''url_hash'']" "dict_keys (deactivation (PInt 1)) = [''url_hash'', ''is_active'']"
    "has_key (deactivation (PInt 1)) ''url_hash''" "dict_get (deactivation (PInt 1)) ''is_active'' = PInt 1"
    by code_simp+
  with sg have "\<exists>r n. scrape_update_verdict env ''fact_listing'' ''listing_deactivate'' (deactivation (PInt 1)) = Inr (Grant r n)"
    by (auto simp: scrape_update_verdict_def sign_verdict_def)
  moreover have "case column_contract ''fact_listing'' ''is_active'' of
      Some spec \<Rightarrow> \<not> column_conforms spec ''is_active'' (PInt 1) | None \<Rightarrow> False"
    by code_simp
  then have "\<not> row_conforms c (deactivation (PInt 1))" if "FACT_TABLE_CONTRACTS ''fact_listing'' = Some c" for c
    using contract_lookup [OF that]
    by (auto simp: row_conforms_def deactivation_def split: option.splits)
  moreover have "canonical_str (PInt 1) = Inr (Some ''1'')" by code_simp
  ultimately show ?thesis by blast
qed

theorem scrape_update_reactivation_gap_witness:
  "\<exists>r n. scrape_update_verdict accepting_env ''fact_listing'' ''listing_deactivate'' (deactivation (PInt 1)) = Inr (Grant r n)"
proof -
  have "signing_secret accepting_env = Some ''key''" by code_simp
  from scrape_update_reactivation_gap [OF this] show ?thesis by simp
qed

text \<open>
  A scrape delete passes only for the two prunable tables and with exactly the locator
  columns in its payload; its record is one the persist layer accepts.
\<close>

theorem scrape_delete_locator_only:
  assumes mac: "mac_ok env"
    and run: "authorize_scrape_delete env table flds has_db src s = (Inr out, s')"
    and passed: "fo_passed out"
  shows "table \<in> {''fact_listing'', ''dim_product''} \<and> set (dict_keys flds) = set (locator_keys_of table)
    \<and> (\<exists>r. fo_signed_record out = Some r \<and> sr_operation r = ''delete'' \<and> sr_fields r = flds
         \<and> verify_signed_record env r = Inr None)"
proof -
  from run passed obtain r ns where
    g: "scrape_delete_verdict env table flds = Inr (Grant r ns)" "fo_signed_record out = Some r"
    unfolding authorize_scrape_delete_def by (elim settle_passed)
  from scrape_delete_grants [OF g(1)] sign_verdict_Grant [OF mac] g(2)
    scrape_delete.persist_accepts [OF mac run g(2)]
  show ?thesis by (auto simp: SCRAPE_DELETE_TABLES_def)
qed

theorem scrape_delete_locator_only_witness:
  "set (dict_keys [(''id'', PUuid ''p'')]) = set (locator_keys_of ''dim_product'')"
proof -
  have "case scrape_delete_verdict accepting_env ''dim_product'' [(''id'', PUuid ''p'')] of
      Inr (Grant r n) \<Rightarrow> True | _ \<Rightarrow> False"
    by code_simp
  then obtain r n where "scrape_delete_verdict accepting_env ''dim_product'' [(''id'', PUuid ''p'')] = Inr (Grant r n)"
    by (auto split: sum.splits door_verdict.splits)
  then have "authorize_scrape_delete accepting_env ''dim_product'' [(''id'', PUuid ''p'')] True ''x'' quiet_state
      = (Inr (granted_outcome r n), quiet_state)"
    by (simp add: authorize_scrape_delete_def settle_def)
  from scrape_delete_locator_only [OF _ this] accepting_mac show ?thesis by (auto simp: mac_ok_def)
qed

section \<open>Users\<close>

text \<open>
  C24: A write of \<open>users\<close> passes only with the user's id and within its kind's allowlist, and
  the privileged columns stay with their kinds: \<open>is_superuser\<close> with the two admin kinds,
  \<open>password_hash\<close> and \<open>plan\<close> with theirs, \<open>is_active\<close> with \<open>admin_update\<close> and only as \<open>False\<close>; a
  delete carries the id alone and is an \<open>admin_delete\<close>.
\<close>

theorem user_write_privileges:
  assumes mac: "mac_ok env"
    and run: "authorize_user_write env flds operation kind has_db src s = (Inr out, s')"
    and passed: "fo_passed out"
  shows "operation \<in> {''insert'', ''update'', ''delete''} \<and> has_key flds ''id''
    \<and> (has_key flds ''is_superuser'' \<longrightarrow> kind \<in> {''admin_create'', ''admin_update''})
    \<and> (has_key flds ''password_hash'' \<longrightarrow>
         kind \<in> {''register'', ''password_change'', ''admin_create'', ''admin_password_reset''})
    \<and> (has_key flds ''plan'' \<longrightarrow> kind \<in> {''register'', ''admin_create'', ''admin_update''})
    \<and> (has_key flds ''is_active'' \<longrightarrow>
         kind = ''admin_update'' \<and> operation = ''update'' \<and> dict_get flds ''is_active'' = PBool False)
    \<and> (operation = ''delete'' \<longrightarrow> kind = ''admin_delete'' \<and> set (dict_keys flds) = {''id''})
    \<and> (\<exists>r. fo_signed_record out = Some r \<and> sr_table r = ''users'' \<and> verify_signed_record env r = Inr None)"
proof -
  from run passed obtain r ns where
    g: "user_write_verdict env operation kind flds = Inr (Grant r ns)" "fo_signed_record out = Some r"
    unfolding authorize_user_write_def by (elim settle_passed)
  note grants = user_write_grants [OF g(1)]
  have signed_rec: "sr_table r = ''users''" "verify_signed_record env r = Inr None"
    using grants sign_verdict_Grant [OF mac] user.persist_accepts [OF mac run g(2)]
    by (auto simp: USER_TABLE_def)
  have key: "has_key flds k \<longleftrightarrow> k \<in> set (dict_keys flds)" for k
    by (simp add: has_key_def dict_keys_def)
  show ?thesis
  proof (cases "operation = ''delete''")
    case True
    with grants signed_rec g(2) show ?thesis by (auto simp: key)
  next
    case False
    with grants obtain allowed where
      op: "operation = ''insert'' \<or> operation = ''update''"
      and al: "map_of (if operation = ''insert'' then USER_INSERT_ALLOWLIST else USER_UPDATE_ALLOWLIST) kind = Some allowed"
        "set (dict_keys flds) \<subseteq> insert ''id'' (set allowed)"
      and inv: "check_semantic_invariants kind (filter (\<lambda>k. k \<noteq> ''id'') (dict_keys flds)) flds = None"
      and id: "has_key flds ''id''"
      by auto
    have su: "has_key flds ''is_superuser'' \<longrightarrow> kind \<in> {''admin_create'', ''admin_update''}"
      and pw: "has_key flds ''password_hash'' \<longrightarrow> kind \<in> set PASSWORD_HASH_KINDS"
      and pl: "has_key flds ''plan'' \<longrightarrow> kind \<in> set PLAN_KINDS"
      and ac: "has_key flds ''is_active'' \<longrightarrow> may_set_active kind flds"
      using inv by (auto simp: check_semantic_invariants_def may_set_superuser_def key split: if_splits)
    have act: "has_key flds ''is_active'' \<longrightarrow> kind = ''admin_update'' \<and> dict_get flds ''is_active'' = PBool False"
      using ac by (auto simp: may_set_active_def split: pyval.splits bool.splits)
    have "operation = ''update''" if "has_key flds ''is_active''"
    proof (rule ccontr)
      assume "operation \<noteq> ''update''"
      with op al act that show False
        by (auto simp: USER_INSERT_ALLOWLIST_def split: if_splits)
    qed
    with op id su pw pl act signed_rec g(2) False show ?thesis
      by (auto simp: PASSWORD_HASH_KINDS_def PLAN_KINDS_def)
  qed
qed

definition deactivate_user :: pydict where
  "deactivate_user = [(''id'', PUuid ''u''), (''is_active'', PBool False)]"

theorem user_write_privileges_witness:
  "\<exists>out s'. authorize_user_write accepting_env deactivate_user ''update'' ''admin_update'' True ''x'' quiet_state = (Inr out, s')
     \<and> fo_passed out \<and> dict_get deactivate_user ''is_active'' = PBool False"
proof -
  have "conforms_to ''users'' [(''is_active'', PBool False)]" by code_simp
  then have c: "row_conforms user_contract [(''is_active'', PBool False)]"
    by (rule conforms_to_contract) (use user_contract_exists in \<open>simp add: USER_TABLE_def\<close>)
  have "case sign_fields accepting_env ''users'' ''update'' deactivate_user of
      Inr (Some r) \<Rightarrow> True | _ \<Rightarrow> False"
    by code_simp
  then obtain r where r: "sign_fields accepting_env ''users'' ''update'' deactivate_user = Inr (Some r)"
    by (auto split: option.splits sum.splits)
  have "check_semantic_invariants ''admin_update'' [''is_active''] deactivate_user = None"
    "map_of USER_UPDATE_ALLOWLIST ''admin_update'' =
       Some [''email'', ''name'', ''company_name'', ''plan'', ''language'', ''timezone'', ''is_active'', ''is_superuser'']"
    "dict_keys deactivate_user = [''id'', ''is_active'']" "has_key deactivate_user ''id''"
    "dict_get deactivate_user ''is_active'' = PBool False"
    by code_simp+
  with r obtain n where "user_write_verdict accepting_env ''update'' ''admin_update'' deactivate_user = Inr (Grant r n)"
    using validate_conforming [OF c] user_contract_exists
    by (simp add: user_write_verdict_def user_locator_keys_eq user_write_tail_def sign_verdict_def
        validate_user_contract_def USER_TABLE_def Let_def)
  then have run: "authorize_user_write accepting_env deactivate_user ''update'' ''admin_update'' True ''x'' quiet_state
      = (Inr (granted_outcome r n), quiet_state)"
    by (simp add: authorize_user_write_def settle_def)
  have "has_key deactivate_user ''is_active''" by (simp add: deactivate_user_def)
  with user_write_privileges [OF _ run] run accepting_mac show ?thesis by (auto simp: mac_ok_def)
qed

section \<open>Chat\<close>

text \<open>
  A chat write passes only as an insert of a session that names its user or of a message
  that names its session, with no column outside the allowlist and, for a message, the role of
  a user or an assistant; the payload conforms to the table's contract.
\<close>

theorem chat_write_owner_scoped:
  assumes mac: "mac_ok env"
    and run: "authorize_chat_write env flds operation table kind has_db src s = (Inr out, s')"
    and passed: "fo_passed out"
  shows "operation = ''insert''
    \<and> (table = ''ai_chat_sessions'' \<and> kind = ''session_create'' \<and> value_present (dict_get flds ''user_id'')
       \<or> table = ''ai_chat_messages'' \<and> kind = ''message_append'' \<and> value_present (dict_get flds ''session_id'')
         \<and> dict_get flds ''role'' \<in> {PStr ''user'', PStr ''assistant''})
    \<and> (\<exists>c. FACT_TABLE_CONTRACTS table = Some c \<and> row_conforms c flds)
    \<and> (\<exists>r. fo_signed_record out = Some r \<and> sr_table r = table \<and> verify_signed_record env r = Inr None)"
proof -
  from run passed obtain r ns where
    g: "chat_write_verdict env operation table kind flds = Inr (Grant r ns)" "fo_signed_record out = Some r"
    unfolding authorize_chat_write_def by (elim settle_passed)
  note ok = chat.persist_accepts [OF mac run g(2)]
  from g(1) show ?thesis
  proof (rule chat_write_grants)
    fix allowed
    assume a: "chat_allowlist table kind = Some allowed" and op: "operation = ''insert''"
      and own: "owner_present table flds"
      and role: "table = MESSAGES_TABLE \<and> kind = ''message_append'' \<longrightarrow>
        dict_get flds ''role'' \<in> PStr ` set MESSAGE_APPEND_ROLES"
      and con: "\<exists>c. FACT_TABLE_CONTRACTS table = Some c \<and> row_conforms c flds"
      and sg: "sign_verdict env table operation flds [(''table'', PStr table), (''kind'', PStr kind)] = Inr (Grant r ns)"
    have r: "\<exists>r. fo_signed_record out = Some r \<and> sr_table r = table \<and> verify_signed_record env r = Inr None"
      using sign_verdict_Grant [OF mac sg] ok g(2) by blast
    from chat_allowlist_tables [OF a]
    have "table = ''ai_chat_sessions'' \<and> kind = ''session_create'' \<and> value_present (dict_get flds ''user_id'')
       \<or> table = ''ai_chat_messages'' \<and> kind = ''message_append'' \<and> value_present (dict_get flds ''session_id'')
         \<and> dict_get flds ''role'' \<in> {PStr ''user'', PStr ''assistant''}"
    proof
      assume "table = SESSIONS_TABLE \<and> kind = ''session_create''"
      with own show ?thesis by (simp add: owner_present_def SESSIONS_TABLE_def)
    next
      assume t: "table = MESSAGES_TABLE \<and> kind = ''message_append''"
      with role have "dict_get flds ''role'' \<in> {PStr ''user'', PStr ''assistant''}"
        by (simp add: MESSAGE_APPEND_ROLES_def)
      with t own show ?thesis
        by (simp add: owner_present_def SESSIONS_TABLE_def MESSAGES_TABLE_def)
    qed
    with op con r show ?thesis by blast
  qed
qed

definition user_message :: pydict where
  "user_message = [(''id'', PInt 1), (''session_id'', PUuid ''s''), (''role'', PStr ''user''), (''content'', PStr ''hi'')]"

theorem chat_write_owner_scoped_witness:
  "\<exists>c. FACT_TABLE_CONTRACTS ''ai_chat_messages'' = Some c \<and> row_conforms c user_message"
proof -
  have "conforms_to ''ai_chat_messages'' user_message" by code_simp
  then obtain c where c: "FACT_TABLE_CONTRACTS ''ai_chat_messages'' = Some c" "row_conforms c user_message"
    by (rule conforms_to_contract)
  have "case sign_fields accepting_env ''ai_chat_messages'' ''insert'' user_message of
      Inr (Some r) \<Rightarrow> True | _ \<Rightarrow> False"
    by code_simp
  then obtain r where r: "sign_fields accepting_env ''ai_chat_messages'' ''insert'' user_message = Inr (Some r)"
    by (auto split: option.splits sum.splits)
  have "chat_allowlist ''ai_chat_messages'' ''message_append'' =
      Some [''session_id'', ''role'', ''content'', ''tokens_used'', ''model_used'', ''duration_ms'', ''tool_calls'', ''user_rating'']"
    "map_of TABLE_LOCATORS ''ai_chat_messages'' = Some [''id'']"
    "dict_keys user_message = [''id'', ''session_id'', ''role'', ''content'']" "has_key user_message ''id''"
    "owner_present ''ai_chat_messages'' user_message"
    "py_in_strs (dict_get user_message ''role'') MESSAGE_APPEND_ROLES = Inr True"
    by code_simp+
  with r obtain n where
    "chat_write_verdict accepting_env ''insert'' ''ai_chat_messages'' ''message_append'' user_message = Inr (Grant r n)"
    using validate_conforming [OF c(2)]
    by (simp add: chat_write_verdict_def contract_then_def validate_contract_subset_def c(1)
        sign_verdict_def MESSAGES_TABLE_def Let_def)
  then have run: "authorize_chat_write accepting_env user_message ''insert'' ''ai_chat_messages'' ''message_append''
      True ''x'' quiet_state = (Inr (granted_outcome r n), quiet_state)"
    by (simp add: authorize_chat_write_def settle_def)
  from chat_write_owner_scoped [OF _ run] accepting_mac show ?thesis by (auto simp: mac_ok_def)
qed

section \<open>Alerts\<close>

lemma optional_in_Nil: "optional_in v S l = Inr [] \<Longrightarrow> v = PNone \<or> v \<in> PStr ` set S"
  by (auto simp: optional_in_def bindE_Inr_iff py_in_strs_def split: if_splits pyval.splits)

lemma any_not_in_False: "any_not_in vs S = Inr False \<Longrightarrow> set vs \<subseteq> PStr ` set S"
  by (induction vs) (auto simp: bindE_Inr_iff py_in_strs_def split: if_splits pyval.splits)

lemma try_number_Nil: "try_number m l f = Inr [] \<Longrightarrow> \<exists>x. m = Inr x \<and> f x = []"
  by (auto simp: try_number_def split: sum.splits pyexc.splits)

lemma channels_effective:
  assumes "channels_failures channels = Inr []" "channel = PNone \<or> channel \<in> PStr ` set ALERT_CHANNELS"
    and "effective_channels channels channel = Some chs"
  shows "set chs \<subseteq> PStr ` set ALERT_CHANNELS"
proof (cases "\<exists>v vs. channels = PList (v # vs)")
  case True
  then obtain v vs where c: "channels = PList (v # vs)" by blast
  with assms(1) have n: "any_not_in (v # vs) ALERT_CHANNELS = Inr False"
    by (cases "any_not_in (v # vs) ALERT_CHANNELS") (auto simp: channels_failures_def split: if_splits)
  from assms(3) c have chs: "chs = v # vs" by (simp add: effective_channels_def)
  from any_not_in_False [OF n] show ?thesis unfolding chs .
next
  case False
  then have "effective_channels channels channel = (if channel \<noteq> PNone then Some [channel] else None)"
    by (cases channels) (auto simp: effective_channels_def split: list.splits)
  with assms(2,3) show ?thesis by (auto split: if_splits)
qed

lemma semantic_failures_Nil:
  assumes "semantic_failures kind flds = Inr []"
  shows "(kind = ''rule_create'' \<longrightarrow> py_truth (dict_get flds ''user_id'') \<and> dict_get flds ''alert_type'' \<noteq> PNone)
    \<and> (dict_get flds ''alert_type'' = PNone \<or> dict_get flds ''alert_type'' \<in> PStr ` set ALERT_TYPES)
    \<and> (\<forall>chs. effective_channels (dict_get flds ''channels'') (dict_get flds ''channel'') = Some chs \<longrightarrow>
         set chs \<subseteq> PStr ` set ALERT_CHANNELS
         \<and> webhook_failures (Some chs) (dict_get flds ''webhook_url'') = [])
    \<and> (dict_get flds ''threshold_pct'' = PNone \<or>
         (\<exists>x. py_float (dict_get flds ''threshold_pct'') = Inr x
            \<and> float_lt (float_of_int 0) x \<and> float_le x (float_of_int 100)))
    \<and> (dict_get flds ''cooldown_minutes'' = PNone \<or>
         (\<exists>n. py_int (dict_get flds ''cooldown_minutes'') = Inr n \<and> 0 \<le> n \<and> n \<le> 10080))"
proof -
  let ?ty = "dict_get flds ''alert_type''" and ?ch = "dict_get flds ''channel''" and ?chs = "dict_get flds ''channels''"
  from assms have f:
    "optional_in ?ty ALERT_TYPES ''alert_type_invalid'' = Inr []"
    "optional_in ?ch ALERT_CHANNELS ''channel_invalid'' = Inr []"
    "channels_failures ?chs = Inr []"
    "threshold_failures (dict_get flds ''threshold_pct'') = Inr []"
    "cooldown_failures (dict_get flds ''cooldown_minutes'') = Inr []"
    and g: "kind = ''rule_create'' \<longrightarrow> py_truth (dict_get flds ''user_id'')" "kind = ''rule_create'' \<longrightarrow> ?ty \<noteq> PNone"
      "webhook_failures (effective_channels ?chs ?ch) (dict_get flds ''webhook_url'') = []"
    by (auto simp: semantic_failures_def Let_def bindE_Inr_iff)
  have "set chs \<subseteq> PStr ` set ALERT_CHANNELS" if "effective_channels ?chs ?ch = Some chs" for chs
    by (rule channels_effective [OF f(3) optional_in_Nil [OF f(2)] that])
  moreover have "dict_get flds ''threshold_pct'' = PNone \<or>
      (\<exists>x. py_float (dict_get flds ''threshold_pct'') = Inr x
         \<and> float_lt (float_of_int 0) x \<and> float_le x (float_of_int 100))"
    using f(4) by (auto simp: threshold_failures_def dest!: try_number_Nil split: if_splits)
  moreover have "dict_get flds ''cooldown_minutes'' = PNone \<or>
      (\<exists>n. py_int (dict_get flds ''cooldown_minutes'') = Inr n \<and> 0 \<le> n \<and> n \<le> 10080)"
    using f(5) by (auto simp: cooldown_failures_def dest!: try_number_Nil split: if_splits)
  ultimately show ?thesis using g optional_in_Nil [OF f(1)] by auto
qed

text \<open>
  An alert write passes only with the columns of its kind. For a rule, a new one has an
  owner and a known type; the channels in effect are known ones, a webhook among them needs an
  https address and an address needs a webhook among them; a threshold is a number in
  (0, 100] and a cooldown between zero and a week. The persist layer accepts what is signed.
\<close>

theorem alert_write_checked:
  assumes mac: "mac_ok env"
    and run: "authorize_alert_write env flds kind src s = (Inr out, s')"
    and passed: "fo_passed out"
  shows "(\<exists>allowed. map_of ALERT_WRITE_ALLOWLIST kind = Some allowed \<and> set (dict_keys flds) \<subseteq> set allowed)
    \<and> (kind \<noteq> ''event_create'' \<longrightarrow>
        (kind = ''rule_create'' \<longrightarrow>
           py_truth (dict_get flds ''user_id'') \<and> dict_get flds ''alert_type'' \<in> PStr ` set ALERT_TYPES)
        \<and> (\<forall>chs. effective_channels (dict_get flds ''channels'') (dict_get flds ''channel'') = Some chs \<longrightarrow>
             set chs \<subseteq> PStr ` set ALERT_CHANNELS
             \<and> (if PStr ''webhook'' \<in> set chs
                then \<exists>u. dict_get flds ''webhook_url'' = PStr u \<and> startswith u ''https://''
                else dict_get flds ''webhook_url'' = PNone))
        \<and> (dict_get flds ''threshold_pct'' = PNone \<or>
             (\<exists>x. py_float (dict_get flds ''threshold_pct'') = Inr x
                \<and> float_lt (float_of_int 0) x \<and> float_le x (float_of_int 100)))
        \<and> (dict_get flds ''cooldown_minutes'' = PNone \<or>
             (\<exists>n. py_int (dict_get flds ''cooldown_minutes'') = Inr n \<and> 0 \<le> n \<and> n \<le> 10080)))
    \<and> (\<exists>r. fo_signed_record out = Some r \<and> verify_signed_record env r = Inr None)"
proof -
  from run passed obtain r ns where
    g: "alert_write_verdict env kind flds = Inr (Grant r ns)" "fo_signed_record out = Some r"
    unfolding authorize_alert_write_def by (elim settle_passed)
  note ok = alert.persist_accepts [OF mac run g(2)]
  from mac g(1) show ?thesis
  proof (rule alert_write_grants)
    fix allowed
    assume a: "map_of ALERT_WRITE_ALLOWLIST kind = Some allowed" "set (dict_keys flds) \<subseteq> set allowed"
      and sem: "fst (alert_target kind) = ALERTS_TABLE \<longrightarrow> semantic_failures kind flds = Inr []"
    have "kind \<noteq> ''event_create'' \<longrightarrow> fst (alert_target kind) = ALERTS_TABLE"
      by (auto simp: alert_target_def KIND_TARGETS_def)
    with sem have s: "kind \<noteq> ''event_create'' \<longrightarrow> semantic_failures kind flds = Inr []" by blast
    have web: "if PStr ''webhook'' \<in> set chs
        then \<exists>u. dict_get flds ''webhook_url'' = PStr u \<and> startswith u ''https://''
        else dict_get flds ''webhook_url'' = PNone"
      if "webhook_failures (Some chs) (dict_get flds ''webhook_url'') = []" for chs
      using that by (auto simp: webhook_failures_def split: if_splits pyval.splits)
    from s a ok g(2) web show ?thesis
      using semantic_failures_Nil [of kind flds] by blast
  qed
qed

definition sample_rule_update :: pydict where
  "sample_rule_update = [(''id'', PUuid ''a''), (''channel'', PStr ''webhook''), (''webhook_url'', PStr ''https://h'')]"

definition webhook_only_update :: pydict where
  "webhook_only_update = [(''id'', PUuid ''a''), (''webhook_url'', PStr ''http://h'')]"

lemma alert_update_runs:
  assumes "conforms_to ''alerts'' flds" "set (dict_keys flds) \<subseteq> {''id'', ''channel'', ''webhook_url''}"
    and "semantic_failures ''rule_update'' flds = Inr []"
    and "sign_fields env ''alerts'' ''update'' flds = Inr (Some r)"
  shows "authorize_alert_write env flds ''rule_update'' src s
    = (Inr (granted_outcome r [(''table'', PStr ''alerts''), (''kind'', PStr ''rule_update'')]), s)"
proof -
  obtain c where c: "FACT_TABLE_CONTRACTS ''alerts'' = Some c" "row_conforms c flds"
    using assms(1) by (rule conforms_to_contract)
  have t: "alert_target ''rule_update'' = (''alerts'', ''update'')" by code_simp
  have "map_of ALERT_WRITE_ALLOWLIST ''rule_update'' = Some [''id'', ''alert_type'', ''threshold_pct'',
      ''threshold_value'', ''channel'', ''channels'', ''webhook_url'', ''cooldown_minutes'', ''is_active'']"
    by code_simp
  moreover have "filter (\<lambda>k. k \<notin> set [''id'', ''alert_type'', ''threshold_pct'', ''threshold_value'', ''channel'',
      ''channels'', ''webhook_url'', ''cooldown_minutes'', ''is_active'']) (dict_keys flds) = []"
    using assms(2) unfolding filter_empty_conv by fastforce
  moreover have "event_semantic_failures ''rule_update'' flds = Inr []"
    by (simp add: event_semantic_failures_def)
  ultimately have "alert_write_verdict env ''rule_update'' flds
      = Inr (Grant r [(''table'', PStr ''alerts''), (''kind'', PStr ''rule_update'')])"
    using assms(3,4) validate_conforming [OF c(2)]
    by (simp add: alert_write_verdict_def t ALERTS_TABLE_def contract_then_def validate_contract_subset_def c(1))
  then show ?thesis by (simp add: authorize_alert_write_def settle_def)
qed

text \<open>The columns of an alert row that the two examples use.\<close>

definition alert_column_ok :: "string \<Rightarrow> pyval list \<Rightarrow> bool" where
  "alert_column_ok k vs = (case column_contract ''alerts'' k of
     None \<Rightarrow> False | Some spec \<Rightarrow> list_all (column_conforms spec k) vs)"

lemma alert_columns_ok:
  "alert_column_ok ''id'' [PUuid ''a'']"
  "alert_column_ok ''channel'' [PStr ''webhook'']"
  "alert_column_ok ''webhook_url'' [PStr ''https://h'', PStr ''http://h'']"
  by code_simp+

lemma alert_conforms:
  assumes "\<And>k v. (k, v) \<in> set row \<Longrightarrow> \<exists>vs. v \<in> set vs \<and> alert_column_ok k vs"
  shows "conforms_to ''alerts'' row"
proof -
  have "map_of contract_models ''alerts'' \<noteq> None" by code_simp
  moreover have "case column_contract ''alerts'' (fst kv) of None \<Rightarrow> True
      | Some spec \<Rightarrow> column_conforms spec (fst kv) (snd kv)" if "kv \<in> set row" for kv
    using assms [of "fst kv" "snd kv"] that by (auto simp: alert_column_ok_def list_all_iff split: option.splits)
  ultimately show ?thesis by (simp add: conforms_to_def list_all_iff)
qed

lemmas semantic_eval = semantic_failures_def dict_get_def optional_in_def channels_failures_def
  effective_channels_def webhook_failures_def threshold_failures_def cooldown_failures_def
  py_in_strs_def ALERT_CHANNELS_def fail_if_def startswith_def

lemma sample_rule_update_ok:
  "conforms_to ''alerts'' sample_rule_update"
  "set (dict_keys sample_rule_update) \<subseteq> {''id'', ''channel'', ''webhook_url''}"
  "semantic_failures ''rule_update'' sample_rule_update = Inr []"
    using alert_columns_ok
    by (intro alert_conforms, force simp: sample_rule_update_def)
      (simp_all add: semantic_eval sample_rule_update_def dict_keys_def)

lemma webhook_only_update_ok:
  "conforms_to ''alerts'' webhook_only_update"
  "set (dict_keys webhook_only_update) \<subseteq> {''id'', ''channel'', ''webhook_url''}"
  "semantic_failures ''rule_update'' webhook_only_update = Inr []"
    using alert_columns_ok
    by (intro alert_conforms, force simp: webhook_only_update_def)
      (simp_all add: semantic_eval webhook_only_update_def dict_keys_def)

theorem alert_write_checked_witness:
  "\<exists>r. verify_signed_record accepting_env r = Inr None \<and> startswith ''https://h'' ''https://''"
proof -
  have "case sign_fields accepting_env ''alerts'' ''update'' sample_rule_update of
      Inr (Some r) \<Rightarrow> True | _ \<Rightarrow> False"
    by code_simp
  then obtain r where "sign_fields accepting_env ''alerts'' ''update'' sample_rule_update = Inr (Some r)"
    by (auto split: option.splits sum.splits)
  moreover note sample_rule_update_ok
  ultimately have run: "authorize_alert_write accepting_env sample_rule_update ''rule_update'' ''x'' quiet_state
    = (Inr (granted_outcome r [(''table'', PStr ''alerts''), (''kind'', PStr ''rule_update'')]), quiet_state)"
    by (intro alert_update_runs)
  have "effective_channels (dict_get sample_rule_update ''channels'') (dict_get sample_rule_update ''channel'')
      = Some [PStr ''webhook'']" "dict_get sample_rule_update ''webhook_url'' = PStr ''https://h''"
    by code_simp+
  with alert_write_checked [OF _ run] accepting_mac show ?thesis by (auto simp: mac_ok_def)
qed

text \<open>
  An update that carries only the address escapes the webhook check: with neither
  \<open>channel\<close> nor \<open>channels\<close> in the payload no channel is in effect, and a plain http address is
  granted for a rule whose stored channel may be the webhook.
\<close>

theorem alert_update_webhook_gap:
  assumes "signing_secret env = Some secret"
  shows "\<exists>r n. authorize_alert_write env webhook_only_update ''rule_update'' src s = (Inr (granted_outcome r n), s)
    \<and> dict_get webhook_only_update ''webhook_url'' = PStr ''http://h'' \<and> \<not> startswith ''http://h'' ''https://''"
proof -
  have "case canonical_serialize_signed_payload ''alerts'' ''update'' webhook_only_update [(''id'', PUuid ''a'')] of
      Inr b \<Rightarrow> True | _ \<Rightarrow> False"
    by code_simp
  moreover have "extract_locator ''alerts'' webhook_only_update = Inr [(''id'', PUuid ''a'')]" by code_simp
  ultimately obtain r where "sign_fields env ''alerts'' ''update'' webhook_only_update = Inr (Some r)"
    using assms by (auto simp: sign_fields_def sign_def split: sum.splits)
  moreover note webhook_only_update_ok
  ultimately have "authorize_alert_write env webhook_only_update ''rule_update'' src s
    = (Inr (granted_outcome r [(''table'', PStr ''alerts''), (''kind'', PStr ''rule_update'')]), s)"
    by (intro alert_update_runs)
  moreover have "dict_get webhook_only_update ''webhook_url'' = PStr ''http://h''"
    "\<not> startswith ''http://h'' ''https://''"
    by code_simp+
  ultimately show ?thesis by blast
qed

theorem alert_update_webhook_gap_witness:
  "\<exists>r n. authorize_alert_write accepting_env webhook_only_update ''rule_update'' ''x'' quiet_state
     = (Inr (granted_outcome r n), quiet_state)"
proof -
  have "signing_secret accepting_env = Some ''key''" by code_simp
  from alert_update_webhook_gap [OF this] show ?thesis by blast
qed

section \<open>Retention\<close>

text \<open>
  A bulk delete of service data passes only for one of the whitelisted tables, with exactly
  the cutoff column configured for it and a cutoff that reads as a timestamp. What is signed has
  no locator and the persist layer accepts it.
\<close>

theorem retention_delete_whitelisted:
  assumes mac: "mac_ok env"
    and run: "authorize_retention_delete env iso_ok table flds has_db src s = (Inr out, s')"
    and passed: "fo_passed out"
  shows "\<exists>config r. map_of RETENTION_TABLES table = Some config
    \<and> set (dict_keys flds) = {''cutoff_column'', ''cutoff''}
    \<and> dict_get flds ''cutoff_column'' = PStr (cutoff_column config)
    \<and> iso_ok (py_str (dict_get flds ''cutoff''))
    \<and> fo_signed_record out = Some r \<and> sr_operation r = ''retention_delete'' \<and> sr_locator r = []
    \<and> verify_signed_record env r = Inr None \<and> s' = s"
proof -
  from run passed obtain r ns where
    g: "retention_delete_verdict env iso_ok table flds = Inr (Grant r ns)" "fo_signed_record out = Some r" "s' = s"
    unfolding authorize_retention_delete_def by (elim settle_passed)
  from retention_grants [OF mac g(1)] retention_persist_accepts [OF mac g(1)] g(2,3) show ?thesis by auto
qed

definition old_logs :: pydict where
  "old_logs = [(''cutoff_column'', PStr ''created_at''), (''cutoff'', PStr ''2026-01-01'')]"

theorem retention_delete_whitelisted_witness:
  "\<exists>config. map_of RETENTION_TABLES ''scrape_logs'' = Some config
     \<and> dict_get old_logs ''cutoff_column'' = PStr (cutoff_column config)"
proof -
  have "case retention_delete_verdict accepting_env (\<lambda>t. t = ''2026-01-01'') ''scrape_logs'' old_logs of
      Inr (Grant r n) \<Rightarrow> True | _ \<Rightarrow> False"
    by code_simp
  then obtain r n where "retention_delete_verdict accepting_env (\<lambda>t. t = ''2026-01-01'') ''scrape_logs'' old_logs
      = Inr (Grant r n)"
    by (auto split: sum.splits door_verdict.splits)
  then have "authorize_retention_delete accepting_env (\<lambda>t. t = ''2026-01-01'') ''scrape_logs'' old_logs True ''x'' quiet_state
      = (Inr (granted_outcome r n), quiet_state)"
    by (simp add: authorize_retention_delete_def settle_def)
  from retention_delete_whitelisted [OF _ this] accepting_mac show ?thesis by (auto simp: mac_ok_def)
qed

text \<open>The width of a VARCHAR column of the reject store, and a database that enforces it.\<close>

definition reject_column_width :: "string \<Rightarrow> nat option" where
  "reject_column_width k = Option.bind (find (\<lambda>c. col_key c = k) (tm_columns RejectData)) (\<lambda>c. type_length (col_type c))"

definition enforces_operation_width :: "'e gate_env_scheme \<Rightarrow> bool" where
  "enforces_operation_width env =
     (\<forall>row n. reject_db_accepts env row \<longrightarrow> reject_column_width ''operation'' = Some n \<longrightarrow> length (rr_operation row) \<le> n)"

text \<open>
  No refused retention delete is ever recorded: the operation name of its reject row is
  longer than the column that stores it, so on a database that enforces the width the row is
  lost, whatever the reason of the refusal.
\<close>

theorem retention_rejects_lost:
  assumes db: "enforces_operation_width env"
    and run: "authorize_retention_delete env iso_ok table flds has_db src s = (Inr out, s')"
  shows "gs_reject_data s' = gs_reject_data s"
proof -
  have "reject_column_width ''operation'' = Some 10" by code_simp
  with db have lost: "\<not> reject_db_accepts env row" if "rr_operation row = ''retention_delete''" for row
    using that by (auto simp: enforces_operation_width_def)
  from run show ?thesis unfolding authorize_retention_delete_def
    by (rule settle_Inr)
      (auto simp: isolated_reject_def isolated_reject_data reject_data_row_def firewall_reject_def lost)
qed

theorem retention_rejects_lost_witness:
  "gs_reject_data (snd (authorize_retention_delete (accepting_env\<lparr>reject_db_accepts := (\<lambda>row. length (rr_operation row) \<le> 10)\<rparr>)
       (\<lambda>_. True) ''fact_price'' [] True ''x'' quiet_state)) = []"
proof -
  let ?env = "accepting_env\<lparr>reject_db_accepts := (\<lambda>row. length (rr_operation row) \<le> 10)\<rparr>"
  have "enforces_operation_width ?env"
  proof -
    have "reject_column_width ''operation'' = Some 10" by code_simp
    then show ?thesis by (simp add: enforces_operation_width_def)
  qed
  moreover have "retention_delete_verdict ?env (\<lambda>_. True) ''fact_price'' [] =
      Inr (Refuse ''retention_table_not_whitelisted'' [''retention_table_not_whitelisted''] [(''table'', PStr ''fact_price'')])"
    by (simp add: retention_delete_verdict_def RETENTION_TABLES_def)
  then obtain out where "authorize_retention_delete ?env (\<lambda>_. True) ''fact_price'' [] True ''x'' quiet_state
      = (Inr out, snd (authorize_retention_delete ?env (\<lambda>_. True) ''fact_price'' [] True ''x'' quiet_state))"
    by (simp add: authorize_retention_delete_def settle_def)
  ultimately show ?thesis
    by (subst retention_rejects_lost) (auto simp: quiet_state_def)
qed

end
