(* ===== verification/MatchSignature.thy ===== *)
theory MatchSignature
  imports PyNumber "HOL-Library.Product_Lexorder"
begin

text \<open>
  \<open>matching/signature.py\<close>: the brand and model code of a product name, the normal form of an
  English title, and the similarity of two titles. The compiled twin is not part of the source
  tree; the Python implementation is modelled.
\<close>

section \<open>Tokens\<close>

definition is_lower_alnum :: "char \<Rightarrow> bool" where
  "is_lower_alnum c = (let n = (of_char c :: int) in (97 \<le> n \<and> n \<le> 122) \<or> (48 \<le> n \<and> n \<le> 57))"

definition is_lower_alpha :: "char \<Rightarrow> bool" where
  "is_lower_alpha c = (let n = (of_char c :: int) in 97 \<le> n \<and> n \<le> 122)"

function find_runs :: "(char \<Rightarrow> bool) \<Rightarrow> string \<Rightarrow> string list" where
  \<comment> \<open>\<open>re.findall\<close> of a maximal run of characters of a class\<close>
  "find_runs p s =
     (case dropWhile (\<lambda>c. \<not> p c) s of
        [] \<Rightarrow> []
      | c # t \<Rightarrow> takeWhile p (c # t) # find_runs p (dropWhile p t))"
  by pat_completeness auto
termination
proof (relation "measure (\<lambda>(p, s). length s)")
  fix p :: "char \<Rightarrow> bool" and s c t
  assume "dropWhile (\<lambda>c. \<not> p c) s = c # t"
  then have "length (c # t) \<le> length s" by (metis length_dropWhile_le)
  with length_dropWhile_le [of p t]
  show "((p, dropWhile p t), (p, s)) \<in> measure (\<lambda>(p, s). length s)" by simp
qed simp

declare find_runs.simps [simp del]

definition name_tokens :: "string \<Rightarrow> string list" where
  "name_tokens name = find_runs is_lower_alnum (py_lower name)"

definition all_alpha :: "string \<Rightarrow> bool" where
  \<comment> \<open>\<open>token.isalpha()\<close> on the characters of a token\<close>
  "all_alpha t = (t \<noteq> [] \<and> list_all is_lower_alpha t)"

definition all_digit :: "string \<Rightarrow> bool" where
  "all_digit t = (t \<noteq> [] \<and> list_all is_digit_char t)"

definition is_mixed :: "string \<Rightarrow> bool" where
  "is_mixed t = (\<not> all_alpha t \<and> \<not> all_digit t)"

definition UNIT_SUFFIXES :: "string list" where
  "UNIT_SUFFIXES = [''gb'', ''tb'', ''mb'', ''kb'', ''mm'', ''cm'', ''km'', ''kg'', ''mg'', ''ml'', ''cl'', ''dl'', ''l'', ''g'',
     ''m'', ''w'', ''kw'', ''mw'', ''v'', ''kv'', ''mv'', ''a'', ''ah'',
     ''mah'', ''hz'', ''ghz'', ''mhz'', ''khz'', ''k'', ''p'', ''mp'', ''px'', ''dpi'', ''in'', ''inch'', ''cal'', ''kcal'', ''szt'',
     ''gab'', ''vnt'', ''tk'', ''pcs'',
     ''db'', ''bar'', ''rpm'', ''lm'', ''lux'', ''nm'', ''ns'', ''ms'', ''s'', ''min'', ''h'', ''x'', ''d'', ''fps'', ''bit'', ''mbps'',
     ''gbps'', ''ppm'', ''denier'']"

definition unit_shape :: "string \<Rightarrow> bool" where
  \<comment> \<open>digits, then one of the suffixes\<close>
  "unit_shape t =
     (takeWhile is_digit_char t \<noteq> [] \<and> dropWhile is_digit_char t \<in> set UNIT_SUFFIXES)"

definition dimensions_shape :: "string \<Rightarrow> bool" where
  \<comment> \<open>\<open>NxN\<close> or \<open>NxNxN\<close>, then letters\<close>
  "dimensions_shape t =
     (let r1 = dropWhile is_digit_char t; r2 = drop 1 r1; r3 = dropWhile is_digit_char r2;
          r4 = drop 1 r3; r5 = dropWhile is_digit_char r4
      in takeWhile is_digit_char t \<noteq> [] \<and> take 1 r1 = ''x'' \<and> takeWhile is_digit_char r2 \<noteq> []
         \<and> (list_all is_lower_alpha r3
            \<or> take 1 r3 = ''x'' \<and> takeWhile is_digit_char r4 \<noteq> [] \<and> list_all is_lower_alpha r5))"

definition is_unit_token :: "string \<Rightarrow> bool" where
  "is_unit_token t = (unit_shape t \<or> dimensions_shape t)"

definition STOPWORDS :: "string list" where
  "STOPWORDS = [''html'', ''bhtml'', ''htm'', ''php'', ''aspx'', ''www'', ''com'']"

section \<open>Signatures\<close>

record match_signature =
  ms_brand :: string
  ms_code :: string
  ms_codes :: "string list"
  ms_attrs :: "string list"
  ms_confidence :: pyfloat

definition CONFIDENCE_KNOWN_BRAND :: pyfloat where "CONFIDENCE_KNOWN_BRAND = flt 90 2"

definition CONFIDENCE_HEURISTIC_BRAND :: pyfloat where "CONFIDENCE_HEURISTIC_BRAND = flt 75 2"

definition heuristic_brand :: "string \<Rightarrow> bool" where
  "heuristic_brand t = (all_alpha t \<and> 3 \<le> length t \<and> t \<notin> set STOPWORDS)"

definition find_brand :: "string list \<Rightarrow> string list \<Rightarrow> (string \<times> pyfloat) option" where
  "find_brand known_brands tokens = (case find (\<lambda>t. t \<in> set known_brands) tokens of
     Some t \<Rightarrow> Some (t, CONFIDENCE_KNOWN_BRAND)
   | None \<Rightarrow> map_option (\<lambda>t. (t, CONFIDENCE_HEURISTIC_BRAND)) (find heuristic_brand tokens))"

definition add_code :: "string list \<Rightarrow> string \<Rightarrow> string list" where
  "add_code codes code = (if code \<in> set codes then codes else codes @ [code])"

fun scan_tokens :: "string \<Rightarrow> string list \<Rightarrow> string list \<times> string list \<Rightarrow> string list \<times> string list" where
  \<comment> \<open>the first loop: attributes and codes of the single tokens\<close>
  "scan_tokens brand [] acc = acc"
| "scan_tokens brand (t # ts) (attrs, codes) =
     scan_tokens brand ts
       (if t \<in> set STOPWORDS \<or> t = brand then (attrs, codes)
        else if is_unit_token t then (attrs @ [t], codes)
        else if is_mixed t \<and> 4 \<le> length t then (attrs, add_code codes t)
        else if all_digit t \<and> 5 \<le> length t \<and> length t \<le> 9 then (attrs, add_code codes t)
        else (attrs, codes))"

definition joined_code :: "string \<Rightarrow> string \<times> string \<Rightarrow> string option" where
  \<comment> \<open>the code of two neighbouring tokens, if they may be joined\<close>
  "joined_code brand lr = (case lr of (left, right) \<Rightarrow>
     if \<not> (all_alpha left \<and> 2 \<le> length left \<and> left \<notin> set STOPWORDS) then None
     else if left = brand \<or> right = brand then None
     else if is_unit_token right \<or> right \<in> set STOPWORDS then None
     else if \<not> (is_digit_char (hd right) \<or> is_mixed right) then None
     else if 5 \<le> length (left @ right) \<and> \<not> is_unit_token (left @ right) then Some (left @ right)
     else None)"

fun scan_pairs :: "string \<Rightarrow> (string \<times> string) list \<Rightarrow> string list \<Rightarrow> string list" where
  "scan_pairs brand [] codes = codes"
| "scan_pairs brand (lr # lrs) codes =
     scan_pairs brand lrs (case joined_code brand lr of None \<Rightarrow> codes | Some c \<Rightarrow> add_code codes c)"

definition stronger_code :: "string \<Rightarrow> string \<Rightarrow> bool" where
  \<comment> \<open>the sort key \<open>(not _is_mixed(c), -len(c), c)\<close> of the first is smaller\<close>
  "stronger_code a b =
     (if is_mixed a \<noteq> is_mixed b then is_mixed a
      else if length a \<noteq> length b then length b < length a
      else a < b)"

fun strongest_code :: "string \<Rightarrow> string list \<Rightarrow> string" where
  "strongest_code best [] = best"
| "strongest_code best (c # cs) = strongest_code (if stronger_code c best then c else best) cs"

definition extract_match_signature :: "string option \<Rightarrow> string list \<Rightarrow> match_signature option" where
  "extract_match_signature name_normalized known_brands =
     (case name_normalized of None \<Rightarrow> None | Some name \<Rightarrow>
        let tokens = name_tokens name in
        case find_brand known_brands tokens of None \<Rightarrow> None | Some (brand, confidence) \<Rightarrow>
          (case scan_tokens brand tokens ([], []) of (attrs, codes0) \<Rightarrow>
             let codes = scan_pairs brand (zip tokens (tl tokens)) codes0 in
             case codes of [] \<Rightarrow> None
             | c # cs \<Rightarrow> Some \<lparr> ms_brand = brand, ms_code = strongest_code c cs, ms_codes = codes,
                               ms_attrs = attrs, ms_confidence = confidence \<rparr>))"

section \<open>Titles\<close>

definition GLUE_UNITS :: "string list" where
  "GLUE_UNITS = [''gb'', ''tb'', ''mb'', ''kb'', ''mm'', ''cm'', ''m'', ''km'', ''kg'', ''g'', ''mg'', ''l'',
     ''ml'', ''cl'', ''dl'', ''w'', ''kw'', ''mw'', ''v'', ''mv'', ''kv'', ''a'', ''ah'', ''mah'',
     ''hz'', ''khz'', ''mhz'', ''ghz'', ''k'', ''p'', ''mp'', ''px'', ''in'', ''inch'', ''lm'',
     ''nm'', ''bar'', ''rpm'', ''pcs'', ''szt'']"

definition TITLE_STOPWORDS :: "string list" where
  "TITLE_STOPWORDS = [''the'', ''a'', ''an'', ''and'', ''or'', ''with'', ''for'', ''of'', ''in'', ''to'', ''on'', ''by'']"

definition digit_or_dot :: "char \<Rightarrow> bool" where
  "digit_or_dot c = (is_digit_char c \<or> c = CHR ''.'')"

definition is_number_token :: "string \<Rightarrow> bool" where
  "is_number_token t =
     (t \<noteq> [] \<and> list_all digit_or_dot t \<and> list_ex is_digit_char t \<and> hd t \<noteq> CHR ''.'' \<and> last t \<noteq> CHR ''.'')"

fun glue_units :: "string list \<Rightarrow> string list" where
  \<comment> \<open>the \<open>while\<close> loop over the raw tokens\<close>
  "glue_units (t # u # ts) =
     (if is_number_token t \<and> u \<in> set GLUE_UNITS then (t @ u) # glue_units ts
      else t # glue_units (u # ts))"
| "glue_units ts = ts"

definition normalize_title_tokens :: "string \<Rightarrow> string list" where
  "normalize_title_tokens title =
     (let raw = filter (\<lambda>t. t \<noteq> []) (map (strip_by (\<lambda>c. c = CHR ''.''))
                  (find_runs (\<lambda>c. is_lower_alnum c \<or> c = CHR ''.'') (py_lower title)))
      in sort (remdups (filter (\<lambda>t. t \<notin> set TITLE_STOPWORDS) (glue_units raw))))"

definition unit_attr :: "string \<Rightarrow> (string \<times> string) option" where
  "unit_attr t =
     (let v = takeWhile digit_or_dot t; suffix = dropWhile digit_or_dot t
      in if v = [] \<or> suffix = [] then None
         else if suffix \<in> set GLUE_UNITS \<and> list_ex is_digit_char v then Some (v, suffix)
         else None)"

definition unit_conflict :: "string list \<Rightarrow> string list \<Rightarrow> bool" where
  \<comment> \<open>the double loop: the same unit with different values\<close>
  "unit_conflict a b =
     list_ex (\<lambda>ta. case unit_attr ta of
         None \<Rightarrow> False
       | Some (va, ua) \<Rightarrow> list_ex (\<lambda>tb. case unit_attr tb of
             None \<Rightarrow> False
           | Some (vb, ub) \<Rightarrow> ua = ub \<and> va \<noteq> vb) b) a"

definition title_similarity :: "string list \<Rightarrow> string list \<Rightarrow> pyfloat" where
  "title_similarity a b =
     (if a = [] \<or> b = [] then float_of_int 0
      else if unit_conflict a b then float_of_int 0
      else (let common = length (remdups (filter (\<lambda>t. t \<in> set b) a));
                union = length (remdups (a @ b))
            in if union = 0 then float_of_int 0 else round_ratio False (int common) (int union)))"

section \<open>What a signature consists of\<close>

definition token_code :: "string \<Rightarrow> string \<Rightarrow> bool" where
  \<comment> \<open>a token that is a code of its own\<close>
  "token_code brand t =
     (t \<notin> set STOPWORDS \<and> t \<noteq> brand \<and> \<not> is_unit_token t
      \<and> (is_mixed t \<and> 4 \<le> length t \<or> all_digit t \<and> 5 \<le> length t \<and> length t \<le> 9))"

lemma set_add_code [simp]: "set (add_code cs c) = insert c (set cs)"
  by (auto simp: add_code_def)

lemma distinct_add_code: "distinct cs \<Longrightarrow> distinct (add_code cs c)"
  by (simp add: add_code_def)

lemma scan_tokens_attrs:
  "fst (scan_tokens brand ts (attrs, codes))
     = attrs @ filter (\<lambda>t. is_unit_token t \<and> t \<notin> set STOPWORDS \<and> t \<noteq> brand) ts"
  by (induction ts arbitrary: attrs codes) auto

lemma scan_tokens_codes:
  "set (snd (scan_tokens brand ts (attrs, codes))) = set codes \<union> {t \<in> set ts. token_code brand t}"
  by (induction ts arbitrary: attrs codes) (auto simp: token_code_def)

lemma scan_tokens_distinct: "distinct codes \<Longrightarrow> distinct (snd (scan_tokens brand ts (attrs, codes)))"
  by (induction ts arbitrary: attrs codes) (auto simp: distinct_add_code)

lemma scan_pairs_codes:
  "set (scan_pairs brand lrs codes) = set codes \<union> {c. \<exists>lr \<in> set lrs. joined_code brand lr = Some c}"
  by (induction lrs arbitrary: codes) (auto split: option.splits)

lemma scan_pairs_distinct: "distinct codes \<Longrightarrow> distinct (scan_pairs brand lrs codes)"
  by (induction lrs arbitrary: codes) (auto simp: distinct_add_code split: option.splits)

text \<open>The order of the codes is linear: it is the lexicographic order of the source's key.\<close>

definition code_key :: "string \<Rightarrow> bool \<times> int \<times> string" where
  "code_key c = (\<not> is_mixed c, - int (length c), c)"

lemma stronger_code_key: "stronger_code a b \<longleftrightarrow> code_key a < code_key b"
  by (auto simp: stronger_code_def code_key_def less_prod_def less_bool_def)

lemma strongest_code_least:
  "strongest_code best cs \<in> set (best # cs)
   \<and> (\<forall>c \<in> set (best # cs). code_key (strongest_code best cs) \<le> code_key c)"
proof (induction best cs rule: strongest_code.induct)
  case (2 best c cs)
  show ?case
  proof (cases "stronger_code c best")
    case True
    then have "code_key c \<le> code_key best" by (simp add: stronger_code_key)
    with 2 True show ?thesis by (auto intro: order_trans)
  next
    case False
    then have "code_key best \<le> code_key c" by (simp add: stronger_code_key)
    with 2 False show ?thesis by (auto intro: order_trans)
  qed
qed simp

lemma find_brand_Some:
  assumes "find_brand known tokens = Some (brand, confidence)"
  shows "brand \<in> set tokens
    \<and> (brand \<in> set known \<and> confidence = CONFIDENCE_KNOWN_BRAND
       \<or> heuristic_brand brand \<and> set tokens \<inter> set known = {} \<and> confidence = CONFIDENCE_HEURISTIC_BRAND)"
  using assms by (auto simp: find_brand_def find_None_iff find_Some_iff split: option.splits)


lemma sample_name_tokens: "name_tokens ''tefal s24x 10cm'' = [''tefal'', ''s24x'', ''10cm'']"
  by code_simp

lemma sample_scan: "scan_tokens ''tefal'' [''tefal'', ''s24x'', ''10cm''] ([], []) = ([''10cm''], [''s24x''])"
  by code_simp

lemma sample_pairs: "scan_pairs ''tefal'' [(''tefal'', ''s24x''), (''s24x'', ''10cm'')] [''s24x''] = [''s24x'']"
  by code_simp

lemma sample_signature:
  "extract_match_signature (Some ''tefal s24x 10cm'') [''tefal'']
     = Some \<lparr> ms_brand = ''tefal'', ms_code = ''s24x'', ms_codes = [''s24x''], ms_attrs = [''10cm''],
              ms_confidence = CONFIDENCE_KNOWN_BRAND \<rparr>"
  by (simp add: extract_match_signature_def sample_name_tokens sample_scan sample_pairs find_brand_def
      del: scan_tokens.simps scan_pairs.simps)


section \<open>Similarity\<close>

lemma unit_conflict_iff:
  "unit_conflict a b \<longleftrightarrow> (\<exists>ta \<in> set a. \<exists>tb \<in> set b. \<exists>va vb u.
     unit_attr ta = Some (va, u) \<and> unit_attr tb = Some (vb, u) \<and> va \<noteq> vb)"
  by (fastforce simp: unit_conflict_def list_ex_iff split: option.splits)

lemma unit_conflict_sym: "unit_conflict a b \<longleftrightarrow> unit_conflict b a"
  unfolding unit_conflict_iff by blast

lemma title_similarity_sets:
  "title_similarity a b =
     (if a = [] \<or> b = [] \<or> unit_conflict a b then float_of_int 0
      else round_ratio False (int (card (set a \<inter> set b))) (int (card (set a \<union> set b))))"
proof -
  have "length (remdups (filter (\<lambda>t. t \<in> set b) a)) = card (set a \<inter> set b)"
    by (simp add: length_remdups_card_conv Int_def Collect_conj_eq [symmetric])
  moreover have "length (remdups (a @ b)) = card (set a \<union> set b)"
    by (simp add: length_remdups_card_conv)
  moreover have "a \<noteq> [] \<Longrightarrow> card (set a \<union> set b) \<noteq> 0" by simp
  ultimately show ?thesis unfolding title_similarity_def Let_def by simp
qed

lemma round_ratio_self: "0 < n \<Longrightarrow> round_ratio False n n = FFin False (2 ^ 52) (- 52)"
proof -
  assume n: "0 < n"
  have p: "pow2 53 = 2 ^ 53" "pow2 52 = 2 ^ 52" "pow2 (- 53) = 1" "pow2 (- 52) = 1" by (simp_all add: pow2_def)
  have "round_half_even (n * 2 ^ 52) n = 2 ^ 52"
    using n unfolding round_half_even_def Let_def by (metis add_0 mod_mult_self1_is_0 mult.commute mult_zero_right nonzero_mult_div_cancel_left less_irrefl)
  then show ?thesis
    using n unfolding round_ratio_def Let_def by (simp add: p)
qed

text \<open>
  The similarity of two titles does not depend on their order. A title is fully similar to
  itself exactly when none of its units occurs with two values: a title that names, say, 8gb
  and 256gb is not similar to any title that repeats one of the two, itself included.
\<close>

theorem title_similarity_symmetric:
  "title_similarity a b = title_similarity b a
   \<and> (title_similarity a a = float_of_int 1 \<longleftrightarrow> a \<noteq> [] \<and> \<not> unit_conflict a a)
   \<and> title_similarity [''256gb'', ''8gb'', ''phone''] [''256gb'', ''8gb'', ''phone''] = float_of_int 0"
proof (intro conjI)
  show "title_similarity a b = title_similarity b a"
    by (auto simp: title_similarity_sets unit_conflict_sym [of a b] Int_commute Un_commute)
  have one: "float_of_int 1 = FFin False (2 ^ 52) (- 52)" by (simp add: float_of_int_def round_ratio_self)
  have zero: "float_of_int 0 = FFin False 0 0" by (simp add: float_of_int_def round_ratio_def)
  show "title_similarity a a = float_of_int 1 \<longleftrightarrow> a \<noteq> [] \<and> \<not> unit_conflict a a"
    using round_ratio_self [of "int (card (set a))"]
    by (auto simp: title_similarity_sets one zero card_gt_0_iff)
  show "title_similarity [''256gb'', ''8gb'', ''phone''] [''256gb'', ''8gb'', ''phone''] = float_of_int 0"
    by code_simp
qed

end
