(* ===== verification/TitleMerge.thy ===== *)
theory TitleMerge
  imports MatchSignature
begin

text \<open>
  The title-merge pass of \<open>matching/engine.py\<close>: neighbours in the sorted list of title groups
  that are similar enough are merged by a map from losers to winners, which \<open>_resolve\<close> chases.
  The loop that chases may only be run on maps for which it ends, so it is a partial function
  here, and that it ends is proved.
\<close>

section \<open>Merging\<close>

record title_group =
  tg_type :: string
  tg_key :: string
  tg_tokens :: "string list"
  tg_gid :: string

definition title_group_of :: "string \<times> string option \<times> string \<Rightarrow> title_group" where
  "title_group_of row = (case row of (gid, type_en, rep) \<Rightarrow>
     \<lparr> tg_type = py_lower (py_strip (case type_en of None \<Rightarrow> '''' | Some t \<Rightarrow> t)),
       tg_key = join_with '' '' (normalize_title_tokens rep),
       tg_tokens = normalize_title_tokens rep, tg_gid = gid \<rparr>)"

definition keyed_groups :: "(string \<times> string option \<times> string) list \<Rightarrow> title_group list" where
  "keyed_groups groups = sort_key (\<lambda>t. (tg_type t, tg_key t, tg_gid t)) (map title_group_of groups)"

definition TITLE_MERGE_WINDOW :: nat where "TITLE_MERGE_WINDOW = 3"

definition TITLE_SIM_THRESHOLD :: pyfloat where "TITLE_SIM_THRESHOLD = flt 80 2"

definition similar_titles :: "title_group \<Rightarrow> title_group \<Rightarrow> bool" where
  "similar_titles a b = float_le TITLE_SIM_THRESHOLD (title_similarity (tg_tokens a) (tg_tokens b))"

fun neighbour_pairs :: "title_group list \<Rightarrow> (title_group \<times> title_group) list" where
  \<comment> \<open>the pairs the two nested loops visit, in their order; another type ends the inner loop\<close>
  "neighbour_pairs [] = []"
| "neighbour_pairs (a # rest) =
     map (Pair a) (takeWhile (\<lambda>b. tg_type b = tg_type a) (take TITLE_MERGE_WINDOW rest))
       @ neighbour_pairs rest"

partial_function (option) resolve :: "(string \<times> string) list \<Rightarrow> string \<Rightarrow> string option" where
  "resolve merged gid = (case map_of merged gid of None \<Rightarrow> Some gid | Some w \<Rightarrow> resolve merged w)"

definition merge_pair :: "(string \<times> string) list \<Rightarrow> title_group \<times> title_group \<Rightarrow> (string \<times> string) list option" where
  "merge_pair merged ab = (case ab of (a, b) \<Rightarrow>
     Option.bind (resolve merged (tg_gid a)) (\<lambda>ra.
     Option.bind (resolve merged (tg_gid b)) (\<lambda>rb.
       if ra = rb then Some merged
       else if similar_titles a b then
         Some (if ra < rb then dict_set merged rb ra else dict_set merged ra rb)
       else Some merged)))"

fun merge_pairs :: "(string \<times> string) list \<Rightarrow> (title_group \<times> title_group) list \<Rightarrow> (string \<times> string) list option" where
  "merge_pairs merged [] = Some merged"
| "merge_pairs merged (p # ps) = Option.bind (merge_pair merged p) (\<lambda>merged'. merge_pairs merged' ps)"

definition title_merges :: "(string \<times> string option \<times> string) list \<Rightarrow> (string \<times> string) list option" where
  "title_merges groups = merge_pairs [] (neighbour_pairs (keyed_groups groups))"

definition merge_payload :: "string \<Rightarrow> string \<Rightarrow> pydict" where
  "merge_payload winner product_id =
     [(''id'', PStr product_id), (''match_group_id'', PStr winner), (''match_method'', PStr ''title_sim''),
      (''match_confidence'', PFloat (flt 80 2))]"

fun merge_payloads ::
    "(string \<times> string) list \<Rightarrow> (string \<Rightarrow> string list) \<Rightarrow> (string \<times> string) list \<Rightarrow> pydict list option" where
  \<comment> \<open>for every loser, in insertion order, its members with the group they move to\<close>
  "merge_payloads merged members [] = Some []"
| "merge_payloads merged members ((loser, _) # rest) =
     Option.bind (resolve merged loser) (\<lambda>winner.
     Option.bind (merge_payloads merged members rest) (\<lambda>ps.
       Some (map (merge_payload winner) (members loser) @ ps)))"

record merge_summary =
  title_groups :: nat
  merged_groups :: nat
  moved_rows :: nat

definition run_title_merge_pass ::
    "(string \<times> string option \<times> string) list \<Rightarrow> (string \<Rightarrow> string list) \<Rightarrow> (merge_summary \<times> pydict list) option" where
  \<comment> \<open>the summary and the payloads handed to the writer, for the groups and members read from the database\<close>
  "run_title_merge_pass groups members =
     (if length groups < 2 then
        Some (\<lparr> title_groups = length groups, merged_groups = 0, moved_rows = 0 \<rparr>, [])
      else
        Option.bind (title_merges groups) (\<lambda>merged.
        Option.bind (merge_payloads merged members merged) (\<lambda>payloads.
          Some (\<lparr> title_groups = length groups, merged_groups = length merged, moved_rows = length payloads \<rparr>,
                payloads))))"

section \<open>The chase ends\<close>

text \<open>A winner always precedes its loser, so a chase descends in a finite set.\<close>

definition descending :: "(string \<times> string) list \<Rightarrow> bool" where
  "descending merged = (\<forall>(l, w) \<in> set merged. w < l)"

lemma descending_lookup: "descending merged \<Longrightarrow> map_of merged g = Some w \<Longrightarrow> w < g"
  by (auto simp: descending_def dest: map_of_SomeD)

lemma card_below_less:
  fixes v g :: "'a::order"
  assumes "finite S" "g \<in> S" "v < g"
  shows "card {x \<in> S. x \<le> v} < card {x \<in> S. x \<le> g}"
proof (rule psubset_card_mono)
  show "finite {x \<in> S. x \<le> g}" using assms(1) by simp
  have "g \<in> {x \<in> S. x \<le> g}" "g \<notin> {x \<in> S. x \<le> v}" using assms(2,3) by auto
  moreover have "{x \<in> S. x \<le> v} \<subseteq> {x \<in> S. x \<le> g}" using assms(3) by auto
  ultimately show "{x \<in> S. x \<le> v} \<subset> {x \<in> S. x \<le> g}" by blast
qed

lemma resolve_root:
  assumes "descending merged"
  shows "\<exists>r. resolve merged g = Some r \<and> map_of merged r = None \<and> r \<le> g"
proof (induction "card {l \<in> fst ` set merged. l \<le> g}" arbitrary: g rule: less_induct)
  case less
  show ?case
  proof (cases "map_of merged g")
    case None
    then show ?thesis by (subst resolve.simps) simp
  next
    case (Some w)
    with assms have w: "w < g" by (rule descending_lookup)
    from Some have "g \<in> fst ` set merged" by (force dest: map_of_SomeD)
    with w have "card {l \<in> fst ` set merged. l \<le> w} < card {l \<in> fst ` set merged. l \<le> g}"
      by (intro card_below_less) simp_all
    from less [OF this] w Some show ?thesis by (subst resolve.simps) auto
  qed
qed

lemma resolve_extend:
  assumes desc: "descending merged" and fresh: "map_of merged l = None" "map_of merged w = None" "l \<noteq> w"
  shows "resolve merged g = Some r \<Longrightarrow> resolve (dict_set merged l w) g = Some (if r = l then w else r)"
proof (induction "card {x \<in> fst ` set merged. x \<le> g}" arbitrary: g rule: less_induct)
  case less
  have look: "map_of (dict_set merged l w) = (map_of merged)(l \<mapsto> w)" by (rule map_of_dict_set)
  show ?case
  proof (cases "map_of merged g")
    case None
    with less.prems have r: "r = g" by (subst (asm) resolve.simps) simp
    show ?thesis
    proof (cases "g = l")
      case True
      have "resolve (dict_set merged l w) w = Some w"
        using fresh(2,3) by (subst resolve.simps) (simp add: look)
      with True r show ?thesis by (subst resolve.simps) (simp add: look)
    next
      case False
      with None r show ?thesis by (subst resolve.simps) (simp add: look)
    qed
  next
    case (Some v)
    with fresh(1) have gl: "g \<noteq> l" by auto
    from desc Some have v: "v < g" by (rule descending_lookup)
    from Some have "g \<in> fst ` set merged" by (force dest: map_of_SomeD)
    with v have m: "card {x \<in> fst ` set merged. x \<le> v} < card {x \<in> fst ` set merged. x \<le> g}"
      by (intro card_below_less) simp_all
    from less.prems Some have "resolve merged v = Some r" by (subst (asm) resolve.simps) simp
    from less.hyps [OF m this] Some gl show ?thesis by (subst resolve.simps) (simp add: look)
  qed
qed

section \<open>Connected groups\<close>

definition connected :: "('a \<times> 'a) set \<Rightarrow> ('a \<times> 'a) set" where
  "connected E = (E \<union> E\<inverse>)\<^sup>*"

lemma connected_refl [simp]: "(g, g) \<in> connected E"
  by (simp add: connected_def)

lemma connected_sym: "(g, h) \<in> connected E \<Longrightarrow> (h, g) \<in> connected E"
  unfolding connected_def by (metis converse_Un converse_converse rtrancl_converseI sup_commute)

lemma connected_trans: "(g, h) \<in> connected E \<Longrightarrow> (h, k) \<in> connected E \<Longrightarrow> (g, k) \<in> connected E"
  unfolding connected_def by (rule rtrancl_trans)

lemma connected_mono: "E \<subseteq> F \<Longrightarrow> connected E \<subseteq> connected F"
  unfolding connected_def by (intro rtrancl_mono) auto

lemma connected_edge: "(g, h) \<in> E \<Longrightarrow> (g, h) \<in> connected E"
  unfolding connected_def by auto

lemma connected_insert:
  "(g, h) \<in> connected (insert (x, y) E) \<longleftrightarrow>
     (g, h) \<in> connected E
     \<or> (g, x) \<in> connected E \<and> (y, h) \<in> connected E
     \<or> (g, y) \<in> connected E \<and> (x, h) \<in> connected E" (is "?L \<longleftrightarrow> ?R h")
proof
  assume ?L
  then have "(g, h) \<in> (insert (x, y) E \<union> (insert (x, y) E)\<inverse>)\<^sup>*" by (simp add: connected_def)
  then show "?R h"
  proof (induction rule: rtrancl_induct)
    case (step a b)
    consider "(a, b) \<in> connected E" | "a = x" "b = y" | "a = y" "b = x"
      using step.hyps(2) by (auto dest: connected_edge connected_edge [THEN connected_sym])
    then show ?case
    proof cases
      case 1
      note onward = connected_trans [OF _ 1]
      from step.IH onward show ?thesis by blast
    next
      case 2
      with step.IH have "(g, x) \<in> connected E \<or> (g, b) \<in> connected E"
        by (metis connected_trans connected_sym)
      with 2 show ?thesis by (auto simp only: connected_refl simp_thms)
    next
      case 3
      with step.IH have "(g, y) \<in> connected E \<or> (g, b) \<in> connected E"
        by (metis connected_trans connected_sym)
      with 3 show ?thesis by (auto simp only: connected_refl simp_thms)
    qed
  qed simp
next
  have sub: "connected E \<subseteq> connected (insert (x, y) E)" by (rule connected_mono) auto
  have xy: "(x, y) \<in> connected (insert (x, y) E)" by (rule connected_edge) simp
  assume "?R h"
  then consider "(g, h) \<in> connected E" | "(g, x) \<in> connected E" "(y, h) \<in> connected E"
    | "(g, y) \<in> connected E" "(x, h) \<in> connected E" by argo
  then show ?L
  proof cases
    case 1
    with sub show ?thesis by (rule subsetD)
  next
    case 2
    then have "(g, x) \<in> connected (insert (x, y) E)" "(y, h) \<in> connected (insert (x, y) E)"
      by (auto intro: subsetD [OF sub])
    with xy show ?thesis by (metis connected_trans)
  next
    case 3
    then have "(g, y) \<in> connected (insert (x, y) E)" "(x, h) \<in> connected (insert (x, y) E)"
      by (auto intro: subsetD [OF sub])
    with connected_sym [OF xy] show ?thesis by (metis connected_trans)
  qed
qed

section \<open>The groups a merge pass ends with\<close>

text \<open>
  What the pass promises: two groups chase to the same winner exactly when a chain of similar
  neighbours joins them.
\<close>

definition similar_pairs :: "(title_group \<times> title_group) list \<Rightarrow> (string \<times> string) set" where
  "similar_pairs ps = (\<lambda>(a, b). (tg_gid a, tg_gid b)) ` {p \<in> set ps. case_prod similar_titles p}"

definition merged_along :: "(string \<times> string) list \<Rightarrow> (string \<times> string) set \<Rightarrow> bool" where
  "merged_along merged E \<longleftrightarrow> descending merged \<and>
     (\<forall>g h. resolve merged g = resolve merged h \<longleftrightarrow> (g, h) \<in> connected E)"

lemma merged_along_start: "merged_along [] {}"
  by (simp add: merged_along_def descending_def connected_def resolve.simps)

lemma merged_along_redundant:
  assumes "merged_along merged E" "(x, y) \<in> connected E"
  shows "merged_along merged (insert (x, y) E)"
proof -
  have "connected (insert (x, y) E) = connected E"
    using assms(2) by (auto simp: connected_insert) (metis connected_trans connected_sym)+
  with assms(1) show ?thesis by (simp add: merged_along_def)
qed

lemma dict_set_entry: "(k, v) \<in> set (dict_set d l w) \<Longrightarrow> (k, v) \<in> set d \<or> k = l \<and> v = w"
  by (auto simp: dict_set_def split: if_splits)

lemma merged_along_join:
  assumes inv: "merged_along merged E" and roots: "resolve merged x = Some rx" "resolve merged y = Some ry"
    and lw: "{l, w} = {rx, ry}" "w < l"
  shows "merged_along (dict_set merged l w) (insert (x, y) E)"
proof -
  from inv have desc: "descending merged"
    and same: "resolve merged g = resolve merged h \<longleftrightarrow> (g, h) \<in> connected E" for g h
    by (simp_all add: merged_along_def)
  have ends: "map_of merged r = None" if "resolve merged g = Some r" for g r
    using resolve_root [OF desc, of g] that by auto
  have fresh: "map_of merged l = None" "map_of merged w = None" "l \<noteq> w"
    using lw ends [OF roots(1)] ends [OF roots(2)] by (auto simp: doubleton_eq_iff)
  have "descending (dict_set merged l w)"
    using desc lw(2) by (auto simp: descending_def dest!: dict_set_entry)
  moreover have "resolve (dict_set merged l w) g = resolve (dict_set merged l w) h
      \<longleftrightarrow> (g, h) \<in> connected (insert (x, y) E)" for g h
  proof -
    obtain a b where ab: "resolve merged g = Some a" "resolve merged h = Some b"
      using resolve_root [OF desc] by metis
    have "resolve (dict_set merged l w) g = resolve (dict_set merged l w) h
      \<longleftrightarrow> (if a = l then w else a) = (if b = l then w else b)"
      by (simp add: resolve_extend [OF desc fresh] ab)
    also have "\<dots> \<longleftrightarrow> a = b \<or> a = rx \<and> b = ry \<or> a = ry \<and> b = rx"
      using lw by (auto simp: doubleton_eq_iff)
    also have "\<dots> \<longleftrightarrow> (g, h) \<in> connected (insert (x, y) E)"
      by (auto simp: connected_insert same [symmetric] ab roots)
    finally show ?thesis .
  qed
  ultimately show ?thesis by (simp add: merged_along_def)
qed

lemma merge_pair_along:
  assumes inv: "merged_along merged E"
  shows "\<exists>merged'. merge_pair merged p = Some merged' \<and> merged_along merged' (similar_pairs [p] \<union> E)"
proof -
  obtain a b where p: "p = (a, b)" by (cases p)
  from inv have desc: "descending merged" by (simp add: merged_along_def)
  obtain ra rb where r: "resolve merged (tg_gid a) = Some ra" "resolve merged (tg_gid b) = Some rb"
    using resolve_root [OF desc] by metis
  have E: "similar_pairs [p] \<union> E = (if similar_titles a b then insert (tg_gid a, tg_gid b) E else E)"
    by (auto simp: similar_pairs_def p)
  show ?thesis
  proof (cases "ra = rb")
    case True
    with r have "resolve merged (tg_gid a) = resolve merged (tg_gid b)" by simp
    with inv have "(tg_gid a, tg_gid b) \<in> connected E" unfolding merged_along_def by blast
    with inv True r show ?thesis by (simp add: merge_pair_def p E [unfolded p] merged_along_redundant)
  next
    case False
    then consider "ra < rb" | "rb < ra" by force
    then show ?thesis
      by cases (use inv False r merged_along_join [OF inv r, of rb ra] merged_along_join [OF inv r, of ra rb] in
        \<open>auto simp: merge_pair_def p E [unfolded p] insert_commute\<close>)
  qed
qed

lemma merge_pairs_along:
  "merged_along merged E \<Longrightarrow> \<exists>merged'. merge_pairs merged ps = Some merged' \<and> merged_along merged' (similar_pairs ps \<union> E)"
proof (induction ps arbitrary: merged E)
  case (Cons p ps)
  obtain m where m: "merge_pair merged p = Some m" "merged_along m (similar_pairs [p] \<union> E)"
    using merge_pair_along [OF Cons.prems] by blast
  have "similar_pairs (p # ps) \<union> E = similar_pairs ps \<union> (similar_pairs [p] \<union> E)"
    by (auto simp: similar_pairs_def)
  with Cons.IH [OF m(2)] m(1) show ?case by simp
qed (simp add: similar_pairs_def)

lemma title_merges_along:
  "\<exists>merged. title_merges groups = Some merged
     \<and> merged_along merged (similar_pairs (neighbour_pairs (keyed_groups groups)))"
  using merge_pairs_along [OF merged_along_start] by (simp add: title_merges_def)

section \<open>Property\<close>

text \<open>
  C5: The merge pass ends, for every list of groups, and what it leaves is exactly the
  similarity clusters: two group ids chase to the same winner exactly when a chain of
  neighbouring titles above the threshold joins them, the chase from any id ends, and the winner
  is the least id of its cluster.
\<close>

theorem title_merge_clusters:
  "\<exists>merged. title_merges groups = Some merged
     \<and> (\<forall>g h. resolve merged g = resolve merged h
            \<longleftrightarrow> (g, h) \<in> connected (similar_pairs (neighbour_pairs (keyed_groups groups))))
     \<and> (\<forall>g. \<exists>r. resolve merged g = Some r
            \<and> r \<in> connected (similar_pairs (neighbour_pairs (keyed_groups groups))) `` {g}
            \<and> connected (similar_pairs (neighbour_pairs (keyed_groups groups))) `` {g} \<subseteq> {r..})"
proof -
  obtain merged where m: "title_merges groups = Some merged"
    and along: "merged_along merged (similar_pairs (neighbour_pairs (keyed_groups groups)))"
    using title_merges_along by blast
  from along have desc: "descending merged"
    and same: "\<And>g h. resolve merged g = resolve merged h
      \<longleftrightarrow> (g, h) \<in> connected (similar_pairs (neighbour_pairs (keyed_groups groups)))"
    by (auto simp: merged_along_def)
  have "\<exists>r. resolve merged g = Some r
      \<and> r \<in> connected (similar_pairs (neighbour_pairs (keyed_groups groups))) `` {g}
      \<and> connected (similar_pairs (neighbour_pairs (keyed_groups groups))) `` {g} \<subseteq> {r..}" for g
  proof -
    obtain r where r: "resolve merged g = Some r" "map_of merged r = None"
      using resolve_root [OF desc] by blast
    then have "resolve merged r = Some r" by (subst resolve.simps) simp
    with r(1) have "(g, r) \<in> connected (similar_pairs (neighbour_pairs (keyed_groups groups)))"
      by (simp add: same [symmetric])
    moreover have "r \<le> h" if "(g, h) \<in> connected (similar_pairs (neighbour_pairs (keyed_groups groups)))" for h
      using that r(1) resolve_root [OF desc, of h] by (auto simp: same [symmetric])
    ultimately show ?thesis using r(1) by auto
  qed
  with m same show ?thesis by blast
qed

end
