(* ===== verification/GateRpc.thy ===== *)
theory GateRpc
  imports RejectStore
begin

text \<open>
  \<open>persist/gate_rpc.py\<close>: a signed record or batch becomes one SQL statement that calls a gate
  function of the database with its ordered wire entries as bound parameters. What the database
  answers is a function of the statements it has seen and of the statement.
\<close>

record persist_env = gate_env +
  fromisoformat :: "string \<Rightarrow> string option"
    \<comment> \<open>\<open>datetime.fromisoformat\<close> of the interpreter: the \<open>isoformat()\<close> text of what it reads\<close>
  gate_answer :: "gate_statement list \<Rightarrow> gate_statement \<Rightarrow> string + int list"
    \<comment> \<open>the message of the database error, or the columns of the answer's single row\<close>

section \<open>SQL text and parameters\<close>

definition entry_names :: "string \<Rightarrow> nat \<Rightarrow> string \<times> string \<times> string" where
  "entry_names prefix idx =
     (prefix @ ''_k'' @ nat_str idx, prefix @ ''_n'' @ nat_str idx, prefix @ ''_v'' @ nat_str idx)"

fun field_entries_parts ::
    "string \<Rightarrow> nat \<Rightarrow> wire_entry list \<Rightarrow> pydict \<Rightarrow> string list \<times> pydict" where
  "field_entries_parts prefix idx [] params = ([], params)"
| "field_entries_parts prefix idx ((key, is_null, val) # entries) params =
     (case entry_names prefix idx of (pk, pn, pv) \<Rightarrow>
        (case field_entries_parts prefix (Suc idx) entries
                (dict_set (dict_set (dict_set params pk (PStr key)) pn (PBool is_null)) pv (PStr val)) of
           (parts, params') \<Rightarrow>
             ((''ROW(:'' @ pk @ '', :'' @ pn @ '', :'' @ pv @ '')::gate.field_entry'') # parts, params')))"

definition field_entries_sql :: "wire_entry list \<Rightarrow> pydict \<Rightarrow> string \<Rightarrow> string \<times> pydict" where
  "field_entries_sql entries params prefix =
     (if entries = [] then (''ARRAY[]::gate.field_entry[]'', params)
      else (case field_entries_parts prefix 0 entries params of
        (parts, params') \<Rightarrow> (''ARRAY['' @ join_with '', '' parts @ '']::gate.field_entry[]'', params')))"

fun row_payload_parts :: "nat \<Rightarrow> wire_entry list list \<Rightarrow> pydict \<Rightarrow> string list \<times> pydict" where
  "row_payload_parts row_idx [] params = ([], params)"
| "row_payload_parts row_idx (row # rows) params =
     (case field_entries_sql row params (''br'' @ nat_str row_idx) of (inner, params1) \<Rightarrow>
        (case row_payload_parts (Suc row_idx) rows params1 of (parts, params') \<Rightarrow>
           ((''ROW('' @ inner @ '')::gate.row_payload'') # parts, params')))"

definition row_payloads_sql :: "wire_entry list list \<Rightarrow> pydict \<Rightarrow> string \<times> pydict" where
  "row_payloads_sql rows params =
     (if rows = [] then (''ARRAY[]::gate.row_payload[]'', params)
      else (case row_payload_parts 0 rows params of
        (parts, params') \<Rightarrow> (''ARRAY['' @ join_with '', '' parts @ '']::gate.row_payload[]'', params')))"

definition record_statement :: "SignedRecord \<Rightarrow> gate_statement res" where
  \<comment> \<open>the statement of \<open>exec_write_record\<close>\<close>
  "record_statement r =
     bindE (ordered_entries_from_mapping (sr_locator r)) (\<lambda>locator_entries.
     bindE (ordered_entries_from_mapping (sr_fields r)) (\<lambda>fields_entries.
       (let params = [(''table'', PStr (sr_table r)), (''op'', PStr (sr_operation r)),
                      (''sig'', PStr (sr_signature r))];
            (locator_sql, params1) = field_entries_sql locator_entries params ''lk'';
            (fields_sql, params2) = field_entries_sql fields_entries params1 ''fk''
        in Inr \<lparr> gt_sql = ''SELECT gate.exec_write(:table, :op, '' @ locator_sql @ '', '' @ fields_sql @ '', :sig)'',
                 gt_params = params2 \<rparr>)))"

definition batch_statement :: "SignedBatch \<Rightarrow> gate_statement res" where
  \<comment> \<open>the statement of \<open>exec_write_batch\<close>\<close>
  "batch_statement b =
     bindE (ordered_entries_from_mapping (sb_locator b)) (\<lambda>locator_entries.
     bindE (mapE ordered_entries_from_mapping (sb_rows b)) (\<lambda>row_entries.
       (let params = [(''table'', PStr (sb_table b)), (''op'', PStr (sb_operation b)),
                      (''sig'', PStr (sb_signature b))];
            (locator_sql, params1) = field_entries_sql locator_entries params ''lk'';
            (rows_sql, params2) = row_payloads_sql row_entries params1
        in Inr \<lparr> gt_sql = ''SELECT gate.exec_write_batch(:table, :op, '' @ locator_sql @ '', '' @ rows_sql @ '', :sig)'',
                 gt_params = params2 \<rparr>)))"

definition record_names :: "nat \<Rightarrow> string \<times> string \<times> string" where
  "record_names idx = (''r'' @ nat_str idx @ ''_t'', ''r'' @ nat_str idx @ ''_o'', ''r'' @ nat_str idx @ ''_s'')"

fun record_calls :: "nat \<Rightarrow> SignedRecord list \<Rightarrow> pydict \<Rightarrow> (string list \<times> pydict) res" where
  "record_calls idx [] params = Inr ([], params)"
| "record_calls idx (r # rs) params =
     (case record_names idx of (pt, po, ps) \<Rightarrow>
        (let params0 = dict_set (dict_set (dict_set params pt (PStr (sr_table r))) po (PStr (sr_operation r)))
                         ps (PStr (sr_signature r))
         in bindE (ordered_entries_from_mapping (sr_locator r)) (\<lambda>le.
            (case field_entries_sql le params0 (''r'' @ nat_str idx @ ''_lk'') of (locator_sql, params1) \<Rightarrow>
               bindE (ordered_entries_from_mapping (sr_fields r)) (\<lambda>fe.
               (case field_entries_sql fe params1 (''r'' @ nat_str idx @ ''_fk'') of (fields_sql, params2) \<Rightarrow>
                  bindE (record_calls (Suc idx) rs params2) (\<lambda>(calls, params').
                    Inr ((''gate.exec_write(:'' @ pt @ '', :'' @ po @ '', '' @ locator_sql @ '', ''
                           @ fields_sql @ '', :'' @ ps @ '')'') # calls, params'))))))))"

definition records_statement :: "SignedRecord list \<Rightarrow> gate_statement res" where
  "records_statement rs =
     bindE (record_calls 0 rs []) (\<lambda>(calls, params).
       Inr \<lparr> gt_sql = ''SELECT '' @ join_with '', '' calls, gt_params = params \<rparr>)"

fun signature_params :: "string \<Rightarrow> nat \<Rightarrow> SignedRecord list \<Rightarrow> pydict \<Rightarrow> (string list \<times> pydict) res" where
  "signature_params table idx [] params = Inr ([], params)"
| "signature_params table idx (r # rs) params =
     (if sr_table r \<noteq> table \<or> sr_operation r \<noteq> ''insert'' then Inl ValueError
      else
        bindE (signature_params table (Suc idx) rs
                 (dict_set params (''sig'' @ nat_str idx) (PStr (sr_signature r)))) (\<lambda>(parts, params').
          Inr (('':sig'' @ nat_str idx) # parts, params')))"

definition rows_statement :: "string \<Rightarrow> SignedRecord list \<Rightarrow> gate_statement res" where
  "rows_statement table rs =
     bindE (mapE (\<lambda>r. ordered_entries_from_mapping (sr_fields r)) rs) (\<lambda>row_entries.
       (case row_payloads_sql row_entries [(''table'', PStr table)] of (rows_sql, params) \<Rightarrow>
          bindE (signature_params table 0 rs params) (\<lambda>(sig_parts, params').
            Inr \<lparr> gt_sql = ''SELECT gate.exec_write_rows(:table, '' @ rows_sql @ '', ARRAY[''
                             @ join_with '', '' sig_parts @ '']::text[])'',
                  gt_params = params' \<rparr>)))"

section \<open>Execution\<close>

definition classify_gate_error :: "string \<Rightarrow> string" where
  "classify_gate_error message =
     (if contains_sub message ''invalid_signature'' then ''invalid_signature''
      else if contains_sub message ''signing_unavailable'' then ''signing_unavailable''
      else ''rpc_error'')"

definition raise_gate_rpc_error :: "string \<Rightarrow> pyexc" where
  "raise_gate_rpc_error message = GateRpcError (classify_gate_error message) message"

definition aborted_message :: string where
  \<comment> \<open>the database's answer to any statement inside an aborted transaction\<close>
  "aborted_message = ''current transaction is aborted, commands ignored until end of transaction block''"

definition exec_statement ::
    "'e persist_env_scheme \<Rightarrow> gate_statement \<Rightarrow> ('s gate_state_scheme, int list) act" where
  \<comment> \<open>\<open>db.execute(sql, params)\<close> with its \<open>DBAPIError\<close> mapped; a failed statement aborts the transaction\<close>
  "exec_statement env st s = (case gs_session s of
     RollbackPending \<Rightarrow> (Inl PendingRollbackError, s)
   | TransactionAborted \<Rightarrow> (Inl (raise_gate_rpc_error aborted_message), s)
   | SessionLive \<Rightarrow>
       (case gate_answer env (gs_committed_writes s @ gs_session_writes s) st of
          Inl message \<Rightarrow> (Inl (raise_gate_rpc_error message), s\<lparr>gs_session := TransactionAborted\<rparr>)
        | Inr row \<Rightarrow> (Inr row, s\<lparr>gs_session_writes := gs_session_writes s @ [st]\<rparr>)))"

definition scalar_one :: "int list \<Rightarrow> int res" where
  \<comment> \<open>the first column of the answer's row\<close>
  "scalar_one row = (case row of v # _ \<Rightarrow> Inr v | [] \<Rightarrow> Inl IndexError)"

definition exec_write_record ::
    "'e persist_env_scheme \<Rightarrow> SignedRecord \<Rightarrow> ('s gate_state_scheme, int) act" where
  "exec_write_record env r =
     bindA (liftA (record_statement r)) (\<lambda>st.
     bindA (exec_statement env st) (\<lambda>row. liftA (scalar_one row)))"

definition exec_write_batch ::
    "'e persist_env_scheme \<Rightarrow> SignedBatch \<Rightarrow> ('s gate_state_scheme, int) act" where
  "exec_write_batch env b =
     bindA (liftA (batch_statement b)) (\<lambda>st.
     bindA (exec_statement env st) (\<lambda>row. liftA (scalar_one row)))"

definition exec_write_records ::
    "'e persist_env_scheme \<Rightarrow> SignedRecord list \<Rightarrow> ('s gate_state_scheme, int) act" where
  "exec_write_records env rs =
     (if rs = [] then retA 0
      else bindA (liftA (records_statement rs)) (\<lambda>st.
           bindA (exec_statement env st) (\<lambda>row. retA (sum_list row))))"

definition exec_write_rows ::
    "'e persist_env_scheme \<Rightarrow> string \<Rightarrow> SignedRecord list \<Rightarrow> ('s gate_state_scheme, int) act" where
  "exec_write_rows env table rs =
     (if rs = [] then retA 0
      else bindA (liftA (rows_statement table rs)) (\<lambda>st.
           bindA (exec_statement env st) (\<lambda>row. liftA (scalar_one row))))"

section \<open>What a statement binds\<close>

text \<open>The parameters of the entries, in the order they are bound.\<close>

fun entry_bindings :: "string \<Rightarrow> nat \<Rightarrow> wire_entry list \<Rightarrow> pydict" where
  "entry_bindings prefix idx [] = []"
| "entry_bindings prefix idx ((key, is_null, val) # entries) =
     (case entry_names prefix idx of (pk, pn, pv) \<Rightarrow>
        [(pk, PStr key), (pn, PBool is_null), (pv, PStr val)] @ entry_bindings prefix (Suc idx) entries)"

definition row_bindings :: "nat \<Rightarrow> wire_entry list list \<Rightarrow> pydict" where
  "row_bindings i rows =
     concat (map (\<lambda>(n, row). entry_bindings (''br'' @ nat_str n) 0 row) (zip [i..<i + length rows] rows))"

lemma row_bindings_simps [simp]:
  "row_bindings i [] = []"
  "row_bindings i (row # rows) = entry_bindings (''br'' @ nat_str i) 0 row @ row_bindings (Suc i) rows"
  by (simp_all add: row_bindings_def upt_conv_Cons del: upt_Suc)

lemma dict_set_fresh: "k \<notin> set (keys_of d) \<Longrightarrow> dict_set d k v = d @ [(k, v)]"
  by (simp add: dict_set_def has_key_def)

text \<open>Fresh names are appended; nothing that was bound before changes.\<close>

lemma field_entries_parts_params:
  "distinct (keys_of (params @ entry_bindings prefix idx entries)) \<Longrightarrow>
   snd (field_entries_parts prefix idx entries params) = params @ entry_bindings prefix idx entries"
proof (induction entries arbitrary: idx params)
  case (Cons e entries)
  obtain key is_null val where e: "e = (key, is_null, val)" by (cases e)
  obtain pk pn pv where names: "entry_names prefix idx = (pk, pn, pv)" by (cases "entry_names prefix idx")
  let ?new = "[(pk, PStr key), (pn, PBool is_null), (pv, PStr val)]"
  from Cons.prems have fresh: "distinct (keys_of ((params @ ?new) @ entry_bindings prefix (Suc idx) entries))"
    by (simp add: names e)
  then have "pk \<notin> set (keys_of params)" "pn \<notin> set (keys_of (params @ [(pk, PStr key)]))"
    "pv \<notin> set (keys_of (params @ [(pk, PStr key), (pn, PBool is_null)]))" by auto
  then have set: "dict_set (dict_set (dict_set params pk (PStr key)) pn (PBool is_null)) pv (PStr val) = params @ ?new"
    by (simp add: dict_set_fresh)
  show ?case
    using Cons.IH [OF fresh] by (simp add: e names set case_prod_beta)
qed simp

lemma field_entries_sql_params:
  "distinct (keys_of (params @ entry_bindings prefix 0 entries)) \<Longrightarrow>
   snd (field_entries_sql entries params prefix) = params @ entry_bindings prefix 0 entries"
  using field_entries_parts_params [of params prefix 0 entries]
  by (cases entries) (auto simp: field_entries_sql_def case_prod_beta)

lemma row_payload_parts_params:
  "distinct (keys_of (params @ row_bindings i rows)) \<Longrightarrow>
   snd (row_payload_parts i rows params) = params @ row_bindings i rows"
proof (induction rows arbitrary: i params)
  case (Cons row rows)
  have "distinct (keys_of (params @ entry_bindings (''br'' @ nat_str i) 0 row))"
    using Cons.prems by auto
  from field_entries_sql_params [OF this] obtain inner where
    "field_entries_sql row params (''br'' @ nat_str i) = (inner, params @ entry_bindings (''br'' @ nat_str i) 0 row)"
    by (metis prod.collapse)
  with Cons.IH [of "params @ entry_bindings (''br'' @ nat_str i) 0 row" "Suc i"] Cons.prems
  show ?case by (simp add: case_prod_beta)
qed simp

lemma row_payloads_sql_params:
  "distinct (keys_of (params @ row_bindings 0 rows)) \<Longrightarrow>
   snd (row_payloads_sql rows params) = params @ row_bindings 0 rows"
  using row_payload_parts_params [of params 0 rows]
  by (cases rows) (auto simp: row_payloads_sql_def case_prod_beta)

text \<open>Names of different prefixes or indices differ.\<close>

lemma digit_not_underscore: "c \<in> set (nat_str n) \<Longrightarrow> c \<noteq> CHR ''_''"
proof
  assume "c \<in> set (nat_str n)" "c = CHR ''_''"
  then obtain d where "d < 10" "CHR ''_'' = digit_char d"
    by (auto simp: nat_str_def dest: nat_digits_less_10)
  then have "(of_char (CHR ''_'') :: nat) = 48 + d" using of_char_digit_char by metis
  with \<open>d < 10\<close> show False by simp
qed

definition head_of :: "string \<Rightarrow> string" where
  "head_of = takeWhile (\<lambda>c. c \<noteq> CHR ''_'')"

lemma head_of_append: "CHR ''_'' \<notin> set prefix \<Longrightarrow> head_of (prefix @ CHR ''_'' # t) = prefix"
  by (induction prefix) (auto simp: head_of_def)

lemma bindings_indexed:
  "k \<in> set (keys_of (entry_bindings prefix idx entries)) \<Longrightarrow>
   \<exists>j c. idx \<le> j \<and> k = prefix @ ''_'' @ [c] @ nat_str j"
proof (induction entries arbitrary: idx)
  case (Cons e entries)
  obtain key is_null val where e: "e = (key, is_null, val)" by (cases e)
  show ?case
  proof (cases "k \<in> set (keys_of (entry_bindings prefix (Suc idx) entries))")
    case True
    from Cons.IH [OF True] show ?thesis by (metis Suc_leD)
  next
    case False
    with Cons.prems have "\<exists>c. k = prefix @ ''_'' @ [c] @ nat_str idx" by (auto simp: e entry_names_def)
    then show ?thesis by blast
  qed
qed simp

lemma bindings_heads:
  assumes "CHR ''_'' \<notin> set prefix" "k \<in> set (keys_of (entry_bindings prefix idx entries))"
  shows "head_of k = prefix"
  using bindings_indexed [OF assms(2)] head_of_append [OF assms(1)] by auto

lemma distinct_entry_bindings: "distinct (keys_of (entry_bindings prefix idx entries))"
proof (induction entries arbitrary: idx)
  case (Cons e entries)
  obtain key is_null val where e: "e = (key, is_null, val)" by (cases e)
  have later: "k \<notin> set (keys_of (entry_bindings prefix (Suc idx) entries))"
    if "k \<in> {prefix @ ''_k'' @ nat_str idx, prefix @ ''_n'' @ nat_str idx, prefix @ ''_v'' @ nat_str idx}" for k
  proof
    assume "k \<in> set (keys_of (entry_bindings prefix (Suc idx) entries))"
    then obtain j c where "Suc idx \<le> j" "k = prefix @ ''_'' @ [c] @ nat_str j"
      using bindings_indexed by blast
    with that show False by auto
  qed
  from Cons.IH [of "Suc idx"] later show ?case by (simp add: e entry_names_def)
qed simp



definition entries_sql :: "string \<Rightarrow> nat \<Rightarrow> string" where
  \<comment> \<open>the SQL text of an array of entries, from their number alone\<close>
  "entries_sql prefix n =
     (if n = 0 then ''ARRAY[]::gate.field_entry[]''
      else ''ARRAY['' @ join_with '', '' (map (\<lambda>idx. case entry_names prefix idx of (pk, pn, pv) \<Rightarrow>
             ''ROW(:'' @ pk @ '', :'' @ pn @ '', :'' @ pv @ '')::gate.field_entry'') [0..<n]) @ '']::gate.field_entry[]'')"

lemma field_entries_parts_sql:
  "fst (field_entries_parts prefix idx entries params) = map (\<lambda>i. case entry_names prefix i of (pk, pn, pv) \<Rightarrow>
     ''ROW(:'' @ pk @ '', :'' @ pn @ '', :'' @ pv @ '')::gate.field_entry'') [idx..<idx + length entries]"
proof (induction entries arbitrary: idx params)
  case (Cons e entries)
  show ?case by (cases e) (simp add: Cons.IH case_prod_beta upt_conv_Cons del: upt_Suc)
qed simp

lemma field_entries_sql_eq:
  assumes "distinct (keys_of (params @ entry_bindings prefix 0 entries))"
  shows "field_entries_sql entries params prefix =
    (entries_sql prefix (length entries), params @ entry_bindings prefix 0 entries)"
proof (rule prod_eqI)
  show "fst (field_entries_sql entries params prefix) = fst (entries_sql prefix (length entries), params @ entry_bindings prefix 0 entries)"
    using field_entries_parts_sql [of prefix 0 entries params]
    by (cases "entries = []") (simp_all add: field_entries_sql_def entries_sql_def case_prod_beta)
qed (simp add: field_entries_sql_params [OF assms])

definition header_params :: "string \<Rightarrow> string \<Rightarrow> string \<Rightarrow> pydict" where
  "header_params t p sg = [(''table'', PStr t), (''op'', PStr p), (''sig'', PStr sg)]"

lemma distinct_append_heads:
  assumes "distinct xs" "distinct ys" "head_of ` set xs \<subseteq> A" "head_of ` set ys \<subseteq> B" "A \<inter> B = {}"
  shows "distinct (xs @ ys)"
  using assms by (auto simp: image_subset_iff)

lemma heads_entries:
  "CHR ''_'' \<notin> set prefix \<Longrightarrow> head_of ` set (keys_of (entry_bindings prefix idx es)) \<subseteq> {prefix}"
  using bindings_heads [of prefix _ idx es] by blast

lemma heads_header: "head_of ` set (keys_of (header_params t p sg)) \<subseteq> {''table'', ''op'', ''sig''}"
  by (auto simp: header_params_def head_of_def)

lemma distinct_row_bindings: "distinct (keys_of (row_bindings i rows))"
proof (induction rows arbitrary: i)
  case (Cons row rows)
  have later: "head_of ` set (keys_of (row_bindings n rs)) \<subseteq> (\<lambda>j. ''br'' @ nat_str j) ` {n..}" for n rs
  proof (induction rs arbitrary: n)
    case (Cons r rs)
    have "head_of ` set (keys_of (entry_bindings (''br'' @ nat_str n) 0 r)) \<subseteq> {''br'' @ nat_str n}"
      by (rule heads_entries) (auto dest: digit_not_underscore)
    also have "\<dots> \<subseteq> (\<lambda>j. ''br'' @ nat_str j) ` {n..}" by simp
    finally have 1: "head_of ` set (keys_of (entry_bindings (''br'' @ nat_str n) 0 r)) \<subseteq> (\<lambda>j. ''br'' @ nat_str j) ` {n..}" .
    have "(\<lambda>j. ''br'' @ nat_str j) ` {Suc n..} \<subseteq> (\<lambda>j. ''br'' @ nat_str j) ` {n..}" by (rule image_mono) simp
    with Cons.IH [of "Suc n"]
    have 2: "head_of ` set (keys_of (row_bindings (Suc n) rs)) \<subseteq> (\<lambda>j. ''br'' @ nat_str j) ` {n..}" by (rule order_trans)
    from 1 2 show ?case
      by (simp only: row_bindings_simps map_append set_append image_Un Un_subset_iff simp_thms)
  qed simp
  have "head_of ` set (keys_of (entry_bindings (''br'' @ nat_str i) 0 row)) \<subseteq> {''br'' @ nat_str i}"
    by (rule heads_entries) (auto dest: digit_not_underscore)
  then show ?case unfolding row_bindings_simps map_append
    by (rule distinct_append_heads [OF distinct_entry_bindings Cons.IH _ later]) auto
qed simp

lemma heads_rows: "head_of ` set (keys_of (row_bindings i rows)) \<subseteq> range (\<lambda>j. ''br'' @ nat_str j)"
proof (induction rows arbitrary: i)
  case (Cons row rows)
  have "head_of ` set (keys_of (entry_bindings (''br'' @ nat_str i) 0 row)) \<subseteq> {''br'' @ nat_str i}"
    by (rule heads_entries) (auto dest: digit_not_underscore)
  then have "head_of ` set (keys_of (entry_bindings (''br'' @ nat_str i) 0 row)) \<subseteq> range (\<lambda>j. ''br'' @ nat_str j)"
    by blast
  with Cons.IH [of "Suc i"] show ?case by (simp only: row_bindings_simps map_append set_append image_Un Un_subset_iff)
qed simp

lemma distinct_header: "distinct (keys_of (header_params t p sg))"
  by (simp add: header_params_def)

lemma distinct_record_params:
  "distinct (keys_of (header_params t p sg @ entry_bindings ''lk'' 0 le @ entry_bindings ''fk'' 0 fe))"
proof -
  have "distinct (keys_of (entry_bindings ''lk'' 0 le) @ keys_of (entry_bindings ''fk'' 0 fe))"
    by (rule distinct_append_heads [OF distinct_entry_bindings distinct_entry_bindings heads_entries heads_entries]) simp_all
  moreover have "head_of ` set (keys_of (entry_bindings ''lk'' 0 le) @ keys_of (entry_bindings ''fk'' 0 fe)) \<subseteq> {''lk''} \<union> {''fk''}"
    using heads_entries [of "''lk''" 0 le] heads_entries [of "''fk''" 0 fe] unfolding set_append image_Un
    by (intro Un_mono) simp_all
  ultimately show ?thesis unfolding map_append
    by (rule distinct_append_heads [OF distinct_header _ heads_header]) simp
qed

lemma distinct_batch_params:
  "distinct (keys_of (header_params t p sg @ entry_bindings ''lk'' 0 le @ row_bindings 0 rows))"
proof -
  have "distinct (keys_of (entry_bindings ''lk'' 0 le) @ keys_of (row_bindings 0 rows))"
    by (rule distinct_append_heads [OF distinct_entry_bindings distinct_row_bindings heads_entries heads_rows]) auto
  moreover have "head_of ` set (keys_of (entry_bindings ''lk'' 0 le) @ keys_of (row_bindings 0 rows))
      \<subseteq> {''lk''} \<union> range (\<lambda>j. ''br'' @ nat_str j)"
    using heads_entries [of "''lk''" 0 le] heads_rows [of 0 rows] unfolding set_append image_Un
    by (intro Un_mono) simp_all
  ultimately show ?thesis unfolding map_append
    by (rule distinct_append_heads [OF distinct_header _ heads_header]) auto
qed

section \<open>Normal form of the statements\<close>

lemma locator_sql:
  "field_entries_sql le (header_params t p sg) ''lk'' =
     (entries_sql ''lk'' (length le), header_params t p sg @ entry_bindings ''lk'' 0 le)"
  using distinct_record_params [of t p sg le "[]"] by (intro field_entries_sql_eq) simp

lemma fields_sql:
  "field_entries_sql fe (header_params t p sg @ entry_bindings ''lk'' 0 le) ''fk'' =
     (entries_sql ''fk'' (length fe), header_params t p sg @ entry_bindings ''lk'' 0 le @ entry_bindings ''fk'' 0 fe)"
  using distinct_record_params [of t p sg le fe]
    field_entries_sql_eq [of "header_params t p sg @ entry_bindings ''lk'' 0 le" "''fk''" fe] by simp

lemma rows_sql:
  "snd (row_payloads_sql rows (header_params t p sg @ entry_bindings ''lk'' 0 le)) =
     header_params t p sg @ entry_bindings ''lk'' 0 le @ row_bindings 0 rows"
  using distinct_batch_params [of t p sg le rows]
    row_payloads_sql_params [of "header_params t p sg @ entry_bindings ''lk'' 0 le" rows] by simp

lemma record_statement_normal:
  "record_statement r =
     bindE (ordered_entries_from_mapping (sr_locator r)) (\<lambda>le.
     bindE (ordered_entries_from_mapping (sr_fields r)) (\<lambda>fe.
       Inr \<lparr> gt_sql = ''SELECT gate.exec_write(:table, :op, '' @ entries_sql ''lk'' (length le) @ '', ''
                        @ entries_sql ''fk'' (length fe) @ '', :sig)'',
             gt_params = header_params (sr_table r) (sr_operation r) (sr_signature r)
                           @ entry_bindings ''lk'' 0 le @ entry_bindings ''fk'' 0 fe \<rparr>))"
  unfolding record_statement_def header_params_def [symmetric] by (simp add: locator_sql fields_sql)

lemma batch_statement_normal:
  "map_sum id gt_params (batch_statement b) =
     bindE (ordered_entries_from_mapping (sb_locator b)) (\<lambda>le.
     bindE (mapE ordered_entries_from_mapping (sb_rows b)) (\<lambda>rows.
       Inr (header_params (sb_table b) (sb_operation b) (sb_signature b)
              @ entry_bindings ''lk'' 0 le @ row_bindings 0 rows)))"
  unfolding batch_statement_def header_params_def [symmetric]
  by (cases "ordered_entries_from_mapping (sb_locator b)"; cases "mapE ordered_entries_from_mapping (sb_rows b)")
    (simp_all add: locator_sql rows_sql case_prod_beta Let_def)

section \<open>Property\<close>


end
