(* ===== verification/Writer.thy ===== *)
theory Writer
  imports Verification GateRpc PyNumber
begin

text \<open>
  \<open>persist/writer.py\<close>: a signed record or batch is verified, then executed through the gate; a
  refusal of either side leaves a diagnostic. The log output and the reporter's messages are
  not kept.
\<close>

section \<open>UUIDs\<close>

fun remove_sub :: "string \<Rightarrow> string \<Rightarrow> string" where
  \<comment> \<open>\<open>s.replace(p, "")\<close> for a non-empty \<open>p\<close>\<close>
  "remove_sub p [] = []"
| "remove_sub p (c # s) =
     (if p \<noteq> [] \<and> startswith (c # s) p then remove_sub p (drop (length p - 1) s)
      else c # remove_sub p s)"

definition hex_val :: "char \<Rightarrow> int option" where
  "hex_val c =
     (let n = (of_char c :: int) in
      if 48 \<le> n \<and> n \<le> 57 then Some (n - 48)
      else if 97 \<le> n \<and> n \<le> 102 then Some (n - 87)
      else if 65 \<le> n \<and> n \<le> 70 then Some (n - 55) else None)"

definition is_hex :: "char \<Rightarrow> bool" where
  "is_hex c = (hex_val c \<noteq> None)"

fun hex_underscores :: "bool \<Rightarrow> string \<Rightarrow> string option" where
  \<comment> \<open>single underscores between digits are dropped; the flag says whether one may stand here\<close>
  "hex_underscores prev [] = Some []"
| "hex_underscores prev (c # s) =
     (if c = CHR ''_'' then
        (if prev \<and> s \<noteq> [] \<and> is_hex (hd s) then hex_underscores False s else None)
      else map_option (Cons c) (hex_underscores (is_hex c) s))"

definition int_base16 :: "string \<Rightarrow> int option" where
  \<comment> \<open>\<open>int(s, 16)\<close>\<close>
  "int_base16 s =
     (case split_sign (py_strip s) of (neg, u) \<Rightarrow>
        let prefixed = startswith (py_lower u) ''0x''; body = (if prefixed then drop 2 u else u)
        in case hex_underscores prefixed body of
             None \<Rightarrow> None
           | Some digits \<Rightarrow>
               if digits \<noteq> [] \<and> list_all is_hex digits
               then (let n = foldl (\<lambda>a c. 16 * a + the (hex_val c)) 0 digits in Some (if neg then - n else n))
               else None)"

fun hex_digits :: "nat \<Rightarrow> int \<Rightarrow> string" where
  \<comment> \<open>the last digits of a number, padded with zeros\<close>
  "hex_digits 0 n = []"
| "hex_digits (Suc k) n =
     hex_digits k (n div 16) @ [let d = n mod 16 in char_of (if d < 10 then d + 48 else d + 87)]"

definition uuid_text :: "int \<Rightarrow> string" where
  \<comment> \<open>\<open>str(UUID)\<close>\<close>
  "uuid_text n =
     (let h = hex_digits 32 n in
      take 8 h @ ''-'' @ take 4 (drop 8 h) @ ''-'' @ take 4 (drop 12 h) @ ''-'' @ take 4 (drop 16 h)
        @ ''-'' @ drop 20 h)"

definition uuid_of_text :: "string \<Rightarrow> string res" where
  \<comment> \<open>\<open>UUID(text)\<close>\<close>
  "uuid_of_text t =
     (let h = remove_sub ''-'' (strip_by (\<lambda>c. c = CHR ''{'' \<or> c = CHR ''}'')
                (remove_sub ''uuid:'' (remove_sub ''urn:'' t)))
      in if length h \<noteq> 32 then Inl ValueError
         else case int_base16 h of
           None \<Rightarrow> Inl ValueError
         | Some n \<Rightarrow> if 0 \<le> n \<and> n < 2 ^ 128 then Inr (uuid_text n) else Inl ValueError)"

definition parse_uuid :: "pyval \<Rightarrow> pyval res" where
  "parse_uuid v = (case v of
     PNone \<Rightarrow> Inr PNone
   | PUuid u \<Rightarrow> Inr (PUuid u)
   | _ \<Rightarrow> bindE (uuid_of_text (py_str v)) (\<lambda>u. Inr (PUuid u)))"

definition parse_datetime :: "'e persist_env_scheme \<Rightarrow> pyval \<Rightarrow> pyval res" where
  "parse_datetime env v = (case v of
     PDatetime t \<Rightarrow> Inr (PDatetime t)
   | PStr s \<Rightarrow> (case fromisoformat env s of None \<Rightarrow> Inl ValueError | Some t \<Rightarrow> Inr (PDatetime t))
   | _ \<Rightarrow> Inl TypeError)"

section \<open>ORM values\<close>

definition unless_none :: "(pyval \<Rightarrow> pyval res) \<Rightarrow> pyval \<Rightarrow> pyval res" where
  "unless_none f v = (if v = PNone then Inr PNone else f v)"

definition orm_conversions :: "'e persist_env_scheme \<Rightarrow> string \<Rightarrow> (string \<times> (pyval \<Rightarrow> pyval res)) list" where
  \<comment> \<open>the conversions in the order in which they are made\<close>
  "orm_conversions env table = [
     (''listing_id'', parse_uuid), (''scrape_job_id'', parse_uuid), (''product_id'', parse_uuid),
     (''marketplace_id'', parse_uuid), (''parent_job_id'', parse_uuid), (''triggered_by'', parse_uuid),
     (''user_id'', parse_uuid), (''session_id'', parse_uuid),
     (''context_id'', unless_none parse_uuid),
     (''id'', if table = ''ai_chat_messages'' then (\<lambda>v. bindE (py_int v) (\<lambda>n. Inr (PInt n))) else parse_uuid),
     (''scraped_at'', parse_datetime env), (''fetched_at'', parse_datetime env),
     (''created_at'', parse_datetime env), (''updated_at'', parse_datetime env),
     (''triggered_at'', parse_datetime env),
     (''resolved_at'', unless_none (parse_datetime env)),
     (''trial_ends_at'', unless_none (parse_datetime env)),
     (''last_login_at'', unless_none (parse_datetime env))]"

fun convert_columns :: "(string \<times> (pyval \<Rightarrow> pyval res)) list \<Rightarrow> pydict \<Rightarrow> pydict res" where
  "convert_columns [] out = Inr out"
| "convert_columns ((k, f) # cs) out =
     (if has_key out k then bindE (f (dict_get out k)) (\<lambda>v. convert_columns cs (dict_set out k v))
      else convert_columns cs out)"

definition orm_fields_for_table :: "'e persist_env_scheme \<Rightarrow> string \<Rightarrow> pydict \<Rightarrow> pydict res" where
  "orm_fields_for_table env table flds = convert_columns (orm_conversions env table) flds"

definition value_fields_minus_locator :: "string \<Rightarrow> pydict \<Rightarrow> pydict res" where
  "value_fields_minus_locator table orm_fields = (case map_of TABLE_LOCATORS table of
     None \<Rightarrow> Inl KeyError
   | Some locator_keys \<Rightarrow> Inr (filter (\<lambda>kv. fst kv \<notin> set locator_keys) orm_fields))"

section \<open>Results and diagnostics\<close>

record PersistResult =
  pr_ok :: bool
  pr_rows_affected :: "int option"
  pr_no_target :: bool

record PersistContext =
  pc_source :: string
  pc_marketplace_id :: "string option"
  pc_listing_id :: "string option"
  pc_date_id :: "int option"

definition source_context :: "string \<Rightarrow> PersistContext" where
  \<comment> \<open>\<open>PersistContext(source=...)\<close>\<close>
  "source_context src =
     \<lparr> pc_source = src, pc_marketplace_id = None, pc_listing_id = None, pc_date_id = None \<rparr>"

definition persist_failed :: PersistResult where
  \<comment> \<open>\<open>PersistResult(ok=False)\<close>\<close>
  "persist_failed = \<lparr> pr_ok = False, pr_rows_affected = None, pr_no_target = False \<rparr>"

definition persist_result_from_rowcount :: "int \<Rightarrow> PersistResult" where
  "persist_result_from_rowcount rowcount =
     \<lparr> pr_ok = True, pr_rows_affected = Some rowcount, pr_no_target = (rowcount = 0) \<rparr>"

definition persist_reject_row ::
    "PersistContext \<Rightarrow> string \<Rightarrow> pydict \<Rightarrow> string \<Rightarrow> bool \<Rightarrow> string \<Rightarrow> reject_row" where
  "persist_reject_row ctx table flds reason signature_present operation =
     \<lparr> rr_source = pc_source ctx, rr_table_target = table, rr_operation = operation,
       rr_marketplace_id = pc_marketplace_id ctx, rr_listing_id = pc_listing_id ctx,
       rr_reject_reason = reason, rr_failed_rules = None, rr_raw_payload = flds,
       rr_signature_present = signature_present, rr_rejected_by = ''persist'' \<rparr>"

definition reject_persist ::
    "'e persist_env_scheme \<Rightarrow> PersistContext \<Rightarrow> string \<Rightarrow> pydict \<Rightarrow> string \<Rightarrow> bool \<Rightarrow> string
      \<Rightarrow> ('s gate_state_scheme, PersistResult) act" where
  "reject_persist env ctx table flds reason signature_present operation =
     thenA (write_reject_data env (persist_reject_row ctx table flds reason signature_present operation))
       (retA persist_failed)"

definition gate_alert_row :: "string \<Rightarrow> string \<Rightarrow> string \<Rightarrow> pydict \<Rightarrow> service_alert_row" where
  "gate_alert_row severity anomaly message ctx =
     \<lparr> sa_alert_class = ''service'', sa_module = ''data_firewall'', sa_submodule = ''persist_rpc'',
       sa_severity = severity, sa_anomaly_type = anomaly, sa_message = message, sa_context = Some ctx \<rparr>"

definition gate_alert_context :: "SignedRecord \<Rightarrow> pydict" where
  "gate_alert_context r =
     [(''table'', PStr (sr_table r)), (''operation'', PStr (sr_operation r)),
      (''locator_keys'', PList (map PStr (sort (dict_keys (sr_locator r)))))]"

definition gate_alert_context_batch :: "SignedBatch \<Rightarrow> pydict" where
  "gate_alert_context_batch b =
     [(''table'', PStr (sb_table b)), (''operation'', PStr (sb_operation b)),
      (''locator_keys'', PList (map PStr (sort (dict_keys (sb_locator b))))),
      (''row_count'', PInt (int (length (sb_rows b))))]"

section \<open>Failures of the gate\<close>

definition handle_gate_invalid_signature ::
    "'e persist_env_scheme \<Rightarrow> PersistContext \<Rightarrow> SignedRecord \<Rightarrow> ('s gate_state_scheme, PersistResult) act" where
  "handle_gate_invalid_signature env ctx r =
     thenA (write_reject_data env
              (persist_reject_row ctx (sr_table r) (sr_fields r) ''gate_write_invalid_signature'' True (sr_operation r)))
       (thenA (write_service_alert_isolated env
                 (gate_alert_row ''warning'' ''gate_write_invalid_signature''
                    ''gate rejected signature after Python verify (wire divergence or tamper)'' (gate_alert_context r)))
          (retA persist_failed))"

definition handle_gate_signing_unavailable ::
    "'e persist_env_scheme \<Rightarrow> SignedRecord \<Rightarrow> string \<Rightarrow> ('s gate_state_scheme, 'a) act" where
  "handle_gate_signing_unavailable env r message =
     thenA (write_service_alert_isolated env
              (gate_alert_row ''critical'' ''gate_write_signing_unavailable''
                 ''gate signing vault unavailable during persist RPC'' (gate_alert_context r)))
       (raiseA (GateRpcError ''signing_unavailable'' message))"

definition handle_gate_rpc_error ::
    "'e persist_env_scheme \<Rightarrow> SignedRecord \<Rightarrow> string \<Rightarrow> ('s gate_state_scheme, 'a) act" where
  "handle_gate_rpc_error env r message =
     thenA (write_service_alert_isolated env
              (gate_alert_row ''error'' ''gate_write_rpc_error'' ''gate persist RPC failed'' (gate_alert_context r)))
       (raiseA (GateRpcError ''rpc_error'' message))"

definition handle_gate_batch_rpc_error ::
    "'e persist_env_scheme \<Rightarrow> SignedBatch \<Rightarrow> string \<Rightarrow> string \<Rightarrow> ('s gate_state_scheme, 'a) act" where
  "handle_gate_batch_rpc_error env b kind message =
     (if kind = ''signing_unavailable'' then
        thenA (write_service_alert_isolated env
                 (gate_alert_row ''critical'' ''gate_write_signing_unavailable''
                    ''gate signing vault unavailable during persist batch RPC'' (gate_alert_context_batch b)))
          (raiseA (GateRpcError ''signing_unavailable'' message))
      else
        thenA (write_service_alert_isolated env
                 (gate_alert_row ''error'' ''gate_write_rpc_error'' ''gate persist batch RPC failed''
                    (gate_alert_context_batch b)))
          (raiseA (GateRpcError kind message)))"

definition catch_gate_error ::
    "('s, 'a) act \<Rightarrow> (string \<Rightarrow> string \<Rightarrow> ('s, 'a) act) \<Rightarrow> ('s, 'a) act" where
  \<comment> \<open>\<open>try: ... except GateRpcError as exc: ...\<close>\<close>
  "catch_gate_error m handler s = (case m s of
     (Inl (GateRpcError kind message), s') \<Rightarrow> handler kind message s'
   | (r, s') \<Rightarrow> (r, s'))"

section \<open>Writing\<close>

definition sync_update_empty_fields_check ::
    "'e persist_env_scheme \<Rightarrow> SignedRecord \<Rightarrow> bool res" where
  \<comment> \<open>whether an update carries nothing but its locator\<close>
  "sync_update_empty_fields_check env r =
     bindE (orm_fields_for_table env (sr_table r) (sr_fields r)) (\<lambda>orm_fields.
     bindE (value_fields_minus_locator (sr_table r) orm_fields) (\<lambda>value_fields.
       Inr (value_fields = [])))"

definition execute_record ::
    "'e persist_env_scheme \<Rightarrow> PersistContext \<Rightarrow> SignedRecord \<Rightarrow> ('s gate_state_scheme, PersistResult) act" where
  \<comment> \<open>the \<open>try\<close> block at the end of \<open>write_sync\<close>\<close>
  "execute_record env ctx r =
     catch_gate_error
       (bindA (exec_write_record env r) (\<lambda>rowcount. retA (persist_result_from_rowcount rowcount)))
       (\<lambda>kind message.
          if kind = ''invalid_signature'' then handle_gate_invalid_signature env ctx r
          else if kind = ''signing_unavailable'' then handle_gate_signing_unavailable env r message
          else handle_gate_rpc_error env r message)"

definition write_sync ::
    "'e persist_env_scheme \<Rightarrow> PersistContext \<Rightarrow> SignedRecord option \<Rightarrow> ('s gate_state_scheme, PersistResult) act" where
  "write_sync env ctx signed_rec = (case signed_rec of
     None \<Rightarrow> reject_persist env ctx ''unknown'' [] ''missing_signed_record'' False ''insert''
   | Some r \<Rightarrow>
       bindA (liftA (verify_signed_record env r)) (\<lambda>reason. case reason of
         Some reject_reason \<Rightarrow>
           reject_persist env ctx (sr_table r) (sr_fields r) reject_reason (sr_signature r \<noteq> '''') (sr_operation r)
       | None \<Rightarrow>
           bindA (liftA (if sr_operation r = ''update'' then sync_update_empty_fields_check env r else Inr False))
             (\<lambda>empty.
               if empty then
                 reject_persist env ctx (sr_table r) (sr_fields r) ''nothing_to_update'' (sr_signature r \<noteq> '''')
                   (sr_operation r)
               else execute_record env ctx r)))"

definition rows_payload :: "pydict list \<Rightarrow> pydict" where
  "rows_payload rows = [(''rows'', PList (map PDict rows))]"

definition execute_batch ::
    "'e persist_env_scheme \<Rightarrow> PersistContext \<Rightarrow> SignedBatch \<Rightarrow> ('s gate_state_scheme, PersistResult) act" where
  \<comment> \<open>the \<open>try\<close> block at the end of \<open>write_batch_sync\<close>\<close>
  "execute_batch env ctx b =
     catch_gate_error
       (bindA (exec_write_batch env b) (\<lambda>rowcount. retA (persist_result_from_rowcount rowcount)))
       (\<lambda>kind message.
          if kind = ''invalid_signature'' then
            thenA (write_reject_data env
                     (persist_reject_row ctx (sb_table b) (rows_payload (sb_rows b))
                        ''gate_write_invalid_signature'' True (sb_operation b)))
              (thenA (write_service_alert_isolated env
                        (gate_alert_row ''warning'' ''gate_write_invalid_signature''
                           ''gate rejected batch signature after Python verify (wire divergence or tamper)''
                           (gate_alert_context_batch b)))
                 (retA persist_failed))
          else handle_gate_batch_rpc_error env b kind message)"

definition write_batch_sync ::
    "'e persist_env_scheme \<Rightarrow> PersistContext \<Rightarrow> SignedBatch option \<Rightarrow> ('s gate_state_scheme, PersistResult) act" where
  "write_batch_sync env ctx signed_batch = (case signed_batch of
     None \<Rightarrow> reject_persist env ctx ''unknown'' [] ''missing_signed_batch'' False ''insert''
   | Some b \<Rightarrow>
       bindA (liftA (verify_signed_batch env b)) (\<lambda>reason. case reason of
         Some reject_reason \<Rightarrow>
           reject_persist env ctx (sb_table b) (rows_payload (sb_rows b)) reject_reason (sb_signature b \<noteq> '''')
             (sb_operation b)
       | None \<Rightarrow>
           if sb_operation b \<noteq> ''insert'' then
             reject_persist env ctx (sb_table b) (rows_payload (sb_rows b)) ''unsupported_operation''
               (sb_signature b \<noteq> '''') (sb_operation b)
           else execute_batch env ctx b))"

end
