(* ===== verification/WriterFacts.thy ===== *)
theory WriterFacts
  imports Writer
begin

text \<open>
  What the persist layer executes: a statement reaches the database only for a record that
  verifies, and the signature it carries is the MAC of exactly the bytes that its bound
  entries serialise to, so the database can check it without the program's values.
\<close>

section \<open>Statements carry their own signature\<close>

definition record_statement_signed :: "'e signing_env_scheme \<Rightarrow> gate_statement \<Rightarrow> bool" where
  "record_statement_signed env st =
     (\<exists>secret t p sg le fe. signing_secret env = Some secret
        \<and> gt_params st = header_params t p sg @ entry_bindings ''lk'' 0 le @ entry_bindings ''fk'' 0 fe
        \<and> sg = hmac_sha256_hex env (utf8 secret) (canonical_serialize_ordered_record t p le fe))"

definition batch_statement_signed :: "'e signing_env_scheme \<Rightarrow> gate_statement \<Rightarrow> bool" where
  "batch_statement_signed env st =
     (\<exists>secret t p sg le rows. signing_secret env = Some secret
        \<and> gt_params st = header_params t p sg @ entry_bindings ''lk'' 0 le @ row_bindings 0 rows
        \<and> sg = hmac_sha256_hex env (utf8 secret) (canonical_serialize_ordered_batch t p le rows))"

lemma signed_payload_ordered:
  "canonical_serialize_signed_payload t p f l =
     bindE (ordered_entries_from_mapping l) (\<lambda>el. bindE (ordered_entries_from_mapping f)
       (\<lambda>ef. Inr (canonical_serialize_ordered_record t p el ef)))"
  unfolding canonical_serialize_signed_payload_def dict_enc_ordered_entries [of l]
    dict_enc_ordered_entries [of f] canonical_serialize_ordered_record_def
  by (cases "ordered_entries_from_mapping l"; cases "ordered_entries_from_mapping f") simp_all

lemma signed_batch_payload_ordered:
  "canonical_serialize_signed_batch_payload t p rows l =
     bindE (ordered_entries_from_mapping l) (\<lambda>el. bindE (mapE ordered_entries_from_mapping rows)
       (\<lambda>ers. Inr (canonical_serialize_ordered_batch t p el ers)))"
  unfolding canonical_serialize_signed_batch_payload_def dict_enc_ordered_entries [of l]
    mapE_dict_enc canonical_serialize_ordered_batch_def
  by (cases "ordered_entries_from_mapping l"; cases "mapE ordered_entries_from_mapping rows")
    (auto dest: mapE_length)

lemma verify_True_iff:
  "verify env t p f l (Some sg) = Inr True \<longleftrightarrow>
     sg \<noteq> '''' \<and> (\<exists>secret b. signing_secret env = Some secret
       \<and> canonical_serialize_signed_payload t p f l = Inr b \<and> sg = hmac_sha256_hex env (utf8 secret) b)"
  by (auto simp: verify_def sign_def bindE_Inr_iff split: option.splits)

lemma verify_batch_True_iff:
  "verify_batch env t p rows l (Some sg) = Inr True \<longleftrightarrow>
     sg \<noteq> '''' \<and> (\<exists>secret b. signing_secret env = Some secret
       \<and> canonical_serialize_signed_batch_payload t p rows l = Inr b \<and> sg = hmac_sha256_hex env (utf8 secret) b)"
  by (auto simp: verify_batch_def sign_batch_def bindE_Inr_iff split: option.splits)

lemma record_statement_params:
  assumes "record_statement r = Inr st"
  obtains le fe where "ordered_entries_from_mapping (sr_locator r) = Inr le"
    "ordered_entries_from_mapping (sr_fields r) = Inr fe"
    "gt_params st = header_params (sr_table r) (sr_operation r) (sr_signature r)
       @ entry_bindings ''lk'' 0 le @ entry_bindings ''fk'' 0 fe"
proof -
  from assms obtain le fe where e: "ordered_entries_from_mapping (sr_locator r) = Inr le"
    "ordered_entries_from_mapping (sr_fields r) = Inr fe"
    by (auto simp: record_statement_def bindE_Inr_iff)
  with assms have "gt_params st = header_params (sr_table r) (sr_operation r) (sr_signature r)
       @ entry_bindings ''lk'' 0 le @ entry_bindings ''fk'' 0 fe"
    by (auto simp: record_statement_normal)
  with e that show thesis by blast
qed

lemma record_statement_signedI:
  "signing_secret env = Some secret \<Longrightarrow>
   gt_params st = header_params t p sg @ entry_bindings ''lk'' 0 le @ entry_bindings ''fk'' 0 fe \<Longrightarrow>
   sg = hmac_sha256_hex env (utf8 secret) (canonical_serialize_ordered_record t p le fe) \<Longrightarrow>
   record_statement_signed env st"
  unfolding record_statement_signed_def by blast

lemma batch_statement_signedI:
  "signing_secret env = Some secret \<Longrightarrow>
   gt_params st = header_params t p sg @ entry_bindings ''lk'' 0 le @ row_bindings 0 rows \<Longrightarrow>
   sg = hmac_sha256_hex env (utf8 secret) (canonical_serialize_ordered_batch t p le rows) \<Longrightarrow>
   batch_statement_signed env st"
  unfolding batch_statement_signed_def by blast

lemma sealed_statement_signed:
  assumes "sealed env r" "record_statement r = Inr st"
  shows "record_statement_signed env st"
proof -
  from assms(2) obtain le fe where e: "ordered_entries_from_mapping (sr_locator r) = Inr le"
    "ordered_entries_from_mapping (sr_fields r) = Inr fe"
    "gt_params st = header_params (sr_table r) (sr_operation r) (sr_signature r)
       @ entry_bindings ''lk'' 0 le @ entry_bindings ''fk'' 0 fe"
    by (rule record_statement_params)
  from assms(1) e obtain secret where "signing_secret env = Some secret"
    "sr_signature r = hmac_sha256_hex env (utf8 secret)
       (canonical_serialize_ordered_record (sr_table r) (sr_operation r) le fe)"
    unfolding sealed_def verify_True_iff signed_payload_ordered by auto
  with e(3) show ?thesis by (intro record_statement_signedI)
qed

lemma sealed_statement_exists:
  assumes "sealed env r"
  shows "\<exists>st. record_statement r = Inr st"
  using assms unfolding sealed_def verify_True_iff signed_payload_ordered
  by (auto simp: record_statement_normal bindE_Inr_iff)

lemma batch_verified_statement_signed:
  assumes "verify_batch env (sb_table b) (sb_operation b) (sb_rows b) (sb_locator b) (Some (sb_signature b)) = Inr True"
    and "batch_statement b = Inr st"
  shows "batch_statement_signed env st"
proof -
  from assms(2) obtain le rows where e: "ordered_entries_from_mapping (sb_locator b) = Inr le"
    "mapE ordered_entries_from_mapping (sb_rows b) = Inr rows"
    by (auto simp: batch_statement_def bindE_Inr_iff)
  have g: "gt_params st = header_params (sb_table b) (sb_operation b) (sb_signature b)
       @ entry_bindings ''lk'' 0 le @ row_bindings 0 rows"
    using batch_statement_normal [of b] assms(2) e by simp
  from assms(1) e obtain secret where "signing_secret env = Some secret"
    "sb_signature b = hmac_sha256_hex env (utf8 secret)
       (canonical_serialize_ordered_batch (sb_table b) (sb_operation b) le rows)"
    unfolding verify_batch_True_iff signed_batch_payload_ordered by auto
  with g show ?thesis by (intro batch_statement_signedI)
qed

section \<open>One write\<close>

text \<open>What \<open>write_sync\<close> can leave in the session: nothing new, one statement, or a dead transaction.\<close>

lemma exec_statement_result:
  assumes "exec_statement env st s = (res, s')"
  shows "(\<exists>row. res = Inr row \<and> gs_session s = SessionLive
            \<and> gate_answer env (gs_committed_writes s @ gs_session_writes s) st = Inr row
            \<and> s' = s\<lparr>gs_session_writes := gs_session_writes s @ [st]\<rparr>)
    \<or> (\<exists>e. res = Inl e \<and> gs_session s' \<noteq> SessionLive \<and> (s' = s \<or> s' = s\<lparr>gs_session := TransactionAborted\<rparr>))"
  using assms by (auto simp: exec_statement_def split: session_status.splits sum.splits)

lemma write_reject_frame [simp, gate_frame]:
  "gs_committed_writes (write_reject_data env row s) = gs_committed_writes s"
  "gs_reject_data (write_reject_data env row s) = gs_reject_data s"
  "gs_service_alerts (write_reject_data env row s) = gs_service_alerts s"
  by (simp_all add: write_reject_data_def signal_reject_def fail_flush_def Let_def)

lemma service_alert_frame [simp, gate_frame]:
  "gs_committed_writes (write_service_alert_isolated env row s) = gs_committed_writes s"
  "gs_reject_data (write_service_alert_isolated env row s) = gs_reject_data s"
  "gs_session (write_service_alert_isolated env row s) = gs_session s"
  "gs_session_writes (write_service_alert_isolated env row s) = gs_session_writes s"
  "gs_session_rejects (write_service_alert_isolated env row s) = gs_session_rejects s"
  by (simp_all add: write_service_alert_isolated_def)

lemma exec_statement_frame [gate_frame]:
  assumes "exec_statement env st s = (res, s')"
  shows "gs_committed_writes s' = gs_committed_writes s" "gs_reject_data s' = gs_reject_data s"
  using exec_statement_result [OF assms] by auto

lemma exec_record_result:
  assumes "exec_write_record env r s = (res, s')"
  obtains (written) st n row where "res = Inr n" "record_statement r = Inr st" "gs_session s = SessionLive"
      "gate_answer env (gs_committed_writes s @ gs_session_writes s) st = Inr (n # row)"
      "s' = s\<lparr>gs_session_writes := gs_session_writes s @ [st]\<rparr>"
  | (failed) e where "res = Inl e" "gs_committed_writes s' = gs_committed_writes s"
      "gs_reject_data s' = gs_reject_data s"
proof (cases "record_statement r")
  case (Inl e)
  with assms that(2) show ?thesis by (auto simp: exec_write_record_def)
next
  case (Inr st)
  obtain x t where x: "exec_statement env st s = (x, t)" by fastforce
  show ?thesis
  proof (cases x)
    case (Inl e)
    with assms Inr x that(2) exec_statement_frame [OF x] show ?thesis
      by (auto simp: exec_write_record_def bindA_apply)
  next
    case row: (Inr row)
    with exec_statement_result [OF x] have g: "gs_session s = SessionLive"
      "gate_answer env (gs_committed_writes s @ gs_session_writes s) st = Inr row"
      "t = s\<lparr>gs_session_writes := gs_session_writes s @ [st]\<rparr>" by auto
    from assms Inr x row have res: "res = scalar_one row" "s' = t"
      by (simp_all add: exec_write_record_def bindA_apply)
    show ?thesis
    proof (cases row)
      case Nil
      with res g that(2) show ?thesis by (simp add: scalar_one_def)
    next
      case (Cons n ns)
      with res g Inr that(1) show ?thesis by (simp add: scalar_one_def)
    qed
  qed
qed

lemma execute_record_result:
  assumes "execute_record env ctx r s = (res, s')"
  obtains (written) st n row where "res = Inr (persist_result_from_rowcount n)" "record_statement r = Inr st"
      "gs_session s = SessionLive"
      "gate_answer env (gs_committed_writes s @ gs_session_writes s) st = Inr (n # row)"
      "s' = s\<lparr>gs_session_writes := gs_session_writes s @ [st]\<rparr>"
  | (failed) "res = Inr persist_failed \<or> (\<exists>e. res = Inl e)"
      "gs_committed_writes s' = gs_committed_writes s" "gs_reject_data s' = gs_reject_data s"
proof -
  obtain x t where x: "exec_write_record env r s = (x, t)" by fastforce
  from x show ?thesis
  proof (cases rule: exec_record_result)
    case (written st n row)
    with assms x have "res = Inr (persist_result_from_rowcount n) \<and> s' = t"
      by (simp add: execute_record_def catch_gate_error_def bindA_apply)
    with written that(1) show ?thesis by blast
  next
    case (failed e)
    with assms x have "res = Inr persist_failed \<or> (\<exists>e. res = Inl e)"
      "gs_committed_writes s' = gs_committed_writes s \<and> gs_reject_data s' = gs_reject_data s"
      by (auto simp: execute_record_def catch_gate_error_def bindA_apply handle_gate_invalid_signature_def
          handle_gate_signing_unavailable_def handle_gate_rpc_error_def split: pyexc.splits if_splits)
    with that(2) show ?thesis by blast
  qed
qed

lemma write_sync_result:
  assumes "write_sync env ctx (Some r) s = (res, s')"
  obtains (written) st n row where "res = Inr (persist_result_from_rowcount n)"
      "verify_signed_record env r = Inr None" "record_statement r = Inr st" "gs_session s = SessionLive"
      "gate_answer env (gs_committed_writes s @ gs_session_writes s) st = Inr (n # row)"
      "s' = s\<lparr>gs_session_writes := gs_session_writes s @ [st]\<rparr>"
  | (failed) "res = Inr persist_failed \<or> (\<exists>e. res = Inl e)"
      "gs_committed_writes s' = gs_committed_writes s" "gs_reject_data s' = gs_reject_data s"
proof (cases "verify_signed_record env r")
  case (Inl e)
  with assms that(2) show ?thesis by (auto simp: write_sync_def)
next
  case (Inr reason)
  show ?thesis
  proof (cases reason)
    case (Some why)
    with assms Inr that(2) show ?thesis by (auto simp: write_sync_def reject_persist_def)
  next
    case None
    let ?empty = "if sr_operation r = ''update'' then sync_update_empty_fields_check env r else Inr False"
    show ?thesis
    proof (cases "?empty = Inr False")
      case True
      with assms Inr None have "execute_record env ctx r s = (res, s')" by (simp add: write_sync_def)
      then show ?thesis
        by (cases rule: execute_record_result) (use that Inr None in auto)
    next
      case False
      with assms Inr None that(2) show ?thesis
        by (cases ?empty) (auto simp: write_sync_def reject_persist_def split: if_splits)
    qed
  qed
qed

section \<open>One batch\<close>

lemma exec_batch_result:
  assumes "exec_write_batch env b s = (res, s')"
  obtains (written) st n where "res = Inr n" "batch_statement b = Inr st"
      "s' = s\<lparr>gs_session_writes := gs_session_writes s @ [st]\<rparr>" "gs_session s = SessionLive"
  | (failed) e where "res = Inl e" "gs_committed_writes s' = gs_committed_writes s"
      "gs_reject_data s' = gs_reject_data s"
proof (cases "batch_statement b")
  case (Inl e)
  with assms that(2) show ?thesis by (auto simp: exec_write_batch_def)
next
  case (Inr st)
  obtain x t where x: "exec_statement env st s = (x, t)" by fastforce
  show ?thesis
  proof (cases x)
    case (Inl e)
    with assms Inr x that(2) exec_statement_frame [OF x] show ?thesis
      by (auto simp: exec_write_batch_def bindA_apply)
  next
    case row: (Inr row)
    with exec_statement_result [OF x] have g: "gs_session s = SessionLive"
      "t = s\<lparr>gs_session_writes := gs_session_writes s @ [st]\<rparr>" by auto
    from assms Inr x row have res: "res = scalar_one row" "s' = t"
      by (simp_all add: exec_write_batch_def bindA_apply)
    with g Inr that show ?thesis by (cases row) (simp_all add: scalar_one_def)
  qed
qed

lemma write_batch_result:
  assumes "write_batch_sync env ctx (Some b) s = (res, s')"
  obtains (written) st n where "res = Inr (persist_result_from_rowcount n)"
      "verify_signed_batch env b = Inr None" "batch_statement b = Inr st" "gs_session s = SessionLive"
      "s' = s\<lparr>gs_session_writes := gs_session_writes s @ [st]\<rparr>"
  | (failed) "res = Inr persist_failed \<or> (\<exists>e. res = Inl e)"
      "gs_committed_writes s' = gs_committed_writes s" "gs_reject_data s' = gs_reject_data s"
proof (cases "verify_signed_batch env b = Inr None \<and> sb_operation b = ''insert''")
  case False
  with assms have "(res = Inr persist_failed \<or> (\<exists>e. res = Inl e))
      \<and> gs_committed_writes s' = gs_committed_writes s \<and> gs_reject_data s' = gs_reject_data s"
    by (cases "verify_signed_batch env b") (auto simp: write_batch_sync_def reject_persist_def split: option.splits if_splits)
  with that(2) show ?thesis by blast
next
  case True
  with assms have run: "execute_batch env ctx b s = (res, s')" by (simp add: write_batch_sync_def)
  obtain x t where x: "exec_write_batch env b s = (x, t)" by fastforce
  from x show ?thesis
  proof (cases rule: exec_batch_result)
    case (written st n)
    with run x have "res = Inr (persist_result_from_rowcount n) \<and> s' = t"
      by (simp add: execute_batch_def catch_gate_error_def bindA_apply)
    with written True that(1) show ?thesis by blast
  next
    case (failed e)
    with run x have "(res = Inr persist_failed \<or> (\<exists>e. res = Inl e))
      \<and> gs_committed_writes s' = gs_committed_writes s \<and> gs_reject_data s' = gs_reject_data s"
      by (auto simp: execute_batch_def catch_gate_error_def bindA_apply handle_gate_batch_rpc_error_def
          split: pyexc.splits if_splits)
    with that(2) show ?thesis by blast
  qed
qed

end
