(* ===== verification/MatchEngine.thy ===== *)
theory MatchEngine
  imports TitleMerge WriterFacts UpdateValidator
begin

text \<open>
  The rest of \<open>matching/engine.py\<close>: the group keys, the payload of one product, the type-split
  pass, the resweep of unmatched products, the pipelined gate writes and the whole tick. Group
  ids are the version-5 UUID of a key text in a fixed namespace, a parameter; what the database
  answers to a query is a function of the statements committed so far.
\<close>

section \<open>Group keys\<close>

definition normalize_title_key :: "string \<Rightarrow> string" where
  "normalize_title_key title_en = take 500 (join_with '' '' (normalize_title_tokens title_en))"

definition type_key_of :: "string option \<Rightarrow> string" where
  "type_key_of type_en = py_lower (py_strip (case type_en of None \<Rightarrow> '''' | Some t \<Rightarrow> t))"

definition gtin_group_id :: "(string \<Rightarrow> string) \<Rightarrow> string \<Rightarrow> string" where
  "gtin_group_id uuid5 gtin = uuid5 (''gtin:'' @ py_strip gtin)"

definition title_group_id :: "(string \<Rightarrow> string) \<Rightarrow> string \<Rightarrow> string option \<Rightarrow> string" where
  "title_group_id uuid5 title_en product_type_en =
     uuid5 (''title2:'' @ type_key_of product_type_en @ '':'' @ normalize_title_key title_en)"

definition match_group_id :: "(string \<Rightarrow> string) \<Rightarrow> string \<Rightarrow> string \<Rightarrow> string" where
  "match_group_id uuid5 brand code = uuid5 (brand @ ''|'' @ code)"

section \<open>The payload of one product\<close>

text \<open>A row of the product table as the queries of the engine return it.\<close>

record match_product =
  mp_id :: string
  mp_name :: "string option"
  mp_sku :: "string option"
  mp_title_en :: "string option"
  mp_type_en :: "string option"

definition build_gtin_fields :: "(string \<Rightarrow> string) \<Rightarrow> string \<Rightarrow> string \<Rightarrow> pydict" where
  "build_gtin_fields uuid5 product_id gtin =
     [(''id'', PStr product_id), (''match_group_id'', PStr (gtin_group_id uuid5 gtin)),
      (''match_method'', PStr ''gtin''), (''match_confidence'', PFloat (flt 99 2))]"

definition build_title_fields :: "(string \<Rightarrow> string) \<Rightarrow> string \<Rightarrow> string \<Rightarrow> string option \<Rightarrow> pydict" where
  "build_title_fields uuid5 product_id title_en product_type_en =
     [(''id'', PStr product_id), (''match_group_id'', PStr (title_group_id uuid5 title_en product_type_en)),
      (''match_method'', PStr ''title_exact''), (''match_confidence'', PFloat (flt 85 2))]"

definition nonblank :: "string option \<Rightarrow> bool" where
  \<comment> \<open>\<open>text and text.strip()\<close>\<close>
  "nonblank t = (case t of None \<Rightarrow> False | Some x \<Rightarrow> py_strip x \<noteq> [])"

definition build_match_fields ::
    "(string \<Rightarrow> string) \<Rightarrow> string \<Rightarrow> match_signature option \<Rightarrow> string option \<Rightarrow> string option \<Rightarrow> string option
      \<Rightarrow> pydict" where
  "build_match_fields uuid5 product_id signature sku_universal title_en product_type_en =
     (if nonblank sku_universal then build_gtin_fields uuid5 product_id (the sku_universal)
      else case signature of
        Some sig \<Rightarrow>
          [(''id'', PStr product_id),
           (''match_group_id'', PStr (match_group_id uuid5 (ms_brand sig) (ms_code sig))),
           (''match_method'', PStr ''brand_model''), (''match_confidence'', PFloat (ms_confidence sig))]
      | None \<Rightarrow>
          if nonblank title_en then build_title_fields uuid5 product_id (the title_en) product_type_en
          else [(''id'', PStr product_id), (''match_method'', PStr ''unmatched'')])"

definition product_match_fields :: "(string \<Rightarrow> string) \<Rightarrow> string list \<Rightarrow> match_product \<Rightarrow> pydict" where
  \<comment> \<open>the body of the loops over pending and unmatched products\<close>
  "product_match_fields uuid5 known_brands p =
     build_match_fields uuid5 (mp_id p) (extract_match_signature (mp_name p) known_brands)
       (mp_sku p) (mp_title_en p) (mp_type_en p)"

definition is_unmatched :: "pydict \<Rightarrow> bool" where
  "is_unmatched flds = (dict_get flds ''match_method'' = PStr ''unmatched'')"

section \<open>Splitting groups of mixed type\<close>

fun group_types :: "(string \<times> string option \<times> nat) list \<Rightarrow> (string \<times> (string \<times> nat) list) list
    \<Rightarrow> (string \<times> (string \<times> nat) list) list" where
  \<comment> \<open>\<open>by_group.setdefault(gid, []).append(...)\<close>\<close>
  "group_types [] by_group = by_group"
| "group_types ((gid, type_en, n) # rows) by_group =
     group_types rows (dict_set by_group gid
       ((case map_of by_group gid of None \<Rightarrow> [] | Some ts \<Rightarrow> ts) @ [(type_key_of type_en, n)]))"

definition conflicted_groups :: "(string \<times> (string \<times> nat) list) list \<Rightarrow> (string \<times> (string \<times> nat) list) list" where
  "conflicted_groups by_group = filter (\<lambda>(gid, types). 2 \<le> length types) by_group"

definition dominant_type :: "(string \<times> nat) list \<Rightarrow> string" where
  "dominant_type types = fst (hd (sort_key (\<lambda>t. (- int (snd t), fst t)) types))"

definition TYPE_SPLIT_GROUPS_CAP :: nat where "TYPE_SPLIT_GROUPS_CAP = 300"

definition split_group_id :: "(string \<Rightarrow> string) \<Rightarrow> string \<Rightarrow> string \<Rightarrow> string" where
  "split_group_id uuid5 gid type_key = uuid5 (''split:'' @ gid @ '':'' @ type_key)"

definition split_group_payloads ::
    "(string \<Rightarrow> string) \<Rightarrow> (string \<Rightarrow> string \<Rightarrow> string list) \<Rightarrow> string \<times> (string \<times> nat) list \<Rightarrow> pydict list" where
  "split_group_payloads uuid5 members entry = (case entry of (gid, types) \<Rightarrow>
     concat (map (\<lambda>(type_key, n).
         if type_key = dominant_type types then []
         else map (\<lambda>product_id. [(''id'', PStr product_id),
                     (''match_group_id'', PStr (split_group_id uuid5 gid type_key))])
                (members gid type_key)) types))"

definition type_split_payloads ::
    "(string \<Rightarrow> string) \<Rightarrow> (string \<times> string option \<times> nat) list \<Rightarrow> (string \<Rightarrow> string \<Rightarrow> string list)
      \<Rightarrow> nat \<times> pydict list" where
  \<comment> \<open>the number of groups split and the payloads handed to the writer\<close>
  "type_split_payloads uuid5 rows members =
     (let conflicted = take TYPE_SPLIT_GROUPS_CAP (sort_key fst (conflicted_groups (group_types rows [])))
      in (length conflicted, concat (map (split_group_payloads uuid5 members) conflicted)))"

section \<open>The gated writes\<close>

definition WRITE_CHUNK_SIZE :: nat where "WRITE_CHUNK_SIZE = 100"

fun sign_records ::
    "'e gate_env_scheme \<Rightarrow> pydict list \<Rightarrow> ('s gate_state_scheme, SignedRecord list) act" where
  "sign_records env [] = retA []"
| "sign_records env (flds # payloads) =
     bindA (authorize_scrape_update env ''dim_product'' ''product_match'' flds False ''product_match'') (\<lambda>outcome.
     bindA (sign_records env payloads) (\<lambda>rs.
       retA (case fo_signed_record outcome of
         Some r \<Rightarrow> if fo_passed outcome then r # rs else rs
       | None \<Rightarrow> rs)))"

definition recovering ::
    "('s gate_state_scheme, 'a) act \<Rightarrow> ('s gate_state_scheme, 'a) act \<Rightarrow> ('s gate_state_scheme, 'a) act" where
  \<comment> \<open>\<open>try: body; except (GateRpcError, DBAPIError): db.rollback(); handler\<close>\<close>
  "recovering body handler s = (case body s of
     (Inl (GateRpcError reason message), s') \<Rightarrow> handler (rollback_session s')
   | (Inl (DBAPIError message), s') \<Rightarrow> handler (rollback_session s')
   | (res, s') \<Rightarrow> (res, s'))"

definition commit_after :: "('s gate_state_scheme, int) act \<Rightarrow> ('s gate_state_scheme, int) act" where
  \<comment> \<open>\<open>written += exec(...); db.commit()\<close>\<close>
  "commit_after m = bindA m (\<lambda>n. bindA commit_session (\<lambda>_. retA n))"

fun write_each :: "'e persist_env_scheme \<Rightarrow> SignedRecord list \<Rightarrow> ('s gate_state_scheme, int) act" where
  \<comment> \<open>the per-record fallback; a record that fails adds nothing\<close>
  "write_each env [] = retA 0"
| "write_each env (r # rs) =
     bindA (recovering (commit_after (exec_write_record env r)) (retA 0)) (\<lambda>n.
     bindA (write_each env rs) (\<lambda>m. retA (n + m)))"

definition write_chunk :: "'e persist_env_scheme \<Rightarrow> SignedRecord list \<Rightarrow> ('s gate_state_scheme, int) act" where
  "write_chunk env chunk = recovering (commit_after (exec_write_records env chunk)) (write_each env chunk)"

fun write_chunks :: "'e persist_env_scheme \<Rightarrow> SignedRecord list list \<Rightarrow> ('s gate_state_scheme, int) act" where
  "write_chunks env [] = retA 0"
| "write_chunks env (c # cs) =
     bindA (write_chunk env c) (\<lambda>n. bindA (write_chunks env cs) (\<lambda>m. retA (n + m)))"

definition chunks_of :: "nat \<Rightarrow> 'a list \<Rightarrow> 'a list list" where
  \<comment> \<open>\<open>xs[start : start + n] for start in range(0, len(xs), n)\<close>\<close>
  "chunks_of n xs = map (\<lambda>i. take n (drop (i * n) xs)) [0..<(length xs + n - 1) div n]"

definition write_match_results_sync ::
    "'e persist_env_scheme \<Rightarrow> pydict list \<Rightarrow> ('s gate_state_scheme, int) act" where
  "write_match_results_sync env payloads =
     bindA (sign_records env payloads) (\<lambda>signed.
       if signed = [] then retA 0
       else in_new_session (write_chunks env (chunks_of WRITE_CHUNK_SIZE signed)))"

section \<open>The tick\<close>

text \<open>
  What the engine reads: answers to its queries, as functions of the statements committed so
  far. The cache keeps a cursor between ticks.
\<close>

record match_reads =
  known_brands_of :: "gate_statement list \<Rightarrow> string list"
  pending_products :: "gate_statement list \<Rightarrow> match_product list"
  gtin_sweep :: "gate_statement list \<Rightarrow> (string \<times> string) list"
  title_sweep :: "gate_statement list \<Rightarrow> (string \<times> string \<times> string option) list"
  title_groups_of :: "gate_statement list \<Rightarrow> (string \<times> string option \<times> string) list"
  group_members :: "gate_statement list \<Rightarrow> string \<Rightarrow> string list"
  unmatched_products :: "gate_statement list \<Rightarrow> match_product list"
  typed_groups :: "gate_statement list \<Rightarrow> (string \<times> string option \<times> nat) list"
  group_type_members :: "gate_statement list \<Rightarrow> string \<Rightarrow> string \<Rightarrow> string list"

definition fetch_unmatched_after :: "match_product list \<Rightarrow> string option \<Rightarrow> nat \<Rightarrow> match_product list" where
  \<comment> \<open>the page after the cursor of the unmatched rows, in the order of their ids\<close>
  "fetch_unmatched_after rows cursor limit =
     take limit (sort_key mp_id (filter (\<lambda>p. case cursor of None \<Rightarrow> True
                                         | Some c \<Rightarrow> c = [] \<or> c < mp_id p) rows))"

definition UNMATCHED_RESWEEP_ROWS :: nat where "UNMATCHED_RESWEEP_ROWS = 1000"

definition resweep_page :: "nat \<Rightarrow> match_product list \<Rightarrow> string option \<Rightarrow> match_product list \<times> bool" where
  \<comment> \<open>the rows of one resweep and whether it wrapped around\<close>
  "resweep_page limit rows cursor =
     (case fetch_unmatched_after rows cursor limit of
        [] \<Rightarrow> (case cursor of None \<Rightarrow> ([], False) | Some c \<Rightarrow>
                 if c = [] then ([], False) else (fetch_unmatched_after rows None limit, True))
      | page \<Rightarrow> (page, False))"

definition resweep_cursor :: "string option \<Rightarrow> match_product list \<Rightarrow> string option" where
  \<comment> \<open>the cursor the cache holds afterwards\<close>
  "resweep_cursor cursor page = (if page = [] then cursor else Some (mp_id (last page)))"

record match_summary =
  ms_scanned :: nat
  ms_matched :: nat
  ms_unmatched :: nat
  ms_gtin_swept :: nat
  ms_title_swept :: nat
  ms_written :: int
  ms_merge :: merge_summary
  ms_resweep_scanned :: nat
  ms_resweep_upgraded :: int
  ms_resweep_wrapped :: bool
  ms_split_groups :: nat
  ms_split_moved :: int

definition tick_payloads :: "(string \<Rightarrow> string) \<Rightarrow> match_reads \<Rightarrow> gate_statement list \<Rightarrow> pydict list" where
  "tick_payloads uuid5 db log =
     map (product_match_fields uuid5 (known_brands_of db log)) (pending_products db log)
     @ map (\<lambda>(product_id, sku). build_gtin_fields uuid5 product_id sku) (gtin_sweep db log)
     @ map (\<lambda>(product_id, title_en, type_en). build_title_fields uuid5 product_id title_en type_en)
         (title_sweep db log)"

definition write_nonempty :: "'e persist_env_scheme \<Rightarrow> pydict list \<Rightarrow> ('s gate_state_scheme, int) act" where
  "write_nonempty env payloads = (if payloads = [] then retA 0 else write_match_results_sync env payloads)"

definition title_merge_step ::
    "'e persist_env_scheme \<Rightarrow> match_reads \<Rightarrow> ('s gate_state_scheme, merge_summary) act" where
  \<comment> \<open>the chase always ends, so the last branch is never taken\<close>
  "title_merge_step env db s =
     (let log = gs_committed_writes s
      in case run_title_merge_pass (title_groups_of db log) (group_members db log) of
           Some (summary, payloads) \<Rightarrow> bindA (write_nonempty env payloads) (\<lambda>_. retA summary) s
         | None \<Rightarrow> (Inl ValueError, s))"

definition run_unmatched_resweep ::
    "'e persist_env_scheme \<Rightarrow> (string \<Rightarrow> string) \<Rightarrow> match_reads \<Rightarrow> string list \<Rightarrow> bool \<Rightarrow> string option
      \<Rightarrow> ('s gate_state_scheme, nat \<times> int \<times> bool \<times> string option) act" where
  \<comment> \<open>without the cache the sweep starts over and leaves no cursor\<close>
  "run_unmatched_resweep env uuid5 db known_brands cache_up cursor s =
     (case resweep_page UNMATCHED_RESWEEP_ROWS (unmatched_products db (gs_committed_writes s))
             (if cache_up then cursor else None) of
        (page, wrapped) \<Rightarrow>
          bindA (write_nonempty env
                   (filter (\<lambda>f. \<not> is_unmatched f) (map (product_match_fields uuid5 known_brands) page)))
            (\<lambda>upgraded. retA (length page, upgraded, wrapped,
                                 if cache_up then resweep_cursor cursor page else cursor)) s)"

definition run_type_split_pass ::
    "'e persist_env_scheme \<Rightarrow> (string \<Rightarrow> string) \<Rightarrow> match_reads \<Rightarrow> ('s gate_state_scheme, nat \<times> int) act" where
  "run_type_split_pass env uuid5 db s =
     (let log = gs_committed_writes s
      in case type_split_payloads uuid5 (typed_groups db log) (group_type_members db log) of
           (split_groups, payloads) \<Rightarrow>
             bindA (write_nonempty env payloads) (\<lambda>moved. retA (split_groups, moved)) s)"

definition run_match_tick ::
    "'e persist_env_scheme \<Rightarrow> (string \<Rightarrow> string) \<Rightarrow> match_reads \<Rightarrow> bool \<Rightarrow> string option
      \<Rightarrow> ('s gate_state_scheme, match_summary \<times> string option) act" where
  "run_match_tick env uuid5 db cache_up cursor s =
     (let log = gs_committed_writes s; known = known_brands_of db log; pending = pending_products db log;
          matched = length (filter (\<lambda>p. \<not> is_unmatched (product_match_fields uuid5 known p)) pending)
      in bindA (write_match_results_sync env (tick_payloads uuid5 db log)) (\<lambda>written.
         bindA (title_merge_step env db) (\<lambda>merge.
         bindA (run_unmatched_resweep env uuid5 db known cache_up cursor) (\<lambda>(scanned, upgraded, wrapped, cursor').
         bindA (run_type_split_pass env uuid5 db) (\<lambda>(split_groups, moved).
           retA (\<lparr> ms_scanned = length pending, ms_matched = matched, ms_unmatched = length pending - matched,
                   ms_gtin_swept = length (gtin_sweep db log), ms_title_swept = length (title_sweep db log),
                   ms_written = written, ms_merge = merge, ms_resweep_scanned = scanned,
                   ms_resweep_upgraded = upgraded, ms_resweep_wrapped = wrapped,
                   ms_split_groups = split_groups, ms_split_moved = moved \<rparr>, cursor'))))) s)"

end
