(* ===== verification/Rails.thy ===== *)
theory Rails
  imports WriterFacts UserDoor ChatDoor AlertDoor
begin

text \<open>
  The write rails of \<open>persist/\<close>: \<open>meta_write.py\<close>, \<open>user_write.py\<close>, \<open>chat_write.py\<close>,
  \<open>alerts_write.py\<close> and \<open>logs_write.py\<close>. Each opens a session, asks its door, writes what the
  door signed, and commits once or rolls back. The asynchronous variants run the same
  functions in a worker thread.
\<close>

section \<open>The common shape\<close>

definition rollback_on_error :: "('s gate_state_scheme, 'a) act \<Rightarrow> ('s gate_state_scheme, 'a) act" where
  \<comment> \<open>\<open>except Exception: db.rollback(); raise\<close>\<close>
  "rollback_on_error m s = (case m s of
     (Inl e, s') \<Rightarrow> (Inl e, rollback_session s')
   | (Inr x, s') \<Rightarrow> (Inr x, s'))"

definition gated_write ::
    "'e persist_env_scheme \<Rightarrow> PersistContext \<Rightarrow> ('s gate_state_scheme, FirewallOutcome) act
      \<Rightarrow> ('s gate_state_scheme, PersistResult) act" where
  "gated_write env ctx authorize =
     bindA authorize (\<lambda>outcome. case fo_signed_record outcome of
       None \<Rightarrow> thenA rollback_session (retA persist_failed)
     | Some r \<Rightarrow>
         if \<not> fo_passed outcome then thenA rollback_session (retA persist_failed)
         else
           bindA (write_sync env ctx (Some r)) (\<lambda>result.
             if \<not> pr_ok result then thenA rollback_session (retA persist_failed)
             else bindA commit_session (\<lambda>_. retA result)))"

definition write_meta_sync ::
    "'e persist_env_scheme \<Rightarrow> string \<Rightarrow> string \<Rightarrow> pydict \<Rightarrow> string \<Rightarrow> ('s gate_state_scheme, PersistResult) act" where
  "write_meta_sync env table operation flds reject_source =
     in_new_session (rollback_on_error
       (gated_write env (source_context reject_source)
          (evaluate_market env flds table operation True reject_source)))"

definition write_user_sync ::
    "'e persist_env_scheme \<Rightarrow> string \<Rightarrow> string \<Rightarrow> pydict \<Rightarrow> string \<Rightarrow> ('s gate_state_scheme, PersistResult) act" where
  "write_user_sync env operation kind flds reject_source =
     in_new_session (rollback_on_error
       (gated_write env (source_context reject_source)
          (authorize_user_write env flds operation kind True reject_source)))"

definition write_alert_sync ::
    "'e persist_env_scheme \<Rightarrow> string \<Rightarrow> pydict \<Rightarrow> string \<Rightarrow> ('s gate_state_scheme, PersistResult) act" where
  "write_alert_sync env kind flds reject_source =
     in_new_session (rollback_on_error
       (gated_write env (source_context reject_source)
          (authorize_alert_write env flds kind reject_source)))"

definition write_service_alert_sync ::
    "'e persist_env_scheme \<Rightarrow> pydict \<Rightarrow> string \<Rightarrow> ('s gate_state_scheme, PersistResult) act" where
  "write_service_alert_sync env flds reject_source =
     bindA (write_meta_sync env ''service_alerts'' ''insert'' flds reject_source)
       (\<lambda>result. retA (result\<lparr>pr_no_target := False\<rparr>))"

text \<open>A chat message without an id takes one from the sequence of the database first.\<close>

record ChatWriteResult = PersistResult +
  cw_allocated_message_id :: "int option"

definition allocate_message_id :: "string + int \<Rightarrow> int res" where
  \<comment> \<open>the answer of \<open>nextval\<close>\<close>
  "allocate_message_id answer = (case answer of Inl message \<Rightarrow> Inl (DBAPIError message) | Inr n \<Rightarrow> Inr n)"

definition write_chat_sync ::
    "'e persist_env_scheme \<Rightarrow> string + int \<Rightarrow> string \<Rightarrow> string \<Rightarrow> string \<Rightarrow> pydict \<Rightarrow> string
      \<Rightarrow> ('s gate_state_scheme, ChatWriteResult) act" where
  "write_chat_sync env nextval table operation kind flds reject_source =
     in_new_session (rollback_on_error
       (let wants_id = table = MESSAGES_TABLE \<and> \<not> has_key flds ''id''
        in bindA (liftA (if wants_id then bindE (allocate_message_id nextval) (\<lambda>n. Inr (Some n)) else Inr None))
             (\<lambda>allocated.
                let payload = (case allocated of None \<Rightarrow> flds | Some n \<Rightarrow> dict_set flds ''id'' (PInt n))
                in bindA (gated_write env (source_context reject_source)
                            (authorize_chat_write env payload operation table kind True reject_source))
                     (\<lambda>result. retA \<lparr> pr_ok = pr_ok result, pr_rows_affected = pr_rows_affected result,
                                      pr_no_target = pr_no_target result,
                                      cw_allocated_message_id = (if pr_ok result then allocated else None) \<rparr>))))"

section \<open>The logs rail\<close>

record LogsWriteResult =
  lw_ok :: bool
  lw_inserted_count :: nat
  lw_rejected_count :: nat

definition persist_logs_batch ::
    "'e persist_env_scheme \<Rightarrow> string \<Rightarrow> pydict list \<Rightarrow> string \<Rightarrow> bool \<Rightarrow> ('s gate_state_scheme, LogsWriteResult) act" where
  "persist_logs_batch env table rows reject_source commit =
     bindA (evaluate_logs env rows table True reject_source) (\<lambda>outcome. case lo_signed_batch outcome of
       None \<Rightarrow>
         bindA (if commit \<and> lo_rejected_count outcome \<noteq> 0 then commit_session else retA ()) (\<lambda>_.
           retA \<lparr> lw_ok = False, lw_inserted_count = 0, lw_rejected_count = lo_rejected_count outcome \<rparr>)
     | Some b \<Rightarrow>
         bindA (write_batch_sync env (source_context reject_source) (Some b)) (\<lambda>result.
           if \<not> pr_ok result then
             thenA rollback_session
               (retA \<lparr> lw_ok = False, lw_inserted_count = 0,
                       lw_rejected_count = lo_rejected_count outcome + lo_inserted_count outcome \<rparr>)
           else
             bindA (if commit then commit_session else retA ()) (\<lambda>_.
               retA \<lparr> lw_ok = True, lw_inserted_count = lo_inserted_count outcome,
                      lw_rejected_count = lo_rejected_count outcome \<rparr>)))"

definition write_logs_sync ::
    "'e persist_env_scheme \<Rightarrow> string \<Rightarrow> pydict list \<Rightarrow> string \<Rightarrow> ('s gate_state_scheme, LogsWriteResult) act" where
  "write_logs_sync env table rows reject_source =
     in_new_session (rollback_on_error (persist_logs_batch env table rows reject_source True))"

section \<open>One write per call\<close>

text \<open>
  A rail is a signing door that leaves the caller's session and the durable writes alone.
\<close>

definition same_session :: "'s gate_state_scheme \<Rightarrow> 's gate_state_scheme \<Rightarrow> bool" where
  "same_session s t =
     (gs_session t = gs_session s \<and> gs_session_writes t = gs_session_writes s
      \<and> gs_session_rejects t = gs_session_rejects s \<and> gs_committed_writes t = gs_committed_writes s)"

definition wrote_once ::
    "'e persist_env_scheme \<Rightarrow> (SignedRecord \<Rightarrow> bool) \<Rightarrow> PersistResult res
      \<Rightarrow> 's gate_state_scheme \<Rightarrow> 's gate_state_scheme \<Rightarrow> bool" where
  \<comment> \<open>exactly one signed statement became durable, or none did and the call did not report success\<close>
  "wrote_once env may res s s' =
     ((\<exists>r st n row. may r \<and> record_statement r = Inr st \<and> record_statement_signed env st
         \<and> gate_answer env (gs_committed_writes s) st = Inr (n # row)
         \<and> res = Inr (persist_result_from_rowcount n)
         \<and> gs_committed_writes s' = gs_committed_writes s @ [st])
      \<or> (res = Inr persist_failed \<or> (\<exists>e. res = Inl e)) \<and> gs_committed_writes s' = gs_committed_writes s)"

locale rail = signing_door door may_write
  for door :: "'e persist_env_scheme \<Rightarrow> pydict \<Rightarrow> 's gate_state_scheme
                 \<Rightarrow> FirewallOutcome res \<times> 's gate_state_scheme"
    and may_write :: "string \<Rightarrow> string \<Rightarrow> bool" +
  assumes frame: "door env f s = (res, s') \<Longrightarrow> same_session s s'"
begin

lemma gated_write_once:
  assumes mac: "mac_ok env"
    and fresh: "gs_session s = SessionLive" "gs_session_writes s = []"
    and run: "gated_write env ctx (door env f) s = (res, s')"
  shows "wrote_once env (\<lambda>r. sr_fields r = f \<and> may_write (sr_table r) (sr_operation r) \<and> sealed env r) res s s'"
proof -
  obtain x t where x: "door env f s = (x, t)" by fastforce
  note fr = frame [OF x, unfolded same_session_def]
  show ?thesis
  proof (cases x)
    case (Inl e)
    with run x fr show ?thesis by (auto simp: gated_write_def bindA_apply wrote_once_def)
  next
    case (Inr out)
    show ?thesis
    proof (cases "fo_passed out")
      case False
      with refuses [of env f s out t] x Inr run fr show ?thesis
        by (auto simp: gated_write_def bindA_apply wrote_once_def rollback_session_def)
    next
      case True
      with seals [OF mac, of f s out t] x Inr obtain r where r: "fo_signed_record out = Some r"
        "sr_fields r = f" "sealed env r" "may_write (sr_table r) (sr_operation r)" by auto
      obtain y u where y: "write_sync env ctx (Some r) t = (y, u)" by fastforce
      from y show ?thesis
      proof (cases rule: write_sync_result)
        case (written st n row)
        with run x Inr True r fr fresh y show ?thesis
          using sealed_statement_signed [OF r(3) written(3)]
          by (auto simp: gated_write_def bindA_apply wrote_once_def commit_session_def
              persist_result_from_rowcount_def)
      next
        case failed
        with run x Inr True r fr y show ?thesis
          by (auto simp: gated_write_def bindA_apply wrote_once_def rollback_session_def persist_failed_def)
      qed
    qed
  qed
qed

lemma rail_once:
  assumes mac: "mac_ok env"
    and run: "in_new_session (rollback_on_error (gated_write env ctx (door env f))) s = (res, s')"
  shows "wrote_once env (\<lambda>r. sr_fields r = f \<and> may_write (sr_table r) (sr_operation r) \<and> sealed env r) res s s'"
    and "gs_session s' = gs_session s \<and> gs_session_writes s' = gs_session_writes s
      \<and> gs_session_rejects s' = gs_session_rejects s"
proof -
  obtain x t where x: "gated_write env ctx (door env f) (rollback_session s) = (x, t)" by fastforce
  from gated_write_once [OF mac _ _ x]
  have once: "wrote_once env (\<lambda>r. sr_fields r = f \<and> may_write (sr_table r) (sr_operation r) \<and> sealed env r)
      x (rollback_session s) t" by (simp add: rollback_session_def)
  from run x have s': "res = x" "gs_committed_writes s' = gs_committed_writes t"
    "gs_session s' = gs_session s \<and> gs_session_writes s' = gs_session_writes s
      \<and> gs_session_rejects s' = gs_session_rejects s"
    by (auto simp: in_new_session_def rollback_on_error_def rollback_session_def split: sum.splits)
  from once s' show "wrote_once env (\<lambda>r. sr_fields r = f \<and> may_write (sr_table r) (sr_operation r) \<and> sealed env r) res s s'"
    by (simp add: wrote_once_def rollback_session_def)
  from s' show "gs_session s' = gs_session s \<and> gs_session_writes s' = gs_session_writes s
      \<and> gs_session_rejects s' = gs_session_rejects s" by simp
qed

lemma after_door_unrecorded:
  assumes mac: "mac_ok env"
    and fresh: "gs_session s = SessionLive" "gs_session_rejects s = []"
    and door: "door env f s = (Inr out, t)" "fo_passed out"
    and run: "gated_write env ctx (door env f) s = (res, s')"
  shows "gs_reject_data s' = gs_reject_data s"
proof -
  from seals [OF mac door] obtain r where r: "fo_signed_record out = Some r" "t = s" by blast
  obtain y u where y: "write_sync env ctx (Some r) s = (y, u)" by fastforce
  from y show ?thesis
  proof (cases rule: write_sync_result)
    case (written st n row)
    with run door r fresh y show ?thesis
      by (auto simp: gated_write_def bindA_apply commit_session_def persist_result_from_rowcount_def)
  next
    case failed
    with run door r y show ?thesis
      by (auto simp: gated_write_def bindA_apply rollback_session_def persist_failed_def)
  qed
qed

end

text \<open>A rail whose signed records the persist layer accepts.\<close>

locale live_rail = rail door may_write
  for door :: "'e persist_env_scheme \<Rightarrow> pydict \<Rightarrow> 's gate_state_scheme
                 \<Rightarrow> FirewallOutcome res \<times> 's gate_state_scheme"
    and may_write :: "string \<Rightarrow> string \<Rightarrow> bool" +
  assumes accepted: "mac_ok env \<Longrightarrow> door env f s = (Inr out, s') \<Longrightarrow> fo_signed_record out = Some r \<Longrightarrow>
      verify_signed_record env r = Inr None"
begin

lemma granted_write_commits:
  assumes mac: "mac_ok env"
    and fresh: "gs_session s = SessionLive" "gs_session_writes s = []"
    and door: "door env f s = (Inr out, t)" "fo_passed out" "fo_signed_record out = Some r"
    and upd: "sr_operation r = ''update'' \<longrightarrow> sync_update_empty_fields_check env r = Inr False"
    and db: "\<And>st. gate_answer env (gs_committed_writes s) st = Inr (n # row)"
  shows "\<exists>st s'. gated_write env ctx (door env f) s = (Inr (persist_result_from_rowcount n), s')
    \<and> record_statement r = Inr st \<and> gs_committed_writes s' = gs_committed_writes s @ [st]"
proof -
  from seals [OF mac door(1,2)] door(3) have r: "t = s" "sealed env r" by auto
  from sealed_statement_exists [OF r(2)] obtain st where st: "record_statement r = Inr st" by blast
  have "write_sync env ctx (Some r) s
      = (Inr (persist_result_from_rowcount n), s\<lparr>gs_session_writes := [st]\<rparr>)"
    using accepted [OF mac door(1,3)] upd db [of st] fresh
    by (simp add: write_sync_def execute_record_def catch_gate_error_def bindA_apply exec_write_record_def st
        exec_statement_def scalar_one_def)
  with door r(1) fresh st show ?thesis
    by (simp add: gated_write_def bindA_apply commit_session_def persist_result_from_rowcount_def)
qed

lemma granted_rail_commits:
  assumes mac: "mac_ok env"
    and door: "door env f (rollback_session s) = (Inr out, t)" "fo_passed out" "fo_signed_record out = Some r"
    and upd: "sr_operation r = ''update'' \<longrightarrow> sync_update_empty_fields_check env r = Inr False"
    and db: "\<And>st. gate_answer env (gs_committed_writes s) st = Inr (n # row)"
  shows "\<exists>st s'. in_new_session (rollback_on_error (gated_write env ctx (door env f))) s
      = (Inr (persist_result_from_rowcount n), s')
    \<and> record_statement r = Inr st \<and> gs_committed_writes s' = gs_committed_writes s @ [st]"
  using granted_write_commits [OF mac _ _ door upd, of n row ctx] db
  by (auto simp: rollback_session_def in_new_session_def rollback_on_error_def)

end

end
