(* ===== verification/RailFacts.thy ===== *)
theory RailFacts
  imports Rails
begin

text \<open>
  What the write rails guarantee from end to end: one call makes at most one statement durable,
  which carries the signature of its own content, and reports success exactly then.
\<close>

section \<open>The doors as rails\<close>

lemma same_session_isolated [simp]:
  "same_session s s"
  "same_session s (write_reject_data_isolated env row s)"
  "same_session s (write_all_isolated env rows s)"
  by (simp_all add: same_session_def)

lemma same_session_settle:
  assumes "settle env has_db src t p f verdict s = (res, s')"
  shows "same_session s s'"
  using assms by (cases verdict)
    (auto simp: settle_def isolated_reject_def split: door_verdict.splits if_splits)

lemma same_session_market:
  assumes "evaluate_market env f t p has_db src s = (res, s')"
  shows "same_session s s'"
  using assms by (auto simp: evaluate_market_def bindA_apply Let_def split: option.splits sum.splits prod.splits if_splits)

interpretation meta_rail: rail "\<lambda>env f. evaluate_market env f t p True src" "\<lambda>t' p'. t' = t \<and> p' = p"
  for t p src
  by (intro rail.intro market.signing_door_axioms rail_axioms.intro) (rule same_session_market)

lemma rail_settle:
  fixes door :: "'e persist_env_scheme \<Rightarrow> pydict \<Rightarrow> ('s gate_state_scheme, FirewallOutcome) act"
  assumes "signing_door door mw" "\<And>env f. door env f = settle env has_db src t p f (verdict env f)"
  shows "rail door mw"
  by (intro rail.intro assms(1) rail_axioms.intro) (simp add: assms(2) same_session_settle)

interpretation user_rail: rail "\<lambda>env f. authorize_user_write env f operation kind True src" user_may_write
  for operation kind src
  by (rule rail_settle [OF user.signing_door_axioms authorize_user_write_def])

interpretation chat_rail: rail "\<lambda>env f. authorize_chat_write env f operation table kind True src" chat_may_write
  for operation table kind src
  by (rule rail_settle [OF chat.signing_door_axioms authorize_chat_write_def])

interpretation alert_rail: rail "\<lambda>env f. authorize_alert_write env f kind src" alert_may_write
  for kind src
  by (rule rail_settle [OF alert.signing_door_axioms authorize_alert_write_def])

text \<open>
  C1: A call of the metadata, user or alert rail makes at most one statement durable. It then
  reports the row count of the database for that statement, which was sealed by the door for
  exactly the given payload, a table and operation of the rail, and which carries the MAC of
  exactly the bytes its bound entries serialise to. In every other case the call fails and
  nothing is written. The caller's own session is never touched.
\<close>

theorem rails_write_once:
  assumes mac: "mac_ok env"
  shows "(write_meta_sync env t p f src s = (res, s') \<longrightarrow>
      wrote_once env (\<lambda>r. sr_fields r = f \<and> (sr_table r = t \<and> sr_operation r = p) \<and> sealed env r) res s s'
      \<and> gs_session_writes s' = gs_session_writes s)
    \<and> (write_user_sync env operation kind f src s = (res, s') \<longrightarrow>
      wrote_once env (\<lambda>r. sr_fields r = f \<and> user_may_write (sr_table r) (sr_operation r) \<and> sealed env r) res s s'
      \<and> gs_session_writes s' = gs_session_writes s)
    \<and> (write_alert_sync env kind f src s = (res, s') \<longrightarrow>
      wrote_once env (\<lambda>r. sr_fields r = f \<and> alert_may_write (sr_table r) (sr_operation r) \<and> sealed env r) res s s'
      \<and> gs_session_writes s' = gs_session_writes s)"
proof (intro conjI impI)
  assume run: "write_meta_sync env t p f src s = (res, s')"
  note once = meta_rail.rail_once [OF mac run [unfolded write_meta_sync_def]]
  from once(1) show "wrote_once env (\<lambda>r. sr_fields r = f \<and> (sr_table r = t \<and> sr_operation r = p) \<and> sealed env r) res s s'" .
  from once(2) show "gs_session_writes s' = gs_session_writes s" by simp
next
  assume run: "write_user_sync env operation kind f src s = (res, s')"
  note once = user_rail.rail_once [OF mac run [unfolded write_user_sync_def]]
  from once(1) show "wrote_once env (\<lambda>r. sr_fields r = f \<and> user_may_write (sr_table r) (sr_operation r) \<and> sealed env r) res s s'" .
  from once(2) show "gs_session_writes s' = gs_session_writes s" by simp
next
  assume run: "write_alert_sync env kind f src s = (res, s')"
  note once = alert_rail.rail_once [OF mac run [unfolded write_alert_sync_def]]
  from once(1) show "wrote_once env (\<lambda>r. sr_fields r = f \<and> alert_may_write (sr_table r) (sr_operation r) \<and> sealed env r) res s s'" .
  from once(2) show "gs_session_writes s' = gs_session_writes s" by simp
qed

interpretation user_live: live_rail "\<lambda>env f. authorize_user_write env f operation kind True src" user_may_write
  for operation kind src
  by (intro live_rail.intro user_rail.rail_axioms live_rail_axioms.intro) (rule user.persist_accepts)

interpretation chat_live: live_rail "\<lambda>env f. authorize_chat_write env f operation table kind True src" chat_may_write
  for operation table kind src
  by (intro live_rail.intro chat_rail.rail_axioms live_rail_axioms.intro) (rule chat.persist_accepts)

interpretation alert_live: live_rail "\<lambda>env f. authorize_alert_write env f kind src" alert_may_write
  for kind src
  by (intro live_rail.intro alert_rail.rail_axioms live_rail_axioms.intro) (rule alert.persist_accepts)

section \<open>Example environment\<close>

definition live_env :: persist_env where
  \<comment> \<open>databases that accept every row and answer every statement with one row\<close>
  "live_env = gate_env.extend accepting_env
     \<lparr> fromisoformat = (\<lambda>_. None), gate_answer = (\<lambda>_ _. Inr [1]) \<rparr>"

lemma live_env_simps [simp]:
  "gate_answer live_env h st = Inr [1]"
  "reject_db_accepts live_env row"
  "mac_ok live_env"
  "signing_secret live_env = Some ''key''"
  by (simp_all add: live_env_def gate_env.defs accepting_env_def mac_ok_def signing_secret_def)
    (simp_all add: py_strip_def strip_by_def lstrip_by_def rstrip_by_def py_isspace_def)

section \<open>Granted writes are made\<close>


definition user_removal :: pydict where
  "user_removal = [(''id'', PStr ''u'')]"

lemma user_removal_granted:
  "\<exists>r ns. user_write_verdict live_env ''delete'' ''admin_delete'' user_removal = Inr (Grant r ns)
     \<and> sr_operation r = ''delete''"
proof -
  have "case canonical_serialize_signed_payload ''users'' ''delete'' user_removal user_removal of
      Inr b \<Rightarrow> True | _ \<Rightarrow> False"
    by code_simp
  moreover have loc: "extract_locator ''users'' user_removal = Inr user_removal" by code_simp
  ultimately obtain sg where "sign_fields live_env ''users'' ''delete'' user_removal
      = Inr (Some \<lparr> sr_table = ''users'', sr_operation = ''delete'', sr_locator = user_removal,
                    sr_fields = user_removal, sr_signature = sg \<rparr>)"
    by (auto simp: sign_fields_def sign_def split: sum.splits)
  then show ?thesis using loc
    by (simp add: user_write_verdict_def user_locator_keys_eq USER_TABLE_def USER_DELETE_KINDS_def
        sign_verdict_def user_removal_def dict_keys_def Let_def)
qed


theorem rails_write_once_witness:
  "\<exists>res s'. write_user_sync live_env ''delete'' ''admin_delete'' user_removal ''x'' quiet_state = (res, s')
     \<and> wrote_once live_env (\<lambda>r. sr_fields r = user_removal \<and> user_may_write (sr_table r) (sr_operation r)
         \<and> sealed live_env r) res quiet_state s'"
proof -
  obtain res s' where run: "write_user_sync live_env ''delete'' ''admin_delete'' user_removal ''x'' quiet_state = (res, s')"
    by fastforce
  with rails_write_once [of live_env "''users''" "''delete''" user_removal "''x''" quiet_state res s'
      "''delete''" "''admin_delete''"]
  show ?thesis by auto
qed

section \<open>Refusals after the door leave no record\<close>

text \<open>
  A metadata write that passes its door but is refused later, by the persist layer's own
  checks or by the gate of the database, leaves no reject row: the row is flushed into the
  session that the rail then rolls back.
\<close>

theorem persist_refusals_unrecorded:
  assumes mac: "mac_ok env"
    and door: "evaluate_market env f t p True src (rollback_session s) = (Inr out, u)" "fo_passed out"
    and run: "write_meta_sync env t p f src s = (res, s')"
  shows "gs_reject_data s' = gs_reject_data s"
proof -
  obtain x v where x: "gated_write env (source_context src) (evaluate_market env f t p True src) (rollback_session s) = (x, v)"
    by fastforce
  have "gs_reject_data v = gs_reject_data s"
    using meta_rail.after_door_unrecorded [OF mac _ _ door x] by (simp add: rollback_session_def)
  with run x show ?thesis
    by (auto simp: write_meta_sync_def in_new_session_def rollback_on_error_def rollback_session_def split: sum.splits)
qed

definition job_touch :: pydict where
  "job_touch = [(''id'', PStr ''12345678123456781234567812345678'')]"

text \<open>An update of a scrape job that names only the job: passed by the door, refused by the persist layer.\<close>

theorem persist_refusals_unrecorded_witness:
  "\<exists>s'. write_meta_sync live_env ''scrape_jobs'' ''update'' job_touch ''x'' quiet_state = (Inr persist_failed, s')
     \<and> gs_reject_data s' = [] \<and> gs_committed_writes s' = []"
proof -
  have "conforms_to ''scrape_jobs'' job_touch" by code_simp
  then obtain c where c: "FACT_TABLE_CONTRACTS ''scrape_jobs'' = Some c" "row_conforms c job_touch"
    by (rule conforms_to_contract)
  have "case canonical_serialize_signed_payload ''scrape_jobs'' ''update'' job_touch job_touch of
      Inr b \<Rightarrow> True | _ \<Rightarrow> False"
    by code_simp
  moreover have "extract_locator ''scrape_jobs'' job_touch = Inr job_touch" by code_simp
  ultimately obtain sg where sf: "sign_fields live_env ''scrape_jobs'' ''update'' job_touch
      = Inr (Some \<lparr> sr_table = ''scrape_jobs'', sr_operation = ''update'', sr_locator = job_touch,
                    sr_fields = job_touch, sr_signature = sg \<rparr>)" (is "_ = Inr (Some ?r)")
    by (auto simp: sign_fields_def sign_def split: sum.splits)
  note pass = evaluate_market_passes [OF c sf]
  have mac: "\<And>k b. hmac_sha256_hex live_env k b \<noteq> ''''" by (rule mac_okD) simp
  have "verify_signed_record live_env ?r = Inr None"
    using verify_signed_record_accepts [of live_env ?r] sign_fields_Some [OF mac sf]
    by (simp add: supports_def SUPPORTED_WRITE_OPERATIONS_def)
  moreover have "sync_update_empty_fields_check live_env ?r = Inr True"
  proof -
    have "uuid_of_text (py_str (PStr ''12345678123456781234567812345678'')) = Inr ''12345678-1234-5678-1234-567812345678''"
      by code_simp
    then show ?thesis
      by (simp add: sync_update_empty_fields_check_def orm_fields_for_table_def orm_conversions_def job_touch_def
          dict_get_def parse_uuid_def dict_set_def value_fields_minus_locator_def TABLE_LOCATORS_def)
  qed
  ultimately have "\<exists>s'. write_sync live_env (source_context ''x'') (Some ?r) (rollback_session quiet_state) = (Inr persist_failed, s')"
    by (simp add: write_sync_def reject_persist_def)
  then obtain v where w: "write_sync live_env (source_context ''x'') (Some ?r) (rollback_session quiet_state) = (Inr persist_failed, v)"
    by blast
  have run: "\<exists>s'. write_meta_sync live_env ''scrape_jobs'' ''update'' job_touch ''x'' quiet_state = (Inr persist_failed, s')"
    using pass [of True "''x''" "rollback_session quiet_state"] w
    by (simp add: write_meta_sync_def in_new_session_def rollback_on_error_def gated_write_def bindA_apply
        market_outcome_def persist_failed_def)
  then obtain s' where s': "write_meta_sync live_env ''scrape_jobs'' ''update'' job_touch ''x'' quiet_state = (Inr persist_failed, s')"
    by blast
  have "gs_reject_data s' = []"
    using persist_refusals_unrecorded [OF _ pass _ s'] by (simp add: market_outcome_def quiet_state_def)
  moreover have "gs_committed_writes s' = []"
    using meta_rail.rail_once(1) [OF _ s' [unfolded write_meta_sync_def]]
    by (auto simp: wrote_once_def persist_failed_def persist_result_from_rowcount_def quiet_state_def)
  ultimately show ?thesis using s' by blast
qed

section \<open>The logs rail accounts for every row\<close>

lemma evaluate_logs_frame:
  assumes "evaluate_logs env rows t True src s = (Inr out, s')" "mac_ok env"
  shows "same_session s s'"
proof -
  from evaluate_logs_Inr [OF mac_okD [OF assms(2)] assms(1)]
  obtain args where "s' = write_all_isolated env args s" by auto
  then show ?thesis by simp
qed

lemma logs_batch_counts:
  assumes mac: "mac_ok env" and eval: "evaluate_logs env rows t True src s = (Inr out, s')"
  shows "lo_inserted_count out + lo_rejected_count out = length rows"
    and "lo_signed_batch out = None \<Longrightarrow> lo_inserted_count out = 0"
    and "lo_signed_batch out = Some b \<Longrightarrow> (\<exists>c. FACT_TABLE_CONTRACTS t = Some c \<and> sb_rows b = filter (row_conforms c) rows)
      \<and> lo_inserted_count out = length (sb_rows b)"
proof -
  from evaluate_logs_Inr [OF mac_okD [OF mac] eval] obtain args where
    s': "s' = (if True then write_all_isolated env args s else s)"
    and n: "length args = lo_rejected_count out"
    and b: "case lo_signed_batch out of
         None \<Rightarrow> lo_inserted_count out = 0 \<and> mset (map rr_raw_payload args) = mset rows
       | Some b \<Rightarrow> mset (map rr_raw_payload args) + mset (sb_rows b) = mset rows
           \<and> lo_inserted_count out = length (sb_rows b) \<and> sb_rows b \<noteq> []
           \<and> sb_table b = t \<and> sb_operation b = ''insert''
           \<and> extract_locator t (hd (sb_rows b)) = Inr (sb_locator b)
           \<and> verify_batch env t ''insert'' (sb_rows b) (sb_locator b) (Some (sb_signature b)) = Inr True
           \<and> (\<exists>c. FACT_TABLE_CONTRACTS t = Some c \<and> sb_rows b = filter (row_conforms c) rows)"
    by blast
  show "lo_inserted_count out + lo_rejected_count out = length rows"
  proof (cases "lo_signed_batch out")
    case None
    with b have "mset (map rr_raw_payload args) = mset rows" "lo_inserted_count out = 0" by simp_all
    from arg_cong [OF this(1), of size] this(2) n show ?thesis by simp
  next
    case (Some x)
    with b have "mset (map rr_raw_payload args) + mset (sb_rows x) = mset rows" "lo_inserted_count out = length (sb_rows x)"
      by simp_all
    from arg_cong [OF this(1), of size] this(2) n show ?thesis by simp
  qed
  show "lo_signed_batch out = None \<Longrightarrow> lo_inserted_count out = 0" using b by simp
  show "lo_signed_batch out = Some b \<Longrightarrow> (\<exists>c. FACT_TABLE_CONTRACTS t = Some c \<and> sb_rows b = filter (row_conforms c) rows)
      \<and> lo_inserted_count out = length (sb_rows b)" using b by simp
qed

lemma verify_batch_None:
  assumes "verify_signed_batch env b = Inr None" "batch_statement b = Inr st"
  shows "batch_statement_signed env st"
  using assms batch_verified_statement_signed
  by (auto simp: verify_signed_batch_def bindE_Inr_iff split: if_splits)

text \<open>
  C20: Every row given to the logs rail is counted once in its result, as inserted or as
  rejected. The call reports success exactly when one batch statement became durable, with the
  MAC of its own rows, and it then counts as inserted exactly the rows that conform to the
  contract of the table; otherwise it counts none as inserted and writes nothing.
\<close>

theorem logs_rail_accounts:
  assumes mac: "mac_ok env"
    and run: "write_logs_sync env t rows src s = (Inr out, s')"
  shows "lw_inserted_count out + lw_rejected_count out = length rows
    \<and> (if lw_ok out
       then \<exists>c st. FACT_TABLE_CONTRACTS t = Some c \<and> lw_inserted_count out = length (filter (row_conforms c) rows)
              \<and> gs_committed_writes s' = gs_committed_writes s @ [st] \<and> batch_statement_signed env st
       else lw_inserted_count out = 0 \<and> gs_committed_writes s' = gs_committed_writes s)"
proof -
  let ?s = "rollback_session s"
  from run obtain v where x: "persist_logs_batch env t rows src True ?s = (Inr out, v)"
    and s': "gs_committed_writes s' = gs_committed_writes v"
    by (auto simp: write_logs_sync_def in_new_session_def rollback_on_error_def split: prod.splits sum.splits)
  from x obtain lo u where lo: "evaluate_logs env rows t True src ?s = (Inr lo, u)"
    by (auto simp: persist_logs_batch_def bindA_apply split: prod.splits sum.splits)
  note counts = logs_batch_counts [OF mac lo]
  from evaluate_logs_frame [OF lo mac] have u: "gs_session u = SessionLive" "gs_session_writes u = []"
    "gs_committed_writes u = gs_committed_writes s"
    by (simp_all add: same_session_def rollback_session_def)
  show ?thesis
  proof (cases "lo_signed_batch lo")
    case None
    with x lo u have "out = \<lparr> lw_ok = False, lw_inserted_count = 0, lw_rejected_count = lo_rejected_count lo \<rparr>"
      "gs_committed_writes v = gs_committed_writes s"
      by (auto simp: persist_logs_batch_def bindA_apply commit_session_def split: if_splits)
    with counts(1,2) None s' show ?thesis by simp
  next
    case (Some b)
    obtain y w where y: "write_batch_sync env (source_context src) (Some b) u = (y, w)" by fastforce
    from y show ?thesis
    proof (cases rule: write_batch_result)
      case (written st n)
      with x lo Some y u have "out = \<lparr> lw_ok = True, lw_inserted_count = lo_inserted_count lo,
          lw_rejected_count = lo_rejected_count lo \<rparr>"
        "gs_committed_writes v = gs_committed_writes s @ [st]"
        by (auto simp: persist_logs_batch_def bindA_apply commit_session_def persist_result_from_rowcount_def)
      with counts(1) counts(3) [OF Some] verify_batch_None [OF written(2,3)] s' show ?thesis by auto
    next
      case failed
      with x lo Some y u have "out = \<lparr> lw_ok = False, lw_inserted_count = 0,
          lw_rejected_count = lo_rejected_count lo + lo_inserted_count lo \<rparr>"
        "gs_committed_writes v = gs_committed_writes s"
        by (auto simp: persist_logs_batch_def bindA_apply persist_failed_def rollback_session_def)
      with counts(1) s' show ?thesis by simp
    qed
  qed
qed

theorem logs_rail_accounts_witness:
  "\<exists>out s'. write_logs_sync live_env ''api_logs'' [bad_log] ''x'' quiet_state = (Inr out, s')
     \<and> lw_inserted_count out = 0 \<and> lw_rejected_count out = 1 \<and> gs_committed_writes s' = []"
proof -
  have "case FACT_TABLE_CONTRACTS ''api_logs'' of
      Some c \<Rightarrow> validate_against_contract bad_log c = Inr (False, [''check:status''], Some ''contract_violation'')
    | None \<Rightarrow> False"
    by code_simp
  then obtain c where c: "FACT_TABLE_CONTRACTS ''api_logs'' = Some c"
    "validate_against_contract bad_log c = Inr (False, [''check:status''], Some ''contract_violation'')"
    by (auto split: option.splits)
  then obtain s' where run: "write_logs_sync live_env ''api_logs'' [bad_log] ''x'' quiet_state
      = (Inr \<lparr> lw_ok = False, lw_inserted_count = 0, lw_rejected_count = 1 \<rparr>, s')"
    by (auto simp: write_logs_sync_def in_new_session_def rollback_on_error_def persist_logs_batch_def bindA_apply
        evaluate_logs_def commit_session_def rollback_session_def quiet_state_def)
  from logs_rail_accounts [OF _ run] have "gs_committed_writes s' = []" by (simp add: quiet_state_def)
  with run show ?thesis by auto
qed

end
