(* ===== verification/MatchFacts.thy ===== *)
theory MatchFacts
  imports MatchEngine RailFacts "HOL-Library.Sublist"
begin

text \<open>
  What the matching engine guarantees: group keys of different kinds never meet, a record the
  database refuses does not keep the others of its chunk from being written, and the resweep
  comes back to every product.
\<close>

section \<open>Characters of a key\<close>

lemma find_runs_chars: "t \<in> set (find_runs p s) \<Longrightarrow> list_all p t"
proof (induction p s rule: find_runs.induct)
  case (1 p s)
  show ?case
  proof (cases "dropWhile (\<lambda>c. \<not> p c) s")
    case Nil
    with "1.prems" show ?thesis by (simp add: find_runs.simps [of p s])
  next
    case (Cons c u)
    with "1.prems" consider "t = takeWhile p (c # u)" | "t \<in> set (find_runs p (dropWhile p u))"
      by (subst (asm) find_runs.simps) auto
    then show ?thesis
    proof cases
      case 1
      then show ?thesis by (auto simp: list_all_iff dest: set_takeWhileD split: if_splits)
    next
      case 2
      with "1.IH" [OF Cons] show ?thesis by blast
    qed
  qed
qed

lemma joined_code_parts: "joined_code brand (l, r) = Some c \<Longrightarrow> c = l @ r"
  by (auto simp: joined_code_def split: if_splits)

lemma signature_chars:
  assumes "extract_match_signature name known = Some sig"
  shows "list_all is_lower_alnum (ms_brand sig)" "list_all is_lower_alnum (ms_code sig)"
proof -
  from assms obtain n where n: "name = Some n" by (cases name) (auto simp: extract_match_signature_def)
  let ?tokens = "name_tokens n"
  from assms n obtain conf where b: "find_brand known ?tokens = Some (ms_brand sig, conf)"
    by (auto simp: extract_match_signature_def Let_def split: option.splits prod.splits list.splits)
  define codes where
    "codes = scan_pairs (ms_brand sig) (zip ?tokens (tl ?tokens)) (snd (scan_tokens (ms_brand sig) ?tokens ([], [])))"
  from assms n b obtain c cs where "codes = c # cs" "ms_code sig = strongest_code c cs"
    by (cases sig) (auto simp: extract_match_signature_def codes_def Let_def split: prod.splits list.splits)
  with strongest_code_least [of c cs] have "ms_code sig \<in> set codes" by auto
  then consider "ms_code sig \<in> set ?tokens"
    | l r where "(l, r) \<in> set (zip ?tokens (tl ?tokens))" "joined_code (ms_brand sig) (l, r) = Some (ms_code sig)"
    by (auto simp: codes_def scan_pairs_codes scan_tokens_codes)
  then show "list_all is_lower_alnum (ms_code sig)"
  proof cases
    case 1
    then show ?thesis by (simp add: name_tokens_def find_runs_chars)
  next
    case 2
    then have "l \<in> set ?tokens" "r \<in> set ?tokens"
      by (auto dest: set_zip_leftD set_zip_rightD intro: list.set_sel(2))
    with joined_code_parts [OF 2(2)] show ?thesis
      by (auto simp: name_tokens_def dest!: find_runs_chars)
  qed
  show "list_all is_lower_alnum (ms_brand sig)"
    using find_brand_Some [OF b] by (auto simp: name_tokens_def find_runs_chars)
qed

lemma alnum_not: "list_all is_lower_alnum t \<Longrightarrow> CHR '':'' \<notin> set t \<and> CHR ''|'' \<notin> set t"
  unfolding list_all_iff by (intro conjI notI; drule (1) bspec; simp add: is_lower_alnum_def)

abbreviation title_char :: "char \<Rightarrow> bool" where
  "title_char c \<equiv> is_lower_alnum c \<or> c = CHR ''.''"

lemma glue_units_chars: "list_all (list_all p) ts \<Longrightarrow> list_all (list_all p) (glue_units ts)"
  by (induction ts rule: glue_units.induct) auto

lemma set_strip_by: "set (strip_by p t) \<subseteq> set t"
  by (auto simp: strip_by_def lstrip_by_def rstrip_by_def dest!: set_dropWhileD)

lemma title_tokens_chars: "t \<in> set (normalize_title_tokens title) \<Longrightarrow> list_all title_char t"
proof -
  let ?raw = "filter (\<lambda>t. t \<noteq> []) (map (strip_by (\<lambda>c. c = CHR ''.'')) (find_runs title_char (py_lower title)))"
  have strip: "list_all title_char (strip_by q t)" if "t \<in> set (find_runs title_char (py_lower title))" for t q
    using find_runs_chars [OF that] set_strip_by [of q t] unfolding list_all_iff by blast
  have "list_all (list_all title_char) ?raw"
    unfolding list_all_iff [of "list_all title_char"] set_filter set_map using strip by blast
  then have "\<forall>t \<in> set (glue_units ?raw). list_all title_char t"
    unfolding list_all_iff [of "list_all title_char", symmetric] by (rule glue_units_chars)
  moreover assume "t \<in> set (normalize_title_tokens title)"
  then have "t \<in> set (glue_units ?raw)"
    unfolding normalize_title_tokens_def Let_def by simp
  ultimately show ?thesis by blast
qed

lemma set_join_with: "set (join_with sep ts) \<subseteq> set sep \<union> (\<Union>t \<in> set ts. set t)"
  by (induction sep ts rule: join_with.induct) auto

lemma title_key_chars: "CHR '':'' \<notin> set (normalize_title_key title)"
proof -
  have "set (normalize_title_key title) \<subseteq> set '' '' \<union> (\<Union>t \<in> set (normalize_title_tokens title). set t)"
    unfolding normalize_title_key_def by (rule order_trans [OF set_take_subset set_join_with])
  moreover have "CHR '':'' \<notin> set t" if "t \<in> set (normalize_title_tokens title)" for t
  proof
    assume "CHR '':'' \<in> set t"
    with title_tokens_chars [OF that] have "title_char (CHR '':'')" unfolding list_all_iff by (rule bspec)
    then show False by (simp add: is_lower_alnum_def)
  qed
  ultimately show ?thesis by auto
qed

section \<open>Keys\<close>

text \<open>What a product is grouped by, without its encoding as a text.\<close>

datatype match_key = GtinKey string | BrandKey string string | TitleKey string string

definition match_key_of :: "string list \<Rightarrow> match_product \<Rightarrow> match_key option" where
  "match_key_of known p =
     (if nonblank (mp_sku p) then Some (GtinKey (py_strip (the (mp_sku p))))
      else case extract_match_signature (mp_name p) known of
        Some sig \<Rightarrow> Some (BrandKey (ms_brand sig) (ms_code sig))
      | None \<Rightarrow>
          if nonblank (mp_title_en p)
          then Some (TitleKey (type_key_of (mp_type_en p)) (normalize_title_key (the (mp_title_en p))))
          else None)"

fun key_text :: "match_key \<Rightarrow> string" where
  "key_text (GtinKey g) = ''gtin:'' @ g"
| "key_text (BrandKey b c) = b @ ''|'' @ c"
| "key_text (TitleKey ty k) = ''title2:'' @ ty @ '':'' @ k"

fun wf_key :: "match_key \<Rightarrow> bool" where
  "wf_key (GtinKey g) = True"
| "wf_key (BrandKey b c) = (list_all is_lower_alnum b \<and> list_all is_lower_alnum c)"
| "wf_key (TitleKey ty k) = (CHR '':'' \<notin> set k)"

lemma append_first_delimiter:
  "c \<notin> set k \<Longrightarrow> c \<notin> set l \<Longrightarrow> k @ c # a = l @ c # b \<longleftrightarrow> k = l \<and> a = b"
proof (induction k arbitrary: l)
  case Nil
  then show ?case by (cases l) auto
next
  case (Cons x k)
  then show ?case by (cases l) auto
qed

lemma append_last_delimiter:
  assumes "c \<notin> set k" "c \<notin> set l"
  shows "a @ c # k = b @ c # l \<longleftrightarrow> a = b \<and> k = l"
proof -
  have "a @ c # k = b @ c # l \<longleftrightarrow> rev (a @ c # k) = rev (b @ c # l)" by (rule rev_is_rev_conv [symmetric])
  also have "\<dots> \<longleftrightarrow> rev k @ c # rev a = rev l @ c # rev b" by simp
  also have "\<dots> \<longleftrightarrow> a = b \<and> k = l" using assms by (subst append_first_delimiter) auto
  finally show ?thesis .
qed

lemma colon_key: "wf_key k \<Longrightarrow> CHR '':'' \<in> set (key_text k) \<longleftrightarrow> (\<nexists>b c. k = BrandKey b c)"
  by (cases k) (auto dest: alnum_not)

lemma key_text_inj:
  assumes "wf_key k" "wf_key l"
  shows "key_text k = key_text l \<longleftrightarrow> k = l"
proof
  assume eq: "key_text k = key_text l"
  with colon_key [OF assms(1)] colon_key [OF assms(2)]
  have "(\<exists>b c. k = BrandKey b c) \<longleftrightarrow> (\<exists>b c. l = BrandKey b c)" by metis
  with eq assms show "k = l"
    by (cases k; cases l) (auto simp: append_first_delimiter append_last_delimiter alnum_not)
qed simp

lemma match_key_wf: "match_key_of known p = Some k \<Longrightarrow> wf_key k"
  by (auto simp: match_key_of_def title_key_chars signature_chars split: if_splits option.splits)

lemma product_fields_key:
  "dict_get (product_match_fields uuid5 known p) ''match_group_id''
     = (case match_key_of known p of None \<Rightarrow> PNone | Some k \<Rightarrow> PStr (uuid5 (key_text k)))"
  by (auto simp: product_match_fields_def build_match_fields_def match_key_of_def build_gtin_fields_def
      build_title_fields_def gtin_group_id_def title_group_id_def match_group_id_def dict_get_def
      split: option.splits)

text \<open>
  C21: The group id of a product is the hash of a text that determines what the product is
  grouped by, whatever the kind: two products, also of runs with different known brands, are
  given the same text exactly when both have no key or their keys are equal (the same
  stripped GTIN, the same brand and code, or the same type and normalised title key).
\<close>

theorem match_keys_separate:
  "dict_get (product_match_fields (\<lambda>text. text) known p) ''match_group_id''
     = dict_get (product_match_fields (\<lambda>text. text) known' q) ''match_group_id''
   \<longleftrightarrow> match_key_of known p = match_key_of known' q"
  by (auto simp: product_fields_key key_text_inj match_key_wf split: option.splits)

section \<open>One bad record does not hold back the others\<close>

definition idle :: "'s gate_state_scheme \<Rightarrow> bool" where
  "idle s = (gs_session s = SessionLive \<and> gs_session_writes s = [])"

definition accepted_alone :: "'e persist_env_scheme \<Rightarrow> SignedRecord \<Rightarrow> bool" where
  \<comment> \<open>the database takes the record by itself, whatever was written before\<close>
  "accepted_alone env r = (\<forall>st log. record_statement r = Inr st \<longrightarrow> (\<exists>row. gate_answer env log st = Inr row))"

definition answers_rows :: "'e persist_env_scheme \<Rightarrow> bool" where
  \<comment> \<open>a query of one row answers with one row\<close>
  "answers_rows env = (\<forall>log st row. gate_answer env log st = Inr row \<longrightarrow> row \<noteq> [])"

lemma recovered_record:
  assumes idle: "idle s" and sealed: "sealed env r" and rows: "answers_rows env"
  obtains (written) n st s' where "recovering (commit_after (exec_write_record env r)) (retA 0) s = (Inr n, s')"
      "record_statement r = Inr st" "gs_committed_writes s' = gs_committed_writes s @ [st]" "idle s'"
  | (refused) s' where "recovering (commit_after (exec_write_record env r)) (retA 0) s = (Inr 0, s')"
      "\<not> accepted_alone env r" "gs_committed_writes s' = gs_committed_writes s" "idle s'"
proof -
  from sealed_statement_exists [OF sealed] obtain st where st: "record_statement r = Inr st" by blast
  let ?dead = "rollback_session (s\<lparr>gs_session := TransactionAborted\<rparr>)"
  show ?thesis
  proof (cases "gate_answer env (gs_committed_writes s) st")
    case (Inl message)
    with st have "\<not> accepted_alone env r" by (auto simp: accepted_alone_def intro!: exI [of _ "gs_committed_writes s"])
    moreover have "recovering (commit_after (exec_write_record env r)) (retA 0) s = (Inr 0, ?dead)"
      using idle Inl st
      by (simp add: recovering_def commit_after_def bindA_apply exec_write_record_def exec_statement_def idle_def
          raise_gate_rpc_error_def)
    ultimately show ?thesis by (intro refused [of ?dead]) (simp_all add: rollback_session_def idle_def)
  next
    case (Inr row)
    with rows obtain n ns where row: "row = n # ns" by (cases row) (auto simp: answers_rows_def)
    let ?done = "s\<lparr>gs_reject_data := gs_reject_data s @ gs_session_rejects s,
      gs_committed_writes := gs_committed_writes s @ [st], gs_session_rejects := [], gs_session_writes := []\<rparr>"
    have "recovering (commit_after (exec_write_record env r)) (retA 0) s = (Inr n, ?done)"
      using idle Inr st row
      by (simp add: recovering_def commit_after_def bindA_apply exec_write_record_def exec_statement_def idle_def
          scalar_one_def commit_session_def)
    then show ?thesis using st idle by (intro written [of n ?done st]) (simp_all add: idle_def)
  qed
qed

definition written_singly :: "'e persist_env_scheme \<Rightarrow> SignedRecord list \<Rightarrow> gate_statement list \<Rightarrow> bool" where
  \<comment> \<open>the statements of some of the records, in their order, among them all that the database takes\<close>
  "written_singly env chunk sts = (\<exists>kept. subseq kept chunk \<and> mapE record_statement kept = Inr sts
     \<and> {r \<in> set chunk. accepted_alone env r} \<subseteq> set kept)"

lemma write_each_outcome:
  assumes "idle s" "list_all (sealed env) rs" "answers_rows env"
  shows "\<exists>n s' sts. write_each env rs s = (Inr n, s') \<and> idle s'
    \<and> gs_committed_writes s' = gs_committed_writes s @ sts \<and> written_singly env rs sts"
  using assms
proof (induction rs arbitrary: s)
  case Nil
  then show ?case by (simp add: written_singly_def exI [of _ "[]"])
next
  case (Cons r rs)
  from Cons.prems have r: "sealed env r" and rs: "list_all (sealed env) rs" by simp_all
  from Cons.prems(1) r Cons.prems(3) show ?case
  proof (cases rule: recovered_record)
    case (written n st s1)
    from Cons.IH [OF written(4) rs Cons.prems(3)] obtain m s' sts kept where
      "write_each env rs s1 = (Inr m, s')" "idle s'" "gs_committed_writes s' = gs_committed_writes s1 @ sts"
      "subseq kept rs" "mapE record_statement kept = Inr sts" "{r \<in> set rs. accepted_alone env r} \<subseteq> set kept"
      unfolding written_singly_def by blast
    with written show ?thesis
      by (auto simp: bindA_apply written_singly_def intro!: exI [of _ "st # sts"] exI [of _ "r # kept"])
  next
    case (refused s1)
    from Cons.IH [OF refused(4) rs Cons.prems(3)] obtain m s' sts kept where
      "write_each env rs s1 = (Inr m, s')" "idle s'" "gs_committed_writes s' = gs_committed_writes s1 @ sts"
      "subseq kept rs" "mapE record_statement kept = Inr sts" "{r \<in> set rs. accepted_alone env r} \<subseteq> set kept"
      unfolding written_singly_def by blast
    with refused show ?thesis
      by (auto simp: bindA_apply written_singly_def intro!: exI [of _ sts] exI [of _ kept])
  qed
qed

lemma sealed_entries:
  "sealed env r \<Longrightarrow> \<exists>le fe. ordered_entries_from_mapping (sr_locator r) = Inr le
     \<and> ordered_entries_from_mapping (sr_fields r) = Inr fe"
  unfolding sealed_def verify_True_iff signed_payload_ordered by (auto simp: bindE_Inr_iff)

lemma record_calls_total: "list_all (sealed env) rs \<Longrightarrow> \<exists>x. record_calls idx rs params = Inr x"
proof (induction rs arbitrary: idx params)
  case (Cons r rs)
  then obtain le fe where "ordered_entries_from_mapping (sr_locator r) = Inr le"
    "ordered_entries_from_mapping (sr_fields r) = Inr fe" using sealed_entries by fastforce
  moreover from Cons have "\<forall>ps. \<exists>x. record_calls (Suc idx) rs ps = Inr x" by simp
  then obtain g where "\<And>ps. record_calls (Suc idx) rs ps = Inr (g ps)" by metis
  ultimately show ?case by (simp add: case_prod_beta Let_def)
qed simp

definition chunk_outcome :: "'e persist_env_scheme \<Rightarrow> SignedRecord list \<Rightarrow> gate_statement list \<Rightarrow> bool" where
  \<comment> \<open>one statement for the whole chunk, or statements of single records\<close>
  "chunk_outcome env chunk sts =
     ((\<exists>st. records_statement chunk = Inr st \<and> sts = [st]) \<or> written_singly env chunk sts)"

lemma write_chunk_outcome:
  assumes idle: "idle s" and sealed: "list_all (sealed env) chunk" and rows: "answers_rows env" and "chunk \<noteq> []"
  shows "\<exists>n s' sts. write_chunk env chunk s = (Inr n, s') \<and> idle s'
    \<and> gs_committed_writes s' = gs_committed_writes s @ sts \<and> chunk_outcome env chunk sts"
proof -
  from record_calls_total [OF sealed] obtain x where "record_calls 0 chunk [] = Inr x" by blast
  then obtain st where st: "records_statement chunk = Inr st" by (cases x) (simp add: records_statement_def)
  show ?thesis
  proof (cases "gate_answer env (gs_committed_writes s) st")
    case (Inl message)
    let ?s = "rollback_session (s\<lparr>gs_session := TransactionAborted\<rparr>)"
    have "write_chunk env chunk s = write_each env chunk ?s"
      using idle Inl st assms(4)
      by (simp add: write_chunk_def recovering_def commit_after_def bindA_apply exec_write_records_def
          exec_statement_def idle_def raise_gate_rpc_error_def)
    moreover have "idle ?s" "gs_committed_writes ?s = gs_committed_writes s"
      by (simp_all add: idle_def rollback_session_def)
    ultimately show ?thesis
      using write_each_outcome [OF \<open>idle ?s\<close> sealed rows] unfolding chunk_outcome_def by metis
  next
    case (Inr row)
    have "\<exists>s'. write_chunk env chunk s = (Inr (sum_list row), s') \<and> idle s'
        \<and> gs_committed_writes s' = gs_committed_writes s @ [st]"
      using idle Inr st assms(4)
      by (simp add: write_chunk_def recovering_def commit_after_def bindA_apply exec_write_records_def
          exec_statement_def idle_def commit_session_def)
    then show ?thesis using st unfolding chunk_outcome_def by blast
  qed
qed

lemma write_chunks_outcome:
  assumes "idle s" "list_all (list_all (sealed env)) cs" "answers_rows env" "[] \<notin> set cs"
  shows "\<exists>n s' groups. write_chunks env cs s = (Inr n, s') \<and> idle s'
    \<and> gs_committed_writes s' = gs_committed_writes s @ concat groups \<and> list_all2 (chunk_outcome env) cs groups"
  using assms
proof (induction cs arbitrary: s)
  case Nil
  then show ?case by simp
next
  case (Cons c cs)
  from Cons.prems have c: "list_all (sealed env) c" "c \<noteq> []" by auto
  from write_chunk_outcome [OF Cons.prems(1) c(1) Cons.prems(3) c(2)] obtain n s1 sts where
    1: "write_chunk env c s = (Inr n, s1)" "idle s1" "gs_committed_writes s1 = gs_committed_writes s @ sts"
      "chunk_outcome env c sts" by blast
  from Cons.IH [OF 1(2)] Cons.prems obtain m s2 groups where
    2: "write_chunks env cs s1 = (Inr m, s2)" "idle s2"
      "gs_committed_writes s2 = gs_committed_writes s1 @ concat groups" "list_all2 (chunk_outcome env) cs groups"
    by auto
  from 1 2 show ?case by (auto simp: bindA_apply intro!: exI [of _ "sts # groups"])
qed

section \<open>Chunks\<close>

lemma concat_pieces: "concat (map (\<lambda>i. take n (drop (i * n) xs)) [0..<k]) = take (k * n) xs"
  by (induction k) (simp_all add: take_add [symmetric] add.commute [of n])

lemma concat_chunks: "0 < n \<Longrightarrow> concat (chunks_of n xs) = xs"
proof -
  assume n: "0 < n"
  have "length xs \<le> (length xs + n - 1) div n * n"
    using n div_mult_mod_eq [of "length xs + n - 1" n] mod_less_divisor [OF n, of "length xs + n - 1"] by linarith
  then show ?thesis by (simp add: chunks_of_def concat_pieces)
qed

lemma list_all_concat: "list_all p (concat xss) \<longleftrightarrow> list_all (list_all p) xss"
  by (induction xss) auto

lemma chunks_nonempty: "0 < n \<Longrightarrow> [] \<notin> set (chunks_of n xs)"
proof
  assume n: "0 < n" and "[] \<in> set (chunks_of n xs)"
  then obtain i where i: "i < (length xs + n - 1) div n" "length xs \<le> i * n"
    by (auto simp: chunks_of_def)
  from i(1) n have "i * n + n \<le> length xs + n - 1"
    by (metis Suc_leI add.commute div_le_mono2 less_eq_div_iff_mult_less_eq mult_Suc)
  with i(2) n show False by linarith
qed

lemma chunks_length: "list_all (\<lambda>c. length c \<le> n) (chunks_of n xs)"
  by (auto simp: chunks_of_def list_all_iff)

section \<open>Signing a list of payloads\<close>

lemma sign_records_sealed:
  assumes "mac_ok env" "sign_records env payloads s = (Inr approved, t)"
  shows "list_all (sealed env) approved \<and> subseq (map sr_fields approved) payloads
    \<and> gs_committed_writes t = gs_committed_writes s"
  using assms(2)
proof (induction payloads arbitrary: s approved)
  case (Cons flds payloads)
  let ?door = "authorize_scrape_update env ''dim_product'' ''product_match'' flds False ''product_match''"
  from Cons.prems obtain out u rs where run: "?door s = (Inr out, u)" "sign_records env payloads u = (Inr rs, t)"
    and approved: "approved = (case fo_signed_record out of Some r \<Rightarrow> if fo_passed out then r # rs else rs | None \<Rightarrow> rs)"
    by (auto simp: bindA_apply split: prod.splits sum.splits)
  have "gs_committed_writes u = gs_committed_writes s"
    using run(1) unfolding authorize_scrape_update_def by (elim settle_Inr) (auto simp: isolated_reject_def)
  moreover note Cons.IH [OF run(2)]
  moreover have "sealed env r \<and> sr_fields r = flds" if "fo_signed_record out = Some r" for r
    using scrape_update.signed_sealed [OF assms(1) run(1) that] by simp
  ultimately show ?case
    by (auto simp: approved split: option.splits)
qed simp

text \<open>
  C27: Whatever the database answers, the writer of the matching engine returns, and every
  signed payload is settled: the payloads are cut in chunks of at most a hundred, in their
  order; each chunk becomes one committed statement, or statements of single records of it, in
  order and each at most once, among them every record the database takes by itself. No refusal
  of one record keeps another from being written.
\<close>

theorem match_writes_settled:
  assumes "mac_ok env" "answers_rows env" "sign_records env payloads s = (Inr approved, t)"
  shows "\<exists>n s' groups. write_match_results_sync env payloads s = (Inr n, s')
    \<and> gs_committed_writes s' = gs_committed_writes s @ concat groups
    \<and> list_all2 (chunk_outcome env) (chunks_of WRITE_CHUNK_SIZE approved) groups
    \<and> concat (chunks_of WRITE_CHUNK_SIZE approved) = approved
    \<and> list_all (\<lambda>c. length c \<le> 100) (chunks_of WRITE_CHUNK_SIZE approved)
    \<and> list_all (sealed env) approved \<and> subseq (map sr_fields approved) payloads"
proof -
  note seal = sign_records_sealed [OF assms(1,3)]
  have size: "0 < WRITE_CHUNK_SIZE" by (simp add: WRITE_CHUNK_SIZE_def)
  let ?chunks = "chunks_of WRITE_CHUNK_SIZE approved"
  have "list_all (list_all (sealed env)) ?chunks"
    using seal concat_chunks [OF size, of approved] list_all_concat by metis
  from write_chunks_outcome [OF _ this assms(2) chunks_nonempty [OF size], of "rollback_session t"]
  obtain n u groups where out: "write_chunks env ?chunks (rollback_session t) = (Inr n, u)"
    "gs_committed_writes u = gs_committed_writes t @ concat groups" "list_all2 (chunk_outcome env) ?chunks groups"
    by (auto simp: idle_def rollback_session_def)
  have "\<exists>m s'. write_match_results_sync env payloads s = (Inr m, s')
      \<and> gs_committed_writes s' = gs_committed_writes s @ concat groups"
  proof (cases "approved = []")
    case True
    then have "groups = []" using out(3) by (simp add: chunks_of_def WRITE_CHUNK_SIZE_def)
    with True seal assms(3) show ?thesis by (simp add: write_match_results_sync_def bindA_apply)
  next
    case False
    with out seal assms(3) show ?thesis
      by (simp add: write_match_results_sync_def bindA_apply in_new_session_def)
  qed
  then show ?thesis
    using out(3) seal concat_chunks [OF size, of approved] chunks_length [of 100 approved]
    by (auto simp: WRITE_CHUNK_SIZE_def)
qed

section \<open>The resweep comes back to every product\<close>

fun resweeps :: "nat \<Rightarrow> nat \<Rightarrow> match_product list \<Rightarrow> string option \<Rightarrow> match_product list list" where
  \<comment> \<open>the pages of consecutive resweeps of an unchanged table\<close>
  "resweeps 0 limit rows cursor = []"
| "resweeps (Suc k) limit rows cursor =
     (let page = fst (resweep_page limit rows cursor)
      in page # resweeps k limit rows (resweep_cursor cursor page))"

fun resweep_pages :: "nat \<Rightarrow> nat \<Rightarrow> 'a list \<Rightarrow> 'a list \<Rightarrow> 'a list list" where
  \<comment> \<open>the abstract cycle: the pages of what is left, then those of the whole list again\<close>
  "resweep_pages 0 limit xs ys = []"
| "resweep_pages (Suc k) limit xs ys =
     (let zs = if ys = [] then xs else ys in take limit zs # resweep_pages k limit xs (drop limit zs))"

definition after_cursor :: "match_product list \<Rightarrow> string option \<Rightarrow> match_product list" where
  "after_cursor rows cursor =
     filter (\<lambda>p. case cursor of None \<Rightarrow> True | Some c \<Rightarrow> c = [] \<or> c < mp_id p) (sort_key mp_id rows)"

lemma fetch_after: "fetch_unmatched_after rows cursor limit = take limit (after_cursor rows cursor)"
  by (simp add: fetch_unmatched_after_def after_cursor_def filter_sort)

lemma resweep_page_after:
  "0 < limit \<Longrightarrow> fst (resweep_page limit rows cursor) =
     take limit (if after_cursor rows cursor = [] then sort_key mp_id rows else after_cursor rows cursor)"
  by (auto simp: resweep_page_def fetch_after split: list.split option.splits)
    (auto simp: after_cursor_def)

definition strictly_sorted :: "match_product list \<Rightarrow> bool" where
  "strictly_sorted ps = sorted_wrt (\<lambda>p q. mp_id p < mp_id q) ps"

lemma strictly_sorted_sort: "distinct (map mp_id rows) \<Longrightarrow> strictly_sorted (sort_key mp_id rows)"
proof -
  assume "distinct (map mp_id rows)"
  then have "distinct (map mp_id (sort_key mp_id rows))"
    by (metis distinct_map distinct_sort inj_on_subset set_sort subset_refl)
  then have "sorted_wrt (<) (map mp_id (sort_key mp_id rows))"
    using sorted_sort_key strict_sorted_iff by blast
  then show ?thesis by (simp add: strictly_sorted_def sorted_wrt_map)
qed

lemma strictly_sorted_append:
  "strictly_sorted (ps @ qs) \<longleftrightarrow> strictly_sorted ps \<and> strictly_sorted qs
     \<and> (\<forall>p \<in> set ps. \<forall>q \<in> set qs. mp_id p < mp_id q)"
  by (simp add: strictly_sorted_def sorted_wrt_append)

lemma filter_after_prefix:
  assumes "strictly_sorted (ps @ qs)" "ps \<noteq> []"
  shows "filter (\<lambda>p. mp_id (last ps) < mp_id p) (ps @ qs) = qs"
proof -
  from assms obtain us u where ps: "ps = us @ [u]" by (cases ps rule: rev_cases) auto
  from assms(1) have "\<forall>p \<in> set us. mp_id p < mp_id u" "\<forall>q \<in> set qs. mp_id u < mp_id q"
    by (auto simp: ps strictly_sorted_def sorted_wrt_append)
  then show ?thesis by (auto simp: ps filter_empty_conv filter_id_conv)
qed

lemma after_cursor_suffix:
  assumes "strictly_sorted (sort_key mp_id rows)"
  shows "\<exists>j. after_cursor rows cursor = drop j (sort_key mp_id rows)"
proof -
  have "\<exists>j. filter (\<lambda>p. c < mp_id p) ps = drop j ps" if "strictly_sorted ps" for c ps
    using that
  proof (induction ps)
    case (Cons p ps)
    then obtain j where "filter (\<lambda>p. c < mp_id p) ps = drop j ps" by (auto simp: strictly_sorted_def)
    moreover have "filter (\<lambda>p. c < mp_id p) ps = ps" if "c < mp_id p"
      using Cons.prems that by (auto simp: strictly_sorted_def filter_id_conv)
    ultimately show ?case by (cases "c < mp_id p") (auto intro: exI [of _ 0] exI [of _ "Suc j"])
  qed simp
  note suffix = this [OF assms]
  show ?thesis
  proof (cases "cursor = None \<or> cursor = Some []")
    case True
    then show ?thesis by (intro exI [of _ 0]) (auto simp: after_cursor_def)
  next
    case False
    then obtain c where "cursor = Some c" "c \<noteq> []" by (cases cursor) auto
    with suffix [of c] show ?thesis by (simp add: after_cursor_def)
  qed
qed

lemma after_resweep:
  assumes ids: "strictly_sorted (sort_key mp_id rows)" "[] \<notin> mp_id ` set rows" and limit: "0 < limit"
    and page: "fst (resweep_page limit rows cursor) = page"
    and zs: "zs = (if after_cursor rows cursor = [] then sort_key mp_id rows else after_cursor rows cursor)" "zs \<noteq> []"
  shows "after_cursor rows (resweep_cursor cursor page) = drop limit zs"
proof -
  from after_cursor_suffix [OF ids(1), of cursor] obtain j where "zs = drop j (sort_key mp_id rows)"
    unfolding zs(1) by (metis drop0)
  then have split: "sort_key mp_id rows = take j (sort_key mp_id rows) @ take limit zs @ drop limit zs"
    by (metis append_take_drop_id)
  have pg: "page = take limit zs" using page resweep_page_after [OF limit] zs(1) by simp
  with zs(2) limit have ne: "page \<noteq> []" by simp
  then have "last page \<in> set rows"
    using split pg by (metis UnCI last_in_set set_append set_sort)
  with ids(2) have "mp_id (last page) \<noteq> []" by force
  moreover have "filter (\<lambda>p. mp_id (last page) < mp_id p) (sort_key mp_id rows) = drop limit zs"
    using filter_after_prefix [of "take j (sort_key mp_id rows) @ take limit zs" "drop limit zs"] split ids(1) ne pg
    by (metis append.assoc append_is_Nil_conv last_appendR)
  ultimately show ?thesis using ne by (simp add: after_cursor_def resweep_cursor_def)
qed

lemma resweeps_pages:
  assumes "strictly_sorted (sort_key mp_id rows)" "[] \<notin> mp_id ` set rows" "0 < limit"
  shows "resweeps k limit rows cursor = resweep_pages k limit (sort_key mp_id rows) (after_cursor rows cursor)"
proof (induction k arbitrary: cursor)
  case (Suc k)
  let ?zs = "if after_cursor rows cursor = [] then sort_key mp_id rows else after_cursor rows cursor"
  let ?page = "fst (resweep_page limit rows cursor)"
  have page: "?page = take limit ?zs" by (rule resweep_page_after [OF assms(3)])
  have "after_cursor rows (resweep_cursor cursor ?page) = drop limit ?zs"
  proof (cases "?zs = []")
    case True
    then have "rows = []" by (auto split: if_splits) (metis length_0_conv length_sort)
    then show ?thesis by (simp add: after_cursor_def)
  next
    case False
    with after_resweep [OF assms refl refl] show ?thesis by simp
  qed
  with Suc.IH page show ?case by (simp add: Let_def)
qed simp

text \<open>The abstract cycle covers the list.\<close>

lemma resweep_pages_take: "set (take (k * limit) ys) \<subseteq> set (concat (resweep_pages k limit xs ys))"
proof (induction k arbitrary: ys)
  case (Suc k)
  have "take (Suc k * limit) ys = take limit ys @ take (k * limit) (drop limit ys)"
    by (simp add: take_add)
  with Suc.IH [of "drop limit ys"] show ?case by (cases "ys = []") (auto simp: Let_def)
qed simp

lemma resweep_pages_add:
  "length ys \<le> m * limit \<Longrightarrow> ys \<noteq> [] \<Longrightarrow>
   \<exists>j. j \<le> m \<and> set (concat (resweep_pages k limit xs [])) \<subseteq> set (concat (resweep_pages (j + k) limit xs ys))"
proof (induction m arbitrary: ys)
  case (Suc m)
  show ?case
  proof (cases "drop limit ys = []")
    case True
    with Suc.prems show ?thesis by (intro exI [of _ 1]) (auto simp: Let_def)
  next
    case False
    with Suc.IH [of "drop limit ys"] Suc.prems obtain j where "j \<le> m"
      "set (concat (resweep_pages k limit xs [])) \<subseteq> set (concat (resweep_pages (j + k) limit xs (drop limit ys)))"
      by (auto simp: le_diff_conv add.commute)
    with Suc.prems show ?thesis by (intro exI [of _ "Suc j"]) (auto simp: Let_def)
  qed
qed simp

lemma resweep_pages_mono:
  "k \<le> l \<Longrightarrow> set (concat (resweep_pages k limit xs ys)) \<subseteq> set (concat (resweep_pages l limit xs ys))"
proof (induction k arbitrary: l ys)
  case (Suc k)
  then obtain l' where l: "l = Suc l'" "k \<le> l'" by (cases l) auto
  let ?zs = "if ys = [] then xs else ys"
  from Suc.IH [OF l(2), of "drop limit ?zs"] show ?case
    by (cases "ys = []") (auto simp: l(1) Let_def)
qed simp

lemma resweep_pages_cover:
  assumes "0 < limit"
  shows "set xs \<subseteq> set (concat (resweep_pages (length xs div limit + 2) limit xs (drop j xs)))"
proof -
  let ?n = "length xs" and ?ys = "drop j xs"
  define i where "i = min j ?n"
  have i: "?ys = drop i xs" "i \<le> ?n" by (simp_all add: i_def min_def)
  define m k where "m = (?n - i + limit - 1) div limit" and "k = (i + limit - 1) div limit"
  have up: "?n - i \<le> m * limit" "i \<le> k * limit"
    unfolding m_def k_def using assms
      div_mult_mod_eq [of "?n - i + limit - 1" limit] mod_less_divisor [OF assms, of "?n - i + limit - 1"]
      div_mult_mod_eq [of "i + limit - 1" limit] mod_less_divisor [OF assms, of "i + limit - 1"] by linarith+
  have bound: "m + k \<le> ?n div limit + 2"
  proof -
    have "m * limit \<le> ?n - i + limit - 1" "k * limit \<le> i + limit - 1" by (simp_all add: m_def k_def)
    then have "(m + k) * limit \<le> ?n + 2 * limit" using i(2) by (simp add: add_mult_distrib)
    then have "(m + k) * limit div limit \<le> (?n + 2 * limit) div limit" by (rule div_le_mono)
    with assms show ?thesis by simp
  qed
  have tail: "set (drop i xs) \<subseteq> set (concat (resweep_pages (?n div limit + 2) limit xs ?ys))"
    using resweep_pages_take [of m limit ?ys xs] resweep_pages_mono [of m "?n div limit + 2" limit xs ?ys] bound up(1) i
    by simp
  have head: "set (take i xs) \<subseteq> set (concat (resweep_pages (?n div limit + 2) limit xs ?ys))"
  proof (cases "?ys = []")
    case True
    have "set (take (k * limit) xs) \<subseteq> set (concat (resweep_pages k limit xs xs))" by (rule resweep_pages_take)
    moreover have "resweep_pages k limit xs xs = resweep_pages k limit xs []" by (cases k) (simp_all add: Let_def)
    ultimately show ?thesis
      using resweep_pages_mono [of k "?n div limit + 2" limit xs "[]"] bound True up(2)
        set_take_subset_set_take [of i "k * limit" xs] by auto
  next
    case False
    with resweep_pages_add [of ?ys m limit k xs] up(1) i obtain j' where j': "j' \<le> m"
      "set (concat (resweep_pages k limit xs [])) \<subseteq> set (concat (resweep_pages (j' + k) limit xs ?ys))" by auto
    have "set (take (k * limit) xs) \<subseteq> set (concat (resweep_pages k limit xs xs))" by (rule resweep_pages_take)
    moreover have "resweep_pages k limit xs xs = resweep_pages k limit xs []" by (cases k) (simp_all add: Let_def)
    ultimately show ?thesis
      using j' resweep_pages_mono [of "j' + k" "?n div limit + 2" limit xs ?ys] bound
        set_take_subset_set_take [OF up(2), of xs] by (auto dest!: subsetD)
  qed
  from head tail show ?thesis by (metis append_take_drop_id le_sup_iff set_append)
qed

text \<open>
  C34: The resweep comes back to every unmatched product: on a table that does not change,
  whatever the cursor the cache holds, \<open>n div limit + 2\<close> consecutive resweeps of a page of
  \<open>limit\<close> rows scan all \<open>n\<close> products.
\<close>

theorem resweep_covers:
  assumes "distinct (map mp_id rows)" "[] \<notin> mp_id ` set rows" "0 < limit"
  shows "set (concat (resweeps (length rows div limit + 2) limit rows cursor)) = set rows"
proof
  note ids = strictly_sorted_sort [OF assms(1)]
  obtain j where j: "after_cursor rows cursor = drop j (sort_key mp_id rows)"
    using after_cursor_suffix [OF ids] by blast
  from resweep_pages_cover [OF assms(3), of "sort_key mp_id rows" j]
  show "set rows \<subseteq> set (concat (resweeps (length rows div limit + 2) limit rows cursor))"
    by (simp add: resweeps_pages [OF ids assms(2,3)] j)
  have "set (concat (resweeps k limit rows cursor)) \<subseteq> set rows" for k
  proof (induction k arbitrary: cursor)
    case (Suc k)
    have "set (fst (resweep_page limit rows cursor)) \<subseteq> set rows"
      using set_take_subset [of limit "sort_key mp_id rows"] set_take_subset [of limit "after_cursor rows cursor"]
      by (auto simp: resweep_page_after [OF assms(3)] after_cursor_def split: if_splits)
    with Suc show ?case by (auto simp: Let_def)
  qed simp
  then show "set (concat (resweeps (length rows div limit + 2) limit rows cursor)) \<subseteq> set rows" .
qed

section \<open>Concrete runs\<close>

definition unmatched_payload :: pydict where
  "unmatched_payload = [(''id'', PStr ''p''), (''match_method'', PStr ''unmatched'')]"

lemma unmatched_signs:
  "\<exists>r. sign_records live_env [unmatched_payload] quiet_state = (Inr [r], quiet_state)"
proof -
  have "case scrape_update_verdict accepting_env ''dim_product'' ''product_match'' unmatched_payload of
      Inr (Grant r n) \<Rightarrow> True | _ \<Rightarrow> False"
    by code_simp
  moreover have "sign_fields live_env t p f = sign_fields accepting_env t p f" for t p f
    by (simp add: sign_fields_def sign_def live_env_def gate_env.defs accepting_env_def signing_secret_def)
  ultimately have "\<exists>r n. scrape_update_verdict live_env ''dim_product'' ''product_match'' unmatched_payload = Inr (Grant r n)"
    by (auto simp: scrape_update_verdict_def sign_verdict_def Let_def split: sum.splits door_verdict.splits option.splits if_splits)
  then show ?thesis
    by (auto simp: authorize_scrape_update_def settle_def granted_outcome_def bindA_apply)
qed

theorem match_writes_settled_witness:
  "\<exists>n s' st. write_match_results_sync live_env [unmatched_payload] quiet_state = (Inr n, s')
     \<and> gs_committed_writes s' = [st]"
proof -
  from unmatched_signs obtain r where r: "sign_records live_env [unmatched_payload] quiet_state = (Inr [r], quiet_state)"
    by blast
  have one: "chunks_of WRITE_CHUNK_SIZE [r] = [[r]]" by (simp add: chunks_of_def WRITE_CHUNK_SIZE_def)
  have "answers_rows live_env" by (simp add: answers_rows_def)
  from match_writes_settled [OF _ this r] obtain n s' groups where
    w: "write_match_results_sync live_env [unmatched_payload] quiet_state = (Inr n, s')"
      "gs_committed_writes s' = concat groups" "list_all2 (chunk_outcome live_env) [[r]] groups"
    by (auto simp: one quiet_state_def)
  from w(3) obtain sts where g: "groups = [sts]" "chunk_outcome live_env [r] sts"
    by (auto simp: list_all2_Cons1)
  have "accepted_alone live_env r" by (simp add: accepted_alone_def)
  then have kept: "kept = [r]" if "subseq kept [r]" "{q \<in> set [r]. accepted_alone live_env q} \<subseteq> set kept" for kept
    using that by (cases kept) (auto simp: subseq_Cons2_iff split: if_splits)
  from g(2) obtain st where "sts = [st]"
    unfolding chunk_outcome_def written_singly_def
  proof (elim disjE exE conjE)
    fix kept
    assume k: "subseq kept [r]" "mapE record_statement kept = Inr sts"
      "{q \<in> set [r]. accepted_alone live_env q} \<subseteq> set kept"
    from kept [OF k(1,3)] k(2) that show thesis by (auto simp: bindE_Inr_iff)
  qed (rule that)
  with w g show ?thesis by auto
qed

definition shelf :: "match_product list" where
  "shelf = map (\<lambda>i. \<lparr> mp_id = i, mp_name = None, mp_sku = None, mp_title_en = None, mp_type_en = None \<rparr>) [''c'', ''a'', ''b'']"

theorem resweep_covers_witness:
  "set (concat (resweeps 3 2 shelf (Some ''b''))) = set shelf"
proof -
  have n: "length shelf div 2 + 2 = 3" and ids: "distinct (map mp_id shelf)" "[] \<notin> mp_id ` set shelf"
    by (auto simp: shelf_def)
  from resweep_covers [OF ids, of 2 "Some ''b''", unfolded n, OF zero_less_numeral] show ?thesis .
qed

section \<open>A dominant type that is not counted as one\<close>

text \<open>
  The type-split pass counts a type per spelling: with two phones typed Phone, two typed
  phone (with a space) and three cases, the case is taken for the dominant type, although the
  phones are more, and the phones are moved out of the group; and each of them twice, once per
  spelling.
\<close>

theorem type_split_spellings:
  "type_split_payloads uuid5 [(''g'', Some ''Phone'', 2), (''g'', Some ''phone '', 2), (''g'', Some ''case'', 3)]
      (\<lambda>gid type_key. if type_key = ''phone'' then [''p1'', ''p2'', ''p3'', ''p4''] else [''c1'', ''c2'', ''c3''])
   = (1, let moved = map (\<lambda>p. [(''id'', PStr p), (''match_group_id'', PStr (uuid5 ''split:g:phone''))])
                      [''p1'', ''p2'', ''p3'', ''p4'']
         in moved @ moved)"
proof -
  have "type_key_of (Some ''Phone'') = ''phone''" "type_key_of (Some ''phone '') = ''phone''"
    "type_key_of (Some ''case'') = ''case''" by code_simp+
  then show ?thesis
    by (simp add: type_split_payloads_def conflicted_groups_def dict_set_def has_key_def split_group_payloads_def
        dominant_type_def split_group_id_def TYPE_SPLIT_GROUPS_CAP_def Let_def)
qed

end
