(* ===== verification/Pipeline.thy ===== *)
theory Pipeline
  imports SchemaFacts
begin

text \<open>
  How a pipeline run is accounted for (\<open>scraper/pipeline\<close>): the four outcome buckets of
  \<open>outcome_buckets.py\<close>, the seeds that \<open>child_aggregation.py\<close> makes of the child jobs, and
  the verdict and totals of \<open>job_completion.py\<close>. Marketplace ids are the texts of their UUIDs;
  what a query returns is an argument.
\<close>

section \<open>Outcome buckets\<close>

definition TERMINAL_SUCCESSFUL :: "string list" where "TERMINAL_SUCCESSFUL = [''success'']"
definition TERMINAL_UNCHANGED :: "string list" where "TERMINAL_UNCHANGED = [''no_change'']"
definition TERMINAL_FILTERED :: "string list" where "TERMINAL_FILTERED = [''not_a_product'']"

definition TERMINAL_FAILED :: "string list" where
  "TERMINAL_FAILED =
     [''error'', ''timeout'', ''blocked'', ''captcha'', ''not_found'', ''price_not_found'', ''parse_error'',
      ''currency_rejected'', ''missing_critical_data'', ''technical_error'', ''fetch_failed'', ''parse_failed'',
      ''quota_exceeded'', ''persist_failed'']"

definition CANONICAL_SCRAPE_LOG_STATUSES :: "string list" where
  "CANONICAL_SCRAPE_LOG_STATUSES =
     sort (TERMINAL_SUCCESSFUL @ TERMINAL_UNCHANGED @ TERMINAL_FILTERED @ TERMINAL_FAILED)"

datatype outcome_bucket = BucketSuccessful | BucketUnchanged | BucketFiltered | BucketFailed

record outcome_buckets =
  ob_successful :: int
  ob_unchanged :: int
  ob_filtered :: int
  ob_failed :: int
  ob_total :: int

definition empty_outcome_buckets :: outcome_buckets where
  "empty_outcome_buckets =
     \<lparr> ob_successful = 0, ob_unchanged = 0, ob_filtered = 0, ob_failed = 0, ob_total = 0 \<rparr>"

definition classify_scrape_log_status :: "string \<Rightarrow> outcome_bucket option" where
  "classify_scrape_log_status status =
     (if status \<in> set TERMINAL_SUCCESSFUL then Some BucketSuccessful
      else if status \<in> set TERMINAL_UNCHANGED then Some BucketUnchanged
      else if status \<in> set TERMINAL_FILTERED then Some BucketFiltered
      else if status \<in> set TERMINAL_FAILED then Some BucketFailed
      else None)"

fun add_to_bucket :: "outcome_bucket \<Rightarrow> int \<Rightarrow> outcome_buckets \<Rightarrow> outcome_buckets" where
  "add_to_bucket BucketSuccessful n b = b\<lparr>ob_successful := ob_successful b + n\<rparr>"
| "add_to_bucket BucketUnchanged n b = b\<lparr>ob_unchanged := ob_unchanged b + n\<rparr>"
| "add_to_bucket BucketFiltered n b = b\<lparr>ob_filtered := ob_filtered b + n\<rparr>"
| "add_to_bucket BucketFailed n b = b\<lparr>ob_failed := ob_failed b + n\<rparr>"

definition accumulate_status_count :: "outcome_buckets \<Rightarrow> string \<Rightarrow> int \<Rightarrow> outcome_buckets" where
  \<comment> \<open>an unknown status is only logged\<close>
  "accumulate_status_count buckets status count =
     (case classify_scrape_log_status status of None \<Rightarrow> buckets | Some b \<Rightarrow> add_to_bucket b count buckets)"

definition finalize_outcome_buckets :: "outcome_buckets \<Rightarrow> outcome_buckets" where
  "finalize_outcome_buckets b =
     b\<lparr>ob_total := ob_successful b + ob_unchanged b + ob_filtered b + ob_failed b\<rparr>"

fun accumulate_log_rows ::
    "(string \<times> string \<times> int option) list \<Rightarrow> (string \<times> outcome_buckets) list \<Rightarrow> (string \<times> outcome_buckets) list" where
  \<comment> \<open>the loop over the rows (marketplace, status, count)\<close>
  "accumulate_log_rows [] by_marketplace = by_marketplace"
| "accumulate_log_rows ((marketplace, status, count) # rows) by_marketplace =
     (let before = (case map_of by_marketplace marketplace of None \<Rightarrow> empty_outcome_buckets | Some b \<Rightarrow> b)
      in accumulate_log_rows rows
           (dict_set by_marketplace marketplace
              (accumulate_status_count before status (case count of None \<Rightarrow> 0 | Some n \<Rightarrow> n))))"

definition aggregate_marketplace_log_rows ::
    "(string \<times> string \<times> int option) list \<Rightarrow> (string \<times> outcome_buckets) list" where
  "aggregate_marketplace_log_rows rows =
     map (\<lambda>(m, b). (m, finalize_outcome_buckets b)) (accumulate_log_rows rows [])"

definition add_buckets :: "outcome_buckets \<Rightarrow> outcome_buckets \<Rightarrow> outcome_buckets" where
  "add_buckets totals b =
     totals\<lparr>ob_successful := ob_successful totals + ob_successful b,
            ob_unchanged := ob_unchanged totals + ob_unchanged b,
            ob_filtered := ob_filtered totals + ob_filtered b,
            ob_failed := ob_failed totals + ob_failed b\<rparr>"

definition sum_buckets_across_marketplaces :: "(string \<times> outcome_buckets) list \<Rightarrow> outcome_buckets" where
  "sum_buckets_across_marketplaces by_marketplace =
     finalize_outcome_buckets (foldl add_buckets empty_outcome_buckets (map snd by_marketplace))"

section \<open>Seeds of the child jobs\<close>

record child_job =
  cj_marketplace_id :: string
  cj_domain :: "string option"
  cj_successful :: "int option"
  cj_failed :: "int option"
  cj_duration_ms :: "int option"
  cj_status :: string

record marketplace_seed =
  sd_marketplace_id :: string
  sd_domain :: "string option"
  sd_listings_created :: int
  sd_prices_saved :: int
  sd_errors_count :: int
  sd_duration_ms :: int
  sd_status :: string

definition or_zero :: "int option \<Rightarrow> int" where
  "or_zero n = (case n of None \<Rightarrow> 0 | Some k \<Rightarrow> k)"

definition discovery_seed_of :: "child_job \<Rightarrow> marketplace_seed" where
  "discovery_seed_of c =
     \<lparr> sd_marketplace_id = cj_marketplace_id c, sd_domain = cj_domain c, sd_listings_created = or_zero (cj_successful c),
       sd_prices_saved = 0, sd_errors_count = or_zero (cj_failed c), sd_duration_ms = or_zero (cj_duration_ms c),
       sd_status = cj_status c \<rparr>"

definition scrape_seed_of :: "child_job \<Rightarrow> marketplace_seed" where
  "scrape_seed_of c =
     \<lparr> sd_marketplace_id = cj_marketplace_id c, sd_domain = cj_domain c, sd_listings_created = 0,
       sd_prices_saved = 0, sd_errors_count = 0, sd_duration_ms = or_zero (cj_duration_ms c),
       sd_status = cj_status c \<rparr>"

definition aggregate_children ::
    "(child_job \<Rightarrow> marketplace_seed) \<Rightarrow> child_job list \<Rightarrow> (string \<times> marketplace_seed) list" where
  \<comment> \<open>the loop of both aggregators: a later child of a marketplace replaces an earlier one\<close>
  "aggregate_children seed_of children =
     foldl (\<lambda>d c. dict_set d (cj_marketplace_id c) (seed_of c)) [] children"

definition aggregate_discovery_children :: "child_job list \<Rightarrow> (string \<times> marketplace_seed) list" where
  "aggregate_discovery_children = aggregate_children discovery_seed_of"

definition aggregate_scrape_children :: "child_job list \<Rightarrow> (string \<times> marketplace_seed) list" where
  "aggregate_scrape_children = aggregate_children scrape_seed_of"

definition merge_seed :: "marketplace_seed option \<Rightarrow> marketplace_seed option \<Rightarrow> marketplace_seed option" where
  "merge_seed d s = (case d of
     None \<Rightarrow> s
   | Some x \<Rightarrow> (case s of None \<Rightarrow> Some x | Some y \<Rightarrow> Some (x\<lparr>sd_status := sd_status y, sd_errors_count := sd_errors_count x\<rparr>)))"

definition merge_phase_seeds ::
    "(string \<times> marketplace_seed) list \<Rightarrow> (string \<times> marketplace_seed) list \<Rightarrow> (string \<times> marketplace_seed) list" where
  \<comment> \<open>the ids of both seeds once each; the order of a Python set is immaterial here\<close>
  "merge_phase_seeds discovery_seed scrape_seed =
     List.map_filter (\<lambda>i. map_option (Pair i) (merge_seed (map_of discovery_seed i) (map_of scrape_seed i)))
       (remdups (keys_of discovery_seed @ keys_of scrape_seed))"

section \<open>Completion\<close>

definition decide_parent_status :: "string list \<Rightarrow> string option \<Rightarrow> string" where
  "decide_parent_status seed_statuses hard_error =
     (if hard_error \<noteq> None \<and> hard_error \<noteq> Some [] then ''failed''
      else if seed_statuses = [] then ''failed''
      else
        (let completed_n = length (filter (\<lambda>s. s = ''completed'') seed_statuses);
             noncompleted_n = length seed_statuses - completed_n
         in if noncompleted_n = 0 then ''completed'' else if completed_n = 0 then ''failed'' else ''partial''))"

record merged_entry = marketplace_seed +
  me_buckets :: outcome_buckets

definition merged_of_seed :: "(string \<times> outcome_buckets) list \<Rightarrow> string \<times> marketplace_seed \<Rightarrow> merged_entry" where
  "merged_of_seed stats entry = (case entry of (i, seed) \<Rightarrow>
     let b = (case map_of stats i of None \<Rightarrow> empty_outcome_buckets | Some x \<Rightarrow> x)
     in marketplace_seed.extend
          (seed\<lparr>sd_prices_saved := ob_successful b, sd_errors_count := sd_errors_count seed + ob_failed b\<rparr>)
          \<lparr> me_buckets = b \<rparr>)"

definition merged_of_stats :: "(string \<times> string) list \<Rightarrow> string \<times> outcome_buckets \<Rightarrow> merged_entry" where
  \<comment> \<open>a marketplace with log rows but no seed\<close>
  "merged_of_stats domains entry = (case entry of (i, b) \<Rightarrow>
     \<lparr> sd_marketplace_id = i, sd_domain = map_of domains i, sd_listings_created = 0,
       sd_prices_saved = ob_successful b, sd_errors_count = ob_failed b, sd_duration_ms = 0,
       sd_status = (if 0 < ob_failed b then ''failed'' else ''completed''), me_buckets = b \<rparr>)"

definition merged_entries ::
    "(string \<times> marketplace_seed) list \<Rightarrow> (string \<times> outcome_buckets) list \<Rightarrow> (string \<times> string) list \<Rightarrow> merged_entry list" where
  "merged_entries seeds stats domains =
     map (merged_of_seed stats) seeds
       @ map (merged_of_stats domains) (filter (\<lambda>(i, b). \<not> has_key seeds i) stats)"

record completion =
  co_status :: string
  co_total_ms :: int
  co_listings_created :: int
  co_prices_saved :: int
  co_errors_count :: int
  co_scrape_failed :: int
  co_run_buckets :: outcome_buckets
  co_per_marketplace :: "merged_entry list"

definition complete_pipeline_job ::
    "(string \<times> string \<times> int option) list \<Rightarrow> (string \<times> string) list \<Rightarrow> int \<Rightarrow> int \<Rightarrow> int
      \<Rightarrow> (string \<times> marketplace_seed) list \<Rightarrow> string option \<Rightarrow> completion" where
  \<comment> \<open>what is written on the parent job, from the log rows of its scrape children\<close>
  "complete_pipeline_job log_rows domains discovery_ms scrape_ms persist_ms seeds hard_error =
     (let stats = aggregate_marketplace_log_rows log_rows;
          merged = merged_entries seeds stats domains;
          run_buckets = sum_buckets_across_marketplaces stats
      in \<lparr> co_status = decide_parent_status (map sd_status merged) hard_error,
           co_total_ms = discovery_ms + scrape_ms + persist_ms,
           co_listings_created = sum_list (map sd_listings_created merged),
           co_prices_saved = ob_successful run_buckets,
           co_errors_count = sum_list (map sd_errors_count merged),
           co_scrape_failed = ob_failed run_buckets,
           co_run_buckets = run_buckets, co_per_marketplace = merged \<rparr>)"

section \<open>Sums over dicts\<close>

lemma dict_set_sum:
  fixes f :: "'v \<Rightarrow> int"
  assumes "distinct (keys_of d)"
  shows "sum_list (map (\<lambda>kv. f (snd kv)) (dict_set d k v))
    = sum_list (map (\<lambda>kv. f (snd kv)) d) + f v - (case map_of d k of None \<Rightarrow> 0 | Some u \<Rightarrow> f u)"
  using assms
proof (induction d)
  case Nil
  then show ?case by (simp add: dict_set_def)
next
  case (Cons kv d)
  obtain k' v' where kv: "kv = (k', v')" by (cases kv)
  show ?case
  proof (cases "k' = k")
    case True
    with Cons.prems have "\<not> has_key d k" by (simp add: kv has_key_def)
    then have "map (\<lambda>(k', v'). if k' = k then (k', v) else (k', v')) d = d"
      by (force simp: has_key_def intro!: map_idI)
    with True show ?thesis by (simp add: kv dict_set_def)
  next
    case False
    then have "dict_set (kv # d) k v = kv # dict_set d k v" by (simp add: kv dict_set_def)
    with Cons False show ?thesis by (simp add: kv)
  qed
qed

fun bucket_value :: "outcome_bucket \<Rightarrow> outcome_buckets \<Rightarrow> int" where
  "bucket_value BucketSuccessful b = ob_successful b"
| "bucket_value BucketUnchanged b = ob_unchanged b"
| "bucket_value BucketFiltered b = ob_filtered b"
| "bucket_value BucketFailed b = ob_failed b"

definition rows_in_bucket :: "outcome_bucket \<Rightarrow> (string \<times> string \<times> int option) list \<Rightarrow> int" where
  "rows_in_bucket b rows =
     sum_list (map (\<lambda>(_, _, n). or_zero n) (filter (\<lambda>(_, status, _). classify_scrape_log_status status = Some b) rows))"

lemma bucket_value_empty [simp]: "bucket_value b empty_outcome_buckets = 0"
  by (cases b) (simp_all add: empty_outcome_buckets_def)

lemma bucket_value_add: "bucket_value b (add_to_bucket c n x) = bucket_value b x + (if b = c then n else 0)"
  by (cases b; cases c) simp_all

lemma bucket_value_finalize [simp]: "bucket_value b (finalize_outcome_buckets x) = bucket_value b x"
  by (cases b) (simp_all add: finalize_outcome_buckets_def)

lemma bucket_value_accumulate:
  "bucket_value b (accumulate_status_count x status n)
     = bucket_value b x + (if classify_scrape_log_status status = Some b then n else 0)"
  by (auto simp: accumulate_status_count_def bucket_value_add split: option.splits)

lemma accumulate_distinct: "distinct (keys_of d) \<Longrightarrow> distinct (keys_of (accumulate_log_rows rows d))"
  by (induction rows d rule: accumulate_log_rows.induct) (simp_all add: Let_def distinct_dict_set)

lemma accumulate_keys: "set (keys_of (accumulate_log_rows rows d)) = set (keys_of d) \<union> fst ` set rows"
proof (induction rows d rule: accumulate_log_rows.induct)
  case (2 m status n rows d)
  have "set (keys_of (dict_set d m x)) = insert m (set (keys_of d))" for x
    by (auto simp: keys_dict_set has_key_def)
  with 2 show ?case by (auto simp: Let_def)
qed simp

lemma accumulate_sum:
  "distinct (keys_of d) \<Longrightarrow> sum_list (map (\<lambda>kv. bucket_value b (snd kv)) (accumulate_log_rows rows d))
     = sum_list (map (\<lambda>kv. bucket_value b (snd kv)) d) + rows_in_bucket b rows"
proof (induction rows d rule: accumulate_log_rows.induct)
  case (1 d)
  then show ?case by (simp add: rows_in_bucket_def)
next
  case (2 m status n rows d)
  have "(case n of None \<Rightarrow> 0 | Some k \<Rightarrow> k) = or_zero n" by (simp add: or_zero_def)
  with 2 show ?case
    by (cases "map_of d m")
       (simp_all add: Let_def distinct_dict_set dict_set_sum bucket_value_accumulate rows_in_bucket_def)
qed

lemma aggregate_rows:
  "distinct (keys_of (aggregate_marketplace_log_rows rows))"
  "set (keys_of (aggregate_marketplace_log_rows rows)) = fst ` set rows"
  "sum_list (map (\<lambda>kv. bucket_value b (snd kv)) (aggregate_marketplace_log_rows rows)) = rows_in_bucket b rows"
proof -
  have keys: "keys_of (aggregate_marketplace_log_rows rows) = keys_of (accumulate_log_rows rows [])"
    by (simp add: aggregate_marketplace_log_rows_def comp_def case_prod_beta)
  show "distinct (keys_of (aggregate_marketplace_log_rows rows))" by (simp add: keys accumulate_distinct)
  show "set (keys_of (aggregate_marketplace_log_rows rows)) = fst ` set rows" unfolding keys accumulate_keys by simp
  have "map (\<lambda>kv. bucket_value b (snd kv)) (aggregate_marketplace_log_rows rows)
      = map (\<lambda>kv. bucket_value b (snd kv)) (accumulate_log_rows rows [])"
    by (simp add: aggregate_marketplace_log_rows_def comp_def case_prod_beta)
  then show "sum_list (map (\<lambda>kv. bucket_value b (snd kv)) (aggregate_marketplace_log_rows rows)) = rows_in_bucket b rows"
    using accumulate_sum [of "[]" b rows] by simp
qed

lemma foldl_add_buckets:
  "bucket_value b (foldl add_buckets t xs) = bucket_value b t + sum_list (map (bucket_value b) xs)"
  by (induction xs arbitrary: t) (cases b; simp add: add_buckets_def)+

lemma sum_buckets: "bucket_value b (sum_buckets_across_marketplaces d) = sum_list (map (\<lambda>kv. bucket_value b (snd kv)) d)"
  by (simp add: sum_buckets_across_marketplaces_def foldl_add_buckets comp_def)

definition stats_value :: "(outcome_buckets \<Rightarrow> int) \<Rightarrow> (string \<times> outcome_buckets) list \<Rightarrow> string \<Rightarrow> int" where
  "stats_value f stats i = (case map_of stats i of None \<Rightarrow> 0 | Some b \<Rightarrow> f b)"

lemma not_key_filter: "(\<lambda>(i, b). \<not> has_key d i) = (\<lambda>kv. fst kv \<notin> set (keys_of d))"
  by (simp add: has_key_def case_prod_beta fun_eq_iff)

lemma split_stats_sum:
  assumes "distinct (keys_of stats)" "distinct (keys_of seeds)"
  shows "sum_list (map (stats_value f stats) (keys_of seeds))
      + sum_list (map (\<lambda>kv. f (snd kv)) (filter (\<lambda>(i, b). \<not> has_key seeds i) stats))
    = sum_list (map (\<lambda>kv. f (snd kv)) stats)"
proof -
  let ?g = "stats_value f stats" and ?A = "set (keys_of stats)" and ?B = "set (keys_of seeds)"
  have val: "f (snd kv) = ?g (fst kv)" if "kv \<in> set stats" for kv
    using assms(1) that by (cases kv) (simp add: stats_value_def map_of_is_SomeI)
  have rest: "map (\<lambda>kv. f (snd kv)) (filter (\<lambda>(i, b). \<not> has_key seeds i) stats)
      = map ?g (filter (\<lambda>i. i \<notin> ?B) (keys_of stats))"
    unfolding not_key_filter filter_map map_map comp_def by (rule map_cong) (auto simp del: set_map dest!: val)
  have "sum_list (map (\<lambda>kv. f (snd kv)) stats) = sum_list (map ?g (keys_of stats))"
    by (simp add: val cong: map_cong)
  also have "\<dots> = sum ?g ?A" using assms(1) by (rule sum.distinct_set_conv_list [symmetric])
  also have "\<dots> = sum ?g (?A \<inter> ?B) + sum ?g (?A - ?B)" by (rule sum.Int_Diff) simp
  also have "sum ?g (?A \<inter> ?B) = sum ?g ?B"
  proof (rule sum.mono_neutral_left)
    show "\<forall>i \<in> ?B - ?A \<inter> ?B. ?g i = 0"
      by (force simp: stats_value_def split: option.splits dest: map_of_SomeD)
  qed auto
  also have "sum ?g ?B = sum_list (map ?g (keys_of seeds))" using assms(2) by (rule sum.distinct_set_conv_list)
  also have "?A - ?B = set (filter (\<lambda>i. i \<notin> ?B) (keys_of stats))" by auto
  also have "sum ?g (set (filter (\<lambda>i. i \<notin> ?B) (keys_of stats))) = sum_list (map ?g (filter (\<lambda>i. i \<notin> ?B) (keys_of stats)))"
    using assms(1) by (intro sum.distinct_set_conv_list) simp
  finally show ?thesis by (simp add: rest)
qed

lemma merged_simps:
  "sd_prices_saved (merged_of_seed stats (i, seed)) = stats_value ob_successful stats i"
  "sd_errors_count (merged_of_seed stats (i, seed)) = sd_errors_count seed + stats_value ob_failed stats i"
  "sd_listings_created (merged_of_seed stats (i, seed)) = sd_listings_created seed"
  "sd_status (merged_of_seed stats (i, seed)) = sd_status seed"
  "sd_marketplace_id (merged_of_seed stats (i, seed)) = sd_marketplace_id seed"
  "sd_prices_saved (merged_of_stats domains (i, b)) = ob_successful b"
  "sd_errors_count (merged_of_stats domains (i, b)) = ob_failed b"
  "sd_listings_created (merged_of_stats domains (i, b)) = 0"
  "sd_marketplace_id (merged_of_stats domains (i, b)) = i"
  by (auto simp: merged_of_seed_def merged_of_stats_def marketplace_seed.defs stats_value_def Let_def
      empty_outcome_buckets_def split: option.splits)

lemma merged_sums:
  assumes "distinct (keys_of stats)" "distinct (keys_of seeds)"
  shows "sum_list (map sd_prices_saved (merged_entries seeds stats domains))
      = sum_list (map (\<lambda>kv. ob_successful (snd kv)) stats)"
    and "sum_list (map sd_errors_count (merged_entries seeds stats domains))
      = sum_list (map (\<lambda>kv. sd_errors_count (snd kv)) seeds) + sum_list (map (\<lambda>kv. ob_failed (snd kv)) stats)"
    and "sum_list (map sd_listings_created (merged_entries seeds stats domains))
      = sum_list (map (\<lambda>kv. sd_listings_created (snd kv)) seeds)"
proof -
  have seeds: "map sd_prices_saved (map (merged_of_seed stats) seeds) = map (stats_value ob_successful stats) (keys_of seeds)"
    "map sd_errors_count (map (merged_of_seed stats) seeds)
      = map (\<lambda>kv. sd_errors_count (snd kv) + stats_value ob_failed stats (fst kv)) seeds"
    "map sd_listings_created (map (merged_of_seed stats) seeds) = map (\<lambda>kv. sd_listings_created (snd kv)) seeds"
    by (auto simp: merged_simps)
  have rest: "map sd_prices_saved (map (merged_of_stats domains) ys) = map (\<lambda>kv. ob_successful (snd kv)) ys"
    "map sd_errors_count (map (merged_of_stats domains) ys) = map (\<lambda>kv. ob_failed (snd kv)) ys"
    "sum_list (map sd_listings_created (map (merged_of_stats domains) ys)) = 0" for ys
    by (induction ys) (auto simp: merged_simps)
  note split = split_stats_sum [OF assms]
  show "sum_list (map sd_prices_saved (merged_entries seeds stats domains))
      = sum_list (map (\<lambda>kv. ob_successful (snd kv)) stats)"
    using split [of ob_successful] by (simp only: merged_entries_def map_append seeds rest sum_list_append)
  show "sum_list (map sd_errors_count (merged_entries seeds stats domains))
      = sum_list (map (\<lambda>kv. sd_errors_count (snd kv)) seeds) + sum_list (map (\<lambda>kv. ob_failed (snd kv)) stats)"
    using split [of ob_failed]
    by (simp only: merged_entries_def map_append seeds rest sum_list_append sum_list_addf) (simp add: comp_def)
  show "sum_list (map sd_listings_created (merged_entries seeds stats domains))
      = sum_list (map (\<lambda>kv. sd_listings_created (snd kv)) seeds)"
    by (simp only: merged_entries_def map_append seeds rest sum_list_append add_0_right)
qed

section \<open>Seeds\<close>

lemma aggregate_children_keys:
  "distinct (keys_of (aggregate_children seed_of cs))"
  "set (keys_of (aggregate_children seed_of cs)) = cj_marketplace_id ` set cs"
proof -
  have keys: "set (keys_of (dict_set d k v)) = insert k (set (keys_of d))" for d :: "(string \<times> marketplace_seed) list" and k v
    by (auto simp: keys_dict_set has_key_def)
  show "distinct (keys_of (aggregate_children seed_of cs))"
    by (induction cs rule: rev_induct) (simp_all add: aggregate_children_def distinct_dict_set)
  show "set (keys_of (aggregate_children seed_of cs)) = cj_marketplace_id ` set cs"
    by (induction cs rule: rev_induct) (simp_all add: aggregate_children_def keys del: set_map)
qed

lemma aggregate_children_lookup:
  "map_of (aggregate_children seed_of cs) i
     = map_option seed_of (find (\<lambda>c. cj_marketplace_id c = i) (rev cs))"
  by (induction cs rule: rev_induct) (simp_all add: aggregate_children_def map_of_dict_set)

lemma merge_phase_keys:
  "distinct (keys_of (merge_phase_seeds d s))"
  "set (keys_of (merge_phase_seeds d s)) = set (keys_of d) \<union> set (keys_of s)"
proof -
  let ?f = "\<lambda>i. merge_seed (map_of d i) (map_of s i)" and ?ids = "remdups (keys_of d @ keys_of s)"
  have none: "?f i = None \<longleftrightarrow> map_of d i = None \<and> map_of s i = None" for i
    by (simp add: merge_seed_def split: option.splits)
  have some: "\<exists>x. ?f i = Some x" if "i \<in> set ?ids" for i
  proof (rule ccontr)
    assume "\<nexists>x. ?f i = Some x"
    then have "?f i = None" by (cases "?f i") auto
    with none have "\<not> has_key d i" "\<not> has_key s i" by (simp_all add: not_has_key_None)
    with that show False by (simp add: has_key_def)
  qed
  have gen: "keys_of (List.map_filter (\<lambda>i. map_option (Pair i) (?f i)) is) = is" if "set is \<subseteq> set ?ids" for "is"
    using that
  proof (induction "is")
    case (Cons i "is")
    with some obtain x where "?f i = Some x" by (metis list.set_intros(1) subsetD)
    with Cons show ?case by (simp add: List.map_filter_simps)
  qed (simp add: List.map_filter_simps)
  have eq: "keys_of (merge_phase_seeds d s) = ?ids"
    unfolding merge_phase_seeds_def by (rule gen) (rule subset_refl)
  then show "distinct (keys_of (merge_phase_seeds d s))"
    "set (keys_of (merge_phase_seeds d s)) = set (keys_of d) \<union> set (keys_of s)" by simp_all
qed

text \<open>
  C7: The account of a pipeline run is closed, whatever its children and log rows: the run
  totals are the sums of the log rows with a known status, the prices and errors of the
  per-marketplace entries add up to those of the run (errors together with the discovery
  errors of the seeds), the listings created are those of the seeds, and there is exactly one
  entry for every marketplace with a child job or a log row.
\<close>

theorem completion_accounts:
  fixes rows domains and ds ss :: "child_job list"
  defines "seeds \<equiv> merge_phase_seeds (aggregate_discovery_children ds) (aggregate_scrape_children ss)"
  shows "let c = complete_pipeline_job rows domains d s p seeds err in
      ob_total (co_run_buckets c) =
        sum_list (map (\<lambda>(_, _, n). or_zero n) (filter (\<lambda>(_, status, _). classify_scrape_log_status status \<noteq> None) rows))
      \<and> co_prices_saved c = sum_list (map sd_prices_saved (co_per_marketplace c))
      \<and> co_errors_count c = sum_list (map (\<lambda>kv. sd_errors_count (snd kv)) seeds) + co_scrape_failed c
      \<and> co_listings_created c = sum_list (map (\<lambda>kv. sd_listings_created (snd kv)) seeds)
      \<and> distinct (keys_of seeds) \<and> length (co_per_marketplace c) = card (cj_marketplace_id ` set (ds @ ss) \<union> fst ` set rows)"
proof -
  let ?stats = "aggregate_marketplace_log_rows rows"
  have dist: "distinct (keys_of seeds)"
    and keys: "set (keys_of seeds) = cj_marketplace_id ` set (ds @ ss)"
    by (auto simp: seeds_def merge_phase_keys aggregate_discovery_children_def aggregate_scrape_children_def
        aggregate_children_keys simp del: set_map)
  note stats = aggregate_rows(1,2) [of rows] aggregate_rows(3) [where rows = rows]
  note sums = merged_sums [OF stats(1) dist, where domains = domains]
  have run: "bucket_value b (sum_buckets_across_marketplaces ?stats) = rows_in_bucket b rows" for b
    by (simp add: sum_buckets stats(3))
  have known: "rows_in_bucket BucketSuccessful rows + rows_in_bucket BucketUnchanged rows
      + rows_in_bucket BucketFiltered rows + rows_in_bucket BucketFailed rows
    = sum_list (map (\<lambda>(_, _, n). or_zero n) (filter (\<lambda>(_, status, _). classify_scrape_log_status status \<noteq> None) rows))"
  proof (induction rows)
    case (Cons r rows)
    obtain m st n where r: "r = (m, st, n)" by (cases r)
    show ?case
    proof (cases "classify_scrape_log_status st")
      case None
      with Cons show ?thesis by (simp add: r rows_in_bucket_def)
    next
      case (Some b)
      with Cons show ?thesis by (cases b) (simp_all add: r rows_in_bucket_def)
    qed
  qed (simp add: rows_in_bucket_def)
  have total: "ob_total (sum_buckets_across_marketplaces ?stats)
      = rows_in_bucket BucketSuccessful rows + rows_in_bucket BucketUnchanged rows
        + rows_in_bucket BucketFiltered rows + rows_in_bucket BucketFailed rows"
    using run [of BucketSuccessful] run [of BucketUnchanged] run [of BucketFiltered] run [of BucketFailed]
    by (simp add: sum_buckets_across_marketplaces_def finalize_outcome_buckets_def)
  have len: "length (merged_entries seeds ?stats domains) = card (cj_marketplace_id ` set (ds @ ss) \<union> fst ` set rows)"
  proof -
    let ?rest = "filter (\<lambda>i. i \<notin> set (keys_of seeds)) (keys_of ?stats)"
    have "length (filter (\<lambda>(i, b). \<not> has_key seeds i) ?stats) = length ?rest"
      by (simp add: not_key_filter filter_map comp_def)
    moreover have "length ?rest = card (set ?rest)" "length seeds = card (set (keys_of seeds))"
      using stats(1) dist distinct_card [of ?rest] distinct_card [of "keys_of seeds"] by simp_all
    moreover have "card (set (keys_of seeds) \<union> set ?rest) = card (set (keys_of seeds)) + card (set ?rest)"
      by (rule card_Un_disjoint) auto
    moreover have "set (keys_of seeds) \<union> set ?rest = cj_marketplace_id ` set (ds @ ss) \<union> fst ` set rows"
      using keys stats(2) by auto
    ultimately show ?thesis by (simp add: merged_entries_def)
  qed
  show ?thesis
    using sums total known run [of BucketSuccessful] run [of BucketFailed] stats(3) [where b = BucketSuccessful]
      stats(3) [where b = BucketFailed] dist len
    by (simp add: complete_pipeline_job_def Let_def)
qed

section \<open>Statuses and verdicts\<close>

text \<open>
  The statuses that a scrape log may have in the database are exactly the canonical ones,
  each of which falls into one bucket; any other status falls into none.
\<close>

theorem log_statuses_bucketed:
  "\<exists>vs. check_values_for_table (tm_args ScrapeLog) ''status'' = Inr (Some vs)
     \<and> set vs = set CANONICAL_SCRAPE_LOG_STATUSES
     \<and> set vs = {s. classify_scrape_log_status s \<noteq> None}
     \<and> distinct CANONICAL_SCRAPE_LOG_STATUSES"
proof -
  let ?all = "TERMINAL_SUCCESSFUL @ TERMINAL_UNCHANGED @ TERMINAL_FILTERED @ TERMINAL_FAILED"
  have "case check_values_for_table (tm_args ScrapeLog) ''status'' of
      Inr (Some vs) \<Rightarrow> list_all (\<lambda>v. v \<in> set ?all) vs \<and> list_all (\<lambda>v. v \<in> set vs) ?all | _ \<Rightarrow> False"
    by code_simp
  then obtain vs where vs: "check_values_for_table (tm_args ScrapeLog) ''status'' = Inr (Some vs)" "set vs = set ?all"
    by (auto simp: list_all_iff split: sum.splits option.splits)
  moreover have "set ?all = {s. classify_scrape_log_status s \<noteq> None}"
    by (auto simp: classify_scrape_log_status_def split: if_splits)
  moreover have "distinct ?all" by code_simp
  ultimately show ?thesis by (auto simp: CANONICAL_SCRAPE_LOG_STATUSES_def simp del: set_append)
qed

text \<open>Two scrape children of one marketplace, and the verdict on a run without log rows.\<close>

definition scrape_child_of :: "string \<Rightarrow> string \<Rightarrow> child_job" where
  "scrape_child_of marketplace status =
     \<lparr> cj_marketplace_id = marketplace, cj_domain = None, cj_successful = None, cj_failed = None,
       cj_duration_ms = None, cj_status = status \<rparr>"

definition parent_verdict :: "child_job list \<Rightarrow> child_job list \<Rightarrow> string" where
  "parent_verdict ds ss = co_status (complete_pipeline_job [] [] 0 0 0
     (merge_phase_seeds (aggregate_discovery_children ds) (aggregate_scrape_children ss)) None)"

text \<open>
  The aggregation keeps the last child of a marketplace in the order in which the database
  returns the children, which the query leaves open; so the verdict on a run depends on that
  order: a run whose only marketplace was scraped twice, first up to the deadline and then to
  the end, is completed in one order and failed in the other.
\<close>

theorem last_child_decides:
  "map_of (aggregate_scrape_children ss) i = map_option scrape_seed_of (find (\<lambda>c. cj_marketplace_id c = i) (rev ss))
   \<and> parent_verdict [] [scrape_child_of ''m'' ''partial'', scrape_child_of ''m'' ''completed''] = ''completed''
   \<and> parent_verdict [] [scrape_child_of ''m'' ''completed'', scrape_child_of ''m'' ''partial''] = ''failed''"
proof (intro conjI)
  show "map_of (aggregate_scrape_children ss) i = map_option scrape_seed_of (find (\<lambda>c. cj_marketplace_id c = i) (rev ss))"
    by (simp add: aggregate_scrape_children_def aggregate_children_lookup)
qed code_simp+

end
