(* ===== verification/Orchestrator.thy ===== *)
theory Orchestrator
  imports Complex_Main Pipeline "HOL-Library.Option_ord" "HOL-Library.Product_Lexorder"
begin

text \<open>
  The tick of the pipeline orchestrator (\<open>scraper/pipeline/tick_orchestrator.py\<close>). All state is
  in the parent job and its children, so a tick is a function of that state. Instants are
  microseconds; one clock reading serves a tick. Any call of the database or the broker may
  raise, by a predicate on its name in the environment; the gate may refuse a write.
\<close>

section \<open>Constants\<close>

definition TICK_MIN_SECONDS :: rat where "TICK_MIN_SECONDS = 5"
definition TICK_MAX_SECONDS :: rat where "TICK_MAX_SECONDS = 60"
definition TICK_BACKOFF_FACTOR :: rat where "TICK_BACKOFF_FACTOR = 2"
definition MAX_PARALLEL_DISCOVERY :: nat where "MAX_PARALLEL_DISCOVERY = 2"
definition MAX_PARALLEL_SCRAPE :: nat where "MAX_PARALLEL_SCRAPE = 2"

definition seconds :: "int \<Rightarrow> int" where
  "seconds n = n * 1000000"

definition CHILD_PENDING_RECONCILE_SECONDS :: int where "CHILD_PENDING_RECONCILE_SECONDS = 120"
definition CHILD_RUNNING_REAP_SECONDS :: int where "CHILD_RUNNING_REAP_SECONDS = 900 + 120"
definition SCRAPE_CHILD_RUNNING_REAP_SECONDS :: int where "SCRAPE_CHILD_RUNNING_REAP_SECONDS = 960 + 120"

definition next_backoff :: "rat \<Rightarrow> bool \<Rightarrow> rat" where
  \<comment> \<open>doubling and the minimum are exact on floats\<close>
  "next_backoff current dispatched =
     (if dispatched then TICK_MIN_SECONDS
      else if current \<le> 0 then TICK_MIN_SECONDS
      else min (current * TICK_BACKOFF_FACTOR) TICK_MAX_SECONDS)"

section \<open>State\<close>

record marketplace =
  mk_id :: string
  mk_code :: string
  mk_domain :: "string option"
  mk_is_active :: bool

record orch_child = child_job +
  oc_id :: nat
  oc_job_type :: string
  oc_created_at :: int
  oc_started_at :: "int option"

text \<open>The part of the parent's metadata that the tick reads or writes.\<close>

record tick_meta =
  tm_phase :: "string option"
  tm_marketplace_codes :: "string list option"
  tm_mp_queue :: "string list"
  tm_mp_total :: nat
  tm_tick_count :: nat
  tm_backoff_s :: "rat option"
  tm_discovery_done :: int
  tm_scrape_codes :: "string list option"
  tm_scrape_queue :: "string list option"
  tm_scrape_total :: nat
  tm_scrape_done :: nat
  tm_last_dispatched_at :: "(string \<times> int) list"
  tm_scrape_phase_started_at :: "int option"
  tm_current_stage :: string
  tm_last_activity_at :: "int option"
  tm_scrape_error :: "string option"

record orch_state =
  os_now :: int
  os_marketplaces :: "marketplace list"
  os_unchecked :: "string \<Rightarrow> int \<Rightarrow> nat"
  os_children :: "orch_child list"
  os_parent :: "(string \<times> tick_meta) option"
  os_sent :: "(string \<times> nat) list"
  os_scheduled :: "rat list"
  os_next_id :: nat
  os_log_rows :: "nat list \<Rightarrow> (string \<times> string \<times> int option) list"
  os_completions :: "completion list"

record tick_env =
  te_fails :: "string \<Rightarrow> bool"
  te_insert_ok :: "orch_child \<Rightarrow> bool"
  te_update_ok :: "nat \<Rightarrow> bool"
  te_metadata_ok :: "tick_meta \<Rightarrow> bool"
  te_completion_ok :: "completion \<Rightarrow> bool"

datatype tick_lock = LockRaised | LockHeld | LockAcquired

type_synonym 'a tick = "(orch_state, 'a) act"

definition external :: "tick_env \<Rightarrow> string \<Rightarrow> unit tick" where
  \<comment> \<open>a call that leaves the process\<close>
  "external env name = (if te_fails env name then raiseA (DBAPIError name) else retA ())"

definition query :: "tick_env \<Rightarrow> string \<Rightarrow> (orch_state \<Rightarrow> 'a) \<Rightarrow> 'a tick" where
  "query env name f = bindA (external env name) (\<lambda>_ s. (Inr (f s), s))"

definition modifyA :: "(orch_state \<Rightarrow> orch_state) \<Rightarrow> unit tick" where
  "modifyA f s = (Inr (), f s)"

definition schedule :: "rat \<Rightarrow> orch_state \<Rightarrow> orch_state" where
  "schedule countdown s = s\<lparr>os_scheduled := os_scheduled s @ [countdown]\<rparr>"

definition send_task :: "tick_env \<Rightarrow> string \<Rightarrow> nat \<Rightarrow> unit tick" where
  "send_task env task child =
     bindA (external env ''apply_async'') (\<lambda>_. modifyA (\<lambda>s. s\<lparr>os_sent := os_sent s @ [(task, child)]\<rparr>))"

section \<open>Children\<close>

definition is_active_child :: "string \<Rightarrow> orch_child \<Rightarrow> bool" where
  "is_active_child job_type c = (oc_job_type c = job_type \<and> cj_status c \<in> {''pending'', ''running''})"

definition active_children :: "string \<Rightarrow> orch_state \<Rightarrow> nat" where
  "active_children job_type s = length (filter (is_active_child job_type) (os_children s))"

definition count_active_children :: "tick_env \<Rightarrow> string \<Rightarrow> nat tick" where
  "count_active_children env job_type = query env ''count_active'' (active_children job_type)"

definition active_codes :: "string list option \<Rightarrow> orch_state \<Rightarrow> string list" where
  "active_codes codes_filter s =
     sort (map mk_code (filter (\<lambda>m. mk_is_active m
       \<and> (case codes_filter of None \<Rightarrow> True | Some cs \<Rightarrow> cs = [] \<or> mk_code m \<in> set cs)) (os_marketplaces s)))"

definition marketplace_codes_filter :: "tick_meta \<Rightarrow> string list option" where
  "marketplace_codes_filter meta = (case tm_marketplace_codes meta of
     None \<Rightarrow> None
   | Some raw \<Rightarrow> (case filter (\<lambda>c. c \<noteq> []) (map py_strip raw) of [] \<Rightarrow> None | codes \<Rightarrow> Some codes))"

definition pending_child :: "string \<Rightarrow> marketplace \<Rightarrow> orch_state \<Rightarrow> orch_child" where
  "pending_child job_type m s =
     \<lparr> cj_marketplace_id = mk_id m,
       cj_domain = Some (py_strip (case mk_domain m of None \<Rightarrow> '''' | Some d \<Rightarrow> d)),
       cj_successful = Some 0, cj_failed = Some 0, cj_duration_ms = None, cj_status = ''pending'',
       oc_id = os_next_id s, oc_job_type = job_type, oc_created_at = os_now s, oc_started_at = None \<rparr>"

definition create_pending_child :: "tick_env \<Rightarrow> string \<Rightarrow> string \<Rightarrow> nat option tick" where
  \<comment> \<open>no child for a marketplace that is not active, nor when the gate refuses the row\<close>
  "create_pending_child env job_type code =
     bindA (query env ''marketplace'' (\<lambda>s. find (\<lambda>m. mk_code m = code \<and> mk_is_active m) (os_marketplaces s))) (\<lambda>found.
       case found of None \<Rightarrow> retA None
       | Some m \<Rightarrow>
           bindA (external env ''insert'') (\<lambda>_ s.
             let child = pending_child job_type m s; s1 = s\<lparr>os_next_id := Suc (os_next_id s)\<rparr>
             in if te_insert_ok env child
                then (Inr (Some (oc_id child)), s1\<lparr>os_children := os_children s @ [child]\<rparr>)
                else (Inr None, s1)))"

definition is_stale :: "string \<Rightarrow> int \<Rightarrow> int \<Rightarrow> orch_child \<Rightarrow> bool" where
  "is_stale job_type limit now c =
     (oc_job_type c = job_type \<and> cj_status c = ''running''
      \<and> (case oc_started_at c of None \<Rightarrow> False | Some t \<Rightarrow> t < now - seconds limit))"

definition float_times :: "pyfloat \<Rightarrow> int \<Rightarrow> pyfloat" where
  \<comment> \<open>a finite double times a positive int that is itself a double\<close>
  "float_times f k = (case f of
     FFin neg m e \<Rightarrow> round_ratio neg (k * float_num m e) (float_den e) | _ \<Rightarrow> f)"

definition float_trunc :: "pyfloat \<Rightarrow> int" where
  \<comment> \<open>\<open>int(x)\<close> of a finite double\<close>
  "float_trunc f = (case f of
     FFin neg m e \<Rightarrow> (if neg then - (float_num m e div float_den e) else float_num m e div float_den e) | _ \<Rightarrow> 0)"

definition duration_ms :: "int \<Rightarrow> int" where
  \<comment> \<open>\<open>int(delta.total_seconds() * 1000)\<close> of a difference in microseconds\<close>
  "duration_ms us = float_trunc (float_times (round_ratio (us < 0) \<bar>us\<bar> 1000000) 1000)"

definition mark_failed :: "int \<Rightarrow> orch_child \<Rightarrow> orch_child" where
  \<comment> \<open>the columns of \<open>build_scrape_job_failed_fields\<close>\<close>
  "mark_failed now c =
     c\<lparr>cj_status := ''failed'',
       cj_duration_ms := Some (duration_ms (now - (case oc_started_at c of None \<Rightarrow> now | Some t \<Rightarrow> t)))\<rparr>"

definition reap_stale_children :: "tick_env \<Rightarrow> string \<Rightarrow> int \<Rightarrow> nat tick" where
  "reap_stale_children env job_type limit =
     bindA (external env ''reap'') (\<lambda>_ s.
       let reaped = (\<lambda>c. is_stale job_type limit (os_now s) c \<and> te_update_ok env (oc_id c))
       in (Inr (length (filter reaped (os_children s))),
           s\<lparr>os_children := map (\<lambda>c. if reaped c then mark_failed (os_now s) c else c) (os_children s)\<rparr>))"

fun send_all :: "tick_env \<Rightarrow> string \<Rightarrow> nat list \<Rightarrow> unit tick" where
  "send_all env task [] = retA ()"
| "send_all env task (c # cs) = bindA (send_task env task c) (\<lambda>_. send_all env task cs)"

definition reconcile_pending_children :: "tick_env \<Rightarrow> string \<Rightarrow> string \<Rightarrow> nat tick" where
  "reconcile_pending_children env job_type task =
     bindA (query env ''reconcile'' (\<lambda>s. map oc_id (filter (\<lambda>c. oc_job_type c = job_type
         \<and> cj_status c = ''pending'' \<and> oc_created_at c < os_now s - seconds CHILD_PENDING_RECONCILE_SECONDS)
         (os_children s)))) (\<lambda>ids.
     bindA (send_all env task ids) (\<lambda>_. retA (length ids)))"

text \<open>The siblings of these helpers for the children of the scrape phase.\<close>

abbreviation count_active_scrape_children :: "tick_env \<Rightarrow> nat tick" where
  "count_active_scrape_children env \<equiv> count_active_children env ''scrape''"

abbreviation create_pending_scrape_child :: "tick_env \<Rightarrow> string \<Rightarrow> nat option tick" where
  "create_pending_scrape_child env \<equiv> create_pending_child env ''scrape''"

abbreviation reap_stale_scrape_children :: "tick_env \<Rightarrow> nat tick" where
  "reap_stale_scrape_children env \<equiv> reap_stale_children env ''scrape'' SCRAPE_CHILD_RUNNING_REAP_SECONDS"

abbreviation reconcile_pending_scrape_children :: "tick_env \<Rightarrow> nat tick" where
  "reconcile_pending_scrape_children env \<equiv> reconcile_pending_children env ''scrape'' ''scrape_one_marketplace''"

section \<open>Metadata\<close>

definition touch :: "tick_env \<Rightarrow> tick_meta \<Rightarrow> string \<Rightarrow> unit tick" where
  \<comment> \<open>what the gate refuses is not stored, and the result of the write is not looked at\<close>
  "touch env meta stage =
     bindA (external env ''touch'') (\<lambda>_. modifyA (\<lambda>s.
       let meta' = meta\<lparr>tm_last_activity_at := Some (os_now s), tm_current_stage := stage\<rparr>
       in case os_parent s of
            Some (status, old) \<Rightarrow> if te_metadata_ok env meta' then s\<lparr>os_parent := Some (status, meta')\<rparr> else s
          | None \<Rightarrow> s))"

definition backoff_of :: "tick_meta \<Rightarrow> rat" where
  "backoff_of meta = (case tm_backoff_s meta of None \<Rightarrow> TICK_MIN_SECONDS | Some b \<Rightarrow> b)"

definition tick_again :: "tick_env \<Rightarrow> tick_meta \<Rightarrow> string \<Rightarrow> bool \<Rightarrow> string tick" where
  "tick_again env meta stage dispatched =
     (let backoff = next_backoff (backoff_of meta) dispatched
      in bindA (touch env (meta\<lparr>tm_backoff_s := Some backoff\<rparr>) stage) (\<lambda>_.
         thenA (schedule backoff) (retA ''ticking'')))"

definition advance_phase :: "tick_env \<Rightarrow> tick_meta \<Rightarrow> string \<Rightarrow> string \<Rightarrow> string tick" where
  "advance_phase env meta phase stage =
     bindA (touch env (meta\<lparr>tm_phase := Some phase, tm_backoff_s := Some TICK_MIN_SECONDS\<rparr>) stage) (\<lambda>_.
       thenA (schedule TICK_MIN_SECONDS) (retA ''phase_advanced''))"

section \<open>Discovery\<close>

fun discovery_dispatch ::
    "tick_env \<Rightarrow> string list \<Rightarrow> nat \<Rightarrow> bool \<Rightarrow> (string list \<times> nat \<times> bool) tick" where
  \<comment> \<open>a marketplace for which no child is created is dropped from the queue\<close>
  "discovery_dispatch env [] active dispatched = retA ([], active, dispatched)"
| "discovery_dispatch env (code # queue) active dispatched =
     (if active < MAX_PARALLEL_DISCOVERY then
        bindA (create_pending_child env ''discovery'' code) (\<lambda>child. case child of
            None \<Rightarrow> discovery_dispatch env queue active dispatched
          | Some c \<Rightarrow>
              bindA (external env ''commit'') (\<lambda>_.
              bindA (send_task env ''discover_one_marketplace'' c) (\<lambda>_.
                discovery_dispatch env queue (Suc active) True)))
      else retA (code # queue, active, dispatched))"

definition discovery_phase :: "tick_env \<Rightarrow> tick_meta \<Rightarrow> bool \<Rightarrow> string tick" where
  "discovery_phase env meta dispatched0 =
     bindA (count_active_children env ''discovery'') (\<lambda>active0.
     bindA (discovery_dispatch env (tm_mp_queue meta) active0 dispatched0) (\<lambda>(queue, active, dispatched).
       let finished = int (tm_mp_total meta) - int (length queue) - int active;
           meta' = meta\<lparr>tm_mp_queue := queue, tm_discovery_done := max 0 finished\<rparr>
       in if queue = [] \<and> active = 0 then advance_phase env meta' ''scrape'' ''scrape''
          else tick_again env meta' ''discovery'' dispatched))"

section \<open>Scraping\<close>

definition cohort_remainder :: "int option \<Rightarrow> orch_state \<Rightarrow> string \<Rightarrow> nat" where
  \<comment> \<open>the active listings of the marketplace not checked since the anchor, or for six hours\<close>
  "cohort_remainder anchor s code =
     os_unchecked s code (case anchor of None \<Rightarrow> os_now s - seconds (6 * 3600) | Some t \<Rightarrow> t)"

definition scraped_codes :: "orch_state \<Rightarrow> string list" where
  \<comment> \<open>codes of the marketplaces with an active scrape child\<close>
  "scraped_codes s = concat (map (\<lambda>c. map mk_code (filter (\<lambda>m. mk_id m = cj_marketplace_id c) (os_marketplaces s)))
     (filter (is_active_child ''scrape'') (os_children s)))"

definition build_scrape_dispatch_queue ::
    "int option \<Rightarrow> string list \<Rightarrow> orch_state \<Rightarrow> string list \<times> nat \<times> (string \<Rightarrow> nat)" where
  "build_scrape_dispatch_queue anchor all_codes s =
     (let remainder = cohort_remainder anchor s
      in (filter (\<lambda>code. remainder code \<noteq> 0 \<and> code \<notin> set (scraped_codes s)) all_codes,
          length (filter (\<lambda>code. remainder code = 0) all_codes), remainder))"

definition dispatch_key :: "(string \<times> int) list \<Rightarrow> (string \<Rightarrow> nat) \<Rightarrow> string \<Rightarrow> int option \<times> int \<times> string" where
  "dispatch_key last_dispatched remainders code =
     (map_of last_dispatched code, - int (remainders code), code)"

definition pick_next_scrape_marketplace ::
    "string list \<Rightarrow> (string \<times> int) list \<Rightarrow> (string \<Rightarrow> nat) \<Rightarrow> string" where
  \<comment> \<open>never dispatched before dispatched long ago\<close>
  "pick_next_scrape_marketplace eligible last_dispatched remainders =
     hd (sort_key (dispatch_key last_dispatched remainders) eligible)"

lemma pick_in: "eligible \<noteq> [] \<Longrightarrow> pick_next_scrape_marketplace eligible d r \<in> set eligible"
  unfolding pick_next_scrape_marketplace_def
  by (metis hd_in_set length_0_conv length_sort set_sort)

function scrape_dispatch ::
    "tick_env \<Rightarrow> (string \<Rightarrow> nat) \<Rightarrow> string list \<Rightarrow> (string \<times> int) list \<Rightarrow> nat \<Rightarrow> bool
      \<Rightarrow> (string list \<times> (string \<times> int) list \<times> nat \<times> bool) tick" where
  "scrape_dispatch env remainders queue last_dispatched active dispatched =
     (if active < MAX_PARALLEL_SCRAPE \<and> queue \<noteq> [] then
        (let code = pick_next_scrape_marketplace queue last_dispatched remainders
         in bindA (create_pending_scrape_child env code) (\<lambda>child. case child of
              None \<Rightarrow> scrape_dispatch env remainders (remove1 code queue) last_dispatched active dispatched
            | Some c \<Rightarrow>
                bindA (external env ''commit'') (\<lambda>_.
                bindA (send_task env ''scrape_one_marketplace'' c) (\<lambda>_.
                bindA (\<lambda>s. (Inr (os_now s), s)) (\<lambda>now.
                  scrape_dispatch env remainders (remove1 code queue)
                    (dict_set last_dispatched code now) (Suc active) True)))))
      else retA (queue, last_dispatched, active, dispatched))"
  by pat_completeness auto
termination
  by (relation "measure (\<lambda>(env, r, queue, d, a, x). length queue)")
     (auto simp: length_remove1 pick_in)

declare scrape_dispatch.simps [simp del]

definition begin_scrape :: "orch_state \<Rightarrow> tick_meta \<Rightarrow> tick_meta" where
  "begin_scrape s meta =
     (let codes = active_codes (marketplace_codes_filter meta) s
      in meta\<lparr>tm_scrape_codes := Some codes, tm_scrape_queue := Some codes, tm_scrape_total := length codes,
              tm_scrape_phase_started_at := Some (os_now s)\<rparr>)"

definition codes_or :: "string list option \<Rightarrow> string list \<Rightarrow> string list" where
  \<comment> \<open>\<open>xs or ys\<close>\<close>
  "codes_or xs ys = (case xs of None \<Rightarrow> ys | Some cs \<Rightarrow> if cs = [] then ys else cs)"

definition scrape_step :: "tick_env \<Rightarrow> tick_meta \<Rightarrow> bool \<Rightarrow> string tick" where
  "scrape_step env meta dispatched0 =
     (let anchor = tm_scrape_phase_started_at meta;
          all_codes = codes_or (tm_scrape_codes meta) (codes_or (tm_scrape_queue meta) [])
      in bindA (reap_stale_scrape_children env) (\<lambda>_.
         bindA (reconcile_pending_scrape_children env) (\<lambda>reapplied.
         bindA (count_active_scrape_children env) (\<lambda>active0.
         bindA (query env ''cohort'' (build_scrape_dispatch_queue anchor all_codes)) (\<lambda>(queue0, drained, remainders).
         bindA (scrape_dispatch env remainders queue0 (tm_last_dispatched_at meta) active0 (dispatched0 \<or> 0 < reapplied))
           (\<lambda>(queue, last_dispatched, active, dispatched).
              let meta' = meta\<lparr>tm_last_dispatched_at := last_dispatched, tm_scrape_queue := Some queue,
                               tm_scrape_done := drained\<rparr>
              in if queue = [] \<and> active = 0 \<and> (all_codes = [] \<or> drained = length all_codes)
                 then advance_phase env meta' ''complete'' ''persist''
                 else tick_again env meta' ''scrape'' dispatched))))))"

definition scrape_phase :: "tick_env \<Rightarrow> tick_meta \<Rightarrow> bool \<Rightarrow> string tick" where
  "scrape_phase env meta dispatched =
     bindA (if tm_scrape_queue meta = None then query env ''active_codes'' (\<lambda>s. begin_scrape s meta)
            else retA meta) (\<lambda>meta'. scrape_step env meta' dispatched)"

section \<open>Completion\<close>

definition complete_phase :: "tick_env \<Rightarrow> tick_meta \<Rightarrow> string tick" where
  "complete_phase env meta =
     bindA (query env ''aggregate'' (\<lambda>s.
       let discovery = filter (\<lambda>c. oc_job_type c = ''discovery'') (os_children s);
           scrape = filter (\<lambda>c. oc_job_type c = ''scrape'') (os_children s)
       in complete_pipeline_job (os_log_rows s (map oc_id scrape))
            (List.map_filter (\<lambda>m. map_option (Pair (mk_id m)) (mk_domain m)) (os_marketplaces s)) 0 0 0
            (merge_phase_seeds (aggregate_discovery_children (map child_job.truncate discovery))
                               (aggregate_scrape_children (map child_job.truncate scrape)))
            (tm_scrape_error meta))) (\<lambda>result.
     bindA (external env ''completion'') (\<lambda>_.
     bindA (modifyA (\<lambda>s. case os_parent s of
         Some (_, stored) \<Rightarrow>
           if te_completion_ok env result
           then s\<lparr>os_parent := Some (co_status result, meta\<lparr>tm_current_stage := co_status result,
                                       tm_last_activity_at := Some (os_now s)\<rparr>),
                  os_completions := os_completions s @ [result]\<rparr>
           else s
       | None \<Rightarrow> s)) (\<lambda>_. retA ''complete'')))"

section \<open>The tick\<close>

definition begin_discovery :: "orch_state \<Rightarrow> tick_meta \<Rightarrow> tick_meta" where
  "begin_discovery s meta =
     (let codes = active_codes (marketplace_codes_filter meta) s
      in meta\<lparr>tm_phase := Some ''discovery'', tm_mp_queue := codes, tm_mp_total := length codes,
              tm_tick_count := 0, tm_backoff_s := Some TICK_MIN_SECONDS\<rparr>)"

definition tick_step :: "tick_env \<Rightarrow> tick_meta \<Rightarrow> string tick" where
  "tick_step env meta =
     bindA (reap_stale_children env ''discovery'' CHILD_RUNNING_REAP_SECONDS) (\<lambda>_.
     bindA (reconcile_pending_children env ''discovery'' ''discover_one_marketplace'') (\<lambda>reapplied.
       if tm_phase meta = Some ''discovery'' then discovery_phase env meta (0 < reapplied)
       else if tm_phase meta = Some ''scrape'' then scrape_phase env meta (0 < reapplied)
       else if tm_phase meta = Some ''complete'' then complete_phase env meta
       else retA ''unknown_phase''))"

definition tick_running :: "tick_env \<Rightarrow> tick_meta \<Rightarrow> string tick" where
  "tick_running env stored =
     bindA (if tm_phase stored = None then query env ''active_codes'' (\<lambda>s. begin_discovery s stored)
            else retA stored) (\<lambda>meta. tick_step env (meta\<lparr>tm_tick_count := Suc (tm_tick_count meta)\<rparr>))"

definition tick_body :: "tick_env \<Rightarrow> string tick" where
  "tick_body env =
     bindA (query env ''load'' os_parent) (\<lambda>job. case job of
       None \<Rightarrow> retA ''not_found''
     | Some (status, stored) \<Rightarrow>
         if status \<noteq> ''running'' then retA ''stopped'' else tick_running env stored)"

definition needs_tick :: "tick_env \<Rightarrow> orch_state \<Rightarrow> bool" where
  \<comment> \<open>the condition of the safety net on what was loaded\<close>
  "needs_tick env s = (\<not> te_fails env ''load'' \<and> (case os_parent s of
     None \<Rightarrow> False
   | Some (status, stored) \<Rightarrow> status = ''running'' \<and> tm_phase stored \<in> {None, Some ''discovery'', Some ''scrape''}))"

definition run_tick :: "tick_env \<Rightarrow> tick_lock \<Rightarrow> string tick" where
  "run_tick env lock s = (case lock of
     LockRaised \<Rightarrow> (Inr ''lock_error'', schedule TICK_MIN_SECONDS s)
   | LockHeld \<Rightarrow> (Inr ''locked'', schedule TICK_MAX_SECONDS s)
   | LockAcquired \<Rightarrow>
       (case tick_body env s of (res, s') \<Rightarrow>
          (res, if os_scheduled s' = os_scheduled s \<and> needs_tick env s then schedule TICK_MIN_SECONDS s' else s')))"

end
