(* ===== verification/OrchestratorFacts.thy ===== *)
theory OrchestratorFacts
  imports Orchestrator
begin

text \<open>
  What the tick guarantees: it is always followed by another while the run needs one, whatever
  fails; it never has more than two children of a phase at work; its
  phases only ever add children through a dispatch, which counts.
\<close>

section \<open>Frames\<close>

definition preserves :: "('s \<Rightarrow> 'v) \<Rightarrow> ('s, 'a) act \<Rightarrow> bool" where
  "preserves f m = (\<forall>s. f (snd (m s)) = f s)"

named_theorems tick_frame "what the steps of a tick leave alone"

lemma preservesD: "preserves f m \<Longrightarrow> m s = (res, s') \<Longrightarrow> f s' = f s"
  unfolding preserves_def by (metis snd_conv)

lemma preserves_bindA [tick_frame]:
  "preserves f m \<Longrightarrow> (\<And>x. preserves f (k x)) \<Longrightarrow> preserves f (bindA m k)"
  unfolding preserves_def bindA_apply by (auto split: prod.splits sum.splits) (metis snd_conv)+

lemma preserves_basic [tick_frame]:
  "preserves f (retA x)" "preserves f (raiseA e)" "preserves f (external env n)" "preserves f (\<lambda>s. (Inr (g s), s))"
  by (simp_all add: preserves_def external_def)

lemma preserves_query [tick_frame]: "preserves f (query env n g)"
  unfolding query_def by (intro tick_frame)

lemma preserves_modify: "(\<And>s. f (g s) = f s) \<Longrightarrow> preserves f (modifyA g)"
  by (simp add: preserves_def modifyA_def)

lemma external_apply: "external env n s = (if te_fails env n then (Inl (DBAPIError n), s) else (Inr (), s))"
  by (simp add: external_def)

lemma query_apply: "query env n f s = (if te_fails env n then (Inl (DBAPIError n), s) else (Inr (f s), s))"
  by (simp add: query_def bindA_apply external_apply)

lemmas tick_apply = bindA_apply external_apply query_apply

text \<open>The fields that only the parent's writes and the children's changes touch.\<close>

definition outside :: "orch_state \<Rightarrow> int \<times> marketplace list \<times> (string \<Rightarrow> int \<Rightarrow> nat)" where
  "outside s = (os_now s, os_marketplaces s, os_unchecked s)"

lemma send_frame [tick_frame]:
  "preserves os_scheduled (send_task env t c)" "preserves os_children (send_task env t c)"
  "preserves os_parent (send_task env t c)" "preserves outside (send_task env t c)"
  unfolding send_task_def by (intro tick_frame preserves_modify; simp add: outside_def)+

lemma send_all_frame [tick_frame]:
  "preserves os_scheduled (send_all env t cs)" "preserves os_children (send_all env t cs)"
  "preserves os_parent (send_all env t cs)" "preserves outside (send_all env t cs)"
  by (induction cs) (auto intro!: tick_frame)

lemma reconcile_frame [tick_frame]:
  "preserves os_scheduled (reconcile_pending_children env j t)" "preserves os_children (reconcile_pending_children env j t)"
  "preserves os_parent (reconcile_pending_children env j t)" "preserves outside (reconcile_pending_children env j t)"
  unfolding reconcile_pending_children_def by (intro tick_frame)+

lemma count_frame [tick_frame]: "preserves f (count_active_children env j)"
  unfolding count_active_children_def by (intro tick_frame)

lemma reap_frame [tick_frame]:
  "preserves os_scheduled (reap_stale_children env j l)" "preserves os_parent (reap_stale_children env j l)"
  "preserves outside (reap_stale_children env j l)"
  unfolding reap_stale_children_def
  by (intro tick_frame; simp add: preserves_def Let_def outside_def)+

lemma create_frame [tick_frame]:
  "preserves os_scheduled (create_pending_child env j c)" "preserves os_parent (create_pending_child env j c)"
  "preserves outside (create_pending_child env j c)"
proof -
  have ins: "preserves f (\<lambda>s. let child = pending_child j m s; s1 = s\<lparr>os_next_id := Suc (os_next_id s)\<rparr>
         in if te_insert_ok env child
            then (Inr (Some (oc_id child)), s1\<lparr>os_children := os_children s @ [child]\<rparr>) else (Inr None, s1))"
    if "\<And>s n cs. f (s\<lparr>os_next_id := n, os_children := cs\<rparr>) = f s" "\<And>s n. f (s\<lparr>os_next_id := n\<rparr>) = f s"
    for m and f :: "orch_state \<Rightarrow> 'f"
    using that by (auto simp: preserves_def Let_def)
  show "preserves os_scheduled (create_pending_child env j c)" "preserves os_parent (create_pending_child env j c)"
    "preserves outside (create_pending_child env j c)"
    unfolding create_pending_child_def
    by (intro preserves_bindA preserves_query; simp add: tick_frame ins outside_def split: option.split)+
qed

lemma touch_frame [tick_frame]:
  "preserves os_scheduled (touch env m st)" "preserves os_children (touch env m st)" "preserves outside (touch env m st)"
  unfolding touch_def
  by (intro tick_frame preserves_modify; simp add: Let_def outside_def split: option.split)+

lemma discovery_dispatch_frame [tick_frame]:
  "preserves os_scheduled (discovery_dispatch env q a d)" "preserves os_parent (discovery_dispatch env q a d)"
  "preserves outside (discovery_dispatch env q a d)"
  by (induction env q a d rule: discovery_dispatch.induct) (auto intro!: tick_frame split: option.split)

lemma scrape_dispatch_preserves:
  assumes "\<And>c. preserves f (create_pending_child env ''scrape'' c)" "\<And>t c. preserves f (send_task env t c)"
  shows "preserves f (scrape_dispatch env r q l a d)"
proof (induction "length q" arbitrary: q l a d)
  case 0
  then show ?case by (simp add: scrape_dispatch.simps tick_frame)
next
  case (Suc n)
  let ?code = "pick_next_scrape_marketplace q l r"
  from Suc(2) have "q \<noteq> []" by auto
  then have "n = length (remove1 ?code q)" using Suc(2) pick_in [of q l r] by (simp add: length_remove1)
  note IH = Suc(1) [OF this]
  show ?case
  proof (cases "a < MAX_PARALLEL_SCRAPE")
    case True
    with \<open>q \<noteq> []\<close> show ?thesis
      by (subst scrape_dispatch.simps) (auto simp: Let_def intro!: preserves_bindA assms IH tick_frame split: option.split)
  next
    case False
    then show ?thesis by (simp add: scrape_dispatch.simps [of env r q l a d] tick_frame)
  qed
qed

lemma scrape_dispatch_frame [tick_frame]:
  "preserves os_scheduled (scrape_dispatch env r q l a d)" "preserves os_parent (scrape_dispatch env r q l a d)"
  "preserves outside (scrape_dispatch env r q l a d)"
  by (intro scrape_dispatch_preserves tick_frame)+

section \<open>A next tick\<close>

definition in_cadence :: "rat \<Rightarrow> bool" where
  "in_cadence b = (TICK_MIN_SECONDS \<le> b \<and> b \<le> TICK_MAX_SECONDS)"

definition reschedules :: "'a tick \<Rightarrow> bool" where
  \<comment> \<open>one next tick when it ends, none when it raises\<close>
  "reschedules m = (\<forall>s. case m s of
     (Inl e, s') \<Rightarrow> os_scheduled s' = os_scheduled s
   | (Inr x, s') \<Rightarrow> \<exists>b. os_scheduled s' = os_scheduled s @ [b] \<and> in_cadence b)"

definition yields :: "'a tick \<Rightarrow> ('a \<Rightarrow> bool) \<Rightarrow> bool" where
  "yields m P = (\<forall>s x s'. m s = (Inr x, s') \<longrightarrow> P x)"

lemma reschedules_yields:
  assumes "preserves os_scheduled m" "yields m P" "\<And>x. P x \<Longrightarrow> reschedules (k x)"
  shows "reschedules (bindA m k)"
  unfolding reschedules_def
proof
  fix s
  obtain r t where m: "m s = (r, t)" by fastforce
  show "case bindA m k s of (Inl e, s') \<Rightarrow> os_scheduled s' = os_scheduled s
      | (Inr x, s') \<Rightarrow> \<exists>b. os_scheduled s' = os_scheduled s @ [b] \<and> in_cadence b"
  proof (cases r)
    case (Inl e)
    with m preservesD [OF assms(1) m] show ?thesis by (simp add: bindA_apply)
  next
    case (Inr x)
    with assms(2) m have "P x" unfolding yields_def by blast
    from assms(3) [OF this] have "case k x t of (Inl e, s') \<Rightarrow> os_scheduled s' = os_scheduled t
        | (Inr x, s') \<Rightarrow> \<exists>b. os_scheduled s' = os_scheduled t @ [b] \<and> in_cadence b"
      unfolding reschedules_def by (rule spec)
    moreover obtain y u where "k x t = (y, u)" by fastforce
    ultimately show ?thesis using m Inr preservesD [OF assms(1) m] by (cases y) (simp_all add: bindA_apply)
  qed
qed

lemma reschedules_bindA:
  "preserves os_scheduled m \<Longrightarrow> (\<And>x. reschedules (k x)) \<Longrightarrow> reschedules (bindA m k)"
  by (rule reschedules_yields [where P = "\<lambda>_. True"]) (simp_all add: yields_def)

lemma next_backoff_cadence: "in_cadence current \<Longrightarrow> in_cadence (next_backoff current dispatched)"
  by (auto simp: in_cadence_def next_backoff_def TICK_MIN_SECONDS_def TICK_MAX_SECONDS_def TICK_BACKOFF_FACTOR_def)

lemma reschedules_schedule: "in_cadence b \<Longrightarrow> reschedules (thenA (schedule b) (retA x))"
  by (simp add: reschedules_def schedule_def)

lemma tick_again_reschedules: "in_cadence (backoff_of meta) \<Longrightarrow> reschedules (tick_again env meta st d)"
  unfolding tick_again_def Let_def
  by (intro reschedules_bindA tick_frame reschedules_schedule next_backoff_cadence)

lemma min_cadence: "in_cadence TICK_MIN_SECONDS" "in_cadence TICK_MAX_SECONDS"
  by (simp_all add: in_cadence_def TICK_MIN_SECONDS_def TICK_MAX_SECONDS_def)

lemma advance_reschedules: "reschedules (advance_phase env meta p st)"
  unfolding advance_phase_def by (intro reschedules_bindA tick_frame reschedules_schedule min_cadence)

lemma discovery_reschedules: "in_cadence (backoff_of meta) \<Longrightarrow> reschedules (discovery_phase env meta d)"
  unfolding discovery_phase_def Let_def
  by (intro reschedules_bindA tick_frame) (auto simp: backoff_of_def intro!: advance_reschedules tick_again_reschedules)

lemma scrape_step_reschedules: "in_cadence (backoff_of meta) \<Longrightarrow> reschedules (scrape_step env meta d)"
  unfolding scrape_step_def Let_def
  by (auto simp: backoff_of_def intro!: reschedules_bindA tick_frame advance_reschedules tick_again_reschedules)

lemma scrape_reschedules: "in_cadence (backoff_of meta) \<Longrightarrow> reschedules (scrape_phase env meta d)"
  unfolding scrape_phase_def
  by (intro reschedules_yields [where P = "\<lambda>m. in_cadence (backoff_of m)"] scrape_step_reschedules)
     (auto simp: yields_def tick_apply begin_scrape_def backoff_of_def Let_def
        tick_frame split: prod.splits sum.splits if_splits)

text \<open>Completion, on the other hand, schedules nothing.\<close>

lemma complete_frame: "preserves os_scheduled (complete_phase env meta)" "preserves os_children (complete_phase env meta)"
  "preserves outside (complete_phase env meta)"
  unfolding complete_phase_def
  by (intro tick_frame preserves_modify; simp add: outside_def split: option.split)+

definition working :: "tick_meta \<Rightarrow> bool" where
  "working meta = (tm_phase meta \<in> {Some ''discovery'', Some ''scrape''})"

lemma tick_step_reschedules: "in_cadence (backoff_of meta) \<Longrightarrow> working meta \<Longrightarrow> reschedules (tick_step env meta)"
  unfolding tick_step_def working_def
  by (intro reschedules_bindA tick_frame) (auto intro: discovery_reschedules scrape_reschedules)

lemma tick_step_quiet: "\<not> working meta \<Longrightarrow> preserves os_scheduled (tick_step env meta)"
  unfolding tick_step_def working_def by (intro tick_frame) (auto intro: complete_frame tick_frame)

lemma tick_running_reschedules:
  assumes "in_cadence (backoff_of meta)" "tm_phase meta = None \<or> working meta"
  shows "reschedules (tick_running env meta)"
  unfolding tick_running_def using assms
  by (intro reschedules_yields [where P = "\<lambda>m. in_cadence (backoff_of m) \<and> working m"] tick_step_reschedules)
     (auto simp: yields_def tick_apply begin_discovery_def backoff_of_def working_def Let_def
        min_cadence tick_frame split: prod.splits sum.splits if_splits)

lemma tick_running_quiet: "tm_phase meta \<noteq> None \<Longrightarrow> \<not> working meta \<Longrightarrow> preserves os_scheduled (tick_running env meta)"
  unfolding tick_running_def by (auto simp: working_def intro!: tick_frame tick_step_quiet)

definition cadence_kept :: "orch_state \<Rightarrow> bool" where
  \<comment> \<open>the backoff stored on the parent, if any, is one a tick could have stored\<close>
  "cadence_kept s = (case os_parent s of None \<Rightarrow> True | Some (_, stored) \<Rightarrow> in_cadence (backoff_of stored))"


section \<open>Parallelism\<close>

text \<open>A child of a phase at work is only ever added by a dispatch, which counts.\<close>

lemma reap_active: "active_children j (snd (reap_stale_children env k l s)) \<le> active_children j s"
proof -
  have len: "length (filter (is_active_child j) (map (\<lambda>c. if p c then mark_failed n c else c) cs))
      \<le> length (filter (is_active_child j) cs)" for p n cs
    by (induction cs) (auto simp: is_active_child_def mark_failed_def)
  show ?thesis
    using len [of "\<lambda>c. is_stale k l (os_now s) c \<and> te_update_ok env (oc_id c)" "os_now s" "os_children s"]
    by (simp add: reap_stale_children_def tick_apply Let_def active_children_def del: filter_map)
qed

lemma active_children_frame: "preserves os_children m \<Longrightarrow> active_children j (snd (m s)) = active_children j s"
  by (simp add: preserves_def active_children_def)

lemma create_active:
  assumes "create_pending_child env k code s = (res, s')"
  shows "active_children j s' = active_children j s + (if j = k \<and> (\<exists>c. res = Inr (Some c)) then 1 else 0)"
  using assms
  by (auto simp: create_pending_child_def tick_apply Let_def active_children_def is_active_child_def
      pending_child_def split: option.splits if_splits)

lemma discovery_dispatch_active:
  "active_children ''discovery'' s \<le> a \<Longrightarrow>
   active_children ''discovery'' (snd (discovery_dispatch env q a d s)) \<le> max MAX_PARALLEL_DISCOVERY a"
proof (induction q arbitrary: a d s)
  case (Cons code q)
  show ?case
  proof (cases "a < MAX_PARALLEL_DISCOVERY")
    case True
    obtain res t where c: "create_pending_child env ''discovery'' code s = (res, t)" by fastforce
    note act = create_active [OF c, of "''discovery''"]
    consider (raised) e where "res = Inl e" | (dropped) "res = Inr None" | (created) i where "res = Inr (Some i)"
      by (cases res) auto
    then show ?thesis
    proof cases
      case raised
      with c True act Cons.prems show ?thesis by (simp add: tick_apply)
    next
      case dropped
      with Cons.IH [of t a d] c True act Cons.prems show ?thesis by (simp add: tick_apply)
    next
      case created
      with act Cons.prems have t: "active_children ''discovery'' t \<le> Suc a" by simp
      obtain r u where u: "send_task env ''discover_one_marketplace'' i t = (r, u)" by fastforce
      with t active_children_frame [OF send_frame(2), of "''discovery''" env "''discover_one_marketplace''" i t]
      have "active_children ''discovery'' u \<le> Suc a" by simp
      moreover have "max MAX_PARALLEL_DISCOVERY (Suc a) = max MAX_PARALLEL_DISCOVERY a" using True by simp
      ultimately show ?thesis
        using Cons.IH [of u "Suc a" True] t c created u True by (cases r) (auto simp: tick_apply)
    qed
  next
    case False
    with Cons.prems show ?thesis by simp
  qed
qed simp

lemma scrape_dispatch_active:
  "active_children ''scrape'' s \<le> a \<Longrightarrow>
   active_children ''scrape'' (snd (scrape_dispatch env r q l a d s)) \<le> max MAX_PARALLEL_SCRAPE a"
proof (induction "length q" arbitrary: q l a d s)
  case 0
  then show ?case by (simp add: scrape_dispatch.simps)
next
  case (Suc n)
  let ?code = "pick_next_scrape_marketplace q l r"
  from Suc(2) have q: "q \<noteq> []" by auto
  then have "n = length (remove1 ?code q)" using Suc(2) pick_in [of q l r] by (simp add: length_remove1)
  note IH = Suc(1) [OF this]
  show ?case
  proof (cases "a < MAX_PARALLEL_SCRAPE")
    case True
    obtain res t where c: "create_pending_child env ''scrape'' ?code s = (res, t)" by fastforce
    note act = create_active [OF c, of "''scrape''"] and step = scrape_dispatch.simps [of env r q l a d]
    consider (raised) e where "res = Inl e" | (dropped) "res = Inr None" | (created) i where "res = Inr (Some i)"
      by (cases res) auto
    then show ?thesis
    proof cases
      case raised
      with c True act Suc.prems q show ?thesis by (simp add: step tick_apply Let_def)
    next
      case dropped
      with IH [of t a l d] c True act Suc.prems q show ?thesis by (simp add: step tick_apply Let_def)
    next
      case created
      with act Suc.prems have t: "active_children ''scrape'' t \<le> Suc a" by simp
      obtain x u where u: "send_task env ''scrape_one_marketplace'' i t = (x, u)" by fastforce
      with t active_children_frame [OF send_frame(2), of "''scrape''" env "''scrape_one_marketplace''" i t]
      have "active_children ''scrape'' u \<le> Suc a" by simp
      moreover have "max MAX_PARALLEL_SCRAPE (Suc a) = max MAX_PARALLEL_SCRAPE a" using True by simp
      ultimately show ?thesis
        using IH [of u "Suc a" "dict_set l ?code (os_now u)" True] t c created u True q
        by (cases x) (auto simp: step tick_apply Let_def)
    qed
  next
    case False
    with Suc.prems show ?thesis by (simp add: scrape_dispatch.simps [of env r q l a d])
  qed
qed

text \<open>The other phase's children are not touched.\<close>

lemma other_create: "j \<noteq> k \<Longrightarrow> preserves (active_children j) (create_pending_child env k c)"
  unfolding preserves_def
proof
  fix s
  assume "j \<noteq> k"
  moreover obtain res s' where "create_pending_child env k c s = (res, s')" by fastforce
  ultimately show "active_children j (snd (create_pending_child env k c s)) = active_children j s"
    using create_active by simp
qed

lemma active_preserved: "preserves os_children m \<Longrightarrow> preserves (active_children j) m"
  by (simp add: preserves_def active_children_def)

lemma discovery_dispatch_other: "preserves (active_children ''scrape'') (discovery_dispatch env q a d)"
  by (induction env q a d rule: discovery_dispatch.induct)
     (auto intro!: tick_frame other_create active_preserved [OF send_frame(2)] split: option.split)

lemma scrape_dispatch_other: "preserves (active_children ''discovery'') (scrape_dispatch env r q l a d)"
  by (intro scrape_dispatch_preserves other_create active_preserved [OF send_frame(2)]) simp

definition caps :: "string \<Rightarrow> 'a tick \<Rightarrow> bool" where
  "caps j m = (\<forall>s. active_children j (snd (m s)) \<le> max 2 (active_children j s))"

named_theorems tick_caps "steps that do not exceed the parallelism of a phase"

lemma caps_bindA [tick_caps]:
  assumes "caps j m" "\<And>x. caps j (k x)"
  shows "caps j (bindA m k)"
  unfolding caps_def
proof
  fix s
  obtain r t where m: "m s = (r, t)" by fastforce
  with assms(1) have t: "active_children j t \<le> max 2 (active_children j s)" unfolding caps_def by (metis snd_conv)
  show "active_children j (snd (bindA m k s)) \<le> max 2 (active_children j s)"
  proof (cases r)
    case (Inr x)
    with m t assms(2) [of x, unfolded caps_def, rule_format, of t] show ?thesis by (simp add: bindA_apply)
  qed (use m t in \<open>simp add: bindA_apply\<close>)
qed

lemma caps_preserves: "preserves (active_children j) m \<Longrightarrow> caps j m"
  by (simp add: caps_def preserves_def)

lemma caps_children: "preserves os_children m \<Longrightarrow> caps j m"
  by (intro caps_preserves active_preserved)

lemma caps_basic [tick_caps]:
  "caps j (retA x)" "caps j (query env n g)" "caps j (external env n)" "caps j (count_active_children env k)"
  "caps j (reconcile_pending_children env k t)" "caps j (touch env m st)" "caps j (complete_phase env m)"
  by (intro caps_children tick_frame complete_frame)+

lemma caps_reap [tick_caps]: "caps j (reap_stale_children env k l)"
  using reap_active by (auto simp: caps_def le_max_iff_disj)

lemma caps_count:
  assumes "\<And>s. active_children j (snd (k (active_children j s) s)) \<le> max 2 (active_children j s)"
  shows "caps j (bindA (count_active_children env j) k)"
  using assms by (simp add: caps_def count_active_children_def tick_apply)

lemma caps_after:
  assumes "active_children j (snd (m s)) \<le> n" "2 \<le> n" "\<And>x. caps j (k x)"
  shows "active_children j (snd (bindA m k s)) \<le> n"
proof -
  obtain r t where m: "m s = (r, t)" by fastforce
  show ?thesis
  proof (cases r)
    case (Inr x)
    have "active_children j (snd (k x t)) \<le> max 2 (active_children j t)" using assms(3) by (simp add: caps_def)
    also have "\<dots> \<le> n" using assms(1,2) m by simp
    finally show ?thesis using m Inr by (simp add: bindA_apply)
  qed (use m assms in \<open>simp add: bindA_apply\<close>)
qed

lemma caps_schedule [tick_caps]: "caps j (thenA (schedule b) (retA x))"
  by (simp add: caps_def schedule_def active_children_def)

lemma caps_tick_again [tick_caps]: "caps j (tick_again env meta st d)"
  unfolding tick_again_def Let_def by (intro tick_caps)

lemma caps_advance [tick_caps]: "caps j (advance_phase env meta p st)"
  unfolding advance_phase_def by (intro tick_caps)

lemma caps_discovery: "caps ''discovery'' (discovery_phase env meta d)"
  unfolding discovery_phase_def
proof (rule caps_count)
  fix s
  let ?a = "active_children ''discovery'' s"
  have "active_children ''discovery'' (snd (discovery_dispatch env (tm_mp_queue meta) ?a d s)) \<le> max 2 ?a"
    using discovery_dispatch_active [of s ?a] by (simp add: MAX_PARALLEL_DISCOVERY_def)
  then show "active_children ''discovery'' (snd (bindA (discovery_dispatch env (tm_mp_queue meta) ?a d) (\<lambda>(queue, active, dispatched).
       let finished = int (tm_mp_total meta) - int (length queue) - int active;
           meta' = meta\<lparr>tm_mp_queue := queue, tm_discovery_done := max 0 finished\<rparr>
       in if queue = [] \<and> active = 0 then advance_phase env meta' ''scrape'' ''scrape''
          else tick_again env meta' ''discovery'' dispatched) s)) \<le> max 2 ?a"
    by (rule caps_after) (auto simp: Let_def intro: tick_caps)
qed

lemma caps_discovery_other: "caps ''scrape'' (discovery_phase env meta d)"
  unfolding discovery_phase_def
  by (intro tick_caps caps_preserves [OF discovery_dispatch_other]) (auto simp: Let_def intro: tick_caps)

lemma caps_scrape: "caps ''scrape'' (scrape_step env meta d)"
proof -
  let ?anchor = "tm_scrape_phase_started_at meta" and ?codes = "codes_or (tm_scrape_codes meta) (codes_or (tm_scrape_queue meta) [])"
  have "active_children ''scrape'' (snd (bindA (query env ''cohort'' (build_scrape_dispatch_queue ?anchor ?codes)) (\<lambda>(queue0, drained, remainders).
        bindA (scrape_dispatch env remainders queue0 (tm_last_dispatched_at meta) (active_children ''scrape'' s) e) (\<lambda>(queue, last_dispatched, active, dispatched).
          let meta' = meta\<lparr>tm_last_dispatched_at := last_dispatched, tm_scrape_queue := Some queue, tm_scrape_done := drained\<rparr>
          in if queue = [] \<and> active = 0 \<and> (?codes = [] \<or> drained = length ?codes)
             then advance_phase env meta' ''complete'' ''persist'' else tick_again env meta' ''scrape'' dispatched)) s))
      \<le> max 2 (active_children ''scrape'' s)" for e s
    using scrape_dispatch_active [of s "active_children ''scrape'' s"]
    by (auto simp: query_apply bindA_apply [of "query env n f" for n f] MAX_PARALLEL_SCRAPE_def Let_def
        split: prod.split intro!: caps_after intro: tick_caps)
  then show ?thesis
    unfolding scrape_step_def Let_def by (intro tick_caps caps_count)
qed

lemma caps_scrape_other: "caps ''discovery'' (scrape_step env meta d)"
  unfolding scrape_step_def Let_def
  by (intro tick_caps; auto intro!: tick_caps caps_preserves [OF scrape_dispatch_other])

lemma caps_phase:
  assumes "j = ''discovery'' \<or> j = ''scrape''"
  shows "caps j (discovery_phase env meta d)" "caps j (scrape_phase env meta d)"
  using assms
  by (auto simp: scrape_phase_def intro: caps_discovery caps_discovery_other
      intro!: tick_caps caps_scrape caps_scrape_other)

lemma caps_tick_running:
  assumes "j = ''discovery'' \<or> j = ''scrape''"
  shows "caps j (tick_running env meta)"
proof -
  have "caps j (tick_step env m)" for m
    unfolding tick_step_def
    by (intro tick_caps) (auto intro: caps_phase [OF assms] tick_caps)
  then show ?thesis unfolding tick_running_def by (intro caps_bindA) (auto intro: tick_caps)
qed

text \<open>
  C22: A tick never has more than two discovery children and two scrape children at work, or
  no more than there were before it, whatever fails and wherever it stops.
\<close>

theorem tick_parallelism:
  "active_children ''discovery'' (snd (run_tick env lock s)) \<le> max 2 (active_children ''discovery'' s)
   \<and> active_children ''scrape'' (snd (run_tick env lock s)) \<le> max 2 (active_children ''scrape'' s)"
proof -
  have "active_children j (snd (run_tick env lock s)) \<le> max 2 (active_children j s)"
    if j: "j = ''discovery'' \<or> j = ''scrape''" for j
  proof -
    have "caps j (tick_body env)"
      unfolding tick_body_def
      by (intro caps_bindA) (auto intro: tick_caps caps_tick_running [OF j] split: option.split)
    moreover have "active_children j (schedule b t) = active_children j t" for b t
      by (simp add: schedule_def active_children_def)
    ultimately show ?thesis by (cases lock) (auto simp: run_tick_def caps_def split: prod.split dest: spec [of _ s])
  qed
  then show ?thesis by blast
qed

end
