(* ===== verification/OrchestratorRuns.thy ===== *)
theory OrchestratorRuns
  imports OrchestratorFacts
begin

text \<open>
  How a run goes over many ticks. No marketplace waits for ever for its turn to be scraped. But a
  marketplace switched off in the middle of a run keeps the run from ending, and refused rows
  drop marketplaces from discovery.
\<close>

section \<open>A marketplace that is switched off keeps the run from ending\<close>

definition invariant_of :: "(orch_state \<Rightarrow> bool) \<Rightarrow> 'a tick \<Rightarrow> bool" where
  "invariant_of I m = (\<forall>s. I s \<longrightarrow> I (snd (m s)))"

lemma invariant_yields:
  assumes "invariant_of I m" "\<And>s x s'. I s \<Longrightarrow> m s = (Inr x, s') \<Longrightarrow> P x" "\<And>x. P x \<Longrightarrow> invariant_of I (k x)"
  shows "invariant_of I (bindA m k)"
  unfolding invariant_of_def
proof (intro allI impI)
  fix s assume I: "I s"
  obtain r t where m: "m s = (r, t)" by fastforce
  with assms(1) I have t: "I t" unfolding invariant_of_def by (metis snd_conv)
  show "I (snd (bindA m k s))"
  proof (cases r)
    case (Inl e)
    with m t show ?thesis by (simp add: bindA_apply)
  next
    case (Inr x)
    with assms(3) [OF assms(2) [OF I]] m t show ?thesis by (simp add: invariant_of_def bindA_apply)
  qed
qed

lemma invariant_bindA: "invariant_of I m \<Longrightarrow> (\<And>x. invariant_of I (k x)) \<Longrightarrow> invariant_of I (bindA m k)"
  by (rule invariant_yields [where P = "\<lambda>_. True"]) simp_all

definition waits_for :: "string \<Rightarrow> (string \<Rightarrow> int \<Rightarrow> nat) \<Rightarrow> tick_meta \<Rightarrow> bool" where
  \<comment> \<open>the scrape phase has begun, and listings of the marketplace are still in its cohort\<close>
  "waits_for code unchecked meta =
     (tm_phase meta = Some ''scrape'' \<and> tm_scrape_queue meta \<noteq> None
      \<and> (case tm_scrape_codes meta of None \<Rightarrow> False | Some codes \<Rightarrow> code \<in> set codes)
      \<and> (case tm_scrape_phase_started_at meta of None \<Rightarrow> False | Some anchor \<Rightarrow> unchecked code anchor \<noteq> 0))"

definition blocked :: "string \<Rightarrow> orch_state \<Rightarrow> bool" where
  "blocked code s = (case os_parent s of None \<Rightarrow> False
     | Some (status, meta) \<Rightarrow> status = ''running'' \<and> waits_for code (os_unchecked s) meta)"

definition blocked_by :: "string \<Rightarrow> (string \<Rightarrow> int \<Rightarrow> nat) \<Rightarrow> orch_state \<Rightarrow> bool" where
  "blocked_by code u s = (os_unchecked s = u \<and> (\<exists>meta. os_parent s = Some (''running'', meta) \<and> waits_for code u meta))"

lemma blocked_iff: "blocked code s \<longleftrightarrow> blocked_by code (os_unchecked s) s"
  by (auto simp: blocked_def blocked_by_def split: option.splits)

lemma blocked_frame:
  assumes "preserves os_parent m" "preserves outside m"
  shows "invariant_of (blocked_by code u) m"
  unfolding invariant_of_def
proof (intro allI impI)
  fix s assume b: "blocked_by code u s"
  have "os_parent (snd (m s)) = os_parent s" using assms(1) unfolding preserves_def by (rule spec)
  moreover have "outside (snd (m s)) = outside s" using assms(2) unfolding preserves_def by (rule spec)
  ultimately show "blocked_by code u (snd (m s))" using b by (simp add: blocked_by_def outside_def)
qed

lemma blocked_schedule: "invariant_of (blocked_by code u) (thenA (schedule b) (retA x))"
  by (simp add: invariant_of_def schedule_def blocked_by_def thenA_def)

lemma blocked_touch: "waits_for code u meta \<Longrightarrow> invariant_of (blocked_by code u) (touch env meta st)"
  by (auto simp: invariant_of_def touch_def tick_apply modifyA_def Let_def blocked_by_def waits_for_def)

lemma blocked_again:
  "waits_for code u meta \<Longrightarrow> invariant_of (blocked_by code u) (tick_again env meta st d)"
  unfolding tick_again_def Let_def
  by (intro invariant_bindA blocked_touch blocked_schedule) (simp add: waits_for_def)

lemma blocked_scrape_step:
  assumes "waits_for code u meta"
  shows "invariant_of (blocked_by code u) (scrape_step env meta d)"
proof -
  from assms obtain codes anchor where
    m: "tm_scrape_codes meta = Some codes" "code \<in> set codes" "tm_scrape_phase_started_at meta = Some anchor" "u code anchor \<noteq> 0"
    by (auto simp: waits_for_def split: option.splits)
  have codes: "codes_or (Some codes) ys = codes" for ys using m by (auto simp: codes_or_def)
  have drained: "length (filter (\<lambda>c. cohort_remainder (Some anchor) s c = 0) codes) < length codes" if "blocked_by code u s" for s
    using m that by (intro length_filter_less [of code]) (auto simp: cohort_remainder_def blocked_by_def)
  have wait: "waits_for code u (meta\<lparr>tm_last_dispatched_at := l, tm_scrape_queue := Some q', tm_scrape_done := n\<rparr>)" for l q' n
    using assms by (simp add: waits_for_def)
  have rest: "invariant_of (blocked_by code u) (bindA (query env ''cohort'' (build_scrape_dispatch_queue (Some anchor) codes))
      (\<lambda>(queue0, drained, remainders). bindA (scrape_dispatch env remainders queue0 (tm_last_dispatched_at meta) a0 e)
        (\<lambda>(queue, last_dispatched, active, dispatched).
           let meta' = meta\<lparr>tm_last_dispatched_at := last_dispatched, tm_scrape_queue := Some queue, tm_scrape_done := drained\<rparr>
           in if queue = [] \<and> active = 0 \<and> (codes = [] \<or> drained = length codes)
              then advance_phase env meta' ''complete'' ''persist'' else tick_again env meta' ''scrape'' dispatched)))" for a0 e
  proof (rule invariant_yields [where P = "\<lambda>x. fst (snd x) < length codes"])
    show "invariant_of (blocked_by code u) (query env ''cohort'' (build_scrape_dispatch_queue (Some anchor) codes))"
      by (rule blocked_frame) (rule tick_frame)+
  next
    fix s x s'
    assume "blocked_by code u s" "query env ''cohort'' (build_scrape_dispatch_queue (Some anchor) codes) s = (Inr x, s')"
    with drained [of s] show "fst (snd x) < length codes"
      by (auto simp: query_apply build_scrape_dispatch_queue_def Let_def split: if_splits)
  next
    fix x :: "string list \<times> nat \<times> (string \<Rightarrow> nat)"
    assume less: "fst (snd x) < length codes"
    obtain q drained r where x: "x = (q, drained, r)" by (cases x)
    have "codes \<noteq> []" using m(2) by auto
    with less x show "invariant_of (blocked_by code u) (case x of (queue0, drained, remainders) \<Rightarrow>
        bindA (scrape_dispatch env remainders queue0 (tm_last_dispatched_at meta) a0 e)
        (\<lambda>(queue, last_dispatched, active, dispatched).
           let meta' = meta\<lparr>tm_last_dispatched_at := last_dispatched, tm_scrape_queue := Some queue, tm_scrape_done := drained\<rparr>
           in if queue = [] \<and> active = 0 \<and> (codes = [] \<or> drained = length codes)
              then advance_phase env meta' ''complete'' ''persist'' else tick_again env meta' ''scrape'' dispatched))"
      using blocked_again [OF wait]
      by (auto simp: Let_def intro!: invariant_bindA [OF blocked_frame [OF scrape_dispatch_frame(2,3)]])
  qed
  show ?thesis
    unfolding scrape_step_def Let_def m(1,3) codes
    by (intro invariant_bindA [OF blocked_frame [OF reap_frame(2,3)]] invariant_bindA [OF blocked_frame [OF reconcile_frame(3,4)]]
        invariant_bindA [OF blocked_frame [OF count_frame count_frame]] rest [unfolded Let_def])
qed

lemma blocked_tick:
  assumes "blocked code s"
  shows "blocked code (snd (run_tick env lock s)) \<and> os_unchecked (snd (run_tick env lock s)) = os_unchecked s"
proof -
  let ?u = "os_unchecked s"
  from assms obtain meta where p: "os_parent s = Some (''running'', meta)" "waits_for code ?u meta"
    by (auto simp: blocked_iff blocked_by_def)
  have ph: "tm_phase meta = Some ''scrape''" "tm_scrape_queue meta \<noteq> None" using p(2) by (simp_all add: waits_for_def)
  have "invariant_of (blocked_by code ?u) (tick_running env meta)"
  proof -
    have "waits_for code ?u (meta\<lparr>tm_tick_count := n\<rparr>)" for n using p(2) by (simp add: waits_for_def)
    then have step: "invariant_of (blocked_by code ?u) (tick_step env (meta\<lparr>tm_tick_count := n\<rparr>))" for n
      unfolding tick_step_def using ph
      by (intro invariant_bindA [OF blocked_frame [OF reap_frame(2,3)]] invariant_bindA [OF blocked_frame [OF reconcile_frame(3,4)]])
         (auto simp: scrape_phase_def intro: blocked_scrape_step)
    show ?thesis unfolding tick_running_def using ph step by (simp add:)
  qed
  moreover have "tick_body env s = (if te_fails env ''load'' then (Inl (DBAPIError ''load''), s) else tick_running env meta s)"
    by (simp add: tick_body_def tick_apply p(1))
  ultimately have "blocked_by code ?u (snd (tick_body env s))"
    using assms by (auto simp: invariant_of_def blocked_iff)
  moreover have "blocked_by code ?u (schedule b t) = blocked_by code ?u t" for b t
    by (simp add: blocked_by_def schedule_def)
  ultimately have "blocked_by code ?u (snd (run_tick env lock s))"
    using assms by (cases lock) (auto simp: run_tick_def blocked_iff split: prod.split)
  then show ?thesis by (auto simp: blocked_iff blocked_by_def)
qed

text \<open>No child is ever created for it, so no task lists its listings as checked.\<close>

definition switched_off :: "string \<Rightarrow> marketplace list \<Rightarrow> bool" where
  "switched_off code ms = (distinct (map mk_id ms) \<and> (\<forall>m\<in>set ms. mk_code m = code \<longrightarrow> \<not> mk_is_active m))"

definition unscraped :: "string \<Rightarrow> marketplace list \<Rightarrow> orch_state \<Rightarrow> bool" where
  "unscraped code ms s = (os_marketplaces s = ms \<and> code \<notin> set (scraped_codes s))"

named_theorems tick_unscraped "steps that create no child for a marketplace that is switched off"

lemma unscraped_cong:
  "os_children t = os_children s \<Longrightarrow> os_marketplaces t = os_marketplaces s \<Longrightarrow> unscraped code ms t = unscraped code ms s"
  unfolding unscraped_def scraped_codes_def by metis

lemma unscraped_frame:
  assumes "preserves os_children m" "preserves outside m"
  shows "invariant_of (unscraped code ms) m"
  unfolding invariant_of_def
proof (intro allI impI)
  fix s assume b: "unscraped code ms s"
  have "os_children (snd (m s)) = os_children s" using assms(1) unfolding preserves_def by (rule spec)
  moreover have "outside (snd (m s)) = outside s" using assms(2) unfolding preserves_def by (rule spec)
  ultimately show "unscraped code ms (snd (m s))"
    using b unscraped_cong [of "snd (m s)" s code ms] by (simp add: outside_def)
qed

lemma unscraped_basic [tick_unscraped]:
  "invariant_of (unscraped code ms) (retA x)" "invariant_of (unscraped code ms) (query env n g)"
  "invariant_of (unscraped code ms) (external env n)" "invariant_of (unscraped code ms) (send_task env t c)"
  "invariant_of (unscraped code ms) (count_active_children env k)" "invariant_of (unscraped code ms) (touch env m st)"
  "invariant_of (unscraped code ms) (reconcile_pending_children env k t)"
  "invariant_of (unscraped code ms) (complete_phase env m)"
  "invariant_of (unscraped code ms) (\<lambda>s. (Inr (g s), s))"
  by (rule unscraped_frame; rule tick_frame complete_frame)+

lemma unscraped_schedule [tick_unscraped]: "invariant_of (unscraped code ms) (thenA (schedule b) (retA x))"
  by (simp add: invariant_of_def schedule_def unscraped_cong [of "s\<lparr>os_scheduled := xs\<rparr>" s for s xs])

lemma scraped_mem:
  "code \<in> set (scraped_codes s) \<longleftrightarrow> (\<exists>c\<in>set (os_children s). is_active_child ''scrape'' c
     \<and> (\<exists>m\<in>set (os_marketplaces s). mk_id m = cj_marketplace_id c \<and> mk_code m = code))"
  by (auto simp: scraped_codes_def)

lemma unscraped_reap [tick_unscraped]: "invariant_of (unscraped code ms) (reap_stale_children env j l)"
  unfolding invariant_of_def
proof (intro allI impI)
  fix s assume I: "unscraped code ms s"
  let ?t = "snd (reap_stale_children env j l s)"
  define f where "f = (\<lambda>c. if \<not> te_fails env ''reap'' \<and> is_stale j l (os_now s) c \<and> te_update_ok env (oc_id c)
    then mark_failed (os_now s) c else c)"
  have "os_marketplaces ?t = os_marketplaces s" "os_children ?t = map f (os_children s)"
    by (simp_all add: f_def reap_stale_children_def tick_apply Let_def)
  moreover have "cj_marketplace_id (f c) = cj_marketplace_id c" "is_active_child ''scrape'' (f c) \<Longrightarrow> is_active_child ''scrape'' c" for c
    by (auto simp: f_def mark_failed_def is_active_child_def split: if_splits)
  ultimately show "unscraped code ms ?t" using I unfolding unscraped_def scraped_mem by fastforce
qed

lemma unscraped_create [tick_unscraped]:
  assumes off: "switched_off code ms"
  shows "invariant_of (unscraped code ms) (create_pending_child env j c)"
  unfolding invariant_of_def
proof (intro allI impI)
  fix s assume I: "unscraped code ms s"
  show "unscraped code ms (snd (create_pending_child env j c s))"
  proof (cases "find (\<lambda>m. mk_code m = c \<and> mk_is_active m) (os_marketplaces s)")
    case None
    with I show ?thesis by (simp add: create_pending_child_def tick_apply)
  next
    case (Some m)
    then have m: "m \<in> set ms" "mk_is_active m" using I by (auto simp: find_Some_iff unscraped_def)
    have other: "mk_code m' \<noteq> code" if "m' \<in> set ms" "mk_id m' = mk_id m" for m'
    proof -
      from off that m have "m' = m" by (auto simp: switched_off_def distinct_map dest: inj_onD)
      then show ?thesis using off m by (auto simp: switched_off_def)
    qed
    let ?t = "snd (create_pending_child env j c s)"
    have mp: "os_marketplaces ?t = os_marketplaces s"
      using Some by (auto simp: create_pending_child_def tick_apply Let_def)
    have new: "x \<in> set (os_children s) \<or> cj_marketplace_id x = mk_id m" if "x \<in> set (os_children ?t)" for x
      using Some that by (auto simp: create_pending_child_def tick_apply Let_def pending_child_def split: if_splits)
    have ms: "os_marketplaces s = ms" using I by (simp add: unscraped_def)
    have "code \<notin> set (scraped_codes ?t)"
    proof
      assume "code \<in> set (scraped_codes ?t)"
      then obtain x m' where x: "x \<in> set (os_children ?t)" "is_active_child ''scrape'' x" "m' \<in> set ms"
        "mk_id m' = cj_marketplace_id x" "mk_code m' = code" unfolding scraped_mem mp ms by blast
      with new [OF x(1)] other [of m'] have "x \<in> set (os_children s)" by auto
      with x I show False unfolding unscraped_def scraped_mem by blast
    qed
    then show ?thesis by (simp add: unscraped_def mp ms)
  qed
qed

lemma unscraped_discovery [tick_unscraped]:
  "switched_off code ms \<Longrightarrow> invariant_of (unscraped code ms) (discovery_dispatch env q a d)"
  by (induction env q a d rule: discovery_dispatch.induct)
     (auto intro!: invariant_bindA tick_unscraped split: option.split)

lemma unscraped_scrape [tick_unscraped]:
  assumes "switched_off code ms"
  shows "invariant_of (unscraped code ms) (scrape_dispatch env r q l a d)"
proof (induction "length q" arbitrary: q l a d)
  case 0
  then show ?case by (simp add: scrape_dispatch.simps tick_unscraped)
next
  case (Suc n)
  let ?code = "pick_next_scrape_marketplace q l r"
  from Suc(2) have "q \<noteq> []" by auto
  then have "n = length (remove1 ?code q)" using Suc(2) pick_in [of q l r] by (simp add: length_remove1)
  note IH = Suc(1) [OF this]
  show ?case
    by (subst scrape_dispatch.simps)
       (auto simp: Let_def intro!: invariant_bindA tick_unscraped assms IH split: option.split)
qed

lemma unscraped_ends [tick_unscraped]:
  "invariant_of (unscraped code ms) (tick_again env meta st d)"
  "invariant_of (unscraped code ms) (advance_phase env meta p st)"
  unfolding tick_again_def advance_phase_def Let_def by (intro invariant_bindA tick_unscraped)+

lemma unscraped_body:
  assumes off: "switched_off code ms"
  shows "invariant_of (unscraped code ms) (tick_body env)"
proof -
  have scrape: "invariant_of (unscraped code ms) (scrape_phase env meta d)" for meta d
    unfolding scrape_phase_def scrape_step_def Let_def
    by (intro invariant_bindA tick_unscraped off; auto intro!: invariant_bindA tick_unscraped off)
  have discovery: "invariant_of (unscraped code ms) (discovery_phase env meta d)" for meta d
    unfolding discovery_phase_def Let_def
    by (intro invariant_bindA tick_unscraped off; auto intro!: tick_unscraped)
  have "invariant_of (unscraped code ms) (tick_running env meta)" for meta
    unfolding tick_running_def tick_step_def
    by (auto intro!: invariant_bindA tick_unscraped scrape discovery)
  then show ?thesis
    unfolding tick_body_def by (auto intro!: invariant_bindA tick_unscraped split: option.split)
qed

section \<open>Ticks among the work of the tasks\<close>

text \<open>
  Between two ticks the tasks of the children work: they end children and check listings of
  the marketplaces of their children; other tasks leave the parent alone.
\<close>

inductive run_event :: "orch_state \<Rightarrow> orch_state \<Rightarrow> bool" where
  tick: "run_event s (snd (run_tick env lock s))"
| work: "os_parent s' = os_parent s \<Longrightarrow> os_marketplaces s' = os_marketplaces s \<Longrightarrow>
    list_all2 (\<lambda>c c'. cj_marketplace_id c' = cj_marketplace_id c \<and> oc_job_type c' = oc_job_type c
      \<and> (cj_status c \<in> {''pending'', ''running''} \<or> cj_status c' = cj_status c)) (os_children s) (os_children s') \<Longrightarrow>
    (\<And>code. code \<notin> set (scraped_codes s) \<Longrightarrow> os_unchecked s' code = os_unchecked s code) \<Longrightarrow> run_event s s'"

inductive_cases run_eventE: "run_event s s'"

definition stuck :: "string \<Rightarrow> orch_state \<Rightarrow> bool" where
  "stuck code s = (blocked code s \<and> switched_off code (os_marketplaces s) \<and> code \<notin> set (scraped_codes s))"

lemma list_all2_in2: "list_all2 P xs ys \<Longrightarrow> y \<in> set ys \<Longrightarrow> \<exists>x\<in>set xs. P x y"
  by (induction xs ys rule: list_all2_induct) auto

lemma stuck_tick: "stuck code s \<Longrightarrow> stuck code (snd (run_tick env lock s))"
proof -
  assume stuck: "stuck code s"
  let ?ms = "os_marketplaces s"
  have off: "switched_off code ?ms" and I: "unscraped code ?ms s" using stuck by (simp_all add: stuck_def unscraped_def)
  have "unscraped code ?ms (snd (tick_body env s))"
    using unscraped_body [OF off, of env] I by (simp add: invariant_of_def)
  moreover have "unscraped code ?ms (schedule b t) = unscraped code ?ms t" for b t
    by (rule unscraped_cong) (simp_all add: schedule_def)
  ultimately have "unscraped code ?ms (snd (run_tick env lock s))"
    using I by (cases lock) (auto simp: run_tick_def split: prod.split)
  moreover have "blocked code (snd (run_tick env lock s))" using blocked_tick stuck by (auto simp: stuck_def)
  ultimately show ?thesis using off by (simp add: stuck_def unscraped_def)
qed

lemma stuck_work:
  assumes stuck: "stuck code s" and same: "os_parent s' = os_parent s" "os_marketplaces s' = os_marketplaces s"
    and children: "list_all2 (\<lambda>c c'. cj_marketplace_id c' = cj_marketplace_id c \<and> oc_job_type c' = oc_job_type c
      \<and> (cj_status c \<in> {''pending'', ''running''} \<or> cj_status c' = cj_status c)) (os_children s) (os_children s')"
    and checks: "\<And>code. code \<notin> set (scraped_codes s) \<Longrightarrow> os_unchecked s' code = os_unchecked s code"
  shows "stuck code s'"
proof -
  have free: "code \<notin> set (scraped_codes s)" using stuck by (simp add: stuck_def)
  have "code \<notin> set (scraped_codes s')"
  proof
    assume "code \<in> set (scraped_codes s')"
    then obtain c' m where c: "c' \<in> set (os_children s')" "is_active_child ''scrape'' c'" "m \<in> set (os_marketplaces s)"
      "mk_id m = cj_marketplace_id c'" "mk_code m = code" unfolding scraped_mem same by blast
    then obtain c where "c \<in> set (os_children s)" "cj_marketplace_id c' = cj_marketplace_id c" "oc_job_type c' = oc_job_type c"
      "cj_status c \<in> {''pending'', ''running''} \<or> cj_status c' = cj_status c"
      using list_all2_in2 [OF children c(1)] by blast
    with c free show False unfolding scraped_mem by (auto simp: is_active_child_def)
  qed
  then show ?thesis
    using stuck same checks [OF free] by (auto simp: stuck_def blocked_def waits_for_def split: option.splits)
qed


definition idle_meta :: tick_meta where
  "idle_meta =
     \<lparr> tm_phase = Some ''scrape'', tm_marketplace_codes = None, tm_mp_queue = [], tm_mp_total = 1, tm_tick_count = 3,
       tm_backoff_s = Some 5, tm_discovery_done = 1, tm_scrape_codes = Some [''shop''], tm_scrape_queue = Some [''shop''],
       tm_scrape_total = 1, tm_scrape_done = 0, tm_last_dispatched_at = [], tm_scrape_phase_started_at = Some 100,
       tm_current_stage = ''scrape'', tm_last_activity_at = Some 100, tm_scrape_error = None \<rparr>"

definition idle_state :: "tick_meta \<Rightarrow> bool \<Rightarrow> orch_state" where
  "idle_state meta active =
     \<lparr> os_now = 200, os_marketplaces = [\<lparr>mk_id = ''m1'', mk_code = ''shop'', mk_domain = None, mk_is_active = active\<rparr>],
       os_unchecked = (\<lambda>_ _. 7), os_children = [], os_parent = Some (''running'', meta), os_sent = [], os_scheduled = [],
       os_next_id = 0, os_log_rows = (\<lambda>_. []), os_completions = [] \<rparr>"

definition calm_env :: "bool \<Rightarrow> tick_env" where
  "calm_env inserts = \<lparr> te_fails = (\<lambda>_. False), te_insert_ok = (\<lambda>_. inserts), te_update_ok = (\<lambda>_. True),
     te_metadata_ok = (\<lambda>_. True), te_completion_ok = (\<lambda>_. True) \<rparr>"


section \<open>Turns\<close>

fun turns :: "(string list \<times> (string \<Rightarrow> nat) \<times> int) list \<Rightarrow> (string \<times> int) list \<Rightarrow> string list" where
  \<comment> \<open>the marketplaces picked one after the other, each recorded when it is\<close>
  "turns [] last_dispatched = []"
| "turns ((eligible, remainders, now) # rounds) last_dispatched =
     (let code = pick_next_scrape_marketplace eligible last_dispatched remainders
      in code # turns rounds (dict_set last_dispatched code now))"

lemma hd_sort_key_le: "x \<in> set xs \<Longrightarrow> f (hd (sort_key f xs)) \<le> f x"
  for f :: "'a \<Rightarrow> 'b::linorder"
proof -
  assume x: "x \<in> set xs"
  then obtain y ys where s: "sort_key f xs = y # ys" by (cases "sort_key f xs") (auto simp flip: set_sort [of f xs])
  have "sorted (map f (sort_key f xs))" "x \<in> set (sort_key f xs)" using x by simp_all
  then show ?thesis unfolding s by auto
qed

lemma pick_oldest: "code \<in> set eligible \<Longrightarrow> map_of d (pick_next_scrape_marketplace eligible d r) \<le> map_of d code"
  using hd_sort_key_le [of code eligible "dispatch_key d r"]
  by (auto simp: pick_next_scrape_marketplace_def dispatch_key_def less_eq_prod_def)

lemma turns_avoid:
  assumes "\<forall>(eligible, _, _)\<in>set rounds. code \<in> set eligible" "code \<notin> set (turns rounds d)" "map_of d code < Some t" "map_of d x = Some t"
  shows "x \<notin> set (turns rounds d)"
  using assms
proof (induction rounds arbitrary: d)
  case (Cons round rounds)
  obtain e r now where round: "round = (e, r, now)" by (cases round)
  let ?p = "pick_next_scrape_marketplace e d r"
  from Cons.prems(1) round have "map_of d ?p \<le> map_of d code" by (intro pick_oldest) auto
  with Cons.prems(3,4) have "?p \<noteq> x" by (metis leD)
  moreover from Cons.prems(2) round have "?p \<noteq> code" by (auto simp: Let_def)
  ultimately have "x \<notin> set (turns rounds (dict_set d ?p now))"
    using Cons.prems round by (intro Cons.IH) (auto simp: Let_def map_of_dict_set)
  with \<open>?p \<noteq> x\<close> show ?case by (simp add: round Let_def)
qed simp

lemma turns_distinct:
  assumes "\<forall>(eligible, _, now)\<in>set rounds. code \<in> set eligible \<and> map_of d code < Some now" "code \<notin> set (turns rounds d)"
  shows "distinct (turns rounds d)"
  using assms
proof (induction rounds arbitrary: d)
  case (Cons round rounds)
  obtain e r now where round: "round = (e, r, now)" by (cases round)
  let ?p = "pick_next_scrape_marketplace e d r"
  from Cons.prems(2) round have p: "?p \<noteq> code" and no: "code \<notin> set (turns rounds (dict_set d ?p now))"
    by (simp_all add: Let_def) auto
  have now: "map_of d code < Some now" using Cons.prems(1) round by simp
  have later: "\<forall>(eligible, _, now')\<in>set rounds. code \<in> set eligible \<and> map_of (dict_set d ?p now) code < Some now'"
    using Cons.prems(1) p by (simp add: map_of_dict_set)
  have "?p \<notin> set (turns rounds (dict_set d ?p now))"
  proof (rule turns_avoid [where code = code and t = now])
    show "\<forall>(eligible, _, _)\<in>set rounds. code \<in> set eligible" using later by fastforce
    show "map_of (dict_set d ?p now) code < Some now" using now p by (simp add: map_of_dict_set)
    show "map_of (dict_set d ?p now) ?p = Some now" by (simp add: map_of_dict_set)
  qed (rule no)
  moreover have "distinct (turns rounds (dict_set d ?p now))" by (rule Cons.IH [OF later no])
  ultimately show ?case by (simp add: round Let_def)
qed simp

lemma length_turns: "length (turns rounds d) = length rounds"
  by (induction rounds arbitrary: d) (auto simp: Let_def)

lemma turns_eligible:
  "\<forall>(eligible, _, _)\<in>set rounds. eligible \<noteq> [] \<and> set eligible \<subseteq> U \<Longrightarrow> set (turns rounds d) \<subseteq> U"
proof (induction rounds arbitrary: d)
  case (Cons round rounds)
  obtain e r now where round: "round = (e, r, now)" by (cases round)
  with Cons.prems pick_in [of e d r] have "pick_next_scrape_marketplace e d r \<in> U" by auto
  with Cons round show ?case by (auto simp: Let_def)
qed simp

text \<open>
  C26: A marketplace that stays eligible gets its turn: among as many picks as there are
  marketplaces, each made after the marketplace was last dispatched, one is the marketplace's.
\<close>

theorem scrape_turns_fair:
  assumes "\<forall>(eligible, _, now)\<in>set rounds. code \<in> set eligible \<and> set eligible \<subseteq> set codes \<and> map_of d code < Some now"
    and "length codes \<le> length rounds" "rounds \<noteq> []"
  shows "code \<in> set (turns rounds d)"
proof (rule ccontr)
  assume no: "code \<notin> set (turns rounds d)"
  have "distinct (turns rounds d)" using assms(1) no by (intro turns_distinct) auto
  moreover have "set (turns rounds d) \<subseteq> set codes - {code}"
    using turns_eligible [of rounds "set codes" d] assms(1) no by force
  moreover have "code \<in> set codes" using assms(1,3) by (cases rounds) auto
  ultimately have "length rounds < length codes"
    using card_mono [of "set codes - {code}" "set (turns rounds d)"] card_length [of codes]
    by (simp add: distinct_card length_turns) (metis Suc_pred card_gt_0_iff empty_iff finite_set le_trans less_Suc_eq_le not_le)
  with assms(2) show False by simp
qed

lemma scrape_turns_fair_witness:
  "''b'' \<in> set (turns [([''a'', ''b''], \<lambda>_. 3, 20), ([''b'', ''a''], \<lambda>_. 9, 30)] [(''b'', 10)])"
  by (rule scrape_turns_fair [where codes = "[''a'', ''b'']"]) simp_all

section \<open>Refused rows\<close>

lemma refused_child:
  assumes "te_fails env = (\<lambda>_. False)" "\<forall>c. \<not> te_insert_ok env c"
  obtains n where "create_pending_child env j code s = (Inr None, s\<lparr>os_next_id := n\<rparr>)"
proof (cases "find (\<lambda>m. mk_code m = code \<and> mk_is_active m) (os_marketplaces s)")
  case None
  then have "create_pending_child env j code s = (Inr None, s\<lparr>os_next_id := os_next_id s\<rparr>)"
    by (simp add: create_pending_child_def tick_apply assms(1))
  then show thesis by (rule that)
next
  case (Some m)
  then have "create_pending_child env j code s = (Inr None, s\<lparr>os_next_id := Suc (os_next_id s)\<rparr>)"
    by (simp add: create_pending_child_def tick_apply assms(1) Let_def) (simp add: assms(2))
  then show thesis by (rule that)
qed

lemma refused_dispatch:
  assumes env: "te_fails env = (\<lambda>_. False)" "\<forall>c. \<not> te_insert_ok env c"
    and "a < MAX_PARALLEL_DISCOVERY"
  shows "\<exists>n. discovery_dispatch env q a d s = (Inr ([], a, d), s\<lparr>os_next_id := n\<rparr>)"
proof (induction q arbitrary: s)
  case Nil
  show ?case by (auto intro: exI [of _ "os_next_id s"])
next
  case (Cons code q)
  obtain n where "create_pending_child env ''discovery'' code s = (Inr None, s\<lparr>os_next_id := n\<rparr>)"
    using refused_child [OF env] by metis
  moreover obtain k where "discovery_dispatch env q a d (s\<lparr>os_next_id := n\<rparr>) = (Inr ([], a, d), s\<lparr>os_next_id := k\<rparr>)"
    using Cons [of "s\<lparr>os_next_id := n\<rparr>"] by auto
  ultimately show ?case using assms(3) by (auto simp: bindA_apply)
qed

text \<open>
  When the gate refuses the rows of the children, and everything else works, a single tick
  of the discovery phase empties its queue, creates and sends nothing, counts every marketplace
  as discovered and goes on to scraping: the marketplaces are not tried again.
\<close>

theorem refused_inserts_skip_discovery:
  assumes "te_fails env = (\<lambda>_. False)" "\<forall>c. \<not> te_insert_ok env c" "\<forall>m. te_metadata_ok env m"
    and "os_parent s = Some (''running'', meta)" "tm_phase meta = Some ''discovery''" "os_children s = []"
  shows "\<exists>n. snd (run_tick env LockAcquired s) = s\<lparr>os_next_id := n, os_scheduled := os_scheduled s @ [5],
    os_parent := Some (''running'', meta\<lparr>tm_tick_count := Suc (tm_tick_count meta), tm_mp_queue := [],
      tm_discovery_done := int (tm_mp_total meta), tm_phase := Some ''scrape'', tm_backoff_s := Some 5,
      tm_last_activity_at := Some (os_now s), tm_current_stage := ''scrape''\<rparr>)\<rparr>"
proof -
  let ?meta = "meta\<lparr>tm_tick_count := Suc (tm_tick_count meta)\<rparr>"
  have idle: "reap_stale_children env ''discovery'' CHILD_RUNNING_REAP_SECONDS s = (Inr 0, s)"
    "reconcile_pending_children env ''discovery'' ''discover_one_marketplace'' s = (Inr 0, s)"
    "count_active_children env ''discovery'' s = (Inr 0, s)"
    using assms(1,6)
    by (simp_all add: reap_stale_children_def reconcile_pending_children_def count_active_children_def
        active_children_def tick_apply)
  obtain n where "discovery_dispatch env (tm_mp_queue meta) 0 False s = (Inr ([], 0, False), s\<lparr>os_next_id := n\<rparr>)"
    using refused_dispatch [OF assms(1,2), of 0 "tm_mp_queue meta" False s] by (auto simp: MAX_PARALLEL_DISCOVERY_def)
  moreover have "tick_body env s = tick_step env ?meta s"
    using assms(1,4,5) by (simp add: tick_body_def tick_running_def tick_apply)
  ultimately have "tick_body env s = (Inr ''phase_advanced'', schedule 5 (s\<lparr>os_next_id := n,
      os_parent := Some (''running'', ?meta\<lparr>tm_mp_queue := [],
        tm_discovery_done := int (tm_mp_total meta), tm_phase := Some ''scrape'', tm_backoff_s := Some 5,
        tm_last_activity_at := Some (os_now s), tm_current_stage := ''scrape''\<rparr>)\<rparr>))"
    using assms(1,3,4,5) idle
    by (simp add: tick_step_def discovery_phase_def advance_phase_def touch_def modifyA_def tick_apply Let_def TICK_MIN_SECONDS_def)
  then show ?thesis by (auto simp: run_tick_def schedule_def intro!: exI [of _ n])
qed

lemma refused_inserts_skip_discovery_witness:
  "\<exists>n. snd (run_tick (calm_env False) LockAcquired
        (idle_state (idle_meta\<lparr>tm_phase := Some ''discovery'', tm_mp_queue := [''shop'']\<rparr>) True))
     = (idle_state (idle_meta\<lparr>tm_phase := Some ''discovery'', tm_mp_queue := [''shop'']\<rparr>) True)
       \<lparr>os_next_id := n, os_scheduled := [] @ [5],
        os_parent := Some (''running'', idle_meta\<lparr>tm_tick_count := Suc (tm_tick_count idle_meta), tm_mp_queue := [],
          tm_discovery_done := int (tm_mp_total idle_meta), tm_phase := Some ''scrape'', tm_backoff_s := Some 5,
          tm_last_activity_at := Some 200, tm_current_stage := ''scrape''\<rparr>)\<rparr>"
  using refused_inserts_skip_discovery [of "calm_env False" "idle_state (idle_meta\<lparr>tm_phase := Some ''discovery'', tm_mp_queue := [''shop'']\<rparr>) True"
      "idle_meta\<lparr>tm_phase := Some ''discovery'', tm_mp_queue := [''shop'']\<rparr>"]
  by (simp add: calm_env_def idle_state_def)


end
