(* ===== verification/Frontier.thy ===== *)
theory Frontier
  imports PyNumber
begin

text \<open>
  The discovery cursors of a marketplace (\<open>discovery/cursor_store.py\<close>): what one discovery run
  leaves for the next. The frontier of the category crawl is a JSON value; it is validated when
  it is loaded, and a corrupt one is replaced by a fresh start. Entries of \<open>visited\<close> and
  \<open>listing_urls\<close> other than text, which nothing stores, are dropped by the model.
\<close>

section \<open>Cursors\<close>

record mp_cursors =
  mc_base_url :: string
  mc_frontier :: pyval
  mc_category_urls :: "string list option"
  mc_resume_index :: "int option"
  mc_sitemap_offset :: "int option"
  mc_sitemap_streak :: "int option"
  mc_phase1_streak :: "int option"
  mc_last_recon_at :: "int option"
  mc_last_sitemap_at :: "int option"
  mc_sitemap_url :: "string option"

definition or_0 :: "int option \<Rightarrow> int" where
  \<comment> \<open>\<open>int(x or 0)\<close>\<close>
  "or_0 x = (case x of None \<Rightarrow> 0 | Some i \<Rightarrow> i)"

definition get_sitemap_resume_offset :: "mp_cursors \<Rightarrow> int" where
  "get_sitemap_resume_offset m = or_0 (mc_sitemap_offset m)"

definition set_sitemap_resume_offset :: "int \<Rightarrow> mp_cursors \<Rightarrow> mp_cursors" where
  "set_sitemap_resume_offset offset m = m\<lparr>mc_sitemap_offset := Some offset\<rparr>"

definition get_sitemap_bad_harvest_streak :: "mp_cursors \<Rightarrow> int" where
  "get_sitemap_bad_harvest_streak m = or_0 (mc_sitemap_streak m)"

definition set_sitemap_bad_harvest_streak :: "int \<Rightarrow> mp_cursors \<Rightarrow> mp_cursors" where
  "set_sitemap_bad_harvest_streak streak m = m\<lparr>mc_sitemap_streak := Some streak\<rparr>"

definition get_phase1_exhausted_streak :: "mp_cursors \<Rightarrow> int" where
  "get_phase1_exhausted_streak m = or_0 (mc_phase1_streak m)"

definition set_phase1_exhausted_streak :: "int \<Rightarrow> mp_cursors \<Rightarrow> mp_cursors" where
  "set_phase1_exhausted_streak streak m = m\<lparr>mc_phase1_streak := Some streak\<rparr>"

definition get_category_resume_index :: "mp_cursors \<Rightarrow> int" where
  "get_category_resume_index m = or_0 (mc_resume_index m)"

definition set_category_resume_index :: "int \<Rightarrow> mp_cursors \<Rightarrow> mp_cursors" where
  "set_category_resume_index index m = m\<lparr>mc_resume_index := Some index\<rparr>"

definition get_discovered_category_urls :: "mp_cursors \<Rightarrow> string list" where
  "get_discovered_category_urls m = (case mc_category_urls m of None \<Rightarrow> [] | Some urls \<Rightarrow> urls)"

definition set_discovered_category_urls :: "string list \<Rightarrow> mp_cursors \<Rightarrow> mp_cursors" where
  "set_discovered_category_urls urls m = m\<lparr>mc_category_urls := Some urls\<rparr>"

definition set_last_category_recon_at :: "int \<Rightarrow> mp_cursors \<Rightarrow> mp_cursors" where
  "set_last_category_recon_at t m = m\<lparr>mc_last_recon_at := Some t\<rparr>"

definition set_last_sitemap_harvest_at :: "int \<Rightarrow> mp_cursors \<Rightarrow> mp_cursors" where
  "set_last_sitemap_harvest_at t m = m\<lparr>mc_last_sitemap_at := Some t\<rparr>"

definition set_sitemap_url :: "string \<Rightarrow> mp_cursors \<Rightarrow> mp_cursors" where
  "set_sitemap_url url m = m\<lparr>mc_sitemap_url := Some url\<rparr>"

section \<open>The frontier\<close>

type_synonym frontier = "(string \<times> int) list \<times> string list \<times> string list"

definition frontier_item :: "pyval \<Rightarrow> (string \<times> int) res" where
  \<comment> \<open>\<open>(str(item[0]), int(item[1]))\<close> of a list\<close>
  "frontier_item item = (case item of
     PList (u # d # _) \<Rightarrow> bindE (py_int d) (\<lambda>n. Inr (py_str u, n))
   | PList _ \<Rightarrow> Inl IndexError
   | _ \<Rightarrow> Inl TypeError)"

definition list_items :: "pyval \<Rightarrow> pyval list" where
  "list_items v = (case v of PList xs \<Rightarrow> xs | _ \<Rightarrow> [])"

definition hashable :: "pyval \<Rightarrow> bool" where
  "hashable v = (case v of PList _ \<Rightarrow> False | PDict _ \<Rightarrow> False | _ \<Rightarrow> True)"

definition texts :: "pyval list \<Rightarrow> string list" where
  "texts xs = List.map_filter (\<lambda>v. case v of PStr s \<Rightarrow> Some s | _ \<Rightarrow> None) xs"

definition parse_frontier :: "pydict \<Rightarrow> frontier res" where
  "parse_frontier saved =
     bindE (mapE frontier_item (list_items (dict_get saved ''queue''))) (\<lambda>queue.
     if \<not> list_all hashable (list_items (dict_get saved ''visited'')) then Inl TypeError
     else Inr (queue, remdups (texts (list_items (dict_get saved ''visited''))),
               texts (list_items (dict_get saved ''listing_urls''))))"

definition cold_start_frontier :: "mp_cursors \<Rightarrow> frontier" where
  "cold_start_frontier m = ([(mc_base_url m, 0)], [mc_base_url m], [])"

fun queue_error_kind :: "pyval list \<Rightarrow> string option res" where
  \<comment> \<open>the loop over the queue; an infinite depth is not caught\<close>
  "queue_error_kind [] = Inr None"
| "queue_error_kind (item # items) = (case item of
     PList [u, d] \<Rightarrow> (case py_int d of
         Inr _ \<Rightarrow> queue_error_kind items
       | Inl e \<Rightarrow> if e \<in> {TypeError, ValueError} then Inr (Some ''queue_depth_invalid'') else Inl e)
   | _ \<Rightarrow> Inr (Some ''queue_item_invalid''))"

definition frontier_schema_error_kind :: "pydict \<Rightarrow> string option res" where
  "frontier_schema_error_kind saved = (case dict_get saved ''queue'' of
     PList items \<Rightarrow>
       bindE (queue_error_kind items) (\<lambda>kind. case kind of
         Some k \<Rightarrow> Inr (Some k)
       | None \<Rightarrow>
           (case dict_get saved ''visited'' of
              PList _ \<Rightarrow>
                (case dict_get saved ''listing_urls'' of
                   PList _ \<Rightarrow> Inr None
                 | _ \<Rightarrow> Inr (Some ''listing_urls_not_list''))
            | _ \<Rightarrow> Inr (Some ''visited_not_list'')))
   | _ \<Rightarrow> Inr (Some ''queue_not_list''))"

definition clear_frontier :: "mp_cursors \<Rightarrow> mp_cursors" where
  "clear_frontier m = m\<lparr>mc_frontier := PNone\<rparr>"

definition safe_parse_frontier ::
    "mp_cursors \<Rightarrow> (pyexc + frontier \<times> string option) \<times> mp_cursors" where
  \<comment> \<open>the error kind is \<open>None\<close> unless the saved frontier was corrupt\<close>
  "safe_parse_frontier m =
     (let restart = (\<lambda>kind. let m' = set_category_resume_index 0 (clear_frontier m)
                            in (Inr (cold_start_frontier m', Some kind), m'))
      in if \<not> py_truth (mc_frontier m) then (Inr (cold_start_frontier m, None), m)
         else case mc_frontier m of
           PDict saved \<Rightarrow> (case frontier_schema_error_kind saved of
               Inl e \<Rightarrow> (Inl e, m)
             | Inr (Some kind) \<Rightarrow> restart kind
             | Inr None \<Rightarrow> (case parse_frontier saved of
                 Inr f \<Rightarrow> (Inr (f, None), m)
               | Inl _ \<Rightarrow> restart ''parse_failed''))
         | _ \<Rightarrow> (Inl AttributeError, m))"

definition serialize_frontier :: "(string \<times> int) list \<Rightarrow> string list \<Rightarrow> string list \<Rightarrow> pyval" where
  "serialize_frontier queue visited listing_urls =
     PDict [(''queue'', PList (map (\<lambda>(u, d). PList [PStr u, PInt d]) queue)),
            (''visited'', PList (map PStr (sort visited))),
            (''listing_urls'', PList (map PStr listing_urls))]"

definition apply_frontier :: "(string \<times> int) list \<Rightarrow> string list \<Rightarrow> string list \<Rightarrow> mp_cursors \<Rightarrow> mp_cursors" where
  "apply_frontier queue visited listing_urls m =
     m\<lparr>mc_frontier := serialize_frontier queue visited listing_urls\<rparr>"

section \<open>What is stored is what is loaded\<close>

lemma texts_PStr [simp]: "texts (map PStr xs) = xs"
  by (induction xs) (simp_all add: texts_def List.map_filter_def comp_def)

lemma hashable_PStr [simp]: "list_all hashable (map PStr xs)"
  by (simp add: list_all_iff hashable_def)

lemma frontier_items_stored: "mapE frontier_item (map (\<lambda>(u, d). PList [PStr u, PInt d]) queue) = Inr queue"
  by (induction queue) (auto simp: frontier_item_def py_str_def py_int_def)

lemma queue_stored_ok: "queue_error_kind (map (\<lambda>(u, d). PList [PStr u, PInt d]) queue) = Inr None"
  by (induction queue) (auto simp: py_int_def)

lemma serialized_get:
  "dict_get [(''queue'', q), (''visited'', v), (''listing_urls'', l)] ''queue'' = q"
  "dict_get [(''queue'', q), (''visited'', v), (''listing_urls'', l)] ''visited'' = v"
  "dict_get [(''queue'', q), (''visited'', v), (''listing_urls'', l)] ''listing_urls'' = l"
  by (simp_all add: dict_get_def)

lemma apply_then_parse:
  assumes "distinct visited"
  shows "safe_parse_frontier (apply_frontier queue visited listing_urls m)
    = (Inr ((queue, sort visited, listing_urls), None), apply_frontier queue visited listing_urls m)"
proof -
  have remdups: "remdups (sort visited) = sort visited" using assms by (simp add: distinct_remdups_id)
  show ?thesis
    by (simp add: safe_parse_frontier_def apply_frontier_def serialize_frontier_def py_truth_def Let_def
        frontier_schema_error_kind_def parse_frontier_def serialized_get queue_stored_ok list_items_def
        frontier_items_stored remdups)
qed

end
