(* ===== verification/PyUrl.thy ===== *)
theory PyUrl
  imports PyValue
begin

text \<open>
  \<open>urllib.parse.urlparse\<close>: scheme, network location and path of a URL. The errors it raises for
  unbalanced brackets and for host names that change under normalisation are left out.
\<close>

definition before_char :: "char \<Rightarrow> string \<Rightarrow> string" where
  "before_char c s = takeWhile (\<lambda>x. x \<noteq> c) s"

definition after_char :: "char \<Rightarrow> string \<Rightarrow> string" where
  \<comment> \<open>what follows the first occurrence\<close>
  "after_char c s = drop 1 (dropWhile (\<lambda>x. x \<noteq> c) s)"

definition is_ascii_alpha :: "char \<Rightarrow> bool" where
  "is_ascii_alpha c = (let n = (of_char c :: int) in (65 \<le> n \<and> n \<le> 90) \<or> (97 \<le> n \<and> n \<le> 122))"

definition is_scheme_char :: "char \<Rightarrow> bool" where
  "is_scheme_char c = (is_ascii_alpha c \<or> (let n = (of_char c :: int) in 48 \<le> n \<and> n \<le> 57)
     \<or> c = CHR ''+'' \<or> c = CHR ''-'' \<or> c = CHR ''.'')"

definition clean_url :: "string \<Rightarrow> string" where
  \<comment> \<open>leading control characters and spaces, and tabs and line ends anywhere, are dropped\<close>
  "clean_url s = filter (\<lambda>c. (of_char c :: int) \<notin> {9, 10, 13}) (dropWhile (\<lambda>c. (of_char c :: int) \<le> 32) s)"

definition split_scheme :: "string \<Rightarrow> string \<times> string" where
  "split_scheme s =
     (let head = before_char CHR '':'' s
      in if CHR '':'' \<in> set s \<and> head \<noteq> [] \<and> is_ascii_alpha (hd head) \<and> list_all is_scheme_char head
         then (py_lower head, after_char CHR '':'' s) else ('''', s))"

definition split_netloc :: "string \<Rightarrow> string \<times> string" where
  "split_netloc s =
     (if startswith s ''//'' then
        (takeWhile (\<lambda>c. c \<notin> {CHR ''/'', CHR ''?'', CHR ''#''}) (drop 2 s),
         dropWhile (\<lambda>c. c \<notin> {CHR ''/'', CHR ''?'', CHR ''#''}) (drop 2 s))
      else ('''', s))"

definition USES_PARAMS :: "string list" where
  "USES_PARAMS = ['''', ''ftp'', ''hdl'', ''prospero'', ''http'', ''https'', ''shttp'', ''rtsp'', ''rtspu'',
     ''sip'', ''sips'', ''mms'', ''sftp'', ''tel'']"

definition drop_params :: "string \<Rightarrow> string" where
  \<comment> \<open>parameters are cut off the last segment only\<close>
  "drop_params p =
     (let last_segment = rev (takeWhile (\<lambda>c. c \<noteq> CHR ''/'') (rev p))
      in take (length p - length last_segment) p @ before_char CHR '';'' last_segment)"

record url_parts =
  up_scheme :: string
  up_netloc :: string
  up_path :: string

definition urlparse :: "string \<Rightarrow> url_parts" where
  "urlparse url =
     (let (scheme, rest) = split_scheme (clean_url url);
          (netloc, tail) = split_netloc rest;
          path = before_char CHR ''?'' (before_char CHR ''#'' tail)
      in \<lparr> up_scheme = scheme, up_netloc = netloc,
           up_path = (if scheme \<in> set USES_PARAMS then drop_params path else path) \<rparr>)"

end
