(* ===== verification/CategoryBfs.thy ===== *)
theory CategoryBfs
  imports Complex_Main Frontier PyUrl "HOL-Library.Multiset"
begin

text \<open>
  Phase 1 of discovery, the crawl for category pages (\<open>discovery/bfs_walker.py\<close>). Pages come
  from outside: what the n-th request of a phase yields, the role the classifier gives a page and
  the links on it are the environment, as are the readings of the monotonic clock. A request may
  raise. Heartbeats and log output are left out; alerts are recorded by their type.
\<close>

section \<open>Pages\<close>

record 'page crawl_env =
  ce_fetch :: "nat \<Rightarrow> string \<Rightarrow> 'page option res"
  ce_role :: "'page \<Rightarrow> string \<Rightarrow> string"
  ce_links :: "'page \<Rightarrow> string \<Rightarrow> string list"
  ce_clock :: "nat \<Rightarrow> rat"
  ce_now :: int

record crawl_state =
  cs_cursors :: mp_cursors
  cs_fetched :: "string list"
  cs_empty :: nat
  cs_clock_reads :: nat
  cs_alerts :: "string list"

record bfs_state = crawl_state +
  bs_queue :: "(string \<times> int) list"
  bs_visited :: "string list"
  bs_listing_urls :: "string list"

definition alert :: "string \<Rightarrow> 's crawl_state_scheme \<Rightarrow> 's crawl_state_scheme" where
  \<comment> \<open>fail-open: an alert never stops the discovery\<close>
  "alert anomaly s = s\<lparr>cs_alerts := cs_alerts s @ [anomaly]\<rparr>"

definition fetch_page :: "('page, 'e) crawl_env_scheme \<Rightarrow> string \<Rightarrow> 's crawl_state_scheme
    \<Rightarrow> 'page option res \<times> 's crawl_state_scheme" where
  \<comment> \<open>the request and, unless it raises, its count\<close>
  "fetch_page env url s =
     (let s1 = s\<lparr>cs_fetched := cs_fetched s @ [url]\<rparr>
      in case ce_fetch env (length (cs_fetched s)) url of
           Inl e \<Rightarrow> (Inl e, s1)
         | Inr None \<Rightarrow> (Inr None, s1\<lparr>cs_empty := Suc (cs_empty s1)\<rparr>)
         | Inr (Some page) \<Rightarrow> (Inr (Some page), s1))"

definition deadline_passed :: "('page, 'e) crawl_env_scheme \<Rightarrow> rat option \<Rightarrow> 's crawl_state_scheme \<Rightarrow> bool" where
  "deadline_passed env deadline s = (case deadline of None \<Rightarrow> False | Some d \<Rightarrow> d \<le> ce_clock env (cs_clock_reads s))"

definition clock_read :: "rat option \<Rightarrow> 's crawl_state_scheme \<Rightarrow> 's crawl_state_scheme" where
  "clock_read deadline s = (if deadline = None then s else s\<lparr>cs_clock_reads := Suc (cs_clock_reads s)\<rparr>)"

definition FETCH_EMPTY_SOUP_MIN_SAMPLES :: nat where "FETCH_EMPTY_SOUP_MIN_SAMPLES = 5"
definition FETCH_EMPTY_SOUP_RATE_THRESHOLD :: pyfloat where "FETCH_EMPTY_SOUP_RATE_THRESHOLD = float_of_dec False 8 (- 1)"

definition emit_fetch_empty_soup_spike_if_needed :: "'s crawl_state_scheme \<Rightarrow> 's crawl_state_scheme" where
  "emit_fetch_empty_soup_spike_if_needed s =
     (let total = length (cs_fetched s)
      in if total < FETCH_EMPTY_SOUP_MIN_SAMPLES then s
         else if float_lt (round_ratio False (int (cs_empty s)) (int total)) FETCH_EMPTY_SOUP_RATE_THRESHOLD then s
         else alert ''fetch_empty_soup_spike'' s)"

section \<open>Publishing\<close>

definition CATEGORY_PUBLISH_BATCH :: nat where "CATEGORY_PUBLISH_BATCH = 60"
definition RECON_BFS_MAX_DEPTH :: int where "RECON_BFS_MAX_DEPTH = 3"
definition PHASE1_EXHAUSTED_STREAK_THRESHOLD :: int where "PHASE1_EXHAUSTED_STREAK_THRESHOLD = 3"

definition url_path_depth :: "string \<Rightarrow> nat" where
  "url_path_depth url = length (filter (\<lambda>segment. segment \<noteq> []) (split_char CHR ''/'' (up_path (urlparse url))))"

fun unique_urls :: "string list \<Rightarrow> string list \<Rightarrow> string list" where
  \<comment> \<open>first occurrences, in order\<close>
  "unique_urls seen [] = []"
| "unique_urls seen (u # us) = (if u \<in> set seen then unique_urls seen us else u # unique_urls (u # seen) us)"

definition publish_batch :: "string list \<Rightarrow> string list" where
  \<comment> \<open>deepest first; the sort is stable\<close>
  "publish_batch listing_urls = sort_key (\<lambda>u. - int (url_path_depth u)) (unique_urls [] listing_urls)"

definition publish_category_batch :: "int \<Rightarrow> bfs_state \<Rightarrow> string list \<times> bfs_state" where
  "publish_category_batch now s =
     (let unique = publish_batch (bs_listing_urls s);
          m = set_last_category_recon_at now (set_category_resume_index 0
                (set_discovered_category_urls unique (cs_cursors s)));
          m1 = (if unique \<noteq> [] then set_phase1_exhausted_streak 0 m else m);
          m2 = (if bs_queue s \<noteq> [] then apply_frontier (bs_queue s) (bs_visited s) [] m1 else clear_frontier m1)
      in (unique, s\<lparr>cs_cursors := m2\<rparr>))"

section \<open>The crawl\<close>

type_synonym bfs_result = "(string list \<times> bool) res \<times> bfs_state"

definition bfs_publish :: "('page, 'e) crawl_env_scheme \<Rightarrow> bfs_state \<Rightarrow> bfs_result" where
  "bfs_publish env s =
     (case publish_category_batch (ce_now env) s of
        (unique, s') \<Rightarrow> (Inr (unique, False), emit_fetch_empty_soup_spike_if_needed s'))"

definition bfs_deadline :: "('page, 'e) crawl_env_scheme \<Rightarrow> bfs_state \<Rightarrow> bfs_result" where
  \<comment> \<open>the budget of the phase has run out\<close>
  "bfs_deadline env s =
     (if bs_listing_urls s \<noteq> [] then bfs_publish env s
      else
        (let m = apply_frontier (bs_queue s) (bs_visited s) [] (cs_cursors s);
             streak = get_phase1_exhausted_streak m + 1;
             s1 = s\<lparr>cs_cursors := set_phase1_exhausted_streak streak m\<rparr>;
             s2 = (if bs_queue s \<noteq> [] then alert ''phase1_budget_exhausted_no_publish'' s1 else s1);
             s3 = (if PHASE1_EXHAUSTED_STREAK_THRESHOLD \<le> streak then alert ''phase1_repeated_exhausted'' s2 else s2)
         in (Inr (bs_listing_urls s, True), emit_fetch_empty_soup_spike_if_needed s3)))"

fun push_links :: "string list \<Rightarrow> int \<Rightarrow> bfs_state \<Rightarrow> bfs_state" where
  \<comment> \<open>links not seen before are seen and queued\<close>
  "push_links [] depth s = s"
| "push_links (link # links) depth s =
     (if link \<in> set (bs_visited s) then push_links links depth s
      else push_links links depth
             (s\<lparr>bs_visited := bs_visited s @ [link], bs_queue := bs_queue s @ [(link, depth)]\<rparr>))"

definition FALLBACK_SEEDS :: "string list" where
  "FALLBACK_SEEDS = [''/catalog'', ''/categories'', ''/shop'', ''/store'', ''/all'']"

definition fallback_url :: "string \<Rightarrow> string \<Rightarrow> string" where
  "fallback_url base seed = rstrip_by (\<lambda>c. c = CHR ''/'') base @ seed"

fun try_fallbacks :: "('page, 'e) crawl_env_scheme \<Rightarrow> string list \<Rightarrow> bfs_state \<Rightarrow> unit res \<times> bfs_state" where
  "try_fallbacks env [] s = (Inr (), s)"
| "try_fallbacks env (seed # seeds) s =
     (let url = fallback_url (mc_base_url (cs_cursors s)) seed
      in if url \<in> set (bs_visited s) then try_fallbacks env seeds s
         else case fetch_page env url s of
           (Inl e, s1) \<Rightarrow> (Inl e, s1)
         | (Inr None, s1) \<Rightarrow> try_fallbacks env seeds s1
         | (Inr (Some page), s1) \<Rightarrow>
             try_fallbacks env seeds
               (if ce_role env page url \<in> {''listing'', ''hub''}
                then s1\<lparr>bs_listing_urls := bs_listing_urls s1 @ [url]\<rparr> else s1))"

definition bfs_finish :: "('page, 'e) crawl_env_scheme \<Rightarrow> bfs_state \<Rightarrow> bfs_result" where
  "bfs_finish env s =
     (case (if bs_listing_urls s = [] then try_fallbacks env FALLBACK_SEEDS s else (Inr (), s)) of
        (Inl e, s1) \<Rightarrow> (Inl e, s1)
      | (Inr _, s1) \<Rightarrow> bfs_publish env s1)"

definition visit_page :: "('page, 'e) crawl_env_scheme \<Rightarrow> string \<Rightarrow> int \<Rightarrow> 'page \<Rightarrow> bfs_state \<Rightarrow> bfs_state" where
  \<comment> \<open>what a page adds to the crawl, by its role\<close>
  "visit_page env url depth page s =
     (let role = ce_role env page url; links = ce_links env page (mc_base_url (cs_cursors s))
      in if role = ''listing'' then
           (let s1 = (if url \<noteq> mc_base_url (cs_cursors s) then s\<lparr>bs_listing_urls := bs_listing_urls s @ [url]\<rparr> else s)
            in if depth < RECON_BFS_MAX_DEPTH then push_links links (depth + 1) s1 else s1)
         else if role \<in> {''hub'', ''unknown''} then push_links links (depth + 1) s
         else s)"

section \<open>Termination\<close>

text \<open>
  A page of depth \<open>d\<close> queues finitely many pages of depth \<open>d + 1\<close>, and none is asked for below
  depth three: the multiset of the remaining depths decreases, whatever the pages link to.
\<close>

definition frontier_measure :: "(string \<times> int) list \<Rightarrow> nat multiset" where
  "frontier_measure queue = {# nat (RECON_BFS_MAX_DEPTH + 1 - snd item). item \<in># mset queue #}"

definition frontier_order :: "(nat multiset \<times> nat multiset) set" where
  "frontier_order = mult less_than"

lemma push_links_queue:
  "\<exists>new. bs_queue (push_links links depth s) = bs_queue s @ map (\<lambda>l. (l, depth)) new
     \<and> bs_visited (push_links links depth s) = bs_visited s @ new \<and> set new \<subseteq> set links
     \<and> distinct new \<and> set new \<inter> set (bs_visited s) = {}
     \<and> set links \<subseteq> set (bs_visited s) \<union> set new \<and> length new \<le> length links"
proof (induction links depth s rule: push_links.induct)
  case (2 link links depth s)
  show ?case
  proof (cases "link \<in> set (bs_visited s)")
    case True
    with 2(1) show ?thesis by fastforce
  next
    case False
    with 2(2) obtain new where "bs_queue (push_links (link # links) depth s) = bs_queue s @ (link, depth) # map (\<lambda>l. (l, depth)) new"
      "bs_visited (push_links (link # links) depth s) = bs_visited s @ link # new" "set new \<subseteq> set links" "distinct new"
      "set new \<inter> (insert link (set (bs_visited s))) = {}" "set links \<subseteq> set (bs_visited s) \<union> insert link (set new)"
      "length new \<le> length links"
      by auto
    then show ?thesis using False by (intro exI [of _ "link # new"]) auto
  qed
qed simp

lemma push_links_frame [simp]:
  "cs_cursors (push_links links depth s) = cs_cursors s" "cs_fetched (push_links links depth s) = cs_fetched s"
  "bs_listing_urls (push_links links depth s) = bs_listing_urls s"
  by (induction links depth s rule: push_links.induct) auto

definition queues_new :: "string list \<Rightarrow> int \<Rightarrow> bfs_state \<Rightarrow> bfs_state \<Rightarrow> bool" where
  \<comment> \<open>some of the links, unseen before, were seen and queued\<close>
  "queues_new links depth s t = (\<exists>new. bs_queue t = bs_queue s @ map (\<lambda>l. (l, depth)) new \<and> bs_visited t = bs_visited s @ new
     \<and> distinct new \<and> set new \<inter> set (bs_visited s) = {} \<and> set new \<subseteq> set links \<and> length new \<le> length links)"

lemma push_links_new: "bs_queue t = bs_queue s \<Longrightarrow> bs_visited t = bs_visited s \<Longrightarrow> queues_new links depth s (push_links links depth t)"
  using push_links_queue [of links depth t] unfolding queues_new_def by metis

lemma queues_new_refl: "bs_queue t = bs_queue s \<Longrightarrow> bs_visited t = bs_visited s \<Longrightarrow> queues_new links depth s t"
  unfolding queues_new_def by (intro exI [of _ "[]"]) simp

lemma visit_page_new:
  "queues_new (ce_links env page (mc_base_url (cs_cursors s))) (depth + 1) s (visit_page env url depth page s)"
proof -
  note new = push_links_new queues_new_refl
  consider "ce_role env page url = ''listing''"
    | "ce_role env page url \<noteq> ''listing''" "ce_role env page url \<in> {''hub'', ''unknown''}"
    | "ce_role env page url \<noteq> ''listing''" "ce_role env page url \<notin> {''hub'', ''unknown''}" by blast
  then show ?thesis
  proof cases
    case 1
    show ?thesis unfolding visit_page_def Let_def if_P [OF 1] by (simp add: new)
  next
    case 2
    show ?thesis unfolding visit_page_def Let_def if_not_P [OF 2(1)] if_P [OF 2(2)] by (simp add: new)
  next
    case 3
    show ?thesis unfolding visit_page_def Let_def if_not_P [OF 3(1)] if_not_P [OF 3(2)] by (simp add: new)
  qed
qed

lemma fetch_page_frame:
  "fetch_page env url s = (r, t) \<Longrightarrow> cs_cursors t = cs_cursors s"
  "fetch_page env url s = (r, t) \<Longrightarrow> cs_fetched t = cs_fetched s @ [url]"
  by (auto simp: fetch_page_def Let_def split: sum.splits option.splits)

lemma fetch_page_bfs_frame:
  fixes s :: bfs_state
  assumes "fetch_page env url s = (r, t)"
  shows "bs_queue t = bs_queue s" "bs_visited t = bs_visited s" "bs_listing_urls t = bs_listing_urls s"
  using assms by (auto simp: fetch_page_def Let_def split: sum.splits option.splits)

lemma frontier_decreases:
  assumes "d \<le> RECON_BFS_MAX_DEPTH"
  shows "(frontier_measure (queue @ map (\<lambda>l. (l, d + 1)) new), frontier_measure ((u, d) # queue)) \<in> frontier_order"
proof -
  let ?n = "nat (RECON_BFS_MAX_DEPTH + 1 - d)" and ?k = "nat (RECON_BFS_MAX_DEPTH + 1 - (d + 1))"
  have "?k < ?n" using assms by simp
  have "(frontier_measure queue + replicate_mset (length new) ?k, frontier_measure queue + {#?n#}) \<in> mult less_than"
    using \<open>?k < ?n\<close> by (intro one_step_implies_mult) auto
  moreover have "frontier_measure (queue @ map (\<lambda>l. (l, d + 1)) new) = frontier_measure queue + replicate_mset (length new) ?k"
    by (induction new) (simp_all add: frontier_measure_def)
  ultimately show ?thesis by (simp add: frontier_order_def frontier_measure_def)
qed

lemma visit_decreases:
  assumes "d \<le> RECON_BFS_MAX_DEPTH"
  shows "(frontier_measure (bs_queue (visit_page env u d page s)), frontier_measure ((u, d) # bs_queue s)) \<in> frontier_order"
  using visit_page_new [of env page s d u] frontier_decreases [OF assms] by (auto simp: queues_new_def)

lemma frontier_drops: "(frontier_measure queue, frontier_measure (item # queue)) \<in> frontier_order"
  unfolding frontier_order_def frontier_measure_def by (auto intro!: subset_implies_mult)

lemma wf_frontier_order: "wf frontier_order"
  unfolding frontier_order_def by (rule wf_mult) simp

lemma clock_read_frame [simp]:
  "cs_cursors (clock_read deadline s) = cs_cursors s" "cs_fetched (clock_read deadline s) = cs_fetched s"
  by (simp_all add: clock_read_def)

lemma clock_read_bfs_frame [simp]:
  fixes s :: bfs_state
  shows "bs_queue (clock_read deadline s) = bs_queue s" "bs_visited (clock_read deadline s) = bs_visited s"
    "bs_listing_urls (clock_read deadline s) = bs_listing_urls s"
  by (simp_all add: clock_read_def)

function bfs_loop :: "('page, 'e) crawl_env_scheme \<Rightarrow> rat option \<Rightarrow> bfs_state \<Rightarrow> bfs_result" where
  "bfs_loop env deadline s = (case bs_queue s of
     [] \<Rightarrow> bfs_finish env s
   | (url, depth) # queue \<Rightarrow>
       if deadline_passed env deadline s then bfs_deadline env (clock_read deadline s)
       else
         (let s1 = (clock_read deadline s)\<lparr>bs_queue := queue\<rparr>
          in if RECON_BFS_MAX_DEPTH < depth then bfs_loop env deadline s1
             else case fetch_page env url s1 of
               (Inl e, s2) \<Rightarrow> (Inl e, s2)
             | (Inr None, s2) \<Rightarrow> bfs_loop env deadline s2
             | (Inr (Some page), s2) \<Rightarrow>
                 (let s3 = visit_page env url depth page s2
                  in if ce_role env page url = ''listing'' \<and> CATEGORY_PUBLISH_BATCH \<le> length (bs_listing_urls s3)
                     then bfs_publish env s3
                     else bfs_loop env deadline s3)))"
  by pat_completeness auto
termination
proof (relation "inv_image frontier_order (\<lambda>(env, deadline, s). frontier_measure (bs_queue s))", goal_cases)
  case 1
  show ?case by (simp add: wf_frontier_order wf_inv_image)
next
  case 2
  then show ?case by (simp add: frontier_drops)
next
  case 3
  then show ?case by (auto dest!: fetch_page_bfs_frame(1) [OF sym] simp: frontier_drops)
next
  case 4
  then show ?case
    by (auto dest!: fetch_page_bfs_frame(1) [OF sym] simp: visit_decreases)
qed

declare bfs_loop.simps [simp del]

definition run_category_bfs ::
    "('page, 'e) crawl_env_scheme \<Rightarrow> rat option \<Rightarrow> mp_cursors \<Rightarrow> bfs_result" where
  "run_category_bfs env deadline m =
     (let start = (\<lambda>m' alerts (queue, visited, listing_urls).
            \<lparr> cs_cursors = m', cs_fetched = [], cs_empty = 0, cs_clock_reads = 0, cs_alerts = alerts,
              bs_queue = queue, bs_visited = visited, bs_listing_urls = listing_urls \<rparr>)
      in if py_truth (mc_frontier m)
         then (case safe_parse_frontier m of
                 (Inl e, m') \<Rightarrow> (Inl e, start m' [] ([], [], []))
               | (Inr (f, None), m') \<Rightarrow> bfs_loop env deadline (start m' [] f)
               | (Inr (f, Some kind), m') \<Rightarrow> bfs_loop env deadline (start m' [''frontier_deserialize_failed''] f))
         else bfs_loop env deadline (start m [] (cold_start_frontier m)))"

end
