(* ===== verification/CrawlFacts.thy ===== *)
theory CrawlFacts
  imports CategoryBfs
begin

text \<open>
  The crawl over many runs: no page is asked for twice before the frontier is used up, and the
  number of requests is bounded by the number of links per page, however the runs are cut.
\<close>

section \<open>The invariant of the frontier\<close>

definition queue_urls :: "(string \<times> int) list \<Rightarrow> string list" where
  "queue_urls queue = map fst queue"

definition frontier_inv :: "(string \<times> int) list \<Rightarrow> string list \<Rightarrow> bool" where
  "frontier_inv queue visited = (distinct (queue_urls queue) \<and> distinct visited \<and> set (queue_urls queue) \<subseteq> set visited)"

text \<open>
  \<open>asks_only f v s t\<close>: between two states only pages were asked for that were not visited before, or
  were waiting in the queue, none of them twice.
\<close>

definition asked_before :: "bfs_state \<Rightarrow> string set" where
  "asked_before s = set (bs_visited s) - set (queue_urls (bs_queue s))"

definition crawl_inv :: "bfs_state \<Rightarrow> bool" where
  "crawl_inv s = (frontier_inv (bs_queue s) (bs_visited s) \<and> distinct (cs_fetched s) \<and> set (cs_fetched s) \<subseteq> asked_before s)"

definition saved_frontier :: "bfs_state \<Rightarrow> bool" where
  \<comment> \<open>the frontier of the state is what the cursors hold\<close>
  "saved_frontier s = (if bs_queue s = [] then mc_frontier (cs_cursors s) = PNone
     else mc_frontier (cs_cursors s) = serialize_frontier (bs_queue s) (bs_visited s) [])"

lemma spike_emit_frame [simp]:
  fixes s :: bfs_state
  shows "bs_queue (emit_fetch_empty_soup_spike_if_needed s) = bs_queue s"
    "bs_visited (emit_fetch_empty_soup_spike_if_needed s) = bs_visited s"
    "cs_fetched (emit_fetch_empty_soup_spike_if_needed s) = cs_fetched s"
    "cs_cursors (emit_fetch_empty_soup_spike_if_needed s) = cs_cursors s"
  by (simp_all add: emit_fetch_empty_soup_spike_if_needed_def Let_def alert_def)

lemma publish_frame:
  assumes "bfs_publish env s = (r, t)"
  shows "bs_queue t = bs_queue s" "bs_visited t = bs_visited s" "cs_fetched t = cs_fetched s" "saved_frontier t"
    "r = Inr (publish_batch (bs_listing_urls s), False)"
  using assms
  by (auto simp: bfs_publish_def publish_category_batch_def Let_def saved_frontier_def apply_frontier_def clear_frontier_def)

lemma deadline_frame:
  assumes "bfs_deadline env s = (r, t)" "bs_queue s \<noteq> []"
  shows "bs_queue t = bs_queue s" "bs_visited t = bs_visited s" "cs_fetched t = cs_fetched s" "saved_frontier t"
  using assms publish_frame [of env s r t]
  by (auto simp: bfs_deadline_def Let_def saved_frontier_def apply_frontier_def set_phase1_exhausted_streak_def alert_def
      split: if_splits)

lemma visit_page_frame:
  "cs_fetched (visit_page env url depth page s) = cs_fetched s" "cs_cursors (visit_page env url depth page s) = cs_cursors s"
  by (simp_all add: visit_page_def Let_def)

lemma crawl_inv_pop:
  assumes "crawl_inv s" "bs_queue s = (url, depth) # queue"
  shows "crawl_inv (s\<lparr>bs_queue := queue\<rparr>)" "url \<in> asked_before (s\<lparr>bs_queue := queue\<rparr>)" "url \<notin> set (cs_fetched s)"
  using assms by (auto simp: crawl_inv_def frontier_inv_def asked_before_def queue_urls_def)

lemma crawl_inv_fetch:
  assumes "crawl_inv s" "url \<in> asked_before s" "url \<notin> set (cs_fetched s)" "fetch_page env url s = (r, t)"
  shows "crawl_inv t"
  using assms fetch_page_bfs_frame [OF assms(4)] fetch_page_frame [OF assms(4)]
  by (auto simp: crawl_inv_def asked_before_def)

lemma queue_urls_simps [simp]:
  "queue_urls [] = []" "queue_urls ((u, d) # queue) = u # queue_urls queue"
  "queue_urls (queue @ map (\<lambda>l. (l, d)) new) = queue_urls queue @ new"
  by (simp_all add: queue_urls_def comp_def)

lemma crawl_inv_visit:
  assumes "crawl_inv s"
  shows "crawl_inv (visit_page env url depth page s)"
    "set (bs_visited s) \<subseteq> set (bs_visited (visit_page env url depth page s))"
    "asked_before (visit_page env url depth page s) = asked_before s"
proof -
  let ?t = "visit_page env url depth page s"
  obtain new where new: "bs_queue ?t = bs_queue s @ map (\<lambda>l. (l, depth + 1)) new" "bs_visited ?t = bs_visited s @ new"
    "distinct new" "set new \<inter> set (bs_visited s) = {}"
    using visit_page_new [of env page s depth url] by (auto simp: queues_new_def)
  show "set (bs_visited s) \<subseteq> set (bs_visited ?t)" using new(2) by simp
  show asked: "asked_before ?t = asked_before s" using new by (auto simp: asked_before_def)
  have "frontier_inv (bs_queue ?t) (bs_visited ?t)"
    using assms new unfolding crawl_inv_def frontier_inv_def by (simp only: queue_urls_simps distinct_append set_append) blast
  then show "crawl_inv ?t" using assms asked by (simp add: crawl_inv_def visit_page_frame)
qed

lemma crawl_inv_clock [simp]: "crawl_inv (clock_read deadline s) = crawl_inv s"
  by (simp add: crawl_inv_def asked_before_def)

section \<open>One run\<close>

text \<open>
  What a run of the loop does to the pages asked for: those asked for so far stay, and the new
  ones were not asked for before.
\<close>

definition asks_anew :: "bfs_state \<Rightarrow> bfs_state \<Rightarrow> bool" where
  "asks_anew s t = (\<exists>new. cs_fetched t = cs_fetched s @ new \<and> distinct (cs_fetched t) \<and> set new \<inter> asked_before s = {})"

lemma fallbacks_frame:
  assumes "try_fallbacks env seeds s = (r, t)"
  shows "bs_queue t = bs_queue s \<and> bs_visited t = bs_visited s \<and> cs_cursors t = cs_cursors s
    \<and> (\<exists>used. set used \<subseteq> set seeds \<and> length used \<le> length seeds \<and> (distinct seeds \<longrightarrow> distinct used)
         \<and> cs_fetched t = cs_fetched s @ map (fallback_url (mc_base_url (cs_cursors s))) used
         \<and> (\<forall>x\<in>set used. fallback_url (mc_base_url (cs_cursors s)) x \<notin> set (bs_visited s)))"
    (is "?F s seeds")
  using assms
proof (induction seeds arbitrary: s)
  case Nil
  then show ?case by simp
next
  case (Cons seed seeds)
  let ?url = "fallback_url (mc_base_url (cs_cursors s)) seed"
  show ?case
  proof (cases "?url \<in> set (bs_visited s)")
    case True
    with Cons.prems have "try_fallbacks env seeds s = (r, t)" by (simp add: Let_def)
    from Cons.IH [OF this] obtain used where u: "bs_queue t = bs_queue s" "bs_visited t = bs_visited s" "cs_cursors t = cs_cursors s"
      "set used \<subseteq> set seeds" "length used \<le> length seeds" "distinct seeds \<longrightarrow> distinct used"
      "cs_fetched t = cs_fetched s @ map (fallback_url (mc_base_url (cs_cursors s))) used"
      "\<forall>x\<in>set used. fallback_url (mc_base_url (cs_cursors s)) x \<notin> set (bs_visited s)" by blast
    then show ?thesis by (intro conjI exI [of _ used]) auto
  next
    case False
    obtain f s1 where fetch: "fetch_page env ?url s = (f, s1)" by fastforce
    note frame = fetch_page_bfs_frame [OF fetch] fetch_page_frame [OF fetch]
    show ?thesis
    proof (cases f)
      case (Inl e)
      with False fetch Cons.prems have "t = s1" by (simp add: Let_def)
      with frame False show ?thesis by (intro conjI exI [of _ "[seed]"]) auto
    next
      case (Inr page)
      define s2 where "s2 = (case page of None \<Rightarrow> s1
        | Some p \<Rightarrow> if ce_role env p ?url \<in> {''listing'', ''hub''}
                   then s1\<lparr>bs_listing_urls := bs_listing_urls s1 @ [?url]\<rparr> else s1)"
      have s2: "bs_queue s2 = bs_queue s" "bs_visited s2 = bs_visited s" "cs_cursors s2 = cs_cursors s"
        "cs_fetched s2 = cs_fetched s @ [?url]"
        using frame by (simp_all add: s2_def split: option.split)
      have "try_fallbacks env seeds s2 = (r, t)"
        using False fetch Inr Cons.prems by (cases page) (simp_all add: Let_def s2_def)
      from Cons.IH [OF this] s2 obtain used where u: "bs_queue t = bs_queue s" "bs_visited t = bs_visited s" "cs_cursors t = cs_cursors s"
        "set used \<subseteq> set seeds" "length used \<le> length seeds" "distinct seeds \<longrightarrow> distinct used"
        "cs_fetched t = cs_fetched s @ ?url # map (fallback_url (mc_base_url (cs_cursors s))) used"
        "\<forall>x\<in>set used. fallback_url (mc_base_url (cs_cursors s)) x \<notin> set (bs_visited s)" by auto
      then show ?thesis using False by (intro conjI exI [of _ "seed # used"]) auto
    qed
  qed
qed

lemma fallbacks_ask_anew:
  assumes "distinct (cs_fetched s)" "set (cs_fetched s) \<subseteq> set (bs_visited s)" "try_fallbacks env FALLBACK_SEEDS s = (r, t)"
  shows "\<exists>new. cs_fetched t = cs_fetched s @ new \<and> distinct (cs_fetched t) \<and> set new \<inter> set (bs_visited s) = {}"
proof -
  let ?url = "fallback_url (mc_base_url (cs_cursors s))"
  have "distinct FALLBACK_SEEDS" by (simp add: FALLBACK_SEEDS_def)
  then obtain used where "distinct used" "cs_fetched t = cs_fetched s @ map ?url used"
    "\<forall>x\<in>set used. ?url x \<notin> set (bs_visited s)" using fallbacks_frame [OF assms(3)] by blast
  moreover have "inj ?url" by (auto simp: inj_on_def fallback_url_def)
  ultimately show ?thesis using assms(1,2)
    by (intro exI [of _ "map ?url used"]) (auto simp: distinct_map intro: inj_on_subset)
qed

definition loop_ok :: "bfs_state \<Rightarrow> 'a res \<Rightarrow> bfs_state \<Rightarrow> bool" where
  "loop_ok s r t = (asks_anew s t
     \<and> (case r of Inl _ \<Rightarrow> True
        | Inr _ \<Rightarrow> saved_frontier t \<and> (bs_queue t \<noteq> [] \<longrightarrow> crawl_inv t \<and> asked_before s \<subseteq> asked_before t)))"

lemma loop_ok_step:
  assumes "cs_fetched s' = cs_fetched s @ pre" "set pre \<inter> asked_before s = {}" "asked_before s \<subseteq> asked_before s'"
    and "loop_ok s' r t"
  shows "loop_ok s r t"
proof -
  from assms(4) obtain new where "cs_fetched t = cs_fetched s' @ new" "distinct (cs_fetched t)" "set new \<inter> asked_before s' = {}"
    by (auto simp: loop_ok_def asks_anew_def)
  then have "asks_anew s t"
    using assms(1-3) unfolding asks_anew_def by (intro exI [of _ "pre @ new"]) auto
  then show ?thesis using assms(3,4) by (auto simp: loop_ok_def split: sum.splits)
qed

lemma loop_ok_same:
  assumes "crawl_inv s" "bs_queue t = bs_queue s" "bs_visited t = bs_visited s" "cs_fetched t = cs_fetched s" "saved_frontier t"
  shows "loop_ok s r t"
  using assms by (auto simp: loop_ok_def asks_anew_def crawl_inv_def asked_before_def split: sum.splits)

lemma finish_ok:
  assumes "crawl_inv s" "bs_queue s = []" "bfs_finish env s = (r, t)"
  shows "loop_ok s r t"
proof -
  obtain r1 s1 where f: "(if bs_listing_urls s = [] then try_fallbacks env FALLBACK_SEEDS s else (Inr (), s)) = (r1, s1)"
    by fastforce
  have inv: "distinct (cs_fetched s)" "set (cs_fetched s) \<subseteq> set (bs_visited s)" "asked_before s = set (bs_visited s)"
    using assms(1,2) by (auto simp: crawl_inv_def asked_before_def)
  have s1: "bs_queue s1 = [] \<and> bs_visited s1 = bs_visited s \<and>
    (\<exists>new. cs_fetched s1 = cs_fetched s @ new \<and> distinct (cs_fetched s1) \<and> set new \<inter> asked_before s = {})"
  proof (cases "bs_listing_urls s = []")
    case True
    have "try_fallbacks env FALLBACK_SEEDS s = (r1, s1)" using f True by simp
    from fallbacks_ask_anew [OF inv(1,2) this] fallbacks_frame [OF this] show ?thesis
      using assms(2) inv(3) by metis
  next
    case False
    with f assms(2) inv show ?thesis by auto
  qed
  show ?thesis
  proof (cases r1)
    case (Inl e)
    with f assms(3) have "t = s1" "r = Inl e" by (auto simp: bfs_finish_def)
    with s1 show ?thesis by (auto simp: loop_ok_def asks_anew_def)
  next
    case (Inr _)
    with f assms(3) have "bfs_publish env s1 = (r, t)" by (auto simp: bfs_finish_def)
    from publish_frame [OF this] s1 show ?thesis
      by (auto simp: loop_ok_def asks_anew_def)
  qed
qed

text \<open>The rule for facts about the whole loop, one case per exit and per way to go on.\<close>

lemma bfs_loop_rule [consumes 1, case_names finish deadline deep raise empty publish page]:
  assumes "bfs_loop env deadline s = (r, t)"
    and "\<And>s r t. bs_queue s = [] \<Longrightarrow> bfs_finish env s = (r, t) \<Longrightarrow> Q s r t"
    and "\<And>s r t. bs_queue s \<noteq> [] \<Longrightarrow> bfs_deadline env (clock_read deadline s) = (r, t) \<Longrightarrow> Q s r t"
    and "\<And>s url depth queue r t. bs_queue s = (url, depth) # queue \<Longrightarrow> RECON_BFS_MAX_DEPTH < depth
      \<Longrightarrow> Q ((clock_read deadline s)\<lparr>bs_queue := queue\<rparr>) r t \<Longrightarrow> Q s r t"
    and "\<And>s url depth queue e t. bs_queue s = (url, depth) # queue \<Longrightarrow> depth \<le> RECON_BFS_MAX_DEPTH
      \<Longrightarrow> fetch_page env url ((clock_read deadline s)\<lparr>bs_queue := queue\<rparr>) = (Inl e, t) \<Longrightarrow> Q s (Inl e) t"
    and "\<And>s url depth queue s2 r t. bs_queue s = (url, depth) # queue \<Longrightarrow> depth \<le> RECON_BFS_MAX_DEPTH
      \<Longrightarrow> fetch_page env url ((clock_read deadline s)\<lparr>bs_queue := queue\<rparr>) = (Inr None, s2) \<Longrightarrow> Q s2 r t \<Longrightarrow> Q s r t"
    and "\<And>s url depth queue page s2 r t. bs_queue s = (url, depth) # queue \<Longrightarrow> depth \<le> RECON_BFS_MAX_DEPTH
      \<Longrightarrow> fetch_page env url ((clock_read deadline s)\<lparr>bs_queue := queue\<rparr>) = (Inr (Some page), s2)
      \<Longrightarrow> bfs_publish env (visit_page env url depth page s2) = (r, t) \<Longrightarrow> Q s r t"
    and "\<And>s url depth queue page s2 r t. bs_queue s = (url, depth) # queue \<Longrightarrow> depth \<le> RECON_BFS_MAX_DEPTH
      \<Longrightarrow> fetch_page env url ((clock_read deadline s)\<lparr>bs_queue := queue\<rparr>) = (Inr (Some page), s2)
      \<Longrightarrow> Q (visit_page env url depth page s2) r t \<Longrightarrow> Q s r t"
  shows "Q s r t"
  using assms(1)
proof (induction s rule: wf_induct_rule [OF wf_inv_image [OF wf_frontier_order, of "\<lambda>s. frontier_measure (bs_queue s)"]])
  case (1 s)
  note loop = 1(2) and unfold = bfs_loop.simps [of env deadline s]
  have IH: "Q u r t" if "(frontier_measure (bs_queue u), frontier_measure (bs_queue s)) \<in> frontier_order"
    "bfs_loop env deadline u = (r, t)" for u
    using 1(1) that by (simp add: in_inv_image)
  show ?case
  proof (cases "bs_queue s")
    case Nil
    with loop show ?thesis by (intro assms(2)) (simp_all add: unfold)
  next
    case (Cons item queue)
    obtain url depth where q: "bs_queue s = (url, depth) # queue" using Cons by (cases item) auto
    let ?s1 = "(clock_read deadline s)\<lparr>bs_queue := queue\<rparr>"
    consider (late) "deadline_passed env deadline s"
      | (deep) "\<not> deadline_passed env deadline s" "RECON_BFS_MAX_DEPTH < depth"
      | (fetch) "\<not> deadline_passed env deadline s" "depth \<le> RECON_BFS_MAX_DEPTH" by fastforce
    then show ?thesis
    proof cases
      case late
      with loop q show ?thesis by (intro assms(3)) (simp_all add: unfold)
    next
      case deep
      with loop q have "Q ?s1 r t" by (intro IH) (simp_all add: unfold frontier_drops)
      then show ?thesis by (rule assms(4) [OF q deep(2)])
    next
      case fetch
      obtain f s2 where f: "fetch_page env url ?s1 = (f, s2)" by fastforce
      have q2: "bs_queue s2 = queue" using fetch_page_bfs_frame(1) [OF f] by simp
      show ?thesis
      proof (cases f)
        case (Inl e)
        with loop q fetch f have "r = Inl e" "t = s2" by (simp_all add: unfold)
        with assms(5) [OF q fetch(2)] f Inl show ?thesis by simp
      next
        case (Inr answer)
        show ?thesis
        proof (cases answer)
          case None
          with loop q fetch f Inr have "Q s2 r t" by (intro IH) (simp_all add: unfold q2 frontier_drops)
          with assms(6) [OF q fetch(2)] f Inr None show ?thesis by simp
        next
          case (Some page)
          note f' = f [unfolded Inr Some]
          let ?s3 = "visit_page env url depth page s2"
          show ?thesis
          proof (cases "ce_role env page url = ''listing'' \<and> CATEGORY_PUBLISH_BATCH \<le> length (bs_listing_urls ?s3)")
            case True
            with loop q fetch f' have "bfs_publish env ?s3 = (r, t)" by (simp add: unfold Let_def)
            then show ?thesis by (rule assms(7) [OF q fetch(2) f'])
          next
            case False
            with loop q fetch f' have "bfs_loop env deadline ?s3 = (r, t)" by (auto simp: unfold Let_def)
            then have "Q ?s3 r t" using visit_decreases [OF fetch(2), of env url page s2] by (intro IH) (simp_all add: q q2)
            then show ?thesis by (rule assms(8) [OF q fetch(2) f'])
          qed
        qed
      qed
    qed
  qed
qed

lemma fetched_step:
  assumes "crawl_inv s" "bs_queue s = (url, depth) # queue"
    and fetch: "fetch_page env url ((clock_read deadline s)\<lparr>bs_queue := queue\<rparr>) = (f, s2)"
  shows "crawl_inv s2" "loop_ok s2 r t \<Longrightarrow> loop_ok s r t"
proof -
  let ?s1 = "(clock_read deadline s)\<lparr>bs_queue := queue\<rparr>"
  note frame = fetch_page_bfs_frame [OF fetch] fetch_page_frame [OF fetch]
  have inv1: "crawl_inv ?s1" "url \<in> asked_before ?s1" "url \<notin> set (cs_fetched ?s1)"
    using crawl_inv_pop [of "clock_read deadline s" url depth queue] assms(1,2) by simp_all
  show "crawl_inv s2" by (rule crawl_inv_fetch [OF inv1 fetch])
  show "loop_ok s r t" if "loop_ok s2 r t"
    by (rule loop_ok_step [OF _ _ _ that, where pre = "[url]"])
       (use frame assms(2) in \<open>auto simp: asked_before_def\<close>)
qed

lemma visited_step:
  assumes "crawl_inv s" "loop_ok (visit_page env url depth page s) r t"
  shows "loop_ok s r t"
  by (rule loop_ok_step [OF _ _ _ assms(2), where pre = "[]"])
     (simp_all add: visit_page_frame crawl_inv_visit(3) [OF assms(1)])

lemma bfs_loop_ok:
  assumes "bfs_loop env deadline s = (r, t)"
  shows "crawl_inv s \<longrightarrow> loop_ok s r t"
  using assms
proof (induction rule: bfs_loop_rule)
  case (finish s r t)
  then show ?case using finish_ok by blast
next
  case (deadline s r t)
  have "bs_queue (clock_read deadline s) \<noteq> []" using deadline(1) by simp
  from deadline_frame [OF deadline(2) this] show ?case by (auto intro: loop_ok_same)
next
  case (deep s url depth queue r t)
  let ?s1 = "(clock_read deadline s)\<lparr>bs_queue := queue\<rparr>"
  show ?case
  proof
    assume "crawl_inv s"
    then have "crawl_inv ?s1" using crawl_inv_pop(1) [of "clock_read deadline s" url depth queue] deep(1) by simp
    with deep(3) have "loop_ok ?s1 r t" by blast
    then show "loop_ok s r t"
      by (rule loop_ok_step [where pre = "[]", rotated 3]) (use deep(1) in \<open>auto simp: asked_before_def\<close>)
  qed
next
  case (raise s url depth queue e t)
  show ?case
  proof
    assume "crawl_inv s"
    note step = fetched_step [OF this raise(1) raise(3)]
    have "loop_ok t (Inl e) t" using step(1) by (auto simp: loop_ok_def asks_anew_def crawl_inv_def)
    then show "loop_ok s (Inl e) t" by (rule step(2))
  qed
next
  case (empty s url depth queue s2 r t)
  then show ?case using fetched_step [OF _ empty(1) empty(3)] by blast
next
  case (publish s url depth queue page s2 r t)
  show ?case
  proof
    assume "crawl_inv s"
    note step = fetched_step [OF this publish(1) publish(3)]
    have "crawl_inv (visit_page env url depth page s2)" by (rule crawl_inv_visit [OF step(1)])
    then have "loop_ok (visit_page env url depth page s2) r t"
      using publish_frame [OF publish(4)] by (intro loop_ok_same) simp_all
    from visited_step [OF step(1) this] show "loop_ok s r t" by (rule step(2))
  qed
next
  case (page s url depth queue pg s2 r t)
  show ?case
  proof
    assume "crawl_inv s"
    note step = fetched_step [OF this page(1) page(3)]
    have "loop_ok (visit_page env url depth pg s2) r t" by (rule mp [OF page(4) crawl_inv_visit(1) [OF step(1)]])
    from visited_step [OF step(1) this] show "loop_ok s r t" by (rule step(2))
  qed
qed

section \<open>A crawl over many runs\<close>

fun crawl_ticks ::
    "(('page, 'e) crawl_env_scheme \<times> rat option \<times> mp_cursors) list \<Rightarrow> pyval \<Rightarrow> string list list" where
  \<comment> \<open>the pages asked for in consecutive runs, until the frontier is used up or a run raises; other
     cursors may change in between\<close>
  "crawl_ticks [] frontier = []"
| "crawl_ticks ((env, deadline, m) # runs) frontier =
     (case run_category_bfs env deadline (m\<lparr>mc_frontier := frontier\<rparr>) of
        (r, s) \<Rightarrow> cs_fetched s # (case r of Inl _ \<Rightarrow> []
          | Inr _ \<Rightarrow> if mc_frontier (cs_cursors s) = PNone then [] else crawl_ticks runs (mc_frontier (cs_cursors s))))"

definition fresh_state :: "mp_cursors \<Rightarrow> (string \<times> int) list \<Rightarrow> string list \<Rightarrow> bfs_state" where
  "fresh_state m queue visited =
     \<lparr> cs_cursors = m, cs_fetched = [], cs_empty = 0, cs_clock_reads = 0, cs_alerts = [],
       bs_queue = queue, bs_visited = visited, bs_listing_urls = [] \<rparr>"

lemma run_from_saved:
  assumes "distinct visited"
  shows "run_category_bfs env deadline (m\<lparr>mc_frontier := serialize_frontier queue visited []\<rparr>)
    = bfs_loop env deadline (fresh_state (m\<lparr>mc_frontier := serialize_frontier queue visited []\<rparr>) queue (sort visited))"
  using apply_then_parse [OF assms, of queue "[]" m]
  by (simp add: run_category_bfs_def apply_frontier_def fresh_state_def py_truth_def serialize_frontier_def)

lemma run_from_start:
  "run_category_bfs env deadline (m\<lparr>mc_frontier := PNone\<rparr>)
    = bfs_loop env deadline (fresh_state (m\<lparr>mc_frontier := PNone\<rparr>) [(mc_base_url m, 0)] [mc_base_url m])"
  by (simp add: run_category_bfs_def fresh_state_def py_truth_def cold_start_frontier_def)

abbreviation ticks_after :: "(('page, 'e) crawl_env_scheme \<times> rat option \<times> mp_cursors) list \<Rightarrow> 'a res \<Rightarrow> bfs_state \<Rightarrow> string list list" where
  "ticks_after runs r t \<equiv> (case r of Inl _ \<Rightarrow> []
     | Inr _ \<Rightarrow> if mc_frontier (cs_cursors t) = PNone then [] else crawl_ticks runs (mc_frontier (cs_cursors t)))"

lemma tick_cases:
  assumes "bfs_loop env deadline s = (r, t)" "crawl_inv s"
  obtains (last) "ticks_after runs r t = []"
  | (more) "bs_queue t \<noteq> []" "crawl_inv t" "frontier_inv (bs_queue t) (bs_visited t)" "asked_before s \<subseteq> asked_before t"
      "ticks_after runs r t = crawl_ticks runs (serialize_frontier (bs_queue t) (bs_visited t) [])"
proof (cases "(\<exists>e. r = Inl e) \<or> mc_frontier (cs_cursors t) = PNone")
  case True
  then show ?thesis by (intro last) (auto split: sum.split)
next
  case False
  then obtain x where r: "r = Inr x" by (cases r) auto
  have "loop_ok s r t" using bfs_loop_ok [OF assms(1)] assms(2) by blast
  with False r show ?thesis
    by (intro more) (auto simp: loop_ok_def saved_frontier_def crawl_inv_def serialize_frontier_def split: if_splits)
qed

lemma crawl_inv_fresh [simp]: "frontier_inv queue visited \<Longrightarrow> crawl_inv (fresh_state m queue (sort visited))"
  by (simp add: crawl_inv_def fresh_state_def frontier_inv_def)

lemma fresh_simps [simp]:
  "asked_before (fresh_state m queue visited) = set visited - set (queue_urls queue)"
  "cs_fetched (fresh_state m queue visited) = []" "bs_queue (fresh_state m queue visited) = queue"
  by (simp_all add: asked_before_def fresh_state_def)

lemma crawl_ticks_saved:
  assumes "frontier_inv queue visited"
    and "bfs_loop env deadline (fresh_state (m\<lparr>mc_frontier := serialize_frontier queue visited []\<rparr>) queue (sort visited)) = (r, t)"
  shows "crawl_ticks ((env, deadline, m) # runs) (serialize_frontier queue visited []) = cs_fetched t # ticks_after runs r t"
  using assms by (simp add: run_from_saved frontier_inv_def)

lemma crawl_ticks_start:
  assumes "bfs_loop env deadline (fresh_state (m\<lparr>mc_frontier := PNone\<rparr>) [(mc_base_url m, 0)] (sort [mc_base_url m])) = (r, t)"
  shows "crawl_ticks ((env, deadline, m) # runs) PNone = cs_fetched t # ticks_after runs r t"
  using assms by (simp add: run_from_start)

lemma run_asks_anew:
  assumes "bfs_loop env deadline s = (r, t)" "crawl_inv s" "cs_fetched s = []"
  shows "distinct (cs_fetched t)" "set (cs_fetched t) \<inter> asked_before s = {}"
  using bfs_loop_ok [OF assms(1)] assms(2,3) by (auto simp: loop_ok_def asks_anew_def)

definition asks_once :: "string list list \<Rightarrow> string set \<Rightarrow> bool" where
  "asks_once ticks asked = (distinct (concat ticks) \<and> set (concat ticks) \<inter> asked = {})"

lemma asks_once_Cons:
  "asks_once ticks later \<Longrightarrow> distinct now \<Longrightarrow> set now \<inter> asked = {} \<Longrightarrow> set now \<subseteq> later \<Longrightarrow> asked \<subseteq> later
    \<Longrightarrow> asks_once (now # ticks) asked"
  unfolding asks_once_def by (simp only: concat.simps distinct_append set_append) blast

lemma asks_once_tick:
  assumes "bfs_loop env deadline s = (r, t)" "crawl_inv s" "cs_fetched s = []"
    and "\<And>queue visited. frontier_inv queue visited
      \<Longrightarrow> asks_once (crawl_ticks runs (serialize_frontier queue visited [])) (set visited - set (queue_urls queue))"
  shows "asks_once (cs_fetched t # ticks_after runs r t) (asked_before s)"
proof (cases rule: tick_cases [OF assms(1,2), of runs, case_names last more])
  case last
  with run_asks_anew [OF assms(1-3)] show ?thesis by (simp add: asks_once_def)
next
  case more
  have "asks_once (ticks_after runs r t) (asked_before t)" unfolding more(5) asked_before_def by (rule assms(4) [OF more(3)])
  moreover have "set (cs_fetched t) \<subseteq> asked_before t" using more(2) by (simp add: crawl_inv_def)
  ultimately show ?thesis using run_asks_anew [OF assms(1-3)] more(4) by (intro asks_once_Cons)
qed

lemma ticks_from_saved:
  "frontier_inv queue visited
    \<Longrightarrow> asks_once (crawl_ticks runs (serialize_frontier queue visited [])) (set visited - set (queue_urls queue))"
proof (induction runs arbitrary: queue visited)
  case Nil
  show ?case by (simp add: asks_once_def)
next
  case (Cons run runs)
  obtain env deadline m where run: "run = (env, deadline, m)" by (cases run)
  let ?s = "fresh_state (m\<lparr>mc_frontier := serialize_frontier queue visited []\<rparr>) queue (sort visited)"
  obtain r t where loop: "bfs_loop env deadline ?s = (r, t)" by fastforce
  have "asks_once (cs_fetched t # ticks_after runs r t) (asked_before ?s)"
    by (rule asks_once_tick [OF loop _ _ Cons.IH]) (use Cons.prems in simp_all)
  then show ?case by (simp only: run crawl_ticks_saved [OF Cons.prems loop]) simp
qed

text \<open>
  C12: From a fresh start, and over all the runs until the frontier is used up, the category crawl
  asks for no page twice: not within a run, and not in a later run either, since what is visited
  is stored with the queue. The runs may be cut anywhere by their deadlines or by publishing a
  batch, and the site may answer differently each time.
\<close>

theorem crawl_never_repeats: "distinct (concat (crawl_ticks runs PNone))"
proof (cases runs)
  case (Cons run rest)
  obtain env deadline m where run: "run = (env, deadline, m)" by (cases run)
  let ?s = "fresh_state (m\<lparr>mc_frontier := PNone\<rparr>) [(mc_base_url m, 0)] (sort [mc_base_url m])"
  obtain r t where loop: "bfs_loop env deadline ?s = (r, t)" by fastforce
  have "crawl_inv ?s" by (rule crawl_inv_fresh) (simp add: frontier_inv_def)
  then have "asks_once (cs_fetched t # ticks_after rest r t) (asked_before ?s)"
    by (rule asks_once_tick [OF loop _ _ ticks_from_saved]) simp
  then show ?thesis by (simp only: Cons run crawl_ticks_start [OF loop] asks_once_def)
qed simp

section \<open>How many pages\<close>

definition page_weight :: "nat \<Rightarrow> int \<Rightarrow> nat" where
  \<comment> \<open>how many pages a queued page can lead to, with at most \<open>B\<close> links a page\<close>
  "page_weight B depth = (\<Sum>i<nat (RECON_BFS_MAX_DEPTH + 1 - depth). B ^ i)"

definition queue_weight :: "nat \<Rightarrow> (string \<times> int) list \<Rightarrow> nat" where
  "queue_weight B queue = sum_list (map (\<lambda>item. page_weight B (snd item)) queue)"

lemma page_weight_step:
  assumes "depth \<le> RECON_BFS_MAX_DEPTH"
  shows "page_weight B depth = 1 + B * page_weight B (depth + 1)"
proof -
  have "nat (RECON_BFS_MAX_DEPTH + 1 - depth) = Suc (nat (RECON_BFS_MAX_DEPTH + 1 - (depth + 1)))" using assms by simp
  then show ?thesis unfolding page_weight_def
    by (simp add: sum.lessThan_Suc_shift sum_distrib_left del: sum.lessThan_Suc)
qed

lemma queue_weight_simps [simp]:
  "queue_weight B [] = 0" "queue_weight B ((u, d) # queue) = page_weight B d + queue_weight B queue"
  "queue_weight B (queue @ map (\<lambda>l. (l, d)) new) = queue_weight B queue + length new * page_weight B d"
  by (simp_all add: queue_weight_def comp_def sum_list_triv)

definition few_links :: "nat \<Rightarrow> ('page, 'e) crawl_env_scheme \<Rightarrow> bool" where
  "few_links B env = (\<forall>page base. length (ce_links env page base) \<le> B)"

definition crawl_cost :: "nat \<Rightarrow> bfs_state \<Rightarrow> nat" where
  "crawl_cost B s = length (cs_fetched s) + queue_weight B (bs_queue s)"

lemma cost_fetched:
  assumes "bs_queue s = (url, depth) # queue" "depth \<le> RECON_BFS_MAX_DEPTH"
    and "fetch_page env url ((clock_read deadline s)\<lparr>bs_queue := queue\<rparr>) = (f, s2)"
  shows "crawl_cost B s2 + B * page_weight B (depth + 1) = crawl_cost B s"
  using assms fetch_page_bfs_frame [OF assms(3)] fetch_page_frame [OF assms(3)] page_weight_step [OF assms(2), of B]
  by (simp add: crawl_cost_def)

lemma cost_visited:
  assumes "few_links B env"
  shows "crawl_cost B (visit_page env url depth page s) \<le> crawl_cost B s + B * page_weight B (depth + 1)"
proof -
  obtain new where "bs_queue (visit_page env url depth page s) = bs_queue s @ map (\<lambda>l. (l, depth + 1)) new"
    "length new \<le> length (ce_links env page (mc_base_url (cs_cursors s)))"
    using visit_page_new [of env page s depth url] by (auto simp: queues_new_def)
  moreover from this(2) have "length new * page_weight B (depth + 1) \<le> B * page_weight B (depth + 1)"
    using assms by (intro mult_le_mono) (auto simp: few_links_def intro: order_trans)
  ultimately show ?thesis by (simp add: crawl_cost_def visit_page_frame)
qed

definition run_cost :: "nat \<Rightarrow> bfs_state \<Rightarrow> nat" where
  \<comment> \<open>the fallback seeds come on top once the queue is empty\<close>
  "run_cost B t = (if bs_queue t = [] then length (cs_fetched t) else crawl_cost B t + length FALLBACK_SEEDS)"

lemma fallbacks_cost:
  "try_fallbacks env seeds s = (r, t) \<Longrightarrow> length (cs_fetched t) \<le> length (cs_fetched s) + length seeds \<and> bs_queue t = bs_queue s"
  using fallbacks_frame [of env seeds s r t] by auto

lemma bfs_loop_cost:
  assumes "bfs_loop env deadline s = (r, t)" "few_links B env"
  shows "run_cost B t \<le> crawl_cost B s + length FALLBACK_SEEDS"
  using assms(1)
proof (induction rule: bfs_loop_rule)
  case (finish s r t)
  obtain r1 s1 where f: "(if bs_listing_urls s = [] then try_fallbacks env FALLBACK_SEEDS s else (Inr (), s)) = (r1, s1)"
    by fastforce
  then have s1: "length (cs_fetched s1) \<le> length (cs_fetched s) + length FALLBACK_SEEDS" "bs_queue s1 = []"
    using fallbacks_cost [of env FALLBACK_SEEDS s r1 s1] finish(1) by (auto split: if_splits)
  have "cs_fetched t = cs_fetched s1" "bs_queue t = []"
    using f finish(2) s1(2) publish_frame [of env s1 r t] by (auto simp: bfs_finish_def split: sum.splits)
  with s1 finish(1) show ?case by (simp add: run_cost_def crawl_cost_def)
next
  case (deadline s r t)
  have "bs_queue (clock_read deadline s) \<noteq> []" using deadline(1) by simp
  from deadline_frame [OF deadline(2) this] deadline(1) show ?case by (simp add: run_cost_def crawl_cost_def)
next
  case (deep s url depth queue r t)
  then show ?case by (simp add: crawl_cost_def)
next
  case (raise s url depth queue e t)
  from cost_fetched [OF raise, of B] show ?case by (auto simp: run_cost_def crawl_cost_def)
next
  case (empty s url depth queue s2 r t)
  from cost_fetched [OF empty(1-3), of B] empty(4) show ?case by simp
next
  case (publish s url depth queue page s2 r t)
  from cost_fetched [OF publish(1-3), of B] cost_visited [OF assms(2), of url depth page s2]
    publish_frame [OF publish(4)] show ?case by (auto simp: run_cost_def crawl_cost_def)
next
  case (page s url depth queue pg s2 r t)
  from cost_fetched [OF page(1-3), of B] cost_visited [OF assms(2), of url depth pg s2] page(4) show ?case by linarith
qed

lemma tick_cost:
  assumes "bfs_loop env deadline s = (r, t)" "crawl_inv s" "cs_fetched s = []" "few_links B env"
    and "\<And>queue visited. frontier_inv queue visited
      \<Longrightarrow> length (concat (crawl_ticks runs (serialize_frontier queue visited []))) \<le> queue_weight B queue + length FALLBACK_SEEDS"
  shows "length (concat (cs_fetched t # ticks_after runs r t)) \<le> queue_weight B (bs_queue s) + length FALLBACK_SEEDS"
proof -
  have cost: "run_cost B t \<le> queue_weight B (bs_queue s) + length FALLBACK_SEEDS"
    using bfs_loop_cost [OF assms(1,4)] assms(3) by (simp add: crawl_cost_def)
  show ?thesis
  proof (cases rule: tick_cases [OF assms(1,2), of runs, case_names last more])
    case last
    with cost show ?thesis by (auto simp: run_cost_def crawl_cost_def split: if_splits)
  next
    case more
    have "length (concat (ticks_after runs r t)) \<le> queue_weight B (bs_queue t) + length FALLBACK_SEEDS"
      unfolding more(5) by (rule assms(5) [OF more(3)])
    with cost more(1) show ?thesis by (simp add: run_cost_def crawl_cost_def)
  qed
qed

lemma ticks_cost:
  assumes "frontier_inv queue visited" "\<forall>run\<in>set runs. few_links B (fst run)"
  shows "length (concat (crawl_ticks runs (serialize_frontier queue visited []))) \<le> queue_weight B queue + length FALLBACK_SEEDS"
  using assms
proof (induction runs arbitrary: queue visited)
  case (Cons run runs)
  obtain env deadline m where run: "run = (env, deadline, m)" by (cases run)
  let ?s = "fresh_state (m\<lparr>mc_frontier := serialize_frontier queue visited []\<rparr>) queue (sort visited)"
  obtain r t where loop: "bfs_loop env deadline ?s = (r, t)" by fastforce
  have "length (concat (cs_fetched t # ticks_after runs r t)) \<le> queue_weight B (bs_queue ?s) + length FALLBACK_SEEDS"
    by (rule tick_cost [OF loop _ _ _ Cons.IH]) (use Cons.prems run in simp_all)
  then show ?case by (simp only: run crawl_ticks_saved [OF Cons.prems(1) loop]) simp
qed simp

text \<open>
  C35: A crawl is bounded by the site's links alone: if no page has more than \<open>B\<close> internal links,
  all runs until the frontier is used up ask for at most \<open>1 + B + B\<^sup>2 + B\<^sup>3\<close> pages and the five
  fallback seeds, although the links may go on for ever and every answer may differ.
\<close>

theorem crawl_bounded:
  assumes "\<forall>run\<in>set runs. few_links B (fst run)"
  shows "length (concat (crawl_ticks runs PNone)) \<le> 1 + B + B ^ 2 + B ^ 3 + 5"
proof (cases runs)
  case (Cons run rest)
  obtain env deadline m where run: "run = (env, deadline, m)" by (cases run)
  let ?s = "fresh_state (m\<lparr>mc_frontier := PNone\<rparr>) [(mc_base_url m, 0)] (sort [mc_base_url m])"
  obtain r t where loop: "bfs_loop env deadline ?s = (r, t)" by fastforce
  have "crawl_inv ?s" by (rule crawl_inv_fresh) (simp add: frontier_inv_def)
  then have "length (concat (cs_fetched t # ticks_after rest r t)) \<le> queue_weight B (bs_queue ?s) + length FALLBACK_SEEDS"
    by (rule tick_cost [OF loop _ _ _ ticks_cost]) (use assms Cons run in simp_all)
  moreover have "queue_weight B (bs_queue ?s) = 1 + B + B ^ 2 + B ^ 3"
    by (simp add: page_weight_def RECON_BFS_MAX_DEPTH_def eval_nat_numeral)
  ultimately show ?thesis by (simp only: Cons run crawl_ticks_start [OF loop]) (simp add: FALLBACK_SEEDS_def)
qed simp

definition small_site :: "string crawl_env" where
  \<comment> \<open>the home page links to a listing and to itself\<close>
  "small_site = \<lparr> ce_fetch = (\<lambda>n url. Inr (Some url)), ce_role = (\<lambda>page url. if url = ''h'' then ''hub'' else ''listing''),
     ce_links = (\<lambda>page base. [''h'', ''h/a'']), ce_clock = (\<lambda>n. of_nat n), ce_now = 9 \<rparr>"

definition site_cursors :: mp_cursors where
  "site_cursors = \<lparr> mc_base_url = ''h'', mc_frontier = PNone, mc_category_urls = Some [''h/old''], mc_resume_index = None,
     mc_sitemap_offset = None, mc_sitemap_streak = None, mc_phase1_streak = None, mc_last_recon_at = None,
     mc_last_sitemap_at = None, mc_sitemap_url = None \<rparr>"

lemma crawl_bounded_witness:
  "length (concat (crawl_ticks [(small_site, Some 1, site_cursors), (small_site, None, site_cursors)] PNone)) \<le> 1 + 2 + 2 ^ 2 + 2 ^ 3 + 5"
  by (rule crawl_bounded) (simp add: few_links_def small_site_def)

section \<open>An outage\<close>

lemma fetch_nothing:
  "\<forall>n url. ce_fetch env n url = Inr None \<Longrightarrow>
    fetch_page env url s = (Inr None, s\<lparr>cs_fetched := cs_fetched s @ [url], cs_empty := Suc (cs_empty s)\<rparr>)"
  by (simp add: fetch_page_def Let_def)

lemma fallbacks_nothing:
  assumes "\<forall>n url. ce_fetch env n url = Inr None" "try_fallbacks env seeds s = (r, t)"
  shows "r = Inr () \<and> bs_listing_urls t = bs_listing_urls s"
  using assms(2)
proof (induction seeds arbitrary: s)
  case (Cons seed seeds)
  then show ?case by (auto simp: Let_def fetch_nothing [OF assms(1)] split: if_splits)
qed simp

text \<open>
  C36: An outage of the site erases what was found before: when a fresh crawl gets no page at
  all, it ends normally, and publishes an empty list in place of the category pages the
  marketplace had, with the time of the crawl as the time of the last complete one.
\<close>

theorem outage_erases_categories:
  assumes "\<forall>n url. ce_fetch env n url = Inr None" "mc_frontier m = PNone"
  shows "\<exists>s. run_category_bfs env None m = (Inr ([], False), s) \<and> get_discovered_category_urls (cs_cursors s) = []
    \<and> mc_last_recon_at (cs_cursors s) = Some (ce_now env) \<and> mc_frontier (cs_cursors s) = PNone"
proof -
  let ?s = "fresh_state m [(mc_base_url m, 0)] [mc_base_url m]"
  have m: "m\<lparr>mc_frontier := PNone\<rparr> = m" using assms(2) by simp
  define s1 where "s1 = ?s\<lparr>bs_queue := [], cs_fetched := [mc_base_url m], cs_empty := 1\<rparr>"
  have "run_category_bfs env None m = bfs_loop env None ?s" using run_from_start [of env None m] unfolding m .
  also have "\<dots> = bfs_loop env None s1"
    by (subst bfs_loop.simps) (simp add: fresh_state_def s1_def deadline_passed_def clock_read_def Let_def
        RECON_BFS_MAX_DEPTH_def fetch_nothing [OF assms(1)])
  also have "\<dots> = bfs_finish env s1" by (subst bfs_loop.simps) (simp add: s1_def)
  finally have run: "run_category_bfs env None m = bfs_finish env s1" .
  obtain r t where f: "try_fallbacks env FALLBACK_SEEDS s1 = (r, t)" by fastforce
  have t: "r = Inr ()" "bs_listing_urls t = []" "bs_queue t = []"
    using fallbacks_nothing [OF assms(1) f] fallbacks_frame [OF f] by (simp_all add: s1_def fresh_state_def)
  have "bfs_finish env s1 = bfs_publish env t" using f t(1) by (simp add: bfs_finish_def s1_def fresh_state_def)
  with run t show ?thesis
    by (auto simp: bfs_publish_def publish_category_batch_def Let_def publish_batch_def get_discovered_category_urls_def
        set_discovered_category_urls_def set_category_resume_index_def set_last_category_recon_at_def clear_frontier_def)
qed

lemma outage_erases_categories_witness:
  "\<exists>s. run_category_bfs (small_site\<lparr>ce_fetch := \<lambda>n url. Inr None\<rparr>) None site_cursors = (Inr ([], False), s)
    \<and> get_discovered_category_urls (cs_cursors s) = []
    \<and> mc_last_recon_at (cs_cursors s) = Some (ce_now (small_site\<lparr>ce_fetch := \<lambda>n url. Inr None\<rparr>))
    \<and> mc_frontier (cs_cursors s) = PNone"
  by (rule outage_erases_categories) (simp_all add: site_cursors_def)

end
