(* ===== verification/PoolWrite.thy ===== *)
theory PoolWrite
  imports MatchFacts
begin

text \<open>
  The pool rail of discovery (\<open>discovery/gate_persist.py\<close>): a new product and its listing are
  evaluated and signed before anything is written, and written together, in chunks inside a
  savepoint of one session, or pair by pair when the gate refuses a chunk.
\<close>

section \<open>Savepoints\<close>

type_synonym savepoint = "reject_row list \<times> gate_statement list"

definition begin_nested :: "('s gate_state_scheme, savepoint) act" where
  "begin_nested s = (case gs_session s of
     SessionLive \<Rightarrow> (Inr (gs_session_rejects s, gs_session_writes s), s)
   | TransactionAborted \<Rightarrow> (Inl (DBAPIError aborted_message), s)
   | RollbackPending \<Rightarrow> (Inl PendingRollbackError, s))"

definition nested_commit :: "('s gate_state_scheme, unit) act" where
  "nested_commit s = (case gs_session s of
     SessionLive \<Rightarrow> (Inr (), s)
   | TransactionAborted \<Rightarrow> (Inl (DBAPIError aborted_message), s)
   | RollbackPending \<Rightarrow> (Inl PendingRollbackError, s))"

definition nested_rollback :: "savepoint \<Rightarrow> 's gate_state_scheme \<Rightarrow> 's gate_state_scheme" where
  "nested_rollback sp s =
     s\<lparr>gs_session := SessionLive, gs_session_rejects := fst sp, gs_session_writes := snd sp\<rparr>"

definition is_gate_or_db_error :: "pyexc \<Rightarrow> bool" where
  \<comment> \<open>\<open>except (GateRpcError, DBAPIError)\<close>\<close>
  "is_gate_or_db_error e = (case e of GateRpcError _ _ \<Rightarrow> True | DBAPIError _ \<Rightarrow> True | _ \<Rightarrow> False)"

section \<open>Pairs\<close>

record PoolInsertDTO =
  pd_marketplace_id :: string
  pd_dim_product :: pydict
  pd_fact_listing :: pydict

record PoolWriteResult =
  pw_inserted :: nat
  pw_rejected :: nat

record SignedPair =
  sp_marketplace_id :: string
  sp_product :: SignedRecord
  sp_listing :: SignedRecord

definition FAST_WRITE_CHUNK_PAIRS :: nat where "FAST_WRITE_CHUNK_PAIRS = 100"

definition passed_record :: "FirewallOutcome \<Rightarrow> SignedRecord option" where
  "passed_record outcome = (if fo_passed outcome then fo_signed_record outcome else None)"

fun evaluate_pairs ::
    "'e gate_env_scheme \<Rightarrow> PoolInsertDTO list \<Rightarrow> ('s gate_state_scheme, SignedPair list \<times> nat) act" where
  "evaluate_pairs env [] = retA ([], 0)"
| "evaluate_pairs env (d # dtos) =
     bindA (evaluate_market env (pd_dim_product d) ''dim_product'' ''insert'' True ''discovery'') (\<lambda>product.
     case passed_record product of
       None \<Rightarrow> bindA (evaluate_pairs env dtos) (\<lambda>(pairs, rejected). retA (pairs, Suc rejected))
     | Some p \<Rightarrow>
         bindA (evaluate_market env (pd_fact_listing d) ''fact_listing'' ''insert'' True ''discovery'') (\<lambda>listing.
         case passed_record listing of
           None \<Rightarrow> bindA (evaluate_pairs env dtos) (\<lambda>(pairs, rejected). retA (pairs, Suc rejected))
         | Some l \<Rightarrow>
             bindA (evaluate_pairs env dtos) (\<lambda>(pairs, rejected).
               retA (\<lparr> sp_marketplace_id = pd_marketplace_id d, sp_product = p, sp_listing = l \<rparr> # pairs, rejected))))"

definition discovery_context :: "string \<Rightarrow> PersistContext" where
  "discovery_context marketplace_id = (source_context ''discovery'')\<lparr>pc_marketplace_id := Some marketplace_id\<rparr>"

definition write_pair_body :: "'e persist_env_scheme \<Rightarrow> SignedPair \<Rightarrow> ('s gate_state_scheme, bool) act" where
  \<comment> \<open>product first: the listing refers to it\<close>
  "write_pair_body env pair =
     (let ctx = discovery_context (sp_marketplace_id pair)
      in bindA (write_sync env ctx (Some (sp_product pair))) (\<lambda>product.
         if \<not> pr_ok product then retA False
         else bindA (write_sync env ctx (Some (sp_listing pair))) (\<lambda>listing.
           if \<not> pr_ok listing then retA False
           else bindA nested_commit (\<lambda>_. retA True))))"

definition write_pair_slow :: "'e persist_env_scheme \<Rightarrow> SignedPair \<Rightarrow> ('s gate_state_scheme, bool) act" where
  "write_pair_slow env pair =
     bindA begin_nested (\<lambda>sp s. case write_pair_body env pair s of
         (Inr True, s') \<Rightarrow> (Inr True, s')
       | (Inr False, s') \<Rightarrow> (Inr False, nested_rollback sp s')
       | (Inl e, s') \<Rightarrow> (if is_gate_or_db_error e then Inr False else Inl e, nested_rollback sp s'))"

fun write_pairs_slow :: "'e persist_env_scheme \<Rightarrow> SignedPair list \<Rightarrow> ('s gate_state_scheme, PoolWriteResult) act" where
  "write_pairs_slow env [] = retA \<lparr> pw_inserted = 0, pw_rejected = 0 \<rparr>"
| "write_pairs_slow env (pair # pairs) =
     bindA (write_pair_slow env pair) (\<lambda>written.
     bindA (write_pairs_slow env pairs) (\<lambda>r.
       retA (if written then r\<lparr>pw_inserted := Suc (pw_inserted r)\<rparr> else r\<lparr>pw_rejected := Suc (pw_rejected r)\<rparr>)))"

definition write_chunk_body :: "'e persist_env_scheme \<Rightarrow> SignedPair list \<Rightarrow> ('s gate_state_scheme, unit) act" where
  "write_chunk_body env chunk =
     bindA (exec_write_rows env ''dim_product'' (map sp_product chunk)) (\<lambda>_.
     bindA (exec_write_rows env ''fact_listing'' (map sp_listing chunk)) (\<lambda>_. nested_commit))"

definition write_pair_chunk :: "'e persist_env_scheme \<Rightarrow> SignedPair list \<Rightarrow> ('s gate_state_scheme, PoolWriteResult) act" where
  "write_pair_chunk env chunk =
     bindA begin_nested (\<lambda>sp s. case write_chunk_body env chunk s of
         (Inr _, s') \<Rightarrow> (Inr \<lparr> pw_inserted = length chunk, pw_rejected = 0 \<rparr>, s')
       | (Inl e, s') \<Rightarrow>
           if is_gate_or_db_error e then write_pairs_slow env chunk (nested_rollback sp s') else (Inl e, s'))"

definition add_results :: "PoolWriteResult \<Rightarrow> PoolWriteResult \<Rightarrow> PoolWriteResult" where
  "add_results a b = \<lparr> pw_inserted = pw_inserted a + pw_inserted b, pw_rejected = pw_rejected a + pw_rejected b \<rparr>"

fun write_pair_chunks :: "'e persist_env_scheme \<Rightarrow> SignedPair list list \<Rightarrow> ('s gate_state_scheme, PoolWriteResult) act" where
  "write_pair_chunks env [] = retA \<lparr> pw_inserted = 0, pw_rejected = 0 \<rparr>"
| "write_pair_chunks env (c # cs) =
     bindA (write_pair_chunk env c) (\<lambda>r. bindA (write_pair_chunks env cs) (\<lambda>rs. retA (add_results r rs)))"

definition write_pool_dtos_sync ::
    "'e persist_env_scheme \<Rightarrow> PoolInsertDTO list \<Rightarrow> ('s gate_state_scheme, PoolWriteResult) act" where
  "write_pool_dtos_sync env dtos =
     (if dtos = [] then retA \<lparr> pw_inserted = 0, pw_rejected = 0 \<rparr>
      else in_new_session (rollback_on_error
        (bindA (evaluate_pairs env dtos) (\<lambda>(pairs, rejected).
         bindA (write_pair_chunks env (chunks_of FAST_WRITE_CHUNK_PAIRS pairs)) (\<lambda>r.
         bindA commit_session (\<lambda>_. retA (r\<lparr>pw_rejected := pw_rejected r + rejected\<rparr>)))))))"

section \<open>Whole pairs\<close>

text \<open>The statements that write some pairs: rows of products, then of their listings.\<close>

inductive pair_writes :: "SignedPair list \<Rightarrow> gate_statement list \<Rightarrow> bool" where
  none: "pair_writes [] []"
| rows: "rows_statement ''dim_product'' (map sp_product ps) = Inr a \<Longrightarrow>
    rows_statement ''fact_listing'' (map sp_listing ps) = Inr b \<Longrightarrow> pair_writes ps [a, b]"
| single: "record_statement (sp_product p) = Inr a \<Longrightarrow> record_statement (sp_listing p) = Inr b \<Longrightarrow> pair_writes [p] [a, b]"
| more: "pair_writes ps xs \<Longrightarrow> pair_writes qs ys \<Longrightarrow> pair_writes (ps @ qs) (xs @ ys)"

text \<open>What a step of the rail may do to its session, which is live before and, unless it raises, after.\<close>

definition writes_pairs ::
    "SignedPair list \<Rightarrow> 's gate_state_scheme \<Rightarrow> PoolWriteResult res \<Rightarrow> 's gate_state_scheme \<Rightarrow> bool" where
  "writes_pairs pairs s res s' =
     (gs_committed_writes s' = gs_committed_writes s
      \<and> (case res of Inl _ \<Rightarrow> True
         | Inr r \<Rightarrow> gs_session s' = SessionLive
             \<and> (\<exists>written sts. subseq written pairs \<and> pair_writes written sts \<and> pw_inserted r = length written
                  \<and> pw_inserted r + pw_rejected r = length pairs \<and> gs_session_writes s' = gs_session_writes s @ sts)))"

lemma writes_pairs_append:
  assumes "writes_pairs ps s (Inr r) t" "writes_pairs qs t (Inr r') u"
  shows "writes_pairs (ps @ qs) s (Inr (add_results r r')) u"
proof -
  from assms obtain w1 x1 w2 x2 where
    "subseq w1 ps" "pair_writes w1 x1" "pw_inserted r = length w1" "pw_inserted r + pw_rejected r = length ps"
    "gs_session_writes t = gs_session_writes s @ x1"
    "subseq w2 qs" "pair_writes w2 x2" "pw_inserted r' = length w2" "pw_inserted r' + pw_rejected r' = length qs"
    "gs_session_writes u = gs_session_writes t @ x2"
    by (auto simp: writes_pairs_def)
  moreover from this have "pair_writes (w1 @ w2) (x1 @ x2)" "subseq (w1 @ w2) (ps @ qs)"
    by (auto intro: pair_writes.more list_emb_append_mono)
  ultimately show ?thesis using assms
    by (auto simp: writes_pairs_def add_results_def intro!: exI [of _ "w1 @ w2"] exI [of _ "x1 @ x2"])
qed

lemma rows_result:
  assumes "exec_write_rows env t rs s = (res, s')"
  shows "gs_committed_writes s' = gs_committed_writes s"
    "res = Inr n \<Longrightarrow> rs \<noteq> [] \<Longrightarrow> gs_session s' = SessionLive \<and>
       (\<exists>st. rows_statement t rs = Inr st \<and> gs_session_writes s' = gs_session_writes s @ [st])"
proof -
  have "gs_committed_writes s' = gs_committed_writes s
    \<and> (\<forall>n. res = Inr n \<longrightarrow> rs \<noteq> [] \<longrightarrow> gs_session s' = SessionLive \<and>
       (\<exists>st. rows_statement t rs = Inr st \<and> gs_session_writes s' = gs_session_writes s @ [st]))"
  proof (cases "rs = [] \<or> (\<exists>e. rows_statement t rs = Inl e)")
    case True
    with assms show ?thesis by (cases "rs = []") (auto simp: exec_write_rows_def)
  next
    case False
    then obtain st where st: "rs \<noteq> []" "rows_statement t rs = Inr st" by (cases "rows_statement t rs") auto
    obtain x u where x: "exec_statement env st s = (x, u)" by fastforce
    have s': "s' = u" "\<And>n. res = Inr n \<Longrightarrow> \<exists>row. x = Inr row"
      using assms st x by (auto simp: exec_write_rows_def bindA_apply liftA_def split: sum.splits)
    with exec_statement_result [OF x] st show ?thesis by auto
  qed
  then show "gs_committed_writes s' = gs_committed_writes s"
    "res = Inr n \<Longrightarrow> rs \<noteq> [] \<Longrightarrow> gs_session s' = SessionLive \<and>
       (\<exists>st. rows_statement t rs = Inr st \<and> gs_session_writes s' = gs_session_writes s @ [st])" by blast+
qed

lemma chunk_body_result:
  assumes "write_chunk_body env chunk s = (res, s')" "chunk \<noteq> []"
  shows "gs_committed_writes s' = gs_committed_writes s"
    "res = Inr () \<Longrightarrow> gs_session s' = SessionLive \<and> (\<exists>sts. pair_writes chunk sts \<and> gs_session_writes s' = gs_session_writes s @ sts)"
proof -
  obtain r1 s1 where p: "exec_write_rows env ''dim_product'' (map sp_product chunk) s = (r1, s1)" by fastforce
  obtain r2 s2 where l: "exec_write_rows env ''fact_listing'' (map sp_listing chunk) s1 = (r2, s2)" by fastforce
  note p' = rows_result [OF p] and l' = rows_result [OF l]
  have body: "write_chunk_body env chunk s = (case r1 of Inl e \<Rightarrow> (Inl e, s1)
    | Inr _ \<Rightarrow> (case r2 of Inl e \<Rightarrow> (Inl e, s2) | Inr _ \<Rightarrow> nested_commit s2))"
    using p l by (simp add: write_chunk_body_def bindA_apply split: sum.split)
  have commit: "gs_committed_writes (snd (nested_commit u)) = gs_committed_writes u" for u :: "'a gate_state_scheme"
    by (simp add: nested_commit_def split: session_status.split)
  show "gs_committed_writes s' = gs_committed_writes s"
    using assms(1) body p'(1) l'(1) commit [of s2] by (auto split: sum.splits)
  assume "res = Inr ()"
  with assms(1) body obtain n k where nk: "r1 = Inr n" "r2 = Inr k" "nested_commit s2 = (Inr (), s')" by (auto split: sum.splits)
  obtain a where a: "rows_statement ''dim_product'' (map sp_product chunk) = Inr a" "gs_session_writes s1 = gs_session_writes s @ [a]"
    using p'(2) [OF nk(1)] assms(2) by auto
  obtain b where b: "rows_statement ''fact_listing'' (map sp_listing chunk) = Inr b" "gs_session_writes s2 = gs_session_writes s1 @ [b]"
    and live: "gs_session s2 = SessionLive" using l'(2) [OF nk(2)] assms(2) by auto
  from nk(3) live have "s' = s2" by (simp add: nested_commit_def)
  with live a b pair_writes.rows [OF a(1) b(1)] show "gs_session s' = SessionLive \<and>
    (\<exists>sts. pair_writes chunk sts \<and> gs_session_writes s' = gs_session_writes s @ sts)"
    by (intro conjI exI [of _ "[a, b]"]) simp_all
qed

lemma pair_body_result:
  assumes "write_pair_body env pair s = (res, s')"
  shows "gs_committed_writes s' = gs_committed_writes s"
    "res = Inr True \<Longrightarrow> gs_session s' = SessionLive \<and> (\<exists>sts. pair_writes [pair] sts \<and> gs_session_writes s' = gs_session_writes s @ sts)"
proof -
  let ?ctx = "discovery_context (sp_marketplace_id pair)"
  obtain r1 s1 where p: "write_sync env ?ctx (Some (sp_product pair)) s = (r1, s1)" by fastforce
  obtain r2 s2 where l: "write_sync env ?ctx (Some (sp_listing pair)) s1 = (r2, s2)" by fastforce
  have body: "write_pair_body env pair s = (case r1 of Inl e \<Rightarrow> (Inl e, s1)
    | Inr x \<Rightarrow> if \<not> pr_ok x then (Inr False, s1) else (case r2 of Inl e \<Rightarrow> (Inl e, s2)
        | Inr y \<Rightarrow> if \<not> pr_ok y then (Inr False, s2) else (case nested_commit s2 of (Inl e, u) \<Rightarrow> (Inl e, u) | (Inr _, u) \<Rightarrow> (Inr True, u))))"
    using p l by (auto simp: write_pair_body_def Let_def bindA_apply split: sum.split prod.split)
  have committed: "gs_committed_writes s1 = gs_committed_writes s" "gs_committed_writes s2 = gs_committed_writes s1"
    using write_sync_result [OF p] write_sync_result [OF l] by force+
  have commit: "gs_committed_writes (snd (nested_commit u)) = gs_committed_writes u" for u :: "'a gate_state_scheme"
    by (simp add: nested_commit_def split: session_status.split)
  show "gs_committed_writes s' = gs_committed_writes s"
    using assms(1) body committed commit [of s2] by (auto split: sum.splits if_splits prod.splits)
  assume "res = Inr True"
  with assms(1) body obtain x y where xy: "r1 = Inr x" "pr_ok x" "r2 = Inr y" "pr_ok y" "nested_commit s2 = (Inr (), s')"
    by (auto split: sum.splits if_splits prod.splits)
  from p xy(1,2) obtain a where a: "record_statement (sp_product pair) = Inr a" "gs_session s = SessionLive"
    "s1 = s\<lparr>gs_session_writes := gs_session_writes s @ [a]\<rparr>"
    by (cases rule: write_sync_result) (auto simp: persist_failed_def)
  from l xy(3,4) obtain b where b: "record_statement (sp_listing pair) = Inr b" "gs_session s1 = SessionLive"
    "s2 = s1\<lparr>gs_session_writes := gs_session_writes s1 @ [b]\<rparr>"
    by (cases rule: write_sync_result) (auto simp: persist_failed_def)
  from xy(5) b(2,3) have "s' = s2" by (simp add: nested_commit_def)
  with a b pair_writes.single [OF a(1) b(1)]
  show "gs_session s' = SessionLive \<and> (\<exists>sts. pair_writes [pair] sts \<and> gs_session_writes s' = gs_session_writes s @ sts)"
    by (intro conjI exI [of _ "[a, b]"]) simp_all
qed

lemma rollback_frame [simp]:
  "gs_session (nested_rollback sp s) = SessionLive" "gs_session_writes (nested_rollback sp s) = snd sp"
  "gs_committed_writes (nested_rollback sp s) = gs_committed_writes s"
  by (simp_all add: nested_rollback_def)

lemma pair_slow_result:
  assumes "write_pair_slow env pair s = (res, s')" "gs_session s = SessionLive"
  shows "writes_pairs [pair] s (map_sum id (\<lambda>b. if b then \<lparr> pw_inserted = 1, pw_rejected = 0 \<rparr> else \<lparr> pw_inserted = 0, pw_rejected = 1 \<rparr>) res) s'"
proof -
  obtain r t where body: "write_pair_body env pair s = (r, t)" by fastforce
  note result = pair_body_result [OF body]
  have run: "(res, s') = (case r of Inr True \<Rightarrow> (Inr True, t) | Inr False \<Rightarrow> (Inr False, nested_rollback (gs_session_rejects s, gs_session_writes s) t)
    | Inl e \<Rightarrow> (if is_gate_or_db_error e then Inr False else Inl e, nested_rollback (gs_session_rejects s, gs_session_writes s) t))"
    using assms body by (auto simp: write_pair_slow_def begin_nested_def bindA_apply split: sum.splits bool.splits)
  have refused: "writes_pairs [pair] s (Inr \<lparr> pw_inserted = 0, pw_rejected = 1 \<rparr>) (nested_rollback (gs_session_rejects s, gs_session_writes s) t)"
    using result(1) by (auto simp: writes_pairs_def intro!: exI [of _ "[]"] pair_writes.none)
  show ?thesis
  proof (cases r)
    case (Inl e)
    with run refused result(1) show ?thesis by (auto simp: writes_pairs_def)
  next
    case (Inr b)
    show ?thesis
    proof (cases b)
      case True
      with Inr result(2) obtain sts where "pair_writes [pair] sts" "gs_session_writes t = gs_session_writes s @ sts" "gs_session t = SessionLive"
        by auto
      with run Inr True result(1) show ?thesis by (auto simp: writes_pairs_def intro!: exI [of _ "[pair]"])
    next
      case False
      with run Inr refused show ?thesis by simp
    qed
  qed
qed

lemma writes_pairs_none: "gs_session s = SessionLive \<Longrightarrow> writes_pairs [] s (Inr \<lparr> pw_inserted = 0, pw_rejected = 0 \<rparr>) s"
  by (auto simp: writes_pairs_def intro: pair_writes.none)

lemma writes_pairs_raise: "gs_committed_writes s' = gs_committed_writes s \<Longrightarrow> writes_pairs ps s (Inl e) s'"
  by (simp add: writes_pairs_def)

lemma writes_pairs_live: "writes_pairs ps s (Inr r) t \<Longrightarrow> gs_session t = SessionLive \<and> gs_committed_writes t = gs_committed_writes s"
  by (auto simp: writes_pairs_def)

lemma writes_pairs_from:
  assumes "writes_pairs ps t res s'" "gs_committed_writes t = gs_committed_writes s" "gs_session_writes t = gs_session_writes s"
  shows "writes_pairs ps s res s'"
  using assms by (cases res) (simp_all add: writes_pairs_def)

lemma pairs_slow_result:
  assumes "write_pairs_slow env pairs s = (res, s')" "gs_session s = SessionLive"
  shows "writes_pairs pairs s res s'"
  using assms
proof (induction pairs arbitrary: s res s')
  case Nil
  then show ?case by (auto intro: writes_pairs_none)
next
  case (Cons pair pairs)
  obtain r1 s1 where one: "write_pair_slow env pair s = (r1, s1)" by fastforce
  note one' = pair_slow_result [OF one Cons.prems(2)]
  show ?case
  proof (cases r1)
    case (Inl e)
    with Cons.prems one one' show ?thesis by (auto simp: bindA_apply writes_pairs_def)
  next
    case (Inr b)
    let ?r = "if b then \<lparr> pw_inserted = 1, pw_rejected = 0 \<rparr> else \<lparr> pw_inserted = 0, pw_rejected = 1 \<rparr>"
    have first: "writes_pairs [pair] s (Inr ?r) s1" using one' Inr by simp
    obtain r2 s2 where rest: "write_pairs_slow env pairs s1 = (r2, s2)" by fastforce
    have second: "writes_pairs pairs s1 r2 s2" using Cons.IH [OF rest] writes_pairs_live [OF first] by blast
    show ?thesis
    proof (cases r2)
      case (Inl e)
      with Cons.prems one Inr rest second writes_pairs_live [OF first] show ?thesis
        by (auto simp: bindA_apply writes_pairs_def)
    next
      case (Inr r')
      have "res = Inr (add_results ?r r') \<and> s' = s2"
        using Cons.prems(1) one \<open>r1 = Inr b\<close> rest Inr by (auto simp: bindA_apply add_results_def split: if_splits)
      with writes_pairs_append [OF first second [unfolded Inr]] show ?thesis by simp
    qed
  qed
qed

lemma pair_chunk_result:
  assumes "write_pair_chunk env chunk s = (res, s')" "gs_session s = SessionLive" "chunk \<noteq> []"
  shows "writes_pairs chunk s res s'"
proof -
  obtain r t where body: "write_chunk_body env chunk s = (r, t)" by fastforce
  note result = chunk_body_result [OF body assms(3)]
  let ?undone = "nested_rollback (gs_session_rejects s, gs_session_writes s) t"
  show ?thesis
  proof (cases r)
    case (Inr u)
    then obtain sts where "pair_writes chunk sts" "gs_session_writes t = gs_session_writes s @ sts" "gs_session t = SessionLive"
      using result(2) by auto
    moreover have "res = Inr \<lparr> pw_inserted = length chunk, pw_rejected = 0 \<rparr>" "s' = t"
      using assms(1,2) body Inr by (simp_all add: write_pair_chunk_def begin_nested_def bindA_apply)
    ultimately show ?thesis using result(1) by (auto simp: writes_pairs_def intro!: exI [of _ chunk])
  next
    case (Inl e)
    show ?thesis
    proof (cases "is_gate_or_db_error e")
      case True
      then have "write_pairs_slow env chunk ?undone = (res, s')"
        using assms(1,2) body Inl by (simp add: write_pair_chunk_def begin_nested_def bindA_apply)
      from pairs_slow_result [OF this] have slow: "writes_pairs chunk ?undone res s'" by simp
      show ?thesis by (rule writes_pairs_from [OF slow]) (simp_all add: result(1))
    next
      case False
      then have "res = Inl e" "s' = t" using assms(1,2) body Inl by (simp_all add: write_pair_chunk_def begin_nested_def bindA_apply)
      with result(1) show ?thesis by (simp add: writes_pairs_raise)
    qed
  qed
qed

lemma pair_chunks_result:
  assumes "write_pair_chunks env cs s = (res, s')" "gs_session s = SessionLive" "[] \<notin> set cs"
  shows "writes_pairs (concat cs) s res s'"
  using assms
proof (induction cs arbitrary: s res s')
  case Nil
  then show ?case by (auto intro: writes_pairs_none)
next
  case (Cons c cs)
  obtain r1 s1 where one: "write_pair_chunk env c s = (r1, s1)" by fastforce
  have first: "writes_pairs c s r1 s1" using pair_chunk_result [OF one Cons.prems(2)] Cons.prems(3) by auto
  show ?case
  proof (cases r1)
    case (Inl e)
    with Cons.prems one first show ?thesis by (auto simp: bindA_apply writes_pairs_def)
  next
    case (Inr r)
    obtain r2 s2 where rest: "write_pair_chunks env cs s1 = (r2, s2)" by fastforce
    note live = writes_pairs_live [OF first [unfolded Inr]]
    have second: "writes_pairs (concat cs) s1 r2 s2" using Cons.IH [OF rest] live Cons.prems(3) by auto
    show ?thesis
    proof (cases r2)
      case (Inl e)
      with Cons.prems one Inr rest second live show ?thesis by (auto simp: bindA_apply writes_pairs_def)
    next
      case (Inr r')
      have "res = Inr (add_results r r') \<and> s' = s2"
        using Cons.prems(1) one \<open>r1 = Inr r\<close> rest Inr by (auto simp: bindA_apply)
      with writes_pairs_append [OF first [unfolded \<open>r1 = Inr r\<close>] second [unfolded Inr]] show ?thesis by simp
    qed
  qed
qed

section \<open>Evaluated pairs\<close>

text \<open>
  A pair carries what one DTO asked for, in records of its two tables, sealed for them as soon as
  the text of a MAC is never empty.
\<close>

definition pair_of :: "'e signing_env_scheme \<Rightarrow> PoolInsertDTO \<Rightarrow> SignedPair \<Rightarrow> bool" where
  "pair_of env d p = (sr_table (sp_product p) = ''dim_product'' \<and> sr_fields (sp_product p) = pd_dim_product d
     \<and> sr_table (sp_listing p) = ''fact_listing'' \<and> sr_fields (sp_listing p) = pd_fact_listing d
     \<and> (mac_ok env \<longrightarrow> sealed env (sp_product p) \<and> sealed env (sp_listing p)))"

lemma market_pair_record:
  assumes "evaluate_market env f t p has_db src s = (Inr out, s')"
  shows "same_session s s'"
    "passed_record out = Some r \<Longrightarrow> sr_table r = t \<and> sr_fields r = f \<and> (mac_ok env \<longrightarrow> sealed env r)"
proof -
  show "same_session s s'" by (rule same_session_market [OF assms(1)])
  assume "passed_record out = Some r"
  with evaluate_market_Inr [OF assms(1)] have "sign_fields env t p f = Inr (Some r)"
    by (auto simp: passed_record_def market_outcome_def split: if_splits)
  with sign_fields_Some [OF mac_okD this] show "sr_table r = t \<and> sr_fields r = f \<and> (mac_ok env \<longrightarrow> sealed env r)"
    by (auto simp: sign_fields_def bindE_Inr_iff split: option.splits)
qed

lemma same_session_trans: "same_session a b \<Longrightarrow> same_session b c \<Longrightarrow> same_session a c"
  by (simp add: same_session_def)

lemma pairs_evaluated:
  assumes "evaluate_pairs env dtos s = (Inr (pairs, rejected), s')"
  shows "same_session s s' \<and> length pairs + rejected = length dtos
    \<and> (\<exists>ds. subseq ds dtos \<and> list_all2 (pair_of env) ds pairs)"
  using assms
proof (induction dtos arbitrary: s pairs rejected)
  case Nil
  then show ?case by simp
next
  case (Cons d dtos)
  from Cons.prems obtain product s1 where product:
    "evaluate_market env (pd_dim_product d) ''dim_product'' ''insert'' True ''discovery'' s = (Inr product, s1)"
    by (auto simp: bindA_apply split: sum.splits prod.splits)
  note p = market_pair_record [OF product]
  have skip: ?case if "same_session s t" "evaluate_pairs env dtos t = (Inr (pairs, r), s')" "rejected = Suc r" for t r
    using Cons.IH [OF that(2)] that(1,3) same_session_trans by (auto intro: list_emb_Cons)
  show ?case
  proof (cases "passed_record product")
    case None
    with Cons.prems product p(1) skip show ?thesis
      by (auto simp: bindA_apply split: sum.splits prod.splits)
  next
    case (Some q)
    from Cons.prems product Some obtain listing s2 where listing:
      "evaluate_market env (pd_fact_listing d) ''fact_listing'' ''insert'' True ''discovery'' s1 = (Inr listing, s2)"
      by (auto simp: bindA_apply split: sum.splits prod.splits)
    note l = market_pair_record [OF listing]
    note s12 = same_session_trans [OF p(1) l(1)]
    show ?thesis
    proof (cases "passed_record listing")
      case None
      with Cons.prems product listing Some s12 skip show ?thesis
        by (auto simp: bindA_apply split: sum.splits prod.splits)
    next
      case (Some k)
      from Cons.prems product listing \<open>passed_record product = Some q\<close> Some obtain rest where
        rest: "evaluate_pairs env dtos s2 = (Inr (rest, rejected), s')"
        and pairs: "pairs = \<lparr> sp_marketplace_id = pd_marketplace_id d, sp_product = q, sp_listing = k \<rparr> # rest"
        by (auto simp: bindA_apply split: sum.splits prod.splits)
      from Cons.IH [OF rest] obtain ds where ds: "same_session s2 s'" "length rest + rejected = length dtos"
        "subseq ds dtos" "list_all2 (pair_of env) ds rest" by blast
      have "pair_of env d \<lparr> sp_marketplace_id = pd_marketplace_id d, sp_product = q, sp_listing = k \<rparr>"
        using p(2) [OF \<open>passed_record product = Some q\<close>] l(2) [OF Some] by (simp add: pair_of_def)
      with ds pairs same_session_trans [OF s12 ds(1)] show ?thesis
        by (auto intro!: exI [of _ "d # ds"])
    qed
  qed
qed

lemma evaluate_pairs_frame:
  "evaluate_pairs env dtos s = (res, s') \<Longrightarrow> same_session s s'"
proof (induction dtos arbitrary: s res s')
  case Nil
  then show ?case by simp
next
  case (Cons d dtos)
  obtain product s1 where product:
    "evaluate_market env (pd_dim_product d) ''dim_product'' ''insert'' True ''discovery'' s = (product, s1)" by fastforce
  obtain listing s2 where listing:
    "evaluate_market env (pd_fact_listing d) ''fact_listing'' ''insert'' True ''discovery'' s1 = (listing, s2)" by fastforce
  obtain r3 s3 where short: "evaluate_pairs env dtos s1 = (r3, s3)" by fastforce
  obtain r4 s4 where full: "evaluate_pairs env dtos s2 = (r4, s4)" by fastforce
  note steps = same_session_market [OF product] same_session_market [OF listing] Cons.IH [OF short] Cons.IH [OF full]
  have "s' \<in> {s1, s2, s3, s4}"
    using Cons.prems product listing short full
    by (auto simp: bindA_apply split: sum.splits prod.splits option.splits)
  with steps show ?case using same_session_trans by blast
qed

lemma list_all2_subseq:
  assumes "subseq ys ys'" "list_all2 P xs' ys'"
  shows "\<exists>xs. subseq xs xs' \<and> list_all2 P xs ys"
  using assms
proof (induction ys ys' arbitrary: xs' rule: list_emb.induct)
  case (list_emb_Nil ys)
  then show ?case by auto
next
  case (list_emb_Cons ys ys' y)
  then obtain x xs where "xs' = x # xs" "list_all2 P xs ys'" by (auto simp: list_all2_Cons2)
  with list_emb_Cons.IH show ?case by (blast intro: list_emb.list_emb_Cons)
next
  case (list_emb_Cons2 y y' ys ys')
  then obtain x xs where "xs' = x # xs" "P x y'" "list_all2 P xs ys'" by (auto simp: list_all2_Cons2)
  with list_emb_Cons2 obtain zs where "subseq zs xs" "list_all2 P zs ys" by blast
  with \<open>P x y'\<close> \<open>xs' = x # xs\<close> list_emb_Cons2(1) show ?case by (intro exI [of _ "x # zs"]) auto
qed

section \<open>The pool rail\<close>

lemma pool_pairs_result:
  assumes run: "write_pool_dtos_sync env dtos s = (res, s')"
  shows "case res of
      Inl e \<Rightarrow> gs_committed_writes s' = gs_committed_writes s
    | Inr r \<Rightarrow> pw_inserted r + pw_rejected r = length dtos
        \<and> (\<exists>ds written sts. subseq ds dtos \<and> list_all2 (pair_of env) ds written \<and> pair_writes written sts
              \<and> pw_inserted r = length written \<and> gs_committed_writes s' = gs_committed_writes s @ sts)"
proof (cases "dtos = []")
  case True
  with run show ?thesis by (auto simp: write_pool_dtos_sync_def intro: pair_writes.none)
next
  case False
  let ?s = "rollback_session s"
  obtain ev u where ev: "evaluate_pairs env dtos ?s = (ev, u)" by fastforce
  have u: "gs_session u = SessionLive" "gs_session_writes u = []" "gs_committed_writes u = gs_committed_writes s"
    using evaluate_pairs_frame [OF ev] by (simp_all add: same_session_def rollback_session_def)
  show ?thesis
  proof (cases ev)
    case (Inl e)
    with run False ev u show ?thesis
      by (auto simp: write_pool_dtos_sync_def in_new_session_def rollback_on_error_def rollback_session_def bindA_apply)
  next
    case (Inr x)
    obtain pairs rejected where x: "x = (pairs, rejected)" by fastforce
    note pairs = pairs_evaluated [OF ev [unfolded Inr x]]
    let ?cs = "chunks_of FAST_WRITE_CHUNK_PAIRS pairs"
    obtain wr v where wr: "write_pair_chunks env ?cs u = (wr, v)" by fastforce
    have "writes_pairs (concat ?cs) u wr v"
      by (rule pair_chunks_result [OF wr u(1)]) (simp add: chunks_nonempty FAST_WRITE_CHUNK_PAIRS_def)
    then have written: "writes_pairs pairs u wr v" by (simp add: concat_chunks FAST_WRITE_CHUNK_PAIRS_def)
    show ?thesis
    proof (cases wr)
      case (Inl e)
      with run False ev \<open>ev = Inr x\<close> x u wr written show ?thesis
        by (auto simp: write_pool_dtos_sync_def in_new_session_def rollback_on_error_def rollback_session_def bindA_apply
            writes_pairs_def)
    next
      case (Inr r)
      with written obtain w sts where w: "subseq w pairs" "pair_writes w sts" "pw_inserted r = length w"
        "pw_inserted r + pw_rejected r = length pairs" "gs_session_writes v = sts" "gs_session v = SessionLive"
        "gs_committed_writes v = gs_committed_writes s"
        using u by (auto simp: writes_pairs_def)
      have out: "res = Inr (r\<lparr>pw_rejected := pw_rejected r + rejected\<rparr>)"
        "gs_committed_writes s' = gs_committed_writes s @ sts"
        using run False ev \<open>ev = Inr x\<close> x wr Inr w
        by (auto simp: write_pool_dtos_sync_def in_new_session_def rollback_on_error_def rollback_session_def bindA_apply
            commit_session_def)
      from pairs obtain ds where "subseq ds dtos" "list_all2 (pair_of env) ds pairs" by blast
      with w(1) obtain es where "subseq es dtos" "list_all2 (pair_of env) es w"
        by (metis list_all2_subseq subseq_order.trans)
      with out w pairs show ?thesis by auto
    qed
  qed
qed

text \<open>
  C11: The pool rail of discovery never writes half of a new product. A call that raises makes
  nothing durable. A call that returns has made durable exactly the statements of whole pairs: the
  row of a product and the row of its listing, each holding what one of the given DTOs asked for
  and sealed for its table (when no MAC is the empty text), in the order of the DTOs and no DTO
  twice; it reports their number as
  inserted, and every other DTO as rejected.
\<close>

theorem pool_pairs_whole:
  assumes run: "write_pool_dtos_sync env dtos s = (res, s')"
  shows "case res of
      Inl e \<Rightarrow> gs_committed_writes s' = gs_committed_writes s
    | Inr r \<Rightarrow> pw_inserted r + pw_rejected r = length dtos
        \<and> (\<exists>ds written sts. subseq ds dtos \<and> list_all2 (pair_of env) ds written \<and> pair_writes written sts
              \<and> pw_inserted r = length written \<and> gs_committed_writes s' = gs_committed_writes s @ sts)"
  by (rule pool_pairs_result [OF run])

lemma signature_params_total:
  "list_all (\<lambda>r. sr_table r = t \<and> sr_operation r = ''insert'') rs \<Longrightarrow> \<exists>x. signature_params t i rs params = Inr x"
  by (induction t i rs params rule: signature_params.induct) (fastforce simp: bindE_Inr_iff)+

lemma rows_statement_total:
  assumes "list_all (\<lambda>r. sr_table r = t \<and> sr_operation r = ''insert'' \<and> (\<exists>es. ordered_entries_from_mapping (sr_fields r) = Inr es)) rs"
  shows "\<exists>st. rows_statement t rs = Inr st"
proof -
  have "\<exists>es. mapE (\<lambda>r. ordered_entries_from_mapping (sr_fields r)) rs = Inr es"
    using assms by (induction rs) (auto simp: bindE_Inr_iff)
  moreover have "list_all (\<lambda>r. sr_table r = t \<and> sr_operation r = ''insert'') rs" using assms by (simp add: list_all_iff)
  ultimately show ?thesis
    using signature_params_total [of t rs] by (fastforce simp: rows_statement_def bindE_Inr_iff split: prod.split)
qed
definition new_pair :: PoolInsertDTO where
  "new_pair = \<lparr> pd_marketplace_id = ''m'',
     pd_dim_product = [(''id'', PUuid ''p''), (''name'', PStr ''red shoe''), (''name_normalized'', PStr ''red shoe''),
       (''is_active'', PBool True)],
     pd_fact_listing = [(''product_id'', PUuid ''p''), (''marketplace_id'', PUuid ''m''),
       (''external_url'', PStr ''https://shop/red-shoe''), (''url_hash'', PStr ''h''), (''is_active'', PBool True),
       (''page_role'', PStr ''product''), (''scraper_type'', PStr ''web_api''), (''scrape_interval_minutes'', PInt 360),
       (''consecutive_errors'', PInt 0), (''failure_streak'', PInt 0)] \<rparr>"


definition signs_and_binds :: "string \<Rightarrow> pydict \<Rightarrow> bool" where
  "signs_and_binds t f = (case FACT_TABLE_CONTRACTS t of None \<Rightarrow> False | Some c \<Rightarrow> row_conforms c f
     \<and> (case sign_fields accepting_env t ''insert'' f of
          Inr (Some r) \<Rightarrow> sr_operation r = ''insert'' \<and> (case ordered_entries_from_mapping f of Inr _ \<Rightarrow> True | _ \<Rightarrow> False)
        | _ \<Rightarrow> False))"

lemma signs_and_binds_passes:
  assumes "signs_and_binds t f"
  shows "\<exists>r st out. passed_record out = Some r \<and> evaluate_market live_env f t ''insert'' True src s = (Inr out, s)
    \<and> rows_statement t [r] = Inr st"
proof -
  from assms obtain c r es where cr: "FACT_TABLE_CONTRACTS t = Some c" "row_conforms c f"
    "sign_fields accepting_env t ''insert'' f = Inr (Some r)" "sr_operation r = ''insert''"
    "ordered_entries_from_mapping f = Inr es"
    by (auto simp: signs_and_binds_def split: option.splits sum.splits)
  have "sign_fields live_env t ''insert'' f = sign_fields accepting_env t ''insert'' f"
    by (simp add: sign_fields_def sign_def live_env_def gate_env.defs accepting_env_def signing_secret_def)
  with cr(3) have sign: "sign_fields live_env t ''insert'' f = Inr (Some r)" by simp
  have "sr_table r = t" "sr_fields r = f" using sign_fields_Some [OF mac_okD sign] by simp_all
  with cr(4,5) obtain st where "rows_statement t [r] = Inr st" using rows_statement_total [of t "[r]"] by auto
  moreover have "passed_record (market_outcome True None [] t (Some r)) = Some r"
    by (simp add: passed_record_def market_outcome_def)
  ultimately show ?thesis using evaluate_market_passes [OF cr(1,2) sign] by blast
qed

theorem pool_pairs_whole_witness:
  "\<exists>r s' sts written. write_pool_dtos_sync live_env [new_pair] quiet_state = (Inr r, s') \<and> pw_inserted r = 1
     \<and> pair_writes written sts \<and> length written = 1 \<and> gs_committed_writes s' = sts"
proof -
  have "signs_and_binds ''dim_product'' (pd_dim_product new_pair)" by code_simp
  from signs_and_binds_passes [OF this, of "''discovery''" quiet_state] obtain p a po where p:
    "passed_record po = Some p" "rows_statement ''dim_product'' [p] = Inr a"
    "evaluate_market live_env (pd_dim_product new_pair) ''dim_product'' ''insert'' True ''discovery'' quiet_state = (Inr po, quiet_state)"
    by blast
  have "signs_and_binds ''fact_listing'' (pd_fact_listing new_pair)" by code_simp
  from signs_and_binds_passes [OF this, of "''discovery''" quiet_state] obtain l b lo where l:
    "passed_record lo = Some l" "rows_statement ''fact_listing'' [l] = Inr b"
    "evaluate_market live_env (pd_fact_listing new_pair) ''fact_listing'' ''insert'' True ''discovery'' quiet_state = (Inr lo, quiet_state)"
    by blast
  let ?x = "\<lparr> sp_marketplace_id = pd_marketplace_id new_pair, sp_product = p, sp_listing = l \<rparr>"
  have quiet: "rollback_session quiet_state = quiet_state" "gs_session quiet_state = SessionLive"
    by (simp_all add: quiet_state_def rollback_session_def)
  have one: "chunks_of FAST_WRITE_CHUNK_PAIRS [?x] = [[?x]]" by (simp add: chunks_of_def FAST_WRITE_CHUNK_PAIRS_def)
  have ev: "evaluate_pairs live_env [new_pair] quiet_state = (Inr ([?x], 0), quiet_state)"
    using p l by (simp add: bindA_apply)
  obtain t where t: "write_pair_chunk live_env [?x] quiet_state = (Inr \<lparr> pw_inserted = 1, pw_rejected = 0 \<rparr>, t)"
    "gs_session t = SessionLive"
    using p l quiet by (auto simp: write_pair_chunk_def begin_nested_def write_chunk_body_def exec_write_rows_def
        exec_statement_def scalar_one_def nested_commit_def bindA_apply)
  obtain r s' where run: "write_pool_dtos_sync live_env [new_pair] quiet_state = (Inr r, s')" "pw_inserted r = 1"
    using t by (auto simp: write_pool_dtos_sync_def in_new_session_def rollback_on_error_def quiet bindA_apply one ev
        commit_session_def add_results_def simp del: evaluate_pairs.simps)
  from pool_pairs_whole [OF run(1)] run(2) obtain written sts where
    "pair_writes written sts" "length written = 1" "gs_committed_writes s' = sts"
    by (auto simp: quiet_state_def)
  with run show ?thesis by blast
qed

end
