(* ===== verification/PoolSave.thy ===== *)
theory PoolSave
  imports CategoryBfs PoolWrite
begin

text \<open>
  Saving found product URLs in the pool (\<open>discovery/orchestrator.py\<close>, \<open>_save_product_urls\<close>;
  \<open>discovery/url_canonicalizer.py\<close>; the field builders of \<open>persist/writer.py\<close>). The pool rail runs
  on sessions of its own; the lookup of known hashes is an answer of the database to what is
  durable. Clock readings are doubles, here the rationals they stand for.
\<close>

section \<open>State\<close>

record disc_state = crawl_state +
  ds_gate :: gate_state
  ds_uuids :: nat
  ds_classified :: nat
  ds_cached_pages :: "string list"

record 'page disc_env = "'page crawl_env" +
  de_persist :: persist_env
  de_sha256_hex :: "byte list \<Rightarrow> string"
  de_uuid4 :: "nat \<Rightarrow> string"
  de_known_hashes :: "gate_statement list \<Rightarrow> string list \<Rightarrow> string list res"
  de_classify_fetch :: "nat \<Rightarrow> string \<Rightarrow> 'page option res"
  de_has_html :: "'page \<Rightarrow> bool"
  de_canonical :: "'page \<Rightarrow> string \<Rightarrow> string option res"
  de_page_role :: "'page \<Rightarrow> string \<Rightarrow> string res"
  de_sample :: "nat \<Rightarrow> nat \<Rightarrow> string list \<Rightarrow> string list"

definition with_gate :: "(gate_state, 'a) act \<Rightarrow> ('s disc_state_scheme, 'a) act" where
  "with_gate m s = (case m (ds_gate s) of (r, g) \<Rightarrow> (r, s\<lparr>ds_gate := g\<rparr>))"

section \<open>Deadlines\<close>

definition float_value :: "pyfloat \<Rightarrow> rat" where
  "float_value f = (case f of
     FFin neg m e \<Rightarrow> (if neg then - 1 else 1) * of_int (float_num m e) / of_int (float_den e)
   | _ \<Rightarrow> 0)"

definition double :: "rat \<Rightarrow> rat" where
  \<comment> \<open>the double nearest to a rational; clock readings are far from the infinite ones\<close>
  "double q = (case quotient_of q of (n, d) \<Rightarrow> float_value (round_ratio (n < 0) \<bar>n\<bar> d))"

definition SAVE_BUDGET_HEADROOM_FRACTION :: rat where "SAVE_BUDGET_HEADROOM_FRACTION = double (85 / 100)"

definition clock_now :: "('page, 'e) crawl_env_scheme \<Rightarrow> 's crawl_state_scheme \<Rightarrow> rat" where
  "clock_now env s = ce_clock env (cs_clock_reads s)"

definition headroom_deadline :: "('page, 'e) crawl_env_scheme \<Rightarrow> rat option \<Rightarrow> 's crawl_state_scheme \<Rightarrow> rat option" where
  "headroom_deadline env deadline s = (case deadline of None \<Rightarrow> None
     | Some d \<Rightarrow> Some (double (clock_now env s + double (max 0 (double (d - clock_now env s)) * SAVE_BUDGET_HEADROOM_FRACTION))))"

section \<open>Identity of URLs\<close>

definition url_hash :: "('page, 'e) disc_env_scheme \<Rightarrow> string \<Rightarrow> string" where
  "url_hash env url = de_sha256_hex env (utf8 (py_lower (rstrip_by (\<lambda>c. c = CHR ''/'') (py_strip url))))"

definition pool_url :: "string option \<Rightarrow> string \<Rightarrow> string" where
  "pool_url canonical raw_url = (case canonical of None \<Rightarrow> raw_url | Some c \<Rightarrow> if c = [] then raw_url else c)"

definition load_existing_url_hashes :: "('page, 'e) disc_env_scheme \<Rightarrow> string list \<Rightarrow> ('s disc_state_scheme, string list) act" where
  "load_existing_url_hashes env hashes s =
     (if hashes = [] then (Inr [], s)
      else (map_sum id (filter (\<lambda>h. h \<noteq> [])) (de_known_hashes env (gs_committed_writes (ds_gate s)) hashes), s))"

section \<open>The rows of a new product\<close>

definition title_from_url :: "string \<Rightarrow> string" where
  "title_from_url url =
     (let path = last (split_char CHR ''/'' (strip_by (\<lambda>c. c = CHR ''/'') (up_path (urlparse url))))
      in if path \<noteq> [] then take 500 (map (\<lambda>c. if c = CHR ''-'' \<or> c = CHR ''_'' then CHR '' '' else c) path)
         else take 500 (if url = [] then ''product'' else url))"

definition or_product :: "string \<Rightarrow> string" where
  "or_product s = (if s = [] then ''product'' else s)"

definition normalize_name :: "string \<Rightarrow> string" where
  "normalize_name name = take 500 (join_with '' '' (find_runs (\<lambda>c. \<not> py_isspace c) (py_lower name)))"

definition build_dim_product_fields :: "string \<Rightarrow> string \<Rightarrow> string \<Rightarrow> bool \<Rightarrow> string option \<Rightarrow> pydict" where
  "build_dim_product_fields product_id name name_normalized is_active image_url =
     [(''id'', PUuid product_id), (''name'', PStr name), (''name_normalized'', PStr name_normalized),
      (''is_active'', PBool is_active)]
     @ (case image_url of None \<Rightarrow> [] | Some u \<Rightarrow> if u = [] then [] else [(''image_url'', PStr u)])"

definition build_fact_listing_fields ::
    "string \<Rightarrow> string \<Rightarrow> string \<Rightarrow> string \<Rightarrow> bool \<Rightarrow> string \<Rightarrow> string \<Rightarrow> int \<Rightarrow> int \<Rightarrow> int \<Rightarrow> string option \<Rightarrow> pydict" where
  "build_fact_listing_fields product_id marketplace_id external_url h is_active page_role scraper_type
       scrape_interval_minutes consecutive_errors failure_streak listing_id =
     (case listing_id of None \<Rightarrow> [] | Some i \<Rightarrow> [(''id'', PUuid i)])
     @ [(''product_id'', PUuid product_id), (''marketplace_id'', PUuid marketplace_id),
        (''external_url'', PStr external_url), (''url_hash'', PStr h), (''is_active'', PBool is_active),
        (''page_role'', PStr page_role), (''scraper_type'', PStr scraper_type),
        (''scrape_interval_minutes'', PInt scrape_interval_minutes), (''consecutive_errors'', PInt consecutive_errors),
        (''failure_streak'', PInt failure_streak)]"

definition pool_dto :: "('page, 'e) disc_env_scheme \<Rightarrow> string \<Rightarrow> string \<Rightarrow> nat \<Rightarrow> PoolInsertDTO" where
  \<comment> \<open>the DTO of a URL, with the id drawn for it\<close>
  "pool_dto env marketplace_id url draw =
     (let title = or_product (title_from_url url); product_id = de_uuid4 env draw
      in \<lparr> pd_marketplace_id = marketplace_id,
           pd_dim_product = build_dim_product_fields product_id title (or_product (normalize_name title)) True None,
           pd_fact_listing = build_fact_listing_fields product_id marketplace_id url (url_hash env url) True
             ''product'' ''web_api'' 360 0 0 None \<rparr>)"

section \<open>Saving\<close>

definition SAVE_PRODUCT_URLS_BATCH_SIZE :: nat where "SAVE_PRODUCT_URLS_BATCH_SIZE = 500"

definition write_pool_batch ::
    "('page, 'e) disc_env_scheme \<Rightarrow> PoolInsertDTO list \<Rightarrow> ('s disc_state_scheme, PoolWriteResult) act" where
  "write_pool_batch env dtos s = (case with_gate (write_pool_dtos_sync (de_persist env) dtos) s of
     (Inl e, s') \<Rightarrow> (Inl e, alert ''pool_batch_commit_failed'' s')
   | (Inr r, s') \<Rightarrow>
       (Inr r, if dtos \<noteq> [] \<and> pw_inserted r = 0 \<and> pw_rejected r = length dtos
               then alert ''pool_batch_total_reject'' s' else s'))"

fun save_loop ::
    "('page, 'e) disc_env_scheme \<Rightarrow> string \<Rightarrow> rat option \<Rightarrow> string list \<Rightarrow> int \<Rightarrow> string list \<Rightarrow> PoolInsertDTO list \<Rightarrow> nat
      \<Rightarrow> ('s disc_state_scheme, nat \<times> int \<times> bool) act" where
  \<comment> \<open>hashes already known, absolute index of the next URL, URLs left, pending batch, new so far\<close>
  "save_loop env mp deadline known index [] batch new s =
     (if batch = [] then (Inr (new, index, False), s)
      else case write_pool_batch env batch s of
        (Inl e, s1) \<Rightarrow> (Inl e, s1)
      | (Inr r, s1) \<Rightarrow> (Inr (new + pw_inserted r, index, False), s1))"
| "save_loop env mp deadline known index (url # urls) batch new s =
     (let h = url_hash env url
      in if h \<in> set known then save_loop env mp deadline known (index + 1) urls batch new s
         else
           (let batch' = batch @ [pool_dto env mp url (ds_uuids s)];
                s1 = s\<lparr>ds_uuids := Suc (ds_uuids s)\<rparr>
            in if SAVE_PRODUCT_URLS_BATCH_SIZE \<le> length batch' then
                 (case write_pool_batch env batch' s1 of
                    (Inl e, s2) \<Rightarrow> (Inl e, s2)
                  | (Inr r, s2) \<Rightarrow>
                      (let new' = new + pw_inserted r
                       in if deadline_passed env deadline s2
                          then (Inr (new', index + 1, True), clock_read deadline s2)
                          else save_loop env mp deadline (h # known) (index + 1) urls [] new' (clock_read deadline s2)))
               else save_loop env mp deadline (h # known) (index + 1) urls batch' new s1))"

definition save_product_urls ::
    "('page, 'e) disc_env_scheme \<Rightarrow> string \<Rightarrow> string list \<Rightarrow> int \<Rightarrow> rat option
      \<Rightarrow> ('s disc_state_scheme, nat \<times> int \<times> bool) act" where
  \<comment> \<open>number of new listings, where to resume, whether the budget ran out\<close>
  "save_product_urls env mp urls start_offset deadline s =
     (if urls = [] then (Inr (0, start_offset, False), s)
      else
        (let work_urls = (if 0 < start_offset then drop (nat start_offset) urls else urls);
             normalized = filter (\<lambda>u. u \<noteq> []) work_urls;
             (known, s1) = (case load_existing_url_hashes env (map (url_hash env) (unique_urls [] normalized)) s of
                 (Inr hs, s') \<Rightarrow> (hs, s')
               | (Inl _, s') \<Rightarrow> ([], alert ''dedup_lookup_failed'' s'))
         in save_loop env mp deadline known start_offset normalized [] 0 s1))"

section \<open>What a save makes durable\<close>

definition committed :: "'s disc_state_scheme \<Rightarrow> gate_statement list" where
  "committed s = gs_committed_writes (ds_gate s)"

definition dto_for :: "('page, 'e) disc_env_scheme \<Rightarrow> string \<Rightarrow> string \<Rightarrow> PoolInsertDTO \<Rightarrow> bool" where
  "dto_for env mp url d = (\<exists>draw. d = pool_dto env mp url draw)"

text \<open>Between two states exactly the product pairs of some URLs became durable, in their order.\<close>

definition stored :: "('page, 'e) disc_env_scheme \<Rightarrow> string \<Rightarrow> string list \<Rightarrow> 's disc_state_scheme \<Rightarrow> 's disc_state_scheme \<Rightarrow> bool" where
  "stored env mp urls s s' = (\<exists>ds written sts. list_all2 (dto_for env mp) urls ds \<and> list_all2 (pair_of (de_persist env)) ds written
     \<and> pair_writes written sts \<and> committed s' = committed s @ sts)"

lemma stored_none: "committed s' = committed s \<Longrightarrow> stored env mp [] s s'"
  by (auto simp: stored_def intro: pair_writes.none)

lemma stored_append:
  assumes "stored env mp us s t" "stored env mp vs t u"
  shows "stored env mp (us @ vs) s u"
proof -
  from assms obtain d1 w1 x1 d2 w2 x2 where
    "list_all2 (dto_for env mp) us d1" "list_all2 (pair_of (de_persist env)) d1 w1" "pair_writes w1 x1"
    "list_all2 (dto_for env mp) vs d2" "list_all2 (pair_of (de_persist env)) d2 w2" "pair_writes w2 x2"
    "committed t = committed s @ x1" "committed u = committed t @ x2"
    by (auto simp: stored_def)
  then show ?thesis unfolding stored_def
    by (intro exI [of _ "d1 @ d2"] exI [of _ "w1 @ w2"] exI [of _ "x1 @ x2"])
      (auto intro: list_all2_appendI pair_writes.more)
qed

lemma committed_frame [simp]:
  "committed (alert a s) = committed s" "committed (clock_read d s) = committed s" "committed (s\<lparr>ds_uuids := n\<rparr>) = committed s"
  by (simp_all add: committed_def alert_def clock_read_def)

lemma stored_frame: "committed s = committed t \<Longrightarrow> committed s' = committed t' \<Longrightarrow> stored env mp us s s' = stored env mp us t t'"
  by (simp add: stored_def)

lemma stored_change: "stored env mp us s s' \<Longrightarrow> committed t = committed s \<Longrightarrow> committed t' = committed s' \<Longrightarrow> stored env mp us t t'"
  by (simp add: stored_def)

lemma write_batch_stored:
  assumes "write_pool_batch env batch s = (res, s')" "list_all2 (dto_for env mp) urls batch"
  shows "case res of Inl e \<Rightarrow> committed s' = committed s
    | Inr r \<Rightarrow> \<exists>us. subseq us urls \<and> stored env mp us s s' \<and> pw_inserted r = length us"
proof -
  obtain r g where run: "write_pool_dtos_sync (de_persist env) batch (ds_gate s) = (r, g)" by fastforce
  note whole = pool_pairs_result [OF run]
  show ?thesis
  proof (cases r)
    case (Inl e)
    with whole run assms(1) show ?thesis
      by (auto simp: write_pool_batch_def with_gate_def committed_def alert_def)
  next
    case (Inr q)
    with whole obtain ds written sts where w: "subseq ds batch" "list_all2 (pair_of (de_persist env)) ds written"
      "pair_writes written sts" "pw_inserted q = length written" "gs_committed_writes g = gs_committed_writes (ds_gate s) @ sts"
      by auto
    obtain us where us: "subseq us urls" "list_all2 (dto_for env mp) us ds" using list_all2_subseq [OF w(1) assms(2)] by blast
    have "res = Inr q \<and> committed s' = gs_committed_writes g"
      using run Inr assms(1) by (auto simp: write_pool_batch_def with_gate_def committed_def alert_def)
    moreover have "length us = length written"
      using us(2) w(2) by (simp add: list_all2_lengthD)
    moreover have "stored env mp us s s'" if "committed s' = committed s @ sts"
      using us(2) w(2,3) that unfolding stored_def by blast
    ultimately show ?thesis using us w by (auto simp: committed_def intro!: exI [of _ us])
  qed
qed

lemma subseq_snoc: "subseq us (xs @ [x]) \<Longrightarrow> \<exists>us1 us2. us = us1 @ us2 \<and> subseq us1 xs \<and> (us2 = [] \<or> us2 = [x])"
proof -
  assume "subseq us (xs @ [x])"
  then obtain us1 us2 where "us = us1 @ us2" "subseq us1 xs" "subseq us2 [x]" by (auto simp: subseq_append_iff)
  moreover from this(3) have "us2 = [] \<or> us2 = [x]" by (cases us2) (auto simp: subseq_Cons2_iff split: if_splits)
  ultimately show ?thesis by blast
qed

text \<open>What a save may store: URLs among the given ones, with hashes that are new and not repeated.\<close>

definition stores_new :: "('page, 'e) disc_env_scheme \<Rightarrow> string \<Rightarrow> string list \<Rightarrow> string list \<Rightarrow> string list
    \<Rightarrow> 's disc_state_scheme \<Rightarrow> 's disc_state_scheme \<Rightarrow> nat \<Rightarrow> bool" where
  "stores_new env mp known pending urls s s' n = (\<exists>us vs. subseq us pending \<and> subseq vs urls \<and> stored env mp (us @ vs) s s'
     \<and> distinct (map (url_hash env) vs) \<and> set (map (url_hash env) vs) \<inter> set known = {} \<and> n = length (us @ vs))"

lemma stores_new_skip: "stores_new env mp known pending urls s s' n \<Longrightarrow> stores_new env mp known pending (url # urls) s s' n"
  unfolding stores_new_def by (blast intro: list_emb_Cons)

lemma stores_new_pend:
  assumes "stores_new env mp (url_hash env url # known) (pending @ [url]) urls s s' n" "url_hash env url \<notin> set known"
  shows "stores_new env mp known pending (url # urls) s s' n"
proof -
  from assms(1) obtain us vs where uv: "subseq us (pending @ [url])" "subseq vs urls" "stored env mp (us @ vs) s s'"
    "distinct (map (url_hash env) vs)" "set (map (url_hash env) vs) \<inter> set (url_hash env url # known) = {}" "n = length (us @ vs)"
    by (auto simp: stores_new_def)
  from subseq_snoc [OF uv(1)] obtain us1 us2 where us: "us = us1 @ us2" "subseq us1 pending" "us2 = [] \<or> us2 = [url]" by blast
  have "subseq (us2 @ vs) (url # urls)" using us(3) uv(2) by auto
  moreover have "distinct (map (url_hash env) (us2 @ vs))" "set (map (url_hash env) (us2 @ vs)) \<inter> set known = {}"
    using us(3) uv(4,5) assms(2) by auto
  ultimately show ?thesis unfolding stores_new_def using us uv
    by (intro exI [of _ us1] exI [of _ "us2 @ vs"]) simp
qed

lemma stores_new_write:
  assumes "subseq us (pending @ [url])" "stored env mp us s t" "url_hash env url \<notin> set known"
    "stores_new env mp (url_hash env url # known) [] urls t s' n"
  shows "stores_new env mp known pending (url # urls) s s' (length us + n)"
proof (rule stores_new_pend [OF _ assms(3)])
  from assms(4) obtain vs where "subseq vs urls" "stored env mp vs t s'" "distinct (map (url_hash env) vs)"
    "set (map (url_hash env) vs) \<inter> set (url_hash env url # known) = {}" "n = length vs"
    by (auto simp: stores_new_def dest!: list_emb_Nil2)
  with assms(1) stored_append [OF assms(2)] show
    "stores_new env mp (url_hash env url # known) (pending @ [url]) urls s s' (length us + n)"
    unfolding stores_new_def by (intro exI [of _ us] exI [of _ vs]) simp
qed

lemma save_loop_stores:
  assumes "save_loop env mp deadline known index urls batch new s = (res, s')"
    "list_all2 (dto_for env mp) pending batch"
  shows "\<exists>n. stores_new env mp known pending urls s s' n
    \<and> (case res of Inl e \<Rightarrow> True | Inr (k, off, late) \<Rightarrow> k = new + n)"
  using assms
proof (induction env mp deadline known index urls batch new s arbitrary: pending rule: save_loop.induct)
  case (1 env mp deadline known index batch new s)
  show ?case
  proof (cases "batch = []")
    case True
    with 1 show ?thesis by (auto simp: stores_new_def stored_none intro!: exI [of _ "[]"])
  next
    case False
    obtain r t where w: "write_pool_batch env batch s = (r, t)" by fastforce
    note stored = write_batch_stored [OF w 1(2)]
    show ?thesis
    proof (cases r)
      case (Inl e)
      with stored w False 1(1) show ?thesis by (auto simp: stores_new_def stored_none intro!: exI [of _ "[]"])
    next
      case (Inr q)
      with stored obtain us where us: "subseq us pending" "stored env mp us s t" "pw_inserted q = length us" by auto
      have "stores_new env mp known pending [] s t (length us)"
        using us unfolding stores_new_def by (intro exI [of _ us] exI [of _ "[]"]) simp
      with w False Inr us(3) 1(1) show ?thesis by auto
    qed
  qed
next
  case (2 env mp deadline known index url urls batch new s)
  let ?h = "url_hash env url" and ?dto = "pool_dto env mp url (ds_uuids s)" and ?s1 = "s\<lparr>ds_uuids := Suc (ds_uuids s)\<rparr>"
  have pend: "list_all2 (dto_for env mp) (pending @ [url]) (batch @ [?dto])"
    using 2(5) by (rule list_all2_appendI) (auto simp: dto_for_def)
  show ?case
  proof (cases "?h \<in> set known")
    case True
    with 2(1) [OF refl True _ 2(5)] 2(4) show ?thesis by (auto dest: stores_new_skip)
  next
    case new: False
    show ?thesis
    proof (cases "SAVE_PRODUCT_URLS_BATCH_SIZE \<le> length (batch @ [?dto])")
      case False
      then have rest: "save_loop env mp deadline (?h # known) (index + 1) urls (batch @ [?dto]) new ?s1 = (res, s')"
        using 2(4) new by (simp add: Let_def)
      from 2(3) [OF refl new refl refl False rest pend] obtain n where
        n: "stores_new env mp (?h # known) (pending @ [url]) urls ?s1 s' n"
          "case res of Inl e \<Rightarrow> True | Inr (k, off, late) \<Rightarrow> k = new + n" by blast
      have frame: "stored env mp us ?s1 s' = stored env mp us s s'" for us by (rule stored_frame) simp_all
      have "stores_new env mp (?h # known) (pending @ [url]) urls s s' n"
        using n(1) unfolding stores_new_def frame .
      from stores_new_pend [OF this new] n(2) show ?thesis by blast
    next
      case True
      obtain r t where w: "write_pool_batch env (batch @ [?dto]) ?s1 = (r, t)" by fastforce
      note stored = write_batch_stored [OF w pend]
      show ?thesis
      proof (cases r)
        case (Inl e)
        with 2(4) new True w stored show ?thesis
          by (auto simp: Let_def stores_new_def stored_none intro!: exI [of _ "[]"])
      next
        case (Inr q)
        with stored obtain us where us: "subseq us (pending @ [url])" "stored env mp us ?s1 t" "pw_inserted q = length us"
          by auto
        have s_us: "stored env mp us s (clock_read deadline t)"
          by (rule stored_change [OF us(2)]) simp_all
        show ?thesis
        proof (cases "deadline_passed env deadline t")
          case late: True
          then have out: "res = Inr (new + length us, index + 1, True)" "s' = clock_read deadline t"
            using 2(4) new True w Inr us(3) by (simp_all add: Let_def)
          have "stores_new env mp (?h # known) [] urls (clock_read deadline t) s' 0"
            using out(2) by (auto simp: stores_new_def stored_none)
          from stores_new_write [OF us(1) s_us new this] out(1) show ?thesis by auto
        next
          case early: False
          then have rest: "save_loop env mp deadline (?h # known) (index + 1) urls [] (new + pw_inserted q) (clock_read deadline t) = (res, s')"
            using 2(4) new True w Inr by (simp add: Let_def)
          from 2(2) [OF refl new refl refl True w [symmetric] Inr refl early rest, of "[]"] obtain n where
            n: "stores_new env mp (?h # known) [] urls (clock_read deadline t) s' n"
              "case res of Inl e \<Rightarrow> True | Inr (k, off, late) \<Rightarrow> k = new + pw_inserted q + n" by auto
          from stores_new_write [OF us(1) s_us new n(1)] n(2) us(3) show ?thesis
            by (auto simp: add.assoc intro!: exI [of _ "length us + n"] split: sum.splits)
        qed
      qed
    qed
  qed
qed

definition known_hashes :: "('page, 'e) disc_env_scheme \<Rightarrow> string list \<Rightarrow> 's disc_state_scheme \<Rightarrow> string list" where
  \<comment> \<open>what the lookup of a save answers; a failed one counts as empty\<close>
  "known_hashes env urls s = (case fst (load_existing_url_hashes env (map (url_hash env) (unique_urls [] urls)) s) of
     Inl _ \<Rightarrow> [] | Inr hs \<Rightarrow> hs)"

definition offered_urls :: "string list \<Rightarrow> int \<Rightarrow> string list" where
  "offered_urls urls start_offset = filter (\<lambda>u. u \<noteq> []) (drop (nat start_offset) urls)"

lemma save_runs_loop:
  assumes "save_product_urls env mp urls start_offset deadline s = (res, s')" "urls \<noteq> []"
  shows "\<exists>s1. committed s1 = committed s \<and> save_loop env mp deadline (known_hashes env (offered_urls urls start_offset) s)
    start_offset (offered_urls urls start_offset) [] 0 s1 = (res, s')"
proof -
  let ?offered = "offered_urls urls start_offset"
  have work: "filter (\<lambda>u. u \<noteq> []) (if 0 < start_offset then drop (nat start_offset) urls else urls) = ?offered"
    by (simp add: offered_urls_def)
  define x where "x = fst (load_existing_url_hashes env (map (url_hash env) (unique_urls [] ?offered)) s)"
  then have x: "load_existing_url_hashes env (map (url_hash env) (unique_urls [] ?offered)) s = (x, s)"
    by (simp add: load_existing_url_hashes_def)
  show ?thesis
  proof (cases x)
    case (Inl e)
    with x assms show ?thesis
      by (intro exI [of _ "alert ''dedup_lookup_failed'' s"]) (simp add: save_product_urls_def Let_def work known_hashes_def)
  next
    case (Inr hs)
    with x assms show ?thesis
      by (intro exI [of _ s]) (simp add: save_product_urls_def Let_def work known_hashes_def)
  qed
qed

lemma save_stores_new:
  assumes "save_product_urls env mp urls start_offset deadline s = (res, s')"
  shows "\<exists>us. subseq us (offered_urls urls start_offset) \<and> distinct (map (url_hash env) us)
    \<and> set (map (url_hash env) us) \<inter> set (known_hashes env (offered_urls urls start_offset) s) = {}
    \<and> stored env mp us s s' \<and> (case res of Inl e \<Rightarrow> True | Inr (n, next_offset, exhausted) \<Rightarrow> n = length us)"
proof (cases "urls = []")
  case True
  with assms show ?thesis by (auto simp: save_product_urls_def stored_none intro!: exI [of _ "[]"])
next
  case False
  from save_runs_loop [OF assms False] obtain s1 where s1: "committed s1 = committed s"
    "save_loop env mp deadline (known_hashes env (offered_urls urls start_offset) s) start_offset
      (offered_urls urls start_offset) [] 0 s1 = (res, s')" by blast
  from save_loop_stores [OF s1(2), of "[]", unfolded add_0] obtain n where
    n: "stores_new env mp (known_hashes env (offered_urls urls start_offset) s) [] (offered_urls urls start_offset) s1 s' n"
      "case res of Inl e \<Rightarrow> True | Inr (k, off, late) \<Rightarrow> k = n" by auto
  then obtain us where
    "subseq us (offered_urls urls start_offset)" "distinct (map (url_hash env) us)" "stored env mp us s1 s'"
    "set (map (url_hash env) us) \<inter> set (known_hashes env (offered_urls urls start_offset) s) = {}" "n = length us"
    by (auto simp: stores_new_def dest!: list_emb_Nil2)
  note this = this n(2)
  moreover have "stored env mp us s s'" if "stored env mp us s1 s'" for us
    by (rule stored_change [OF that]) (simp_all add: s1(1))
  ultimately show ?thesis by blast
qed


end
