(* ===== verification/UrlGate.thy ===== *)
theory UrlGate
  imports PoolSave
begin

text \<open>
  The gate for candidate URLs of discovery (\<open>_filter_urls_by_role\<close> of \<open>discovery/orchestrator.py\<close>):
  every candidate is fetched and classified, only product pages are admitted, under the address
  their page names as canonical. The classifications run concurrently; each is a function of its
  URL and of its place in the order of the calls, and their results come in that order.
\<close>

section \<open>Alerts on rates\<close>

definition CANONICAL_MISSING_MIN_CLASSIFIED :: nat where "CANONICAL_MISSING_MIN_CLASSIFIED = 10"
definition CANONICAL_MISSING_RATE_THRESHOLD :: pyfloat where "CANONICAL_MISSING_RATE_THRESHOLD = float_of_dec False 9 (- 1)"
definition CLASSIFY_UNKNOWN_MIN_CLASSIFIED :: nat where "CLASSIFY_UNKNOWN_MIN_CLASSIFIED = 10"
definition CLASSIFY_UNKNOWN_RATE_THRESHOLD :: pyfloat where "CLASSIFY_UNKNOWN_RATE_THRESHOLD = float_of_dec False 7 (- 1)"
definition CLASSIFY_UNKNOWN_ALERT_MODES :: "string list" where "CLASSIFY_UNKNOWN_ALERT_MODES = [''full'', ''full_large'']"

definition share :: "nat \<Rightarrow> nat \<Rightarrow> pyfloat" where
  "share n m = round_ratio False (int n) (int m)"

definition emit_canonical_missing_rate_high_if_needed :: "nat \<Rightarrow> nat \<Rightarrow> 's crawl_state_scheme \<Rightarrow> 's crawl_state_scheme" where
  "emit_canonical_missing_rate_high_if_needed classified canonical_missing s =
     (if classified < CANONICAL_MISSING_MIN_CLASSIFIED then s
      else if float_lt (share canonical_missing classified) CANONICAL_MISSING_RATE_THRESHOLD then s
      else alert ''canonical_missing_rate_high'' s)"

definition emit_classify_unknown_rate_high_if_needed ::
    "nat \<Rightarrow> nat \<Rightarrow> string \<Rightarrow> 's crawl_state_scheme \<Rightarrow> 's crawl_state_scheme" where
  "emit_classify_unknown_rate_high_if_needed classified unknown_count mode s =
     (if mode \<notin> set CLASSIFY_UNKNOWN_ALERT_MODES then s
      else if classified < CLASSIFY_UNKNOWN_MIN_CLASSIFIED then s
      else if float_lt (share unknown_count classified) CLASSIFY_UNKNOWN_RATE_THRESHOLD then s
      else alert ''classify_unknown_rate_high'' s)"

section \<open>One candidate\<close>

record classified =
  cl_source :: string
  cl_role :: string
  cl_pool_url :: string
  cl_canonical_missing :: "bool option"

definition unknown_page :: "string \<Rightarrow> classified" where
  "unknown_page url = \<lparr> cl_source = url, cl_role = ''unknown'', cl_pool_url = url, cl_canonical_missing = None \<rparr>"

definition classify_and_resolve_url ::
    "('page, 'e) disc_env_scheme \<Rightarrow> string \<Rightarrow> 's disc_state_scheme \<Rightarrow> classified \<times> 's disc_state_scheme" where
  "classify_and_resolve_url env url s =
     (let s1 = s\<lparr>ds_classified := Suc (ds_classified s)\<rparr>
      in case de_classify_fetch env (ds_classified s) url of
           Inl _ \<Rightarrow> (unknown_page url, s1)
         | Inr None \<Rightarrow> (unknown_page url, s1)
         | Inr (Some page) \<Rightarrow>
             (case de_canonical env page url of
                Inl _ \<Rightarrow> (unknown_page url, s1)
              | Inr canonical \<Rightarrow>
                  (let target = pool_url canonical url
                   in case de_page_role env page target of
                        Inl _ \<Rightarrow> (unknown_page url, s1)
                      | Inr role \<Rightarrow>
                          (\<lparr> cl_source = url, cl_role = role, cl_pool_url = target,
                             cl_canonical_missing = Some (canonical = None) \<rparr>,
                           if role = ''product'' \<and> de_has_html env page
                           then s1\<lparr>ds_cached_pages := ds_cached_pages s1 @ [target]\<rparr> else s1))))"

fun classify_all ::
    "('page, 'e) disc_env_scheme \<Rightarrow> string list \<Rightarrow> 's disc_state_scheme \<Rightarrow> classified list \<times> 's disc_state_scheme" where
  "classify_all env [] s = ([], s)"
| "classify_all env (url # urls) s =
     (case classify_and_resolve_url env url s of (r, s1) \<Rightarrow>
        (case classify_all env urls s1 of (rs, s2) \<Rightarrow> (r # rs, s2)))"

section \<open>The gate\<close>

definition SITEMAP_FULL_CLASSIFY_LIMIT :: nat where "SITEMAP_FULL_CLASSIFY_LIMIT = 100"
definition SITEMAP_SAMPLE_SIZE :: nat where "SITEMAP_SAMPLE_SIZE = 50"
definition SITEMAP_REJECT_THRESHOLD :: pyfloat where "SITEMAP_REJECT_THRESHOLD = float_of_dec False 20 (- 2)"

fun products_from_results :: "('page, 'e) disc_env_scheme \<Rightarrow> string list \<Rightarrow> classified list \<Rightarrow> string list" where
  "products_from_results env seen [] = []"
| "products_from_results env seen (r # rs) =
     (let h = url_hash env (cl_pool_url r)
      in if cl_role r \<noteq> ''product'' \<or> h \<in> set seen then products_from_results env seen rs
         else cl_pool_url r # products_from_results env (h # seen) rs)"

definition defence_alerts :: "classified list \<Rightarrow> string \<Rightarrow> 's crawl_state_scheme \<Rightarrow> 's crawl_state_scheme" where
  \<comment> \<open>\<open>_emit_classifier_gate_defence_alerts_if_needed\<close>\<close>
  "defence_alerts results mode s =
     (let soup_classified = length (filter (\<lambda>r. cl_canonical_missing r \<noteq> None) results);
          canonical_missing = length (filter (\<lambda>r. cl_canonical_missing r = Some True) results);
          unknown_count = length (filter (\<lambda>r. cl_canonical_missing r \<noteq> None \<and> cl_role r = ''unknown'') results)
      in emit_classify_unknown_rate_high_if_needed (length results) unknown_count mode
           (emit_canonical_missing_rate_high_if_needed soup_classified canonical_missing s))"

definition admit ::
    "('page, 'e) disc_env_scheme \<Rightarrow> classified list \<Rightarrow> string \<Rightarrow> 's disc_state_scheme
      \<Rightarrow> (string list \<times> string) \<times> 's disc_state_scheme" where
  \<comment> \<open>the admitted URLs and the mode of the statistics\<close>
  "admit env results mode s = ((products_from_results env [] results, mode), defence_alerts results mode s)"

definition filter_urls_by_role ::
    "('page, 'e) disc_env_scheme \<Rightarrow> string list \<Rightarrow> 's disc_state_scheme \<Rightarrow> (string list \<times> string) \<times> 's disc_state_scheme" where
  "filter_urls_by_role env urls s =
     (if urls = [] then (([], ''empty''), s)
      else if length urls \<le> SITEMAP_FULL_CLASSIFY_LIMIT then
        (case classify_all env urls s of (results, s1) \<Rightarrow> admit env results ''full'' s1)
      else
        (let sample = de_sample env (ds_classified s) (min SITEMAP_SAMPLE_SIZE (length urls)) urls
         in case classify_all env sample s of (sample_results, s1) \<Rightarrow>
           (let product_in_sample = length (filter (\<lambda>r. cl_role r = ''product'') sample_results);
                ratio = (if sample_results = [] then share 0 1 else share product_in_sample (length sample_results))
            in if float_lt ratio SITEMAP_REJECT_THRESHOLD then admit env sample_results ''reject_sample'' s1
               else
                 (let remaining = filter (\<lambda>u. u \<notin> set (map cl_source sample_results)) urls
                  in case classify_all env remaining s1 of (remaining_results, s2) \<Rightarrow>
                       admit env (sample_results @ remaining_results) ''full_large'' s2))))"

end
