(* ===== verification/ProductHarvest.thy ===== *)
theory ProductHarvest
  imports UrlGate
begin

text \<open>
  Phase 2 of discovery, the harvest of product links from category pages
  (\<open>discovery/category_processor.py\<close>). The gate for URLs and the save are arguments, as in the code;
  the locale below states what the harvest needs of them, and the functions of the orchestrator
  are shown to provide it. Link extraction and the search for the next page are parameters.
\<close>

record 'page harvest_env = "'page disc_env" +
  he_structure_links :: "'page \<Rightarrow> string \<Rightarrow> string \<Rightarrow> string list"
  he_product_links :: "'page \<Rightarrow> string \<Rightarrow> string list"
  he_next_page :: "'page \<Rightarrow> string \<Rightarrow> string option"

definition MAX_CATEGORY_URLS_PER_RUN :: nat where "MAX_CATEGORY_URLS_PER_RUN = 60"
definition MAX_PAGES_PER_CATEGORY :: nat where "MAX_PAGES_PER_CATEGORY = 50"
definition CATEGORY_CONVERGENCE_STREAK :: nat where "CATEGORY_CONVERGENCE_STREAK = 3"

section \<open>Callbacks\<close>

type_synonym 's FilterUrlsByRoleFn = "string list \<Rightarrow> 's \<Rightarrow> (string list \<times> string) \<times> 's"
type_synonym 's SaveProductUrlsFn = "string list \<Rightarrow> rat option \<Rightarrow> ('s, nat \<times> int \<times> bool) act"

definition gate_urls_for_pool :: "'s FilterUrlsByRoleFn \<Rightarrow> string list \<Rightarrow> 's \<Rightarrow> string list \<times> 's" where
  "gate_urls_for_pool filter_urls urls s =
     (if urls = [] then ([], s) else case filter_urls urls s of ((accepted, _), s') \<Rightarrow> (accepted, s'))"

section \<open>The pages of a category\<close>

record page_counts =
  pc_saved :: nat
  pc_candidates :: nat
  pc_accepted :: nat

definition no_pages :: page_counts where
  "no_pages = \<lparr> pc_saved = 0, pc_candidates = 0, pc_accepted = 0 \<rparr>"

definition page_links :: "('page, 'e) harvest_env_scheme \<Rightarrow> string \<Rightarrow> 'page \<Rightarrow> string \<Rightarrow> string list" where
  "page_links env base page url =
     (let urls = he_structure_links env page base url in if urls = [] then he_product_links env page base else urls)"

definition harvest_page ::
    "'s FilterUrlsByRoleFn \<Rightarrow> 's SaveProductUrlsFn \<Rightarrow> rat option \<Rightarrow> string list \<Rightarrow> page_counts
      \<Rightarrow> ('s, bool \<times> page_counts) act" where
  \<comment> \<open>gate and save the links of one page; whether the save ran out of its budget\<close>
  "harvest_page filter_urls save deadline urls c s =
     (if urls = [] then (Inr (False, c), s)
      else case gate_urls_for_pool filter_urls urls s of (gated, s1) \<Rightarrow>
        (let c1 = c\<lparr>pc_candidates := pc_candidates c + length urls, pc_accepted := pc_accepted c + length gated\<rparr>
         in if gated = [] then (Inr (False, c1), s1)
            else case save gated deadline s1 of
              (Inl e, s2) \<Rightarrow> (Inl e, s2)
            | (Inr (saved, _, exhausted), s2) \<Rightarrow> (Inr (exhausted, c1\<lparr>pc_saved := pc_saved c1 + saved\<rparr>), s2)))"

fun harvest_pages ::
    "('page, 'e) harvest_env_scheme \<Rightarrow> string \<Rightarrow> 's crawl_state_scheme FilterUrlsByRoleFn
      \<Rightarrow> 's crawl_state_scheme SaveProductUrlsFn \<Rightarrow> rat option \<Rightarrow> nat \<Rightarrow> string option \<Rightarrow> page_counts
      \<Rightarrow> ('s crawl_state_scheme, bool \<times> page_counts) act" where
  \<comment> \<open>pages left and the current one; whether a deadline interrupts the category\<close>
  "harvest_pages env base filter_urls save deadline 0 current c s = (Inr (False, c), s)"
| "harvest_pages env base filter_urls save deadline (Suc left) current c s = (case current of
     None \<Rightarrow> (Inr (False, c), s)
   | Some url \<Rightarrow>
       if url = [] then (Inr (False, c), s)
       else if deadline_passed env deadline s then (Inr (True, c), clock_read deadline s)
       else case fetch_page env url (clock_read deadline s) of
         (Inl e, s1) \<Rightarrow> (Inl e, s1)
       | (Inr None, s1) \<Rightarrow> (Inr (False, c), s1)
       | (Inr (Some page), s1) \<Rightarrow>
           (case harvest_page filter_urls save deadline (page_links env base page url) c s1 of
              (Inl e, s2) \<Rightarrow> (Inl e, s2)
            | (Inr (True, c'), s2) \<Rightarrow> (Inr (True, c'), s2)
            | (Inr (False, c'), s2) \<Rightarrow>
                harvest_pages env base filter_urls save deadline left (he_next_page env page url) c' s2))"

section \<open>The categories of a run\<close>

record harvest_counts =
  hc_saved :: nat
  hc_streak :: nat
  hc_processed :: nat
  hc_candidates :: nat
  hc_accepted :: nat

datatype harvest_end = Stopped nat | Converged | Finished

definition no_harvest :: harvest_counts where
  "no_harvest = \<lparr> hc_saved = 0, hc_streak = 0, hc_processed = 0, hc_candidates = 0, hc_accepted = 0 \<rparr>"

definition add_category :: "harvest_counts \<Rightarrow> page_counts \<Rightarrow> harvest_counts" where
  "add_category t c = t\<lparr>hc_saved := hc_saved t + pc_saved c, hc_processed := Suc (hc_processed t),
     hc_candidates := hc_candidates t + pc_candidates c, hc_accepted := hc_accepted t + pc_accepted c\<rparr>"

definition next_streak :: "nat \<Rightarrow> page_counts \<Rightarrow> nat" where
  \<comment> \<open>a hub, whose candidates were all refused, is no evidence of exhaustion\<close>
  "next_streak streak c =
     (if 0 < pc_saved c then 0 else if 0 < pc_accepted c \<or> pc_candidates c = 0 then Suc streak else streak)"

fun harvest_categories ::
    "('page, 'e) harvest_env_scheme \<Rightarrow> string \<Rightarrow> 's crawl_state_scheme FilterUrlsByRoleFn
      \<Rightarrow> 's crawl_state_scheme SaveProductUrlsFn \<Rightarrow> rat option \<Rightarrow> nat \<Rightarrow> string list \<Rightarrow> harvest_counts
      \<Rightarrow> ('s crawl_state_scheme, harvest_end \<times> harvest_counts) act" where
  "harvest_categories env base filter_urls save deadline index [] t s = (Inr (Finished, t), s)"
| "harvest_categories env base filter_urls save deadline index (category # categories) t s =
     (if deadline_passed env deadline s then (Inr (Stopped index, t), clock_read deadline s)
      else case harvest_pages env base filter_urls save deadline MAX_PAGES_PER_CATEGORY (Some category) no_pages
                  (clock_read deadline s) of
        (Inl e, s1) \<Rightarrow> (Inl e, s1)
      | (Inr (True, c), s1) \<Rightarrow> (Inr (Stopped index, add_category t c), s1)
      | (Inr (False, c), s1) \<Rightarrow>
          (let t' = (add_category t c)\<lparr>hc_streak := next_streak (hc_streak t) c\<rparr>
           in if CATEGORY_CONVERGENCE_STREAK \<le> hc_streak t' then (Inr (Converged, t'), s1)
              else harvest_categories env base filter_urls save deadline (Suc index) categories t' s1))"

definition harvest_alert :: "harvest_end \<Rightarrow> harvest_counts \<Rightarrow> 's crawl_state_scheme \<Rightarrow> 's crawl_state_scheme" where
  "harvest_alert ending t s =
     (if hc_saved t = 0 \<and> CATEGORY_CONVERGENCE_STREAK \<le> hc_processed t \<and> 0 < hc_candidates t
      then alert ''phase2_zero_yield'' s
      else if ending = Converged \<and> hc_saved t = 0 then alert ''phase2_converged_empty'' s
      else s)"

definition harvest_cursor :: "harvest_end \<Rightarrow> nat \<Rightarrow> nat \<Rightarrow> nat \<times> bool" where
  \<comment> \<open>index to resume from and whether more remains\<close>
  "harvest_cursor ending end_index total_categories = (case ending of
     Stopped i \<Rightarrow> (i, True)
   | Converged \<Rightarrow> (0, False)
   | Finished \<Rightarrow> if end_index < total_categories then (end_index, True) else (0, False))"

definition run_product_harvest ::
    "('page, 'e) harvest_env_scheme \<Rightarrow> string \<Rightarrow> 's crawl_state_scheme FilterUrlsByRoleFn
      \<Rightarrow> 's crawl_state_scheme SaveProductUrlsFn \<Rightarrow> rat option \<Rightarrow> string list \<Rightarrow> nat
      \<Rightarrow> ('s crawl_state_scheme, nat \<times> nat \<times> bool) act" where
  \<comment> \<open>number saved, index to resume from, whether more remains; the counts of requests are local\<close>
  "run_product_harvest env base filter_urls save deadline category_urls start_index s =
     (let targets = take MAX_CATEGORY_URLS_PER_RUN (drop start_index category_urls)
      in case harvest_categories env base filter_urls save deadline start_index targets
                no_harvest (s\<lparr>cs_fetched := [], cs_empty := 0\<rparr>) of
        (Inl e, s1) \<Rightarrow> (Inl e, s1)
      | (Inr (ending, t), s1) \<Rightarrow>
          (case harvest_cursor ending (start_index + length targets) (length category_urls) of
             (next_index, remaining) \<Rightarrow>
               (Inr (hc_saved t, next_index, remaining), emit_fetch_empty_soup_spike_if_needed (harvest_alert ending t s1))))"

section \<open>What a run has asked for\<close>

definition asked_upto :: "harvest_end \<Rightarrow> nat \<Rightarrow> string list \<Rightarrow> 's crawl_state_scheme \<Rightarrow> bool" where
  \<comment> \<open>where a run over some categories ends, every category before was requested\<close>
  "asked_upto ending index categories t = (case ending of
     Stopped i \<Rightarrow> index \<le> i \<and> i < index + length categories \<and> set (take (i - index) categories) - {[]} \<subseteq> set (cs_fetched t)
   | Finished \<Rightarrow> set categories - {[]} \<subseteq> set (cs_fetched t)
   | Converged \<Rightarrow> True)"

lemma asked_upto_Cons:
  assumes "asked_upto ending (Suc index) categories t" "category \<noteq> [] \<longrightarrow> category \<in> set (cs_fetched t)"
  shows "asked_upto ending index (category # categories) t"
proof (cases ending)
  case (Stopped i)
  with assms(1) have "i - index = Suc (i - Suc index)" by (auto simp: asked_upto_def)
  with Stopped assms show ?thesis by (auto simp: asked_upto_def)
qed (use assms in \<open>auto simp: asked_upto_def\<close>)

definition run_converged ::
    "('page, 'e) harvest_env_scheme \<Rightarrow> string \<Rightarrow> 's crawl_state_scheme FilterUrlsByRoleFn
      \<Rightarrow> 's crawl_state_scheme SaveProductUrlsFn \<Rightarrow> rat option \<Rightarrow> string list \<Rightarrow> nat \<Rightarrow> 's crawl_state_scheme \<Rightarrow> bool" where
  \<comment> \<open>the run ended because consecutive categories had nothing new\<close>
  "run_converged env base filter_urls save deadline category_urls start_index s =
     (case harvest_categories env base filter_urls save deadline start_index
             (take MAX_CATEGORY_URLS_PER_RUN (drop start_index category_urls)) no_harvest (s\<lparr>cs_fetched := [], cs_empty := 0\<rparr>) of
        (Inr (Converged, _), _) \<Rightarrow> True | _ \<Rightarrow> False)"

section \<open>What the harvest needs of its callbacks\<close>

text \<open>
  The gate admits only URLs of a kind; the save stores some of the URLs it is given and counts
  them; neither touches the log of the harvest's own requests. What is stored is any relation that
  composes and ignores the part of the state that belongs to the crawl.
\<close>

locale harvest_callbacks =
  fixes filter_urls :: "'s crawl_state_scheme FilterUrlsByRoleFn"
    and save :: "'s crawl_state_scheme SaveProductUrlsFn"
    and admissible :: "string \<Rightarrow> bool"
    and stores :: "string list \<Rightarrow> 's crawl_state_scheme \<Rightarrow> 's crawl_state_scheme \<Rightarrow> bool"
  assumes filter_log: "filter_urls urls s = (r, t) \<Longrightarrow> cs_fetched t = cs_fetched s"
    and filter_sound: "filter_urls urls s = ((accepted, mode), t) \<Longrightarrow> list_all admissible accepted"
    and filter_stores: "filter_urls urls s = (r, t) \<Longrightarrow> stores [] s t"
    and save_log: "save urls deadline s = (res, t) \<Longrightarrow> cs_fetched t = cs_fetched s"
    and save_stores: "save urls deadline s = (res, t) \<Longrightarrow> \<exists>us. set us \<subseteq> set urls \<and> stores us s t
      \<and> (\<forall>n off late. res = Inr (n, off, late) \<longrightarrow> n = length us)"
    and stores_append: "stores us s t \<Longrightarrow> stores vs t u \<Longrightarrow> stores (us @ vs) s u"
    and stores_frame: "crawl_state.more t = crawl_state.more s \<Longrightarrow> stores [] s t"
begin

definition harvested :: "'s crawl_state_scheme \<Rightarrow> 's crawl_state_scheme \<Rightarrow> nat \<Rightarrow> bool" where
  \<comment> \<open>so many admissible URLs were stored, and the log of requests has only grown\<close>
  "harvested s t n = (prefix (cs_fetched s) (cs_fetched t)
     \<and> (\<exists>us. list_all admissible us \<and> stores us s t \<and> n = length us))"

lemma harvested_trans: "harvested s t n \<Longrightarrow> harvested t u m \<Longrightarrow> harvested s u (n + m)"
  unfolding harvested_def
  by (metis (no_types, lifting) length_append list_all_append prefix_order.trans stores_append)

lemma harvested_frame:
  "crawl_state.more t = crawl_state.more s \<Longrightarrow> prefix (cs_fetched s) (cs_fetched t) \<Longrightarrow> harvested s t 0"
  using stores_frame unfolding harvested_def by fastforce

lemma harvested_clock: "harvested s (clock_read deadline s) 0"
  by (rule harvested_frame) (simp_all add: clock_read_def)

lemma harvested_fetch: "fetch_page env url s = (r, t) \<Longrightarrow> harvested s t 0 \<and> url \<in> set (cs_fetched t)"
  by (auto simp: fetch_page_def Let_def intro!: harvested_frame split: sum.splits option.splits)

lemma harvest_page_harvested:
  assumes "harvest_page filter_urls save deadline urls c s = (r, t)"
  shows "\<exists>n. harvested s t n \<and> (\<forall>late c'. r = Inr (late, c') \<longrightarrow> pc_saved c' = pc_saved c + n)"
proof (cases "urls = []")
  case True
  with assms harvested_frame [of s s] show ?thesis by (auto simp: harvest_page_def)
next
  case False
  obtain accepted mode s1 where f: "filter_urls urls s = ((accepted, mode), s1)" by (metis surj_pair)
  from filter_log [OF f] filter_stores [OF f] have s1: "harvested s s1 0"
    unfolding harvested_def by fastforce
  show ?thesis
  proof (cases "accepted = []")
    case True
    with assms False f s1 show ?thesis by (auto simp: harvest_page_def gate_urls_for_pool_def Let_def)
  next
    case ne: False
    obtain x u where save: "save accepted deadline s1 = (x, u)" by fastforce
    from save_stores [OF save] obtain us where us: "set us \<subseteq> set accepted" "stores us s1 u"
      "\<forall>n off late. x = Inr (n, off, late) \<longrightarrow> n = length us" by blast
    have "list_all admissible us" using filter_sound [OF f] us(1) by (auto simp: list_all_iff)
    with us(2) save_log [OF save] have "harvested s1 u (length us)" unfolding harvested_def by auto
    from harvested_trans [OF s1 this] have "harvested s u (length us)" by simp
    moreover have "t = u" "\<forall>late c'. r = Inr (late, c') \<longrightarrow> pc_saved c' = pc_saved c + length us"
      using assms False f ne save us(3)
      by (auto simp: harvest_page_def gate_urls_for_pool_def Let_def split: sum.splits)
    ultimately show ?thesis by blast
  qed
qed

lemma harvest_pages_harvested:
  "harvest_pages env base filter_urls save deadline left current c s = (r, t) \<Longrightarrow>
    \<exists>n. harvested s t n \<and> (\<forall>late c'. r = Inr (late, c') \<longrightarrow> pc_saved c' = pc_saved c + n)"
proof (induction left arbitrary: current c s)
  case 0
  with harvested_frame [of s s] show ?case by auto
next
  case (Suc left)
  show ?case
  proof (cases "current = None \<or> current = Some [] \<or> deadline_passed env deadline s")
    case True
    with Suc.prems harvested_frame [of s s] harvested_clock [of s deadline] show ?thesis
      by (auto split: option.splits if_splits)
  next
    case False
    then obtain url where url: "current = Some url" "url \<noteq> []" "\<not> deadline_passed env deadline s" by auto
    obtain p s1 where f: "fetch_page env url (clock_read deadline s) = (p, s1)" by fastforce
    have s1: "harvested s s1 0" using harvested_trans [OF harvested_clock] harvested_fetch [OF f] by fastforce
    show ?thesis
    proof (cases "\<exists>page. p = Inr (Some page)")
      case False
      with Suc.prems url f s1 show ?thesis by (auto split: sum.splits option.splits)
    next
      case True
      then obtain page where p: "p = Inr (Some page)" by blast
      obtain x s2 where h: "harvest_page filter_urls save deadline (page_links env base page url) c s1 = (x, s2)" by fastforce
      from harvest_page_harvested [OF h] obtain n where n: "harvested s1 s2 n"
        "\<forall>late c'. x = Inr (late, c') \<longrightarrow> pc_saved c' = pc_saved c + n" by blast
      have sn: "harvested s s2 n" using harvested_trans [OF s1 n(1)] by simp
      show ?thesis
      proof (cases "\<exists>c'. x = Inr (False, c')")
        case False
        with Suc.prems url f p h n sn show ?thesis by (auto split: sum.splits bool.splits)
      next
        case True
        then obtain c' where x: "x = Inr (False, c')" by blast
        then have "harvest_pages env base filter_urls save deadline left (he_next_page env page url) c' s2 = (r, t)"
          using Suc.prems url f p h by simp
        from Suc.IH [OF this] obtain m where m: "harvested s2 t m"
          "\<forall>late d. r = Inr (late, d) \<longrightarrow> pc_saved d = pc_saved c' + m" by blast
        have "pc_saved c' = pc_saved c + n" using n(2) x by blast
        with m(2) have "\<forall>late d. r = Inr (late, d) \<longrightarrow> pc_saved d = pc_saved c + (n + m)"
          by (simp only: add.assoc)
        with harvested_trans [OF sn m(1)] show ?thesis by blast
      qed
    qed
  qed
qed

lemma harvest_pages_asks:
  assumes "harvest_pages env base filter_urls save deadline (Suc left) (Some url) c s = (Inr (False, c'), t)" "url \<noteq> []"
  shows "url \<in> set (cs_fetched t)"
proof -
  have early: "\<not> deadline_passed env deadline s" using assms by (auto split: if_splits)
  obtain p s1 where f: "fetch_page env url (clock_read deadline s) = (p, s1)" by fastforce
  have s1: "url \<in> set (cs_fetched s1)" using harvested_fetch [OF f] by blast
  have "prefix (cs_fetched s1) (cs_fetched t)"
  proof (cases p)
    case (Inr o')
    show ?thesis
    proof (cases o')
      case (Some page)
      obtain x s2 where h: "harvest_page filter_urls save deadline (page_links env base page url) c s1 = (x, s2)" by fastforce
      with assms early f Inr Some obtain d where x: "x = Inr (False, d)"
        "harvest_pages env base filter_urls save deadline left (he_next_page env page url) d s2 = (Inr (False, c'), t)"
        by (auto split: sum.splits bool.splits)
      have "prefix (cs_fetched s1) (cs_fetched s2)" using harvest_page_harvested [OF h] by (auto simp: harvested_def)
      moreover have "prefix (cs_fetched s2) (cs_fetched t)" using harvest_pages_harvested [OF x(2)] by (auto simp: harvested_def)
      ultimately show ?thesis by (rule prefix_order.trans)
    qed (use assms early f Inr in auto)
  qed (use assms early f in auto)
  with s1 show ?thesis using set_mono_prefix by blast
qed

lemma harvest_categories_result:
  "harvest_categories env base filter_urls save deadline index categories c s = (r, t) \<Longrightarrow>
    \<exists>n. harvested s t n \<and> (\<forall>ending c'. r = Inr (ending, c') \<longrightarrow> hc_saved c' = hc_saved c + n \<and> asked_upto ending index categories t)"
proof (induction categories arbitrary: index c s)
  case Nil
  with harvested_frame [of s s] show ?case by (auto simp: asked_upto_def)
next
  case (Cons category categories)
  show ?case
  proof (cases "deadline_passed env deadline s")
    case True
    with Cons.prems harvested_clock [of s deadline] show ?thesis by (auto simp: asked_upto_def)
  next
    case early: False
    obtain x s1 where h: "harvest_pages env base filter_urls save deadline MAX_PAGES_PER_CATEGORY (Some category) no_pages
        (clock_read deadline s) = (x, s1)" by fastforce
    from harvest_pages_harvested [OF h] obtain n where n: "harvested (clock_read deadline s) s1 n"
      "\<forall>late c'. x = Inr (late, c') \<longrightarrow> pc_saved c' = pc_saved no_pages + n" by blast
    have sn: "harvested s s1 n" using harvested_trans [OF harvested_clock n(1)] by simp
    have saved: "pc_saved d = n" if "x = Inr (late, d)" for late d using n(2) that by (simp add: no_pages_def)
    consider (raised) e where "x = Inl e" | (late) d where "x = Inr (True, d)" | (whole) d where "x = Inr (False, d)"
      by (metis (full_types) old.sum.exhaust surj_pair)
    then show ?thesis
    proof cases
      case raised
      with Cons.prems early h sn show ?thesis by auto
    next
      case late
      with Cons.prems early h sn saved [OF late] show ?thesis by (auto simp: add_category_def asked_upto_def)
    next
      case whole
      define c' where "c' = (add_category c d)\<lparr>hc_streak := next_streak (hc_streak c) d\<rparr>"
      have c': "hc_saved c' = hc_saved c + n" using saved [OF whole] by (simp add: c'_def add_category_def)
      show ?thesis
      proof (cases "CATEGORY_CONVERGENCE_STREAK \<le> hc_streak c'")
        case True
        with Cons.prems early h whole sn c' show ?thesis by (auto simp: c'_def Let_def asked_upto_def)
      next
        case False
        with Cons.prems early h whole have rest:
          "harvest_categories env base filter_urls save deadline (Suc index) categories c' s1 = (r, t)"
          by (simp add: c'_def Let_def)
        from Cons.IH [OF rest] obtain m where m: "harvested s1 t m"
          "\<forall>ending c''. r = Inr (ending, c'') \<longrightarrow> hc_saved c'' = hc_saved c' + m \<and> asked_upto ending (Suc index) categories t"
          by blast
        have asked: "category \<in> set (cs_fetched t)" if "category \<noteq> []"
        proof -
          have "MAX_PAGES_PER_CATEGORY = Suc 49" by (simp add: MAX_PAGES_PER_CATEGORY_def)
          with harvest_pages_asks h whole that have "category \<in> set (cs_fetched s1)" by metis
          then show ?thesis using m(1) set_mono_prefix unfolding harvested_def by blast
        qed
        have "\<forall>ending c''. r = Inr (ending, c'') \<longrightarrow> hc_saved c'' = hc_saved c + (n + m)
            \<and> asked_upto ending index (category # categories) t"
          using m(2) c' asked_upto_Cons asked by (metis add.assoc)
        with harvested_trans [OF sn m(1)] show ?thesis by blast
      qed
    qed
  qed
qed

lemma run_product_harvest_result:
  assumes "run_product_harvest env base filter_urls save deadline categories start s = (r, t)"
  shows "\<exists>n. (\<exists>us. list_all admissible us \<and> stores us s t \<and> n = length us)
    \<and> (\<forall>saved upto_index remaining. r = Inr (saved, upto_index, remaining) \<longrightarrow> saved = n
      \<and> (if remaining then start \<le> upto_index \<and> upto_index < length categories
            \<and> set (take (upto_index - start) (drop start categories)) - {[]} \<subseteq> set (cs_fetched t)
         else upto_index = 0 \<and> (set (drop start categories) - {[]} \<subseteq> set (cs_fetched t)
           \<or> run_converged env base filter_urls save deadline categories start s)))"
proof -
  let ?targets = "take MAX_CATEGORY_URLS_PER_RUN (drop start categories)" and ?s = "s\<lparr>cs_fetched := [], cs_empty := 0\<rparr>"
  obtain x s1 where h: "harvest_categories env base filter_urls save deadline start ?targets no_harvest ?s = (x, s1)" by fastforce
  from harvest_categories_result [OF h] obtain n where n: "harvested ?s s1 n"
    "\<forall>ending c'. x = Inr (ending, c') \<longrightarrow> hc_saved c' = n \<and> asked_upto ending start ?targets s1" by (auto simp: no_harvest_def)
  have more: "crawl_state.more t = crawl_state.more s1 \<and> cs_fetched t = cs_fetched s1"
    using assms h by (auto simp: run_product_harvest_def Let_def emit_fetch_empty_soup_spike_if_needed_def harvest_alert_def
        alert_def split: sum.splits prod.splits)
  from n(1) obtain us where us: "list_all admissible us" "stores us ?s s1" "n = length us" by (auto simp: harvested_def)
  have "stores ([] @ us @ []) s t"
    by (rule stores_append [OF stores_frame stores_append [OF us(2) stores_frame]]) (simp_all add: more)
  then have stored: "stores us s t" by simp
  have cursor: "saved = n \<and> (if remaining then start \<le> j \<and> j < length categories
      \<and> set (take (j - start) (drop start categories)) - {[]} \<subseteq> set (cs_fetched t)
      else j = 0 \<and> (set (drop start categories) - {[]} \<subseteq> set (cs_fetched t)
           \<or> run_converged env base filter_urls save deadline categories start s))"
    if "r = Inr (saved, j, remaining)" for saved j remaining
  proof -
    from assms h that obtain ending c' where x: "x = Inr (ending, c')" "saved = hc_saved c'"
      "harvest_cursor ending (start + length ?targets) (length categories) = (j, remaining)"
      by (auto simp: run_product_harvest_def Let_def split: sum.splits prod.splits)
    show ?thesis
    proof (cases ending)
      case (Stopped i)
      with n(2) x have i: "start \<le> i" "i < start + length ?targets" "set (take (i - start) ?targets) - {[]} \<subseteq> set (cs_fetched s1)"
        "j = i" remaining "saved = n" by (auto simp: harvest_cursor_def asked_upto_def)
      from i(2) have "take (i - start) ?targets = take (i - start) (drop start categories)" by simp
      with i more show ?thesis by simp
    next
      case Converged
      with n(2) x h show ?thesis by (simp add: harvest_cursor_def run_converged_def)
    next
      case Finished
      with n(2) x have f: "set ?targets - {[]} \<subseteq> set (cs_fetched s1)" "saved = n" by (auto simp: asked_upto_def)
      show ?thesis
      proof (cases "start + length ?targets < length categories")
        case True
        then have "harvest_cursor Finished (start + length ?targets) (length categories) = (start + length ?targets, True)"
          unfolding harvest_cursor_def by simp
        with x(3) Finished have j: "j = start + length ?targets" remaining by (simp_all del: length_take)
        have "take (j - start) (drop start categories) = ?targets" using j(1) by (simp add: min_def)
        with f j True more show ?thesis by (simp del: length_take)
      next
        case False
        then have "harvest_cursor Finished (start + length ?targets) (length categories) = (0, False)"
          unfolding harvest_cursor_def by simp
        moreover from this have "?targets = drop start categories"
          using False by (cases "length categories \<le> start + MAX_CATEGORY_URLS_PER_RUN") simp_all
        ultimately show ?thesis using x(3) Finished f more by (simp del: length_take)
      qed
    qed
  qed
  show ?thesis
  proof (intro exI conjI allI impI)
    show "list_all admissible us" "stores us s t" "n = length us" by (rule us stored)+
    fix saved j remaining assume "r = Inr (saved, j, remaining)"
    from cursor [OF this] show "saved = n" and "if remaining then start \<le> j \<and> j < length categories
      \<and> set (take (j - start) (drop start categories)) - {[]} \<subseteq> set (cs_fetched t)
      else j = 0 \<and> (set (drop start categories) - {[]} \<subseteq> set (cs_fetched t)
           \<or> run_converged env base filter_urls save deadline categories start s)" by blast+
  qed
qed

end

section \<open>The orchestrator's callbacks\<close>

lemma classify_one_frame:
  "classify_and_resolve_url env url s = (r, t) \<Longrightarrow> cs_fetched t = cs_fetched s \<and> committed t = committed s
    \<and> (cl_role r = ''product'' \<longrightarrow> (\<exists>page. de_page_role env page (cl_pool_url r) = Inr ''product''))"
  by (auto simp: classify_and_resolve_url_def Let_def unknown_page_def committed_def split: sum.splits option.splits)

lemma classify_all_frame:
  "classify_all env urls s = (rs, t) \<Longrightarrow> cs_fetched t = cs_fetched s \<and> committed t = committed s
    \<and> list_all (\<lambda>r. cl_role r = ''product'' \<longrightarrow> (\<exists>page. de_page_role env page (cl_pool_url r) = Inr ''product'')) rs"
proof (induction urls arbitrary: s rs)
  case (Cons url urls)
  obtain r s1 where one: "classify_and_resolve_url env url s = (r, s1)" by fastforce
  obtain rs' s2 where all: "classify_all env urls s1 = (rs', s2)" by fastforce
  with Cons.prems one have "rs = r # rs'" "t = s2" by simp_all
  with classify_one_frame [OF one] Cons.IH [OF all [folded \<open>t = s2\<close>]] show ?case by simp
qed simp

definition product_page :: "('page, 'e) disc_env_scheme \<Rightarrow> string \<Rightarrow> bool" where
  \<comment> \<open>the classifier takes a page at this address for a product\<close>
  "product_page env url = (\<exists>page. de_page_role env page url = Inr ''product'')"

lemma products_are_products:
  "list_all (\<lambda>r. cl_role r = ''product'' \<longrightarrow> product_page env (cl_pool_url r)) rs \<Longrightarrow>
    list_all (product_page env) (products_from_results env seen rs)"
  by (induction env seen rs rule: products_from_results.induct) (auto simp: Let_def)

lemma defence_alerts_frame [simp]:
  "cs_fetched (defence_alerts rs mode s) = cs_fetched s" "committed (defence_alerts rs mode s) = committed s"
  by (simp_all add: defence_alerts_def emit_classify_unknown_rate_high_if_needed_def
      emit_canonical_missing_rate_high_if_needed_def Let_def) (simp_all add: alert_def committed_def)

lemma filter_urls_result:
  assumes "filter_urls_by_role env urls s = ((accepted, mode), t)"
  shows "cs_fetched t = cs_fetched s \<and> committed t = committed s \<and> list_all (product_page env) accepted"
proof -
  note frame = classify_all_frame [folded product_page_def]
  let ?sample = "de_sample env (ds_classified s) (min SITEMAP_SAMPLE_SIZE (length urls)) urls"
  obtain rs1 s1 where full: "classify_all env urls s = (rs1, s1)" by fastforce
  obtain rs2 s2 where sample: "classify_all env ?sample s = (rs2, s2)" by fastforce
  obtain rs3 s3 where rest: "classify_all env (filter (\<lambda>u. u \<notin> set (map cl_source rs2)) urls) s2 = (rs3, s3)" by fastforce
  consider "urls = []" "accepted = []" "t = s"
    | "accepted = products_from_results env [] rs1" "t = defence_alerts rs1 mode s1"
    | "accepted = products_from_results env [] rs2" "t = defence_alerts rs2 mode s2"
    | "accepted = products_from_results env [] (rs2 @ rs3)" "t = defence_alerts (rs2 @ rs3) mode s3"
    using assms full sample rest
    by (auto simp: filter_urls_by_role_def admit_def Let_def split: if_splits)
  then show ?thesis
    by cases (use frame [OF full] frame [OF sample] frame [OF rest] in \<open>simp_all add: products_are_products\<close>)
qed

lemma write_pool_batch_log: "write_pool_batch env batch s = (r, t) \<Longrightarrow> cs_fetched t = cs_fetched s"
  by (auto simp: write_pool_batch_def with_gate_def alert_def split: sum.splits prod.splits if_splits)

lemma save_loop_log: "save_loop env mp deadline known index urls batch new s = (r, t) \<Longrightarrow> cs_fetched t = cs_fetched s"
proof (induction env mp deadline known index urls batch new s rule: save_loop.induct)
  case (1 env mp deadline known index batch new s)
  then show ?case by (auto split: if_splits sum.splits prod.splits dest: write_pool_batch_log)
next
  case (2 env mp deadline known index url urls batch new s)
  show ?case
  proof (cases "url_hash env url \<in> set known")
    case True
    with 2 show ?thesis by simp
  next
    case False
    let ?batch = "batch @ [pool_dto env mp url (ds_uuids s)]" and ?s1 = "s\<lparr>ds_uuids := Suc (ds_uuids s)\<rparr>"
    obtain w s2 where w: "write_pool_batch env ?batch ?s1 = (w, s2)" by fastforce
    show ?thesis
    proof (cases "SAVE_PRODUCT_URLS_BATCH_SIZE \<le> length ?batch")
      case True
      with "2.prems" False w write_pool_batch_log [OF w] "2.IH"(2) [OF refl False refl refl True w [symmetric]] show ?thesis
        by (auto simp: Let_def split: sum.splits if_splits)
    next
      case short: False
      with "2.prems" False "2.IH"(3) [OF refl False refl refl short] show ?thesis by (simp add: Let_def)
    qed
  qed
qed

lemma save_log: "save_product_urls env mp urls start_offset deadline s = (r, t) \<Longrightarrow> cs_fetched t = cs_fetched s"
  by (auto simp: save_product_urls_def load_existing_url_hashes_def Let_def alert_def
      split: if_splits sum.splits prod.splits dest!: save_loop_log)

interpretation pool_harvest: harvest_callbacks "filter_urls_by_role env"
  "\<lambda>urls deadline. save_product_urls env mp urls 0 deadline" "product_page env" "stored env mp"
  for env :: "('page, 'e) disc_env_scheme" and mp
proof
  fix urls :: "string list" and s t :: "'s disc_state_scheme" and r
  assume "filter_urls_by_role env urls s = (r, t)"
  then show "cs_fetched t = cs_fetched s" "stored env mp [] s t"
    using filter_urls_result [of env urls s "fst r" "snd r" t] by (simp_all add: stored_none)
next
  fix urls deadline res and s t :: "'s disc_state_scheme"
  assume save: "save_product_urls env mp urls 0 deadline s = (res, t)"
  show "cs_fetched t = cs_fetched s" by (rule save_log [OF save])
  from save_stores_new [OF save] obtain us where us: "subseq us (offered_urls urls 0)" "stored env mp us s t"
    "case res of Inl e \<Rightarrow> True | Inr (n, off, late) \<Rightarrow> n = length us" by blast
  have "set us \<subseteq> set urls" using list_emb_set [OF us(1)] by (force simp: offered_urls_def)
  with us show "\<exists>us. set us \<subseteq> set urls \<and> stored env mp us s t \<and> (\<forall>n off late. res = Inr (n, off, late) \<longrightarrow> n = length us)"
    by auto
next
  fix s t :: "'s disc_state_scheme"
  assume "crawl_state.more t = crawl_state.more s"
  then have "ds_gate t = ds_gate s" by (cases s; cases t) simp
  then show "stored env mp [] s t" by (intro stored_none) (simp add: committed_def)
qed (use filter_urls_result stored_append in blast)+

section \<open>The harvest\<close>


text \<open>Consecutive runs over the same categories, each resuming where the one before stopped.\<close>

type_synonym ('page, 'e, 's) harvest_run =
  "('page, 'e) harvest_env_scheme \<times> string \<times> rat option \<times> 's disc_state_scheme"

definition harvest_run :: "('page, 'e, 's) harvest_run \<Rightarrow> string \<Rightarrow> string list \<Rightarrow> nat
    \<Rightarrow> (nat \<times> nat \<times> bool) res \<times> 's disc_state_scheme" where
  "harvest_run run base categories start = (case run of (env, mp, deadline, s) \<Rightarrow>
     run_product_harvest env base (filter_urls_by_role env) (\<lambda>urls d. save_product_urls env mp urls 0 d)
       deadline categories start s)"

definition converged :: "('page, 'e, 's) harvest_run \<Rightarrow> string \<Rightarrow> string list \<Rightarrow> nat \<Rightarrow> bool" where
  "converged run base categories start = (case run of (env, mp, deadline, s) \<Rightarrow>
     run_converged env base (filter_urls_by_role env) (\<lambda>urls d. save_product_urls env mp urls 0 d)
       deadline categories start s)"

fun harvest_pass :: "('page, 'e, 's) harvest_run list \<Rightarrow> string \<Rightarrow> string list \<Rightarrow> nat \<Rightarrow> (nat \<times> string set) option" where
  \<comment> \<open>the cursor and the requests after runs that all leave something for the next one\<close>
  "harvest_pass [] base categories i = Some (i, {})"
| "harvest_pass (run # runs) base categories i = (case harvest_run run base categories i of
     (Inr (_, j, True), t) \<Rightarrow> (case harvest_pass runs base categories j of
         Some (k, asked) \<Rightarrow> Some (k, set (cs_fetched t) \<union> asked) | None \<Rightarrow> None)
   | _ \<Rightarrow> None)"

lemma harvest_run_result:
  assumes "harvest_run run base categories start = (Inr (n, j, remaining), t)"
  shows "if remaining then start \<le> j \<and> j < length categories
      \<and> set (take (j - start) (drop start categories)) - {[]} \<subseteq> set (cs_fetched t)
    else j = 0 \<and> (set (drop start categories) - {[]} \<subseteq> set (cs_fetched t) \<or> converged run base categories start)"
proof -
  obtain env mp deadline s where run: "run = (env, mp, deadline, s)" by (metis prod_cases4)
  have "run_product_harvest env base (filter_urls_by_role env) (\<lambda>urls d. save_product_urls env mp urls 0 d)
    deadline categories start s = (Inr (n, j, remaining), t)"
    using assms by (simp add: harvest_run_def run)
  from pool_harvest.run_product_harvest_result [OF this] show ?thesis by (auto simp: converged_def run)
qed

lemma take_between: "i \<le> j \<Longrightarrow> set (take j xs) = set (take i xs) \<union> set (take (j - i) (drop i xs))"
proof -
  assume "i \<le> j"
  then have "take j xs = take i xs @ take (j - i) (drop i xs)" using take_add [of i "j - i" xs] by simp
  then show ?thesis by simp
qed

lemma harvest_pass_asks:
  "harvest_pass runs base categories i = Some (k, asked) \<Longrightarrow>
     i \<le> k \<and> (runs \<noteq> [] \<longrightarrow> k < length categories) \<and> set (take (k - i) (drop i categories)) - {[]} \<subseteq> asked"
proof (induction runs arbitrary: i asked)
  case (Cons run runs)
  from Cons.prems obtain n j t asked' where run: "harvest_run run base categories i = (Inr (n, j, True), t)"
    and rest: "harvest_pass runs base categories j = Some (k, asked')" "asked = set (cs_fetched t) \<union> asked'"
    by (auto split: prod.splits sum.splits bool.splits option.splits)
  from harvest_run_result [OF run] have ij: "i \<le> j" "j < length categories"
    "set (take (j - i) (drop i categories)) - {[]} \<subseteq> set (cs_fetched t)" by simp_all
  from Cons.IH [OF rest(1)] have jk: "j \<le> k" "runs \<noteq> [] \<longrightarrow> k < length categories"
    "set (take (k - j) (drop j categories)) - {[]} \<subseteq> asked'" by simp_all
  have "set (take (k - i) (drop i categories)) = set (take (j - i) (drop i categories)) \<union> set (take (k - j) (drop j categories))"
    using take_between [of "j - i" "k - i" "drop i categories"] ij(1) jk(1) by simp
  moreover have "k < length categories" using jk ij rest(1) by (cases runs) auto
  ultimately show ?case using ij jk rest(2) by auto
qed simp

text \<open>
  C13: No category is skipped between runs. However the runs of a pass over the categories are cut
  by their deadlines or by the cap on categories per run, the cursor always points at a category,
  and every category before it has been requested. When a run then reports that nothing remains,
  every category has been requested, or that run saw its consecutive categories without news.
\<close>

theorem harvest_covers:
  assumes "harvest_pass runs base categories 0 = Some (k, asked)"
    and "harvest_run run base categories k = (Inr (n, j, remaining), t)"
  shows "set (take k categories) - {[]} \<subseteq> asked
    \<and> (if remaining then k \<le> j \<and> j < length categories
       else j = 0 \<and> (set categories - {[]} \<subseteq> asked \<union> set (cs_fetched t) \<or> converged run base categories k))"
proof -
  note pass = harvest_pass_asks [OF assms(1)] and last = harvest_run_result [OF assms(2)]
  have "set categories = set (take k categories) \<union> set (drop k categories)"
    by (metis append_take_drop_id set_append)
  with pass last show ?thesis by (cases remaining) auto
qed

definition small_harvest :: "nat harvest_env" where
  \<comment> \<open>a site without pages, a clock that advances by one at each reading, an empty pool\<close>
  "small_harvest =
     \<lparr> ce_fetch = (\<lambda>n url. Inr None), ce_role = (\<lambda>page url. ''listing''), ce_links = (\<lambda>page url. []), ce_clock = rat_of_nat, ce_now = 0,
       de_persist = live_env, de_sha256_hex = map (\<lambda>b. char_of (unat b)), de_uuid4 = (\<lambda>n. ''u''), de_known_hashes = (\<lambda>log hs. Inr []),
       de_classify_fetch = (\<lambda>n url. Inr None), de_has_html = (\<lambda>page. True), de_canonical = (\<lambda>page url. Inr None),
       de_page_role = (\<lambda>page url. Inr ''product''), de_sample = (\<lambda>seed n urls. take n urls),
       he_structure_links = (\<lambda>page base url. []), he_product_links = (\<lambda>page base. []), he_next_page = (\<lambda>page url. None) \<rparr>"

definition shop_cursors :: mp_cursors where
  "shop_cursors = \<lparr> mc_base_url = ''h'', mc_frontier = PNone, mc_category_urls = Some [''h/old''], mc_resume_index = Some 1,
     mc_sitemap_offset = None, mc_sitemap_streak = None, mc_phase1_streak = None, mc_last_recon_at = None,
     mc_last_sitemap_at = None, mc_sitemap_url = None \<rparr>"

definition small_state :: disc_state where
  "small_state = \<lparr> cs_cursors = shop_cursors, cs_fetched = [], cs_empty = 0, cs_clock_reads = 0, cs_alerts = [],
     ds_gate = quiet_state, ds_uuids = 0, ds_classified = 0, ds_cached_pages = [] \<rparr>"

lemma small_harvest_stops:
  "harvest_pass [(small_harvest, ''m'', Some 2, small_state)] ''b'' [''x'', ''y''] 0 = Some (1, {''x''})"
  by code_simp

lemma small_harvest_ends:
  "fst (harvest_run (small_harvest, ''m'', None, small_state) ''b'' [''x'', ''y''] 1) = Inr (0, 0, False)"
  by code_simp

lemma harvest_covers_witness:
  "\<exists>t :: disc_state. set (take 1 [''x'', ''y'']) - {[]} \<subseteq> {''x''} \<and> (0::nat) = 0
     \<and> (set [''x'', ''y''] - {[]} \<subseteq> {''x''} \<union> set (cs_fetched t)
        \<or> converged (small_harvest, ''m'', None, small_state) ''b'' [''x'', ''y''] 1)"
proof -
  obtain t :: disc_state where "harvest_run (small_harvest, ''m'', None, small_state) ''b'' [''x'', ''y''] 1 = (Inr (0, 0, False), t)"
    using small_harvest_ends by (metis prod.collapse)
  from harvest_covers [OF small_harvest_stops this] show ?thesis by auto
qed

end
