(* ===== verification/MetaBuilders.thy ===== *)
theory MetaBuilders
  imports Rails
begin

text \<open>
  The column builders of the metadata rail (\<open>persist/meta_write.py\<close>): values take the form in
  which the gate function casts them to the type of their column.
\<close>

section \<open>json.dumps with its defaults\<close>

definition json_escape_ascii :: "char \<Rightarrow> string" where
  \<comment> \<open>\<open>ensure_ascii=True\<close>: everything outside the printable ASCII range is escaped\<close>
  "json_escape_ascii c = (let n = (of_char c :: nat) in
     if n < 127 then json_escape c
     else [char_of (92::nat), CHR ''u'', CHR ''0'', CHR ''0'', hex_digit (n div 16), hex_digit (n mod 16)])"

definition json_string_ascii :: "string \<Rightarrow> string" where
  "json_string_ascii s = char_of (34::nat) # concat (map json_escape_ascii s) @ [char_of (34::nat)]"

fun json_dumps_default :: "pyval \<Rightarrow> string res" where
  "json_dumps_default PNone = Inr ''null''"
| "json_dumps_default (PBool b) = Inr (if b then ''true'' else ''false'')"
| "json_dumps_default (PInt i) = Inr (int_str i)"
| "json_dumps_default (PFloat f) = Inr (json_float f)"
| "json_dumps_default (PStr s) = Inr (json_string_ascii s)"
| "json_dumps_default (PList xs) =
     bindE (mapE json_dumps_default xs) (\<lambda>parts. Inr (''['' @ join_with '', '' parts @ '']''))"
| "json_dumps_default (PDict d) =
     bindE (mapE (\<lambda>(k, v). bindE (json_dumps_default v) (\<lambda>t. Inr (json_string_ascii k @ '': '' @ t))) d)
       (\<lambda>items. Inr (''{'' @ join_with '', '' items @ ''}''))"
| "json_dumps_default _ = Inl TypeError"

section \<open>Values on the wire\<close>

definition pg_escape :: "char \<Rightarrow> string" where
  "pg_escape c = (if c = CHR 0x5C \<or> c = CHR 0x22 then [CHR 0x5C, c] else [c])"

definition pg_array_item :: "pyval \<Rightarrow> string" where
  "pg_array_item item = CHR 0x22 # concat (map pg_escape (py_str item)) @ [CHR 0x22]"

definition pg_array_literal :: "pyval list \<Rightarrow> string" where
  "pg_array_literal items = ''{'' @ join_with '','' (map pg_array_item items) @ ''}''"

definition is_array :: "sql_type \<Rightarrow> bool" where
  "is_array t = (case t of SArray _ \<Rightarrow> True | _ \<Rightarrow> False)"

definition array_column_names :: "table_model \<Rightarrow> string list" where
  "array_column_names model = map col_key (filter (\<lambda>c. is_array (col_type c)) (tm_columns model))"

definition ARRAY_COLUMNS_BY_TABLE :: "(string \<times> string list) list" where
  "ARRAY_COLUMNS_BY_TABLE =
     [(''dim_marketplace'', array_column_names DimMarketplace), (''scrape_jobs'', array_column_names ScrapeJob)]"

definition serialize_meta_value :: "string \<Rightarrow> string \<Rightarrow> pyval \<Rightarrow> pyval res" where
  "serialize_meta_value table column v = (case v of
     PDatetime t \<Rightarrow> Inr (PStr t)
   | PUuid u \<Rightarrow> Inr (PStr u)
   | PList items \<Rightarrow>
       if column \<in> set (case map_of ARRAY_COLUMNS_BY_TABLE table of None \<Rightarrow> [] | Some cs \<Rightarrow> cs)
       then Inr (PStr (pg_array_literal items))
       else bindE (json_dumps_default (PList items)) (\<lambda>t. Inr (PStr t))
   | _ \<Rightarrow> Inr v)"

section \<open>Builders\<close>

definition build_meta_fields :: "string \<Rightarrow> string option \<Rightarrow> pydict \<Rightarrow> pydict res" where
  \<comment> \<open>what both builders do for their table\<close>
  "build_meta_fields table row_id columns =
     bindE (mapE (\<lambda>(key, v). bindE (serialize_meta_value table key v) (\<lambda>w. Inr (key, w))) columns) (\<lambda>flds.
       Inr ((case row_id of None \<Rightarrow> [] | Some i \<Rightarrow> [(''id'', PStr i)]) @ flds))"

definition build_scrape_job_fields :: "string option \<Rightarrow> pydict \<Rightarrow> pydict res" where
  "build_scrape_job_fields = build_meta_fields ''scrape_jobs''"

definition build_dim_marketplace_fields :: "string option \<Rightarrow> pydict \<Rightarrow> pydict res" where
  "build_dim_marketplace_fields = build_meta_fields ''dim_marketplace''"

definition orm_column_default :: "table_model \<Rightarrow> string \<Rightarrow> pyval res" where
  \<comment> \<open>the callables of SQLAlchemy take a context that is not passed\<close>
  "orm_column_default model column_name = (case find (\<lambda>c. col_key c = column_name) (tm_columns model) of
     None \<Rightarrow> Inl KeyError
   | Some c \<Rightarrow> (case col_default c of
       NoDefault \<Rightarrow> Inl ValueError | DefaultValue v \<Rightarrow> Inr v | DefaultCall _ \<Rightarrow> Inl TypeError))"

definition SCRAPE_JOB_INSERT_ORM_DEFAULTS :: "pydict res" where
  "SCRAPE_JOB_INSERT_ORM_DEFAULTS =
     mapE (\<lambda>k. bindE (orm_column_default ScrapeJob k) (\<lambda>v. Inr (k, v)))
       [''total_listings'', ''successful'', ''failed'', ''skipped'']"

definition build_scrape_job_insert_fields :: "string option \<Rightarrow> pydict \<Rightarrow> pydict res" where
  "build_scrape_job_insert_fields row_id columns =
     bindE SCRAPE_JOB_INSERT_ORM_DEFAULTS (\<lambda>defaults.
     bindE (build_scrape_job_fields row_id columns) (\<lambda>flds.
       Inr (flds @ filter (\<lambda>(k, _). \<not> has_key flds k) defaults)))"

section \<open>Array literals are read back\<close>

text \<open>
  The array input of PostgreSQL on lists of quoted elements: a backslash takes the next character
  as it is.
\<close>

fun pg_quoted :: "string \<Rightarrow> (string \<times> string) option" where
  \<comment> \<open>the element up to its closing quote, and the rest\<close>
  "pg_quoted [] = None"
| "pg_quoted (c # cs) =
     (if c = CHR 0x22 then Some ([], cs)
      else if c = CHR 0x5C then
        (case cs of [] \<Rightarrow> None
         | d # ds \<Rightarrow> (case pg_quoted ds of None \<Rightarrow> None | Some (t, rest) \<Rightarrow> Some (d # t, rest)))
      else (case pg_quoted cs of None \<Rightarrow> None | Some (t, rest) \<Rightarrow> Some (c # t, rest)))"

lemma pg_quoted_shorter: "pg_quoted s = Some (t, rest) \<Longrightarrow> length rest < length s"
  by (induction s arbitrary: t rule: pg_quoted.induct) (fastforce split: if_splits option.splits list.splits)+

function pg_elements :: "string \<Rightarrow> string list option" where
  "pg_elements s = (case s of
     [] \<Rightarrow> None
   | c # cs \<Rightarrow>
       if c \<noteq> CHR 0x22 then None
       else case pg_quoted cs of
         None \<Rightarrow> None
       | Some (t, rest) \<Rightarrow>
           if rest = ''}'' then Some [t]
           else if startswith rest '','' then map_option ((#) t) (pg_elements (tl rest))
           else None)"
  by pat_completeness auto
termination
  by (relation "measure length") (auto dest!: pg_quoted_shorter simp: startswith_def)

declare pg_elements.simps [simp del]

definition pg_array_input :: "string \<Rightarrow> string list option" where
  "pg_array_input s = (if s = ''{}'' then Some [] else if startswith s ''{'' then pg_elements (tl s) else None)"

lemma pg_quoted_escaped: "pg_quoted (concat (map pg_escape s) @ CHR 0x22 # rest) = Some (s, rest)"
  by (induction s) (auto simp: pg_escape_def)

lemma pg_elements_item:
  "pg_elements (pg_array_item item @ rest) =
     (if rest = ''}'' then Some [py_str item]
      else if startswith rest '','' then map_option ((#) (py_str item)) (pg_elements (tl rest)) else None)"
  by (subst pg_elements.simps) (simp add: pg_array_item_def pg_quoted_escaped)

lemma pg_elements_joined:
  assumes "items \<noteq> []"
  shows "pg_elements (join_with '','' (map pg_array_item items) @ ''}'') = Some (map py_str items)"
  using assms
proof (induction items)
  case (Cons item items)
  then show ?case by (cases items) (simp_all add: pg_elements_item startswith_def)
qed simp

lemma joined_not_brace: "items \<noteq> [] \<Longrightarrow> join_with '','' (map pg_array_item items) \<noteq> []"
proof (cases items)
  case (Cons a as)
  then show ?thesis by (cases as) (simp_all add: pg_array_item_def)
qed simp

lemma array_literal_read: "pg_array_input (pg_array_literal items) = Some (map py_str items)"
proof (cases "items = []")
  case False
  with pg_elements_joined [OF False] joined_not_brace [OF False] show ?thesis
    by (simp add: pg_array_literal_def pg_array_input_def startswith_def)
qed (simp add: pg_array_literal_def pg_array_input_def)

lemma array_columns: "ARRAY_COLUMNS_BY_TABLE = [(''dim_marketplace'', [''operates_in'']), (''scrape_jobs'', [])]"
  by code_simp


end
