(* ===== verification/DiscoveryRun.thy ===== *)
theory DiscoveryRun
  imports ProductHarvest MetaBuilders
begin

text \<open>
  One discovery of one marketplace (\<open>discovery/orchestrator.py\<close>, \<open>discover\<close>, with
  \<open>sitemap_harvester.py\<close> and \<open>budget_governor.py\<close>): the sitemap phase, or the category crawl and
  harvest, then the account of the run. Jobs and cursors are written through the metadata rail.
  The local variables of the run are part of the state, since an exception keeps their values.
  Instants are microseconds; heartbeats and log output are left out; a timeout of the sitemap
  phase is one of the fetch of its candidates. Times of a run are read once.
\<close>

record 'page discover_env = "'page harvest_env" +
  dv_recon :: "'page crawl_env"
  dv_sitemap_candidates :: "string list res"
  dv_listing_count :: "gate_statement list \<Rightarrow> int option res"
  dv_active_listing_count :: "gate_statement list \<Rightarrow> int option res"
  dv_no_quota_limit :: int
  dv_job_found :: "gate_statement list \<Rightarrow> string \<Rightarrow> bool"
  dv_isoformat :: "int \<Rightarrow> string"
  dv_started_at :: int
  dv_duration_ms :: int
  dv_exc_text :: "pyexc \<Rightarrow> string"

record shop =
  sh_id :: string
  sh_domain :: "string option"
  sh_product_quota :: "int option"
  sh_catalog_size_estimate :: "int option"

record discover_state = disc_state +
  dm_last_discovery_at :: "int option"
  dm_last_discovery_status :: "string option"
  dm_last_discovery_products_found :: int
  dm_products_in_pool :: int
  lv_pages_scanned :: int
  lv_candidate_urls_found :: int
  lv_accepted_urls :: int
  lv_duplicate_urls :: int
  lv_rejected_urls :: int
  lv_persisted_listings :: int
  lv_partial_budget :: bool
  lv_errors :: "string list"

record DiscoveryResult =
  dr_status :: string
  dr_pages_scanned :: int
  dr_candidate_urls_found :: int
  dr_accepted_urls :: int
  dr_duplicate_urls :: int
  dr_rejected_urls :: int
  dr_persisted_listings :: int
  dr_job_id :: string
  dr_errors :: "string list"

section \<open>Budgets and ages\<close>

definition PHASE1_BACKLOG_CAP_FRACTION :: rat where "PHASE1_BACKLOG_CAP_FRACTION = double (30 / 100)"

definition allocate :: "('page, 'e) crawl_env_scheme \<Rightarrow> rat option \<Rightarrow> bool \<Rightarrow> 's crawl_state_scheme \<Rightarrow> rat option \<times> rat option" where
  "allocate env deadline has_backlog s = (case deadline of None \<Rightarrow> (None, None)
     | Some d \<Rightarrow>
         (let now = clock_now env s; remaining = max 0 (double (d - now))
          in (Some (if has_backlog then double (now + double (remaining * PHASE1_BACKLOG_CAP_FRACTION)) else d), Some d)))"

definition days :: "int \<Rightarrow> int" where "days n = n * 86400000000"
definition hours :: "int \<Rightarrow> int" where "hours n = n * 3600000000"

definition CATEGORY_RECON_STALE_DAYS :: int where "CATEGORY_RECON_STALE_DAYS = 7"
definition SITEMAP_STALE_DAYS :: int where "SITEMAP_STALE_DAYS = 3"
definition SITEMAP_MIN_USEFUL_URLS :: nat where "SITEMAP_MIN_USEFUL_URLS = 10"
definition SITEMAP_TIMEOUT_COOLDOWN_HOURS :: int where "SITEMAP_TIMEOUT_COOLDOWN_HOURS = 24"
definition SITEMAP_BAD_HARVEST_RETRY_HOURS :: int where "SITEMAP_BAD_HARVEST_RETRY_HOURS = 1"
definition SITEMAP_USEFUL_FALSE_STREAK_THRESHOLD :: int where "SITEMAP_USEFUL_FALSE_STREAK_THRESHOLD = 3"

definition stale :: "int \<Rightarrow> int option \<Rightarrow> int \<Rightarrow> bool" where
  \<comment> \<open>never done, or at least so many whole days ago\<close>
  "stale now since limit = (case since of None \<Rightarrow> True | Some t \<Rightarrow> limit \<le> (now - t) div days 1)"

definition should_run_sitemap_harvest :: "int \<Rightarrow> mp_cursors \<Rightarrow> bool" where
  "should_run_sitemap_harvest now m =
     (0 < get_sitemap_resume_offset m \<or> stale now (mc_last_sitemap_at m) SITEMAP_STALE_DAYS)"

definition should_run_category_recon :: "int \<Rightarrow> mp_cursors \<Rightarrow> bool" where
  "should_run_category_recon now m =
     (if 0 < get_category_resume_index m then False
      else py_truth (mc_frontier m) \<or> get_discovered_category_urls m = []
        \<or> stale now (mc_last_recon_at m) CATEGORY_RECON_STALE_DAYS)"

definition resolve_category_backlog :: "'s crawl_state_scheme \<Rightarrow> bool \<times> 's crawl_state_scheme" where
  "resolve_category_backlog s =
     (let resume_index = get_category_resume_index (cs_cursors s);
          categories_len = int (length (get_discovered_category_urls (cs_cursors s)));
          s1 = (if categories_len < resume_index then alert ''resume_index_oob'' s else s);
          primary = (resume_index < categories_len); binary = (0 < categories_len)
      in if primary \<noteq> binary then (binary, alert ''resume_index_desync'' s1) else (primary, s1))"

section \<open>The sitemap phase\<close>

definition set_cursors :: "mp_cursors \<Rightarrow> 's crawl_state_scheme \<Rightarrow> 's crawl_state_scheme" where
  "set_cursors m s = s\<lparr>cs_cursors := m\<rparr>"

definition sitemap_cooldown :: "int \<Rightarrow> int \<Rightarrow> int" where
  \<comment> \<open>a harvest dated so that it is stale again after so many hours\<close>
  "sitemap_cooldown now n = now - (days SITEMAP_STALE_DAYS - hours n)"

definition note_harvest :: "int \<Rightarrow> bool \<Rightarrow> 's crawl_state_scheme \<Rightarrow> 's crawl_state_scheme" where
  \<comment> \<open>what a harvest leaves in the cursors, useful or not\<close>
  "note_harvest now useful s =
     (let m = cs_cursors s
      in if useful then
           set_cursors (set_sitemap_url (rstrip_by (\<lambda>c. c = CHR ''/'') (mc_base_url m) @ ''/sitemap.xml'')
             (set_last_sitemap_harvest_at now (set_sitemap_bad_harvest_streak 0 m))) s
         else
           (let streak = get_sitemap_bad_harvest_streak m + 1;
                m1 = set_last_sitemap_harvest_at (sitemap_cooldown now SITEMAP_BAD_HARVEST_RETRY_HOURS)
                       (set_sitemap_bad_harvest_streak streak m)
            in set_cursors m1 (if SITEMAP_USEFUL_FALSE_STREAK_THRESHOLD \<le> streak then alert ''sitemap_useful_false'' s else s)))"

definition harvest_sitemap :: "('page, 'e) discover_env_scheme \<Rightarrow> ('s disc_state_scheme, string list) act" where
  "harvest_sitemap env s = (case dv_sitemap_candidates env of
     Inl e \<Rightarrow> (Inl e, s)
   | Inr raw_urls \<Rightarrow>
       (let last_harvest_known = (mc_last_sitemap_at (cs_cursors s) \<noteq> None \<or> mc_sitemap_url (cs_cursors s) \<noteq> None);
            s1 = (if raw_urls = [] \<and> last_harvest_known then alert ''sitemap_raw_empty'' s else s)
        in case filter_urls_by_role env raw_urls s1 of ((filtered_urls, classify_mode), s2) \<Rightarrow>
          (let s3 = (if classify_mode = ''reject_sample'' \<and> SITEMAP_FULL_CLASSIFY_LIMIT \<le> length raw_urls
                     then alert ''sitemap_reject_sample'' s2 else s2)
           in (Inr filtered_urls, note_harvest (ce_now env) (SITEMAP_MIN_USEFUL_URLS \<le> length filtered_urls) s3))))"

definition sitemap_phase :: "('page, 'e) discover_env_scheme \<Rightarrow> (discover_state, string list) act" where
  \<comment> \<open>a timeout of the phase is an empty harvest with a long cooldown\<close>
  "sitemap_phase env s =
     (if \<not> should_run_sitemap_harvest (ce_now env) (cs_cursors s) then (Inr [], s)
      else case harvest_sitemap env s of
        (Inr urls, s1) \<Rightarrow> (Inr urls, s1)
      | (Inl e, s1) \<Rightarrow>
          if e = TimeoutError then
            (Inr [], set_cursors (set_last_sitemap_harvest_at
                (sitemap_cooldown (ce_now env) SITEMAP_TIMEOUT_COOLDOWN_HOURS) (cs_cursors s1))
              (s1\<lparr>lv_errors := lv_errors s1 @ [''sitemap_phase_timeout'']\<rparr>))
          else (Inl e, s1))"

definition sitemap_path :: "('page, 'e) discover_env_scheme \<Rightarrow> string \<Rightarrow> rat option \<Rightarrow> int \<Rightarrow> string list \<Rightarrow> (discover_state, unit) act" where
  "sitemap_path env mp deadline remaining urls s =
     (let batch = take (nat remaining) urls;
          s1 = s\<lparr>lv_candidate_urls_found := int (length urls), lv_accepted_urls := int (length batch),
                 lv_rejected_urls := max 0 (int (length urls) - int (length batch))\<rparr>;
          start_offset = get_sitemap_resume_offset (cs_cursors s1);
          save_deadline = headroom_deadline env deadline s1
      in case save_product_urls env mp batch start_offset save_deadline (clock_read deadline s1) of
        (Inl e, s2) \<Rightarrow> (Inl e, s2)
      | (Inr (new_count, next_offset, exhausted), s2) \<Rightarrow>
          (let more = (exhausted \<and> next_offset < int (length batch));
               s3 = set_cursors (set_sitemap_resume_offset (if more then next_offset else 0) (cs_cursors s2)) s2
           in (Inr (), s3\<lparr>lv_partial_budget := more, lv_persisted_listings := int new_count,
                 lv_duplicate_urls := max 0 (int (length batch) - int new_count),
                 lv_pages_scanned := (if urls \<noteq> [] then 1 else 0)\<rparr>)))"

section \<open>The category path\<close>

definition category_recon :: "('page, 'e) discover_env_scheme \<Rightarrow> rat option \<Rightarrow> (discover_state, bool) act" where
  \<comment> \<open>phase 1 on the cursors of the marketplace; whether its budget ran out\<close>
  "category_recon env deadline s =
     (case run_category_bfs (dv_recon env) deadline (cs_cursors s) of
        (r, b) \<Rightarrow> (map_sum id snd r, s\<lparr>cs_cursors := cs_cursors b, cs_alerts := cs_alerts s @ cs_alerts b\<rparr>))"

definition category_harvest :: "('page, 'e) discover_env_scheme \<Rightarrow> string \<Rightarrow> rat option \<Rightarrow> int \<Rightarrow> (discover_state, unit) act" where
  "category_harvest env mp deadline remaining s =
     (let base = mc_base_url (cs_cursors s);
          harvest_urls = base # get_discovered_category_urls (cs_cursors s);
          accepted = min (int (length harvest_urls)) remaining;
          s1 = s\<lparr>lv_candidate_urls_found := int (length harvest_urls), lv_accepted_urls := accepted,
                 lv_rejected_urls := max 0 (int (length harvest_urls) - accepted), lv_pages_scanned := accepted\<rparr>;
          start_index = get_category_resume_index (cs_cursors s1)
      in case run_product_harvest env base (filter_urls_by_role env) (\<lambda>urls d. save_product_urls env mp urls 0 d)
                deadline (take (nat accepted) harvest_urls) (nat start_index) s1 of
        (Inl e, s2) \<Rightarrow> (Inl e, s2)
      | (Inr (products_found, next_index, phase2_more), s2) \<Rightarrow>
          (let s3 = set_cursors (set_category_resume_index (int next_index) (cs_cursors s2)) s2
           in (Inr (), s3\<lparr>lv_persisted_listings := int products_found,
                 lv_duplicate_urls := max 0 (accepted - int products_found), lv_partial_budget := phase2_more\<rparr>)))"

definition category_path :: "('page, 'e) discover_env_scheme \<Rightarrow> string \<Rightarrow> rat option \<Rightarrow> int \<Rightarrow> (discover_state, unit) act" where
  "category_path env mp deadline remaining s =
     (let block_deadline = headroom_deadline env deadline s
      in case resolve_category_backlog (clock_read deadline s) of (has_backlog, s1) \<Rightarrow>
         case allocate env block_deadline has_backlog s1 of (phase1_deadline, phase2_deadline) \<Rightarrow>
         (let s2 = clock_read block_deadline s1
          in bindA (if should_run_category_recon (ce_now env) (cs_cursors s2)
                    then category_recon env phase1_deadline else retA False) (\<lambda>phase1_exhausted s3.
             if phase1_exhausted \<and> \<not> has_backlog then
               (Inr (), s3\<lparr>lv_candidate_urls_found := 0, lv_accepted_urls := 0, lv_rejected_urls := 0,
                  lv_pages_scanned := 0, lv_persisted_listings := 0, lv_duplicate_urls := 0, lv_partial_budget := True\<rparr>)
             else category_harvest env mp phase2_deadline remaining s3) s2))"

section \<open>Jobs and snapshots\<close>

definition write_meta :: "('page, 'e) disc_env_scheme \<Rightarrow> string \<Rightarrow> string \<Rightarrow> pydict res \<Rightarrow> ('s disc_state_scheme, PersistResult) act" where
  "write_meta env table operation flds =
     bindA (liftA flds) (\<lambda>f. with_gate (write_meta_sync (de_persist env) table operation f ''discovery''))"

definition or_null :: "('a \<Rightarrow> pyval) \<Rightarrow> 'a option \<Rightarrow> pyval" where
  "or_null f x = (case x of None \<Rightarrow> PNone | Some v \<Rightarrow> f v)"

definition snapshot_meta_columns :: "('page, 'e) discover_env_scheme \<Rightarrow> shop \<Rightarrow> discover_state \<Rightarrow> pydict" where
  "snapshot_meta_columns env sh s =
     (let m = cs_cursors s; instant = or_null (\<lambda>t. PDatetime (dv_isoformat env t))
      in [(''base_url'', PStr (mc_base_url m)), (''last_sitemap_harvest_at'', instant (mc_last_sitemap_at m)),
          (''sitemap_url'', or_null PStr (mc_sitemap_url m)), (''recon_frontier_state'', mc_frontier m),
          (''discovered_category_urls'', or_null (\<lambda>us. PList (map PStr us)) (mc_category_urls m)),
          (''category_resume_index'', or_null PInt (mc_resume_index m)),
          (''sitemap_resume_offset'', or_null PInt (mc_sitemap_offset m)),
          (''sitemap_bad_harvest_streak'', or_null PInt (mc_sitemap_streak m)),
          (''phase1_exhausted_streak'', or_null PInt (mc_phase1_streak m)),
          (''last_discovery_at'', instant (dm_last_discovery_at s)),
          (''last_discovery_status'', or_null PStr (dm_last_discovery_status s)),
          (''last_discovery_products_found'', PInt (dm_last_discovery_products_found s)),
          (''products_in_pool'', PInt (dm_products_in_pool s)),
          (''catalog_size_estimate'', or_null PInt (sh_catalog_size_estimate sh)),
          (''last_category_recon_at'', instant (mc_last_recon_at m))])"

definition meta_update_marketplace_snapshot :: "('page, 'e) discover_env_scheme \<Rightarrow> shop \<Rightarrow> (discover_state, unit) act" where
  \<comment> \<open>the result of the write is not looked at\<close>
  "meta_update_marketplace_snapshot env sh s =
     bindA (write_meta env ''dim_marketplace'' ''update''
              (build_dim_marketplace_fields (Some (sh_id sh)) (snapshot_meta_columns env sh s)))
       (\<lambda>_. retA ()) s"

definition success_meta_snapshot_with_retry :: "('page, 'e) discover_env_scheme \<Rightarrow> shop \<Rightarrow> discover_state \<Rightarrow> discover_state" where
  "success_meta_snapshot_with_retry env sh s = (case meta_update_marketplace_snapshot env sh s of
     (Inr _, s1) \<Rightarrow> s1
   | (Inl _, s1) \<Rightarrow> (case meta_update_marketplace_snapshot env sh s1 of
       (Inr _, s2) \<Rightarrow> s2
     | (Inl _, s2) \<Rightarrow> alert ''meta_snapshot_write_failed'' s2))"

definition shop_domain :: "shop \<Rightarrow> string" where
  "shop_domain sh = py_strip (case sh_domain sh of None \<Rightarrow> [] | Some d \<Rightarrow> d)"

definition job_columns :: "('page, 'e) discover_env_scheme \<Rightarrow> shop \<Rightarrow> string \<Rightarrow> discover_state \<Rightarrow> pydict" where
  "job_columns env sh job_status s =
     [(''status'', PStr job_status), (''completed_at'', PDatetime (dv_isoformat env (ce_now env))),
      (''duration_ms'', PInt (dv_duration_ms env)), (''total_listings'', PInt (lv_candidate_urls_found s)),
      (''successful'', PInt (lv_persisted_listings s)), (''failed'', PInt (int (length (lv_errors s)))),
      (''config'', PDict [(''domain'', PStr (shop_domain sh)), (''pages_scanned'', PInt (lv_pages_scanned s)),
         (''candidate_urls_found'', PInt (lv_candidate_urls_found s)), (''accepted_urls'', PInt (lv_accepted_urls s)),
         (''duplicate_urls'', PInt (lv_duplicate_urls s)), (''rejected_urls'', PInt (lv_rejected_urls s)),
         (''discovery_method'', PStr ''category_crawl'')])]"

section \<open>The run\<close>

definition discover_status :: "discover_state \<Rightarrow> string" where
  "discover_status s =
     (if lv_partial_budget s then ''partial_budget''
      else if lv_errors s \<noteq> [] \<and> 0 < lv_persisted_listings s then ''partial''
      else if lv_errors s \<noteq> [] then ''error''
      else if lv_candidate_urls_found s = 0 then ''no_categories''
      else ''completed'')"

definition job_status_of :: "string \<Rightarrow> string" where
  "job_status_of status =
     (if status = ''error'' then ''failed'' else if status = ''partial_budget'' then ''partial'' else ''completed'')"

definition remaining_slots :: "('page, 'e) discover_env_scheme \<Rightarrow> shop \<Rightarrow> int \<Rightarrow> int" where
  \<comment> \<open>a quota of 0 is none\<close>
  "remaining_slots env sh current_count =
     (let quota = or_0 (sh_product_quota sh);
          no_quota_limit = max (if dv_no_quota_limit env = 0 then 200000 else dv_no_quota_limit env) 1
      in if 0 < quota then max 0 (quota - current_count) else no_quota_limit)"

definition set_seed_url :: "shop \<Rightarrow> 's crawl_state_scheme \<Rightarrow> 's crawl_state_scheme" where
  "set_seed_url sh s =
     (let base = mc_base_url (cs_cursors s);
          seed = py_strip (if base \<noteq> [] then base else ''https://'' @ shop_domain sh);
          seed_url = (if startswith seed ''http'' then seed else ''https://'' @ seed)
      in set_cursors ((cs_cursors s)\<lparr>mc_base_url := seed_url\<rparr>) s)"

definition finalize :: "('page, 'e) discover_env_scheme \<Rightarrow> shop \<Rightarrow> string \<Rightarrow> (discover_state, string) act" where
  "finalize env sh job_id s =
     (let status = discover_status s;
          s0 = (if 0 < lv_persisted_listings s \<and> status = ''no_categories'' then alert ''discover_status_inconsistent'' s else s);
          s1 = s0\<lparr>dm_last_discovery_at := Some (ce_now env),
                  dm_last_discovery_status := Some (if status = ''error'' then ''failed'' else status),
                  dm_last_discovery_products_found := lv_persisted_listings s0\<rparr>
      in case dv_active_listing_count env (committed s1) of
           Inl e \<Rightarrow> (Inl e, s1)
         | Inr pool_count \<Rightarrow>
             (let s2 = s1\<lparr>dm_products_in_pool := or_0 pool_count\<rparr>
              in bindA (write_meta env ''scrape_jobs'' ''update''
                          (build_scrape_job_fields (Some job_id) (job_columns env sh (job_status_of status) s2)))
                   (\<lambda>result s3. (Inr status, success_meta_snapshot_with_retry env sh
                       (if pr_ok result then s3 else alert ''finalize_write_rejected'' s3))) s2))"

definition discover_body :: "('page, 'e) discover_env_scheme \<Rightarrow> shop \<Rightarrow> rat option \<Rightarrow> string \<Rightarrow> (discover_state, string) act" where
  \<comment> \<open>the \<open>try\<close> block; the status of the run\<close>
  "discover_body env sh deadline job_id s =
     (let s1 = set_seed_url sh s
      in case dv_listing_count env (committed s1) of
           Inl e \<Rightarrow> (Inl e, s1)
         | Inr current \<Rightarrow>
             (let remaining = remaining_slots env sh (or_0 current)
              in bindA (sitemap_phase env) (\<lambda>urls.
                 bindA (if SITEMAP_MIN_USEFUL_URLS \<le> length urls
                        then sitemap_path env (sh_id sh) deadline remaining urls
                        else category_path env (sh_id sh) deadline remaining) (\<lambda>_.
                 finalize env sh job_id)) s1))"

definition discover_failed :: "('page, 'e) discover_env_scheme \<Rightarrow> shop \<Rightarrow> string \<Rightarrow> pyexc \<Rightarrow> discover_state \<Rightarrow> discover_state" where
  \<comment> \<open>the handler of the \<open>try\<close> block; what it writes may fail silently\<close>
  "discover_failed env sh job_id e s =
     (let s1 = (alert ''discover_exception'' s)\<lparr>lv_errors := lv_errors s @ [dv_exc_text env e], dm_last_discovery_status := Some ''failed''\<rparr>
      in snd (bindA (write_meta env ''scrape_jobs'' ''update''
                      (build_scrape_job_fields (Some job_id) (job_columns env sh ''failed'' s1)))
                (\<lambda>_. meta_update_marketplace_snapshot env sh) s1))"

definition begin_job :: "('page, 'e) discover_env_scheme \<Rightarrow> shop \<Rightarrow> string option \<Rightarrow> (string \<times> bool) option \<Rightarrow> ('s disc_state_scheme, string) act" where
  \<comment> \<open>an inner job is an id and whether it has started; otherwise a job is inserted\<close>
  "begin_job env sh parent_job_id inner_job s = (case inner_job of
     Some (job_id, started) \<Rightarrow>
       bindA (write_meta env ''scrape_jobs'' ''update''
                (build_scrape_job_fields (Some job_id) ((''status'', PStr ''running'')
                   # (if started then [] else [(''started_at'', PDatetime (dv_isoformat env (dv_started_at env)))]))))
         (\<lambda>_. retA job_id) s
   | None \<Rightarrow>
       (let job_id = de_uuid4 env (ds_uuids s); s1 = s\<lparr>ds_uuids := Suc (ds_uuids s)\<rparr>
        in bindA (write_meta env ''scrape_jobs'' ''insert''
                    (build_scrape_job_insert_fields (Some job_id)
                       [(''job_type'', PStr ''discovery''), (''marketplace_id'', PUuid (sh_id sh)),
                        (''parent_job_id'', or_null PUuid parent_job_id), (''status'', PStr ''running''),
                        (''started_at'', PDatetime (dv_isoformat env (dv_started_at env))),
                        (''config'', PDict [(''domain'', PStr (shop_domain sh))])]))
             (\<lambda>_ s2. if dv_job_found env (committed s2) job_id then (Inr job_id, s2) else (Inl RuntimeError, s2)) s1))"

definition discovery_result :: "string \<Rightarrow> string \<Rightarrow> discover_state \<Rightarrow> DiscoveryResult" where
  "discovery_result status job_id s =
     \<lparr> dr_status = status, dr_pages_scanned = lv_pages_scanned s, dr_candidate_urls_found = lv_candidate_urls_found s,
       dr_accepted_urls = lv_accepted_urls s, dr_duplicate_urls = lv_duplicate_urls s,
       dr_rejected_urls = lv_rejected_urls s, dr_persisted_listings = lv_persisted_listings s,
       dr_job_id = job_id, dr_errors = lv_errors s \<rparr>"

definition start_run :: "discover_state \<Rightarrow> discover_state" where
  \<comment> \<open>the initial values of the local variables\<close>
  "start_run s = s\<lparr>lv_pages_scanned := 0, lv_candidate_urls_found := 0, lv_accepted_urls := 0, lv_duplicate_urls := 0,
     lv_rejected_urls := 0, lv_persisted_listings := 0, lv_partial_budget := False, lv_errors := []\<rparr>"

definition discover :: "('page, 'e) discover_env_scheme \<Rightarrow> shop \<Rightarrow> rat option \<Rightarrow> string option
    \<Rightarrow> (string \<times> bool) option \<Rightarrow> (discover_state, DiscoveryResult) act" where
  "discover env sh deadline parent_job_id inner_job =
     bindA (begin_job env sh parent_job_id inner_job) (\<lambda>job_id s.
       case discover_body env sh deadline job_id (start_run s) of
         (Inr status, s1) \<Rightarrow> (Inr (discovery_result status job_id s1), s1)
       | (Inl e, s1) \<Rightarrow>
           (let s2 = discover_failed env sh job_id e s1 in (Inr (discovery_result ''error'' job_id s2), s2)))"

end
