(* ===== verification/DiscoveryFacts.thy ===== *)
theory DiscoveryFacts
  imports DiscoveryRun
begin

text \<open>What a discovery run guarantees, and where its quota and its cursors go astray.\<close>

section \<open>Frames\<close>

lemma alert_fields [simp]:
  "cs_alerts (alert a s) = cs_alerts s @ [a]" "cs_cursors (alert a s) = cs_cursors s"
  "dm_last_discovery_status (alert a d) = dm_last_discovery_status d" "lv_errors (alert a d) = lv_errors d"
  "lv_persisted_listings (alert a d) = lv_persisted_listings d" "lv_partial_budget (alert a d) = lv_partial_budget d"
  "lv_candidate_urls_found (alert a d) = lv_candidate_urls_found d"
  "dm_last_discovery_products_found (alert a d) = dm_last_discovery_products_found d"
  by (simp_all add: alert_def)

lemma write_meta_frame: "write_meta env table operation flds s = (r, t) \<Longrightarrow> \<exists>g. t = s\<lparr>ds_gate := g\<rparr>"
proof -
  assume "write_meta env table operation flds s = (r, t)"
  then have "t = s\<lparr>ds_gate := ds_gate t\<rparr>"
    by (cases flds) (auto simp: write_meta_def bindA_def liftA_def with_gate_def split: prod.splits sum.splits)
  then show ?thesis ..
qed

lemma meta_snapshot_frame: "meta_update_marketplace_snapshot env sh s = (r, t) \<Longrightarrow> \<exists>g. t = s\<lparr>ds_gate := g\<rparr>"
  by (auto simp: meta_update_marketplace_snapshot_def bindA_def retA_def split: prod.splits sum.splits dest: write_meta_frame)

definition run_fields :: "discover_state \<Rightarrow> int option \<times> string option \<times> int \<times> int \<times> bool \<times> string list \<times> int \<times> mp_cursors" where
  \<comment> \<open>what the account of a run and the columns of the marketplace rest on\<close>
  "run_fields s = (dm_last_discovery_at s, dm_last_discovery_status s, dm_last_discovery_products_found s, lv_persisted_listings s,
     lv_partial_budget s, lv_errors s, lv_candidate_urls_found s, cs_cursors s)"

lemma run_fields_frame [simp]:
  "run_fields (s\<lparr>ds_gate := g\<rparr>) = run_fields s" "run_fields (alert a s) = run_fields s"
  "run_fields (s\<lparr>dm_products_in_pool := n\<rparr>) = run_fields s" "run_fields (clock_read d s) = run_fields s"
  by (simp_all add: run_fields_def alert_def clock_read_def)

lemma run_fields_write: "write_meta env table operation flds s = (r, t) \<Longrightarrow> run_fields t = run_fields s"
  by (auto dest: write_meta_frame)

lemma run_fields_snapshot: "run_fields (success_meta_snapshot_with_retry env sh s) = run_fields s"
proof -
  have "run_fields t = run_fields s" if "meta_update_marketplace_snapshot env sh s = (r, t)" for r s t
    using meta_snapshot_frame [OF that] by auto
  then show ?thesis by (simp add: success_meta_snapshot_with_retry_def split: prod.splits sum.splits) metis
qed

section \<open>The snapshot of the cursors\<close>

text \<open>
  The write of a marketplace's cursors is repeated only after an exception. Whatever the gate
  answers, a refusal included, ends it: no second attempt, and no alert. An exception is followed by
  one attempt more, and only a second exception raises \<open>meta_snapshot_write_failed\<close>.
\<close>

theorem refused_snapshot_silent:
  "case write_meta env ''dim_marketplace'' ''update''
          (build_dim_marketplace_fields (Some (sh_id sh)) (snapshot_meta_columns env sh s)) s of
     (Inr result, t) \<Rightarrow> success_meta_snapshot_with_retry env sh s = t \<and> cs_alerts t = cs_alerts s
   | (Inl e, t) \<Rightarrow>
       (case write_meta env ''dim_marketplace'' ''update''
               (build_dim_marketplace_fields (Some (sh_id sh)) (snapshot_meta_columns env sh s)) t of
          (Inr result, u) \<Rightarrow> success_meta_snapshot_with_retry env sh s = u \<and> cs_alerts u = cs_alerts s
        | (Inl e', u) \<Rightarrow> cs_alerts (success_meta_snapshot_with_retry env sh s) = cs_alerts s @ [''meta_snapshot_write_failed''])"
proof -
  have columns: "snapshot_meta_columns env sh (t\<lparr>ds_gate := g\<rparr>) = snapshot_meta_columns env sh t" for t g
    by (simp add: snapshot_meta_columns_def)
  let ?w = "write_meta env ''dim_marketplace'' ''update''
    (build_dim_marketplace_fields (Some (sh_id sh)) (snapshot_meta_columns env sh s))"
  obtain r t where w: "?w s = (r, t)" by fastforce
  then obtain g where t: "t = s\<lparr>ds_gate := g\<rparr>" using write_meta_frame by blast
  obtain q u where w': "?w t = (q, u)" by fastforce
  then obtain g' where u: "u = t\<lparr>ds_gate := g'\<rparr>" using write_meta_frame by blast
  from w have first: "meta_update_marketplace_snapshot env sh s = (map_sum id (\<lambda>_. ()) r, t)"
    by (simp add: meta_update_marketplace_snapshot_def bindA_def retA_def split: sum.splits)
  from w' have second: "meta_update_marketplace_snapshot env sh t = (map_sum id (\<lambda>_. ()) q, u)"
    by (simp add: meta_update_marketplace_snapshot_def bindA_def retA_def columns t split: sum.splits)
  have "cs_alerts t = cs_alerts s" "cs_alerts u = cs_alerts s" by (simp_all add: t u)
  then show ?thesis
    by (cases r; cases q) (simp_all add: w w' success_meta_snapshot_with_retry_def first second)
qed

section \<open>A run settles\<close>

lemma discover_status_cases:
  "discover_status s \<in> {''partial_budget'', ''partial'', ''error'', ''no_categories'', ''completed''}"
  by (simp add: discover_status_def)

lemma finalize_result:
  assumes "finalize env sh job_id s = (Inr status, t)"
  shows "status = discover_status t \<and> dm_last_discovery_status t = Some (if status = ''error'' then ''failed'' else status)
    \<and> dm_last_discovery_at t = Some (ce_now env) \<and> dm_last_discovery_products_found t = lv_persisted_listings t"
proof -
  define status' where "status' = discover_status s"
  define s0 where "s0 = (if 0 < lv_persisted_listings s \<and> status' = ''no_categories'' then alert ''discover_status_inconsistent'' s else s)"
  define s1 where "s1 = s0\<lparr>dm_last_discovery_at := Some (ce_now env),
    dm_last_discovery_status := Some (if status' = ''error'' then ''failed'' else status'),
    dm_last_discovery_products_found := lv_persisted_listings s0\<rparr>"
  note unfold = finalize_def [of env sh job_id s, folded status'_def, unfolded Let_def, folded s0_def, folded s1_def]
  from assms obtain n where count: "dv_active_listing_count env (committed s1) = Inr n"
    by (auto simp: unfold split: sum.splits)
  obtain r s3 where w: "write_meta env ''scrape_jobs'' ''update'' (build_scrape_job_fields (Some job_id)
    (job_columns env sh (job_status_of status') (s1\<lparr>dm_products_in_pool := or_0 n\<rparr>))) (s1\<lparr>dm_products_in_pool := or_0 n\<rparr>) = (r, s3)"
    by fastforce
  with assms count obtain result where "r = Inr result" "status = status'"
    "t = success_meta_snapshot_with_retry env sh (if pr_ok result then s3 else alert ''finalize_write_rejected'' s3)"
    by (auto simp: unfold bindA_def split: sum.splits)
  with run_fields_write [OF w] have "run_fields t = run_fields s1"
    by (simp add: run_fields_snapshot)
  then show ?thesis using \<open>status = status'\<close>
    by (simp add: run_fields_def s1_def s0_def status'_def discover_status_def split: if_splits)
qed

lemma discover_body_result:
  assumes "discover_body env sh deadline job_id s = (Inr status, t)"
  shows "\<exists>u. finalize env sh job_id u = (Inr status, t)"
  using assms by (auto simp: discover_body_def bindA_def Let_def split: sum.splits prod.splits if_splits)

lemma discover_failed_result:
  "dm_last_discovery_status (discover_failed env sh job_id e s) = Some ''failed''
    \<and> lv_errors (discover_failed env sh job_id e s) = lv_errors s @ [dv_exc_text env e]"
proof -
  define s1 where "s1 = (alert ''discover_exception'' s)\<lparr>lv_errors := lv_errors s @ [dv_exc_text env e],
    dm_last_discovery_status := Some ''failed''\<rparr>"
  obtain r t where w: "write_meta env ''scrape_jobs'' ''update''
    (build_scrape_job_fields (Some job_id) (job_columns env sh ''failed'' s1)) s1 = (r, t)" by fastforce
  obtain q u where m: "meta_update_marketplace_snapshot env sh t = (q, u)" by fastforce
  have "discover_failed env sh job_id e s = (case r of Inl _ \<Rightarrow> t | Inr _ \<Rightarrow> u)"
    by (simp add: discover_failed_def Let_def s1_def [symmetric] bindA_def w m split: sum.splits)
  moreover have "run_fields t = run_fields s1" by (rule run_fields_write [OF w])
  moreover have "run_fields u = run_fields t" using meta_snapshot_frame [OF m] by auto
  ultimately have "run_fields (discover_failed env sh job_id e s) = run_fields s1" by (cases r) simp_all
  then show ?thesis by (simp add: run_fields_def s1_def)
qed


section \<open>The sitemap path\<close>

lemma committed_cursors [simp]: "committed (set_cursors m s) = committed s"
  by (simp add: committed_def set_cursors_def)

lemma committed_locals [simp]:
  "committed (s\<lparr>lv_partial_budget := a, lv_persisted_listings := b, lv_duplicate_urls := c, lv_pages_scanned := d\<rparr>) = committed s"
  "committed (s\<lparr>lv_candidate_urls_found := b, lv_accepted_urls := c, lv_rejected_urls := d\<rparr>) = committed s"
  by (simp_all add: committed_def)

abbreviation sitemap_start :: "int \<Rightarrow> string list \<Rightarrow> rat option \<Rightarrow> discover_state \<Rightarrow> discover_state" where
  \<comment> \<open>the state in which the sitemap path starts to save\<close>
  "sitemap_start remaining urls deadline s \<equiv> clock_read deadline (s\<lparr>lv_candidate_urls_found := int (length urls),
     lv_accepted_urls := int (length (take (nat remaining) urls)),
     lv_rejected_urls := max 0 (int (length urls) - int (length (take (nat remaining) urls)))\<rparr>)"

lemma sitemap_path_saves:
  assumes "r = fst (save_product_urls env mp (take (nat remaining) urls) (get_sitemap_resume_offset (cs_cursors s))
      (headroom_deadline env deadline s) (sitemap_start remaining urls deadline s))"
    and "t = snd (save_product_urls env mp (take (nat remaining) urls) (get_sitemap_resume_offset (cs_cursors s))
      (headroom_deadline env deadline s) (sitemap_start remaining urls deadline s))"
  shows "case sitemap_path env mp deadline remaining urls s of (q, u) \<Rightarrow> committed u = committed t \<and>
    (case r of Inl e \<Rightarrow> q = Inl e | Inr (n, next_offset, exhausted) \<Rightarrow>
       let more = (exhausted \<and> next_offset < int (length (take (nat remaining) urls)))
       in q = Inr () \<and> lv_persisted_listings u = int n \<and> lv_partial_budget u = more
          \<and> get_sitemap_resume_offset (cs_cursors u) = (if more then next_offset else 0))"
proof -
  have "headroom_deadline env deadline (s\<lparr>lv_candidate_urls_found := a, lv_accepted_urls := b, lv_rejected_urls := c\<rparr>)
    = headroom_deadline env deadline s" for a b c
    by (simp add: headroom_deadline_def clock_now_def split: option.splits)
  then show ?thesis
    using assms by (cases r)
      (auto simp: sitemap_path_def Let_def get_sitemap_resume_offset_def set_sitemap_resume_offset_def set_cursors_def or_0_def
        committed_def split: prod.splits sum.splits)
qed

text \<open>
  C18: The sitemap path stays within the free slots of the marketplace: what it stores are
  URLs of the harvest with distinct hashes, at most as many as there are slots, as whole pairs of
  product and listing, and the number reported is the number stored. When it reports an exhausted budget,
  the offset it leaves lies before the end of the batch; otherwise it leaves none.
\<close>

theorem sitemap_path_within_slots:
  "case sitemap_path env mp deadline remaining urls s of (r, t) \<Rightarrow>
     \<exists>us. set us \<subseteq> set urls \<and> distinct (map (url_hash env) us) \<and> int (length us) \<le> max 0 remaining \<and> stored env mp us s t
       \<and> (case r of Inl e \<Rightarrow> True | Inr u \<Rightarrow>
            lv_persisted_listings t = int (length us)
            \<and> (if lv_partial_budget t then get_sitemap_resume_offset (cs_cursors t) < int (min (nat remaining) (length urls))
               else get_sitemap_resume_offset (cs_cursors t) = 0))"
proof -
  let ?batch = "take (nat remaining) urls" and ?offset = "get_sitemap_resume_offset (cs_cursors s)"
  obtain r t where save: "save_product_urls env mp ?batch ?offset (headroom_deadline env deadline s)
    (sitemap_start remaining urls deadline s) = (r, t)" by fastforce
  from save_stores_new [OF save] obtain us where us: "subseq us (offered_urls ?batch ?offset)" "distinct (map (url_hash env) us)"
    "stored env mp us (sitemap_start remaining urls deadline s) t"
    "case r of Inl e \<Rightarrow> True | Inr (n, next_offset, exhausted) \<Rightarrow> n = length us"
    by blast
  have "length us \<le> length ?batch"
    using list_emb_length [OF us(1)] length_filter_le [of "\<lambda>u. u \<noteq> []" "drop (nat ?offset) ?batch"]
    unfolding offered_urls_def length_drop by linarith
  then have slots: "int (length us) \<le> max 0 remaining" unfolding length_take by linarith
  have "set us \<subseteq> set (offered_urls ?batch ?offset)" using list_emb_set [OF us(1)] by force
  then have among: "set us \<subseteq> set urls" by (auto simp: offered_urls_def dest!: in_set_dropD in_set_takeD)
  obtain q u where path: "sitemap_path env mp deadline remaining urls s = (q, u)" by fastforce
  note saves = sitemap_path_saves [of r env mp remaining urls s deadline t, unfolded save path fst_conv snd_conv prod.case, OF refl refl]
  have "stored env mp us s u" by (rule stored_change [OF us(3)]) (use saves in simp_all)
  moreover have "case q of Inl e \<Rightarrow> True | Inr x \<Rightarrow> lv_persisted_listings u = int (length us)
    \<and> (if lv_partial_budget u then get_sitemap_resume_offset (cs_cursors u) < int (min (nat remaining) (length urls))
       else get_sitemap_resume_offset (cs_cursors u) = 0)"
    using saves us(4) by (cases r; cases q) (auto simp: Let_def min.commute split: prod.splits if_splits)
  ultimately show ?thesis unfolding path prod.case using us(2) slots among by blast
qed

lemma known_frame: "committed t = committed s \<Longrightarrow> known_hashes env urls t = known_hashes env urls s"
  by (simp add: known_hashes_def load_existing_url_hashes_def committed_def)

lemma save_loop_known:
  "list_all (\<lambda>u. url_hash env u \<in> set known) urls \<Longrightarrow>
     save_loop env mp deadline known index urls [] new s = (Inr (new, index + int (length urls), False), s)"
  by (induction urls arbitrary: index) (simp_all add: Let_def)

lemma save_known:
  assumes "list_all (\<lambda>u. url_hash env u \<in> set (known_hashes env (offered_urls urls offset) s)) (offered_urls urls offset)"
  shows "\<exists>next_offset t. save_product_urls env mp urls offset deadline s = (Inr (0, next_offset, False), t) \<and> committed t = committed s"
proof (cases "urls = []")
  case True
  then show ?thesis by (simp add: save_product_urls_def)
next
  case False
  obtain res t where run: "save_product_urls env mp urls offset deadline s = (res, t)" by fastforce
  from save_runs_loop [OF run False] obtain s1 where "committed s1 = committed s"
    "save_loop env mp deadline (known_hashes env (offered_urls urls offset) s) offset (offered_urls urls offset) [] 0 s1 = (res, t)"
    by blast
  with run show ?thesis by (auto simp: save_loop_known [OF assms])
qed

text \<open>
  A marketplace with a quota can stop filling. The sitemap path cuts the harvested list to the
  number of free slots before it looks for known URLs: when those first URLs, beyond the resume
  offset, are all in the pool, the run stores nothing, however many unknown URLs follow, leaves
  no offset, and does not report an exhausted budget; the next run cuts the same list again.
\<close>

theorem sitemap_quota_starves:
  assumes "offered = offered_urls (take (nat remaining) urls) (get_sitemap_resume_offset (cs_cursors s))"
    and "list_all (\<lambda>u. url_hash env u \<in> set (known_hashes env offered s)) offered"
  shows "\<exists>t. sitemap_path env mp deadline remaining urls s = (Inr (), t) \<and> committed t = committed s
    \<and> lv_persisted_listings t = 0 \<and> \<not> lv_partial_budget t \<and> get_sitemap_resume_offset (cs_cursors t) = 0
    \<and> discover_status t \<noteq> ''partial_budget''"
proof -
  let ?batch = "take (nat remaining) urls" and ?offset = "get_sitemap_resume_offset (cs_cursors s)"
    and ?start = "sitemap_start remaining urls deadline s"
  have "known_hashes env offered ?start = known_hashes env offered s" by (rule known_frame) simp
  with assms have "list_all (\<lambda>u. url_hash env u \<in> set (known_hashes env (offered_urls ?batch ?offset) ?start))
    (offered_urls ?batch ?offset)" by simp
  from save_known [OF this] obtain next_offset t where
    save: "save_product_urls env mp ?batch ?offset (headroom_deadline env deadline s) ?start = (Inr (0, next_offset, False), t)"
    and same: "committed t = committed ?start" by blast
  obtain q u where path: "sitemap_path env mp deadline remaining urls s = (q, u)" by fastforce
  note saves = sitemap_path_saves [of _ env mp remaining urls s deadline t, unfolded save path fst_conv snd_conv prod.case, OF refl refl]
  show ?thesis using saves same by (simp add: path discover_status_def)
qed

definition small_discovery :: "nat discover_env" where
  \<comment> \<open>the small site of the harvest, with a pool that knows one URL\<close>
  "small_discovery = harvest_env.extend (small_harvest\<lparr>de_known_hashes := \<lambda>log hs. Inr [''a'']\<rparr>)
     \<lparr> dv_recon = crawl_env.truncate small_harvest, dv_sitemap_candidates = Inr [], dv_listing_count = (\<lambda>log. Inr (Some 1)),
       dv_active_listing_count = (\<lambda>log. Inr (Some 1)), dv_no_quota_limit = 0, dv_job_found = (\<lambda>log job. True),
       dv_isoformat = (\<lambda>t. ''t''), dv_started_at = 0, dv_duration_ms = 1, dv_exc_text = (\<lambda>e. ''e'') \<rparr>"

definition small_run :: discover_state where
  "small_run = disc_state.extend small_state
     \<lparr> dm_last_discovery_at = None, dm_last_discovery_status = None, dm_last_discovery_products_found = 0, dm_products_in_pool = 0,
       lv_pages_scanned = 0, lv_candidate_urls_found = 0, lv_accepted_urls = 0, lv_duplicate_urls = 0, lv_rejected_urls = 0,
       lv_persisted_listings = 0, lv_partial_budget = False, lv_errors = [] \<rparr>"

lemma sitemap_quota_starves_witness:
  "\<exists>t. sitemap_path small_discovery ''m'' None 1 [''a'', ''b'', ''c''] small_run = (Inr (), t) \<and> committed t = committed small_run
    \<and> lv_persisted_listings t = 0 \<and> \<not> lv_partial_budget t \<and> get_sitemap_resume_offset (cs_cursors t) = 0
    \<and> discover_status t \<noteq> ''partial_budget''"
  by (rule sitemap_quota_starves [OF refl]) code_simp

section \<open>The category path\<close>

text \<open>The harvest leaves the cursors and the account of the run alone when its callbacks do.\<close>

locale harvest_frame =
  fixes filter_urls :: "'s crawl_state_scheme FilterUrlsByRoleFn"
    and save :: "'s crawl_state_scheme SaveProductUrlsFn"
    and frame :: "'s crawl_state_scheme \<Rightarrow> 'b"
  assumes filter_frame: "filter_urls urls s = (r, t) \<Longrightarrow> frame t = frame s"
    and save_frame: "save urls deadline s = (res, t) \<Longrightarrow> frame t = frame s"
    and crawl_frame: "cs_cursors t = cs_cursors s \<Longrightarrow> crawl_state.more t = crawl_state.more s \<Longrightarrow> frame t = frame s"
begin

lemma frame_steps [simp]:
  "frame (clock_read d s) = frame s" "frame (alert a s) = frame s" "frame (s\<lparr>cs_fetched := [], cs_empty := 0\<rparr>) = frame s"
  by (rule crawl_frame; simp add: clock_read_def alert_def)+

lemma fetch_frame: "fetch_page env url s = (r, t) \<Longrightarrow> frame t = frame s"
  by (rule crawl_frame) (auto simp: fetch_page_def Let_def split: sum.splits option.splits)

lemma harvest_page_frame: "harvest_page filter_urls save deadline urls c s = (r, t) \<Longrightarrow> frame t = frame s"
  by (auto simp: harvest_page_def gate_urls_for_pool_def Let_def split: if_splits prod.splits sum.splits
      dest!: filter_frame save_frame)

lemma harvest_pages_frame:
  "harvest_pages env base filter_urls save deadline left current c s = (r, t) \<Longrightarrow> frame t = frame s"
proof (induction left arbitrary: current c s)
  case (Suc left)
  show ?case
  proof (cases "current = None \<or> current = Some [] \<or> deadline_passed env deadline s")
    case True
    with Suc.prems show ?thesis by (auto split: option.splits if_splits)
  next
    case False
    then obtain url where url: "current = Some url" "url \<noteq> []" "\<not> deadline_passed env deadline s" by auto
    obtain q s1 where f: "fetch_page env url (clock_read deadline s) = (q, s1)" by fastforce
    have s1: "frame s1 = frame s" using fetch_frame [OF f] by simp
    show ?thesis
    proof (cases "\<exists>page. q = Inr (Some page)")
      case False
      with Suc.prems url f s1 show ?thesis by (auto split: sum.splits option.splits)
    next
      case True
      then obtain page where page: "q = Inr (Some page)" ..
      obtain h s2 where h: "harvest_page filter_urls save deadline (page_links env base page url) c s1 = (h, s2)" by fastforce
      have s2: "frame s2 = frame s" using harvest_page_frame [OF h] s1 by simp
      consider e where "h = Inl e" | c' where "h = Inr (True, c')" | c' where "h = Inr (False, c')"
        by (cases h) (metis, metis (full_types) surj_pair)
      then show ?thesis
        by cases (use Suc.prems url f page h s2 Suc.IH in auto)
    qed
  qed
qed simp

lemma harvest_categories_frame:
  "harvest_categories env base filter_urls save deadline index categories n s = (r, t) \<Longrightarrow> frame t = frame s"
proof (induction categories arbitrary: index n s)
  case (Cons category categories)
  obtain q s1 where p: "harvest_pages env base filter_urls save deadline MAX_PAGES_PER_CATEGORY (Some category) no_pages
    (clock_read deadline s) = (q, s1)" by fastforce
  have s1: "frame s1 = frame s" using harvest_pages_frame [OF p] by simp
  show ?case
  proof (cases "deadline_passed env deadline s")
    case True
    with Cons.prems show ?thesis by auto
  next
    case False
    consider e where "q = Inl e" | c where "q = Inr (True, c)" | c where "q = Inr (False, c)"
      by (cases q) (metis, metis (full_types) surj_pair)
    then show ?thesis
      by cases (use Cons.prems False p s1 Cons.IH in \<open>auto simp: Let_def split: if_splits\<close>)
  qed
qed simp

lemma run_frame:
  assumes "run_product_harvest env base filter_urls save deadline categories start s = (r, t)"
  shows "frame t = frame s"
proof -
  obtain q s1 where h: "harvest_categories env base filter_urls save deadline start
    (take MAX_CATEGORY_URLS_PER_RUN (drop start categories)) no_harvest (s\<lparr>cs_fetched := [], cs_empty := 0\<rparr>) = (q, s1)"
    by fastforce
  have "frame s1 = frame s" using harvest_categories_frame [OF h] by simp
  with assms h show ?thesis
    by (auto simp: run_product_harvest_def Let_def harvest_alert_def emit_fetch_empty_soup_spike_if_needed_def
        split: sum.splits prod.splits if_splits)
qed

end

abbreviation run_harvest ::
    "('page, 'e) harvest_env_scheme \<Rightarrow> string \<Rightarrow> string \<Rightarrow> rat option \<Rightarrow> string list \<Rightarrow> nat \<Rightarrow> ('s disc_state_scheme, nat \<times> nat \<times> bool) act" where
  "run_harvest env mp base deadline categories start \<equiv> run_product_harvest env base (filter_urls_by_role env)
     (\<lambda>urls d. save_product_urls env mp urls 0 d) deadline categories start"

lemma classify_all_cursors:
  "classify_all env urls s = (rs, t) \<Longrightarrow> cs_cursors t = cs_cursors s \<and> disc_state.more t = disc_state.more s"
  by (induction urls arbitrary: s rs t)
    (fastforce simp: classify_and_resolve_url_def Let_def split: prod.splits sum.splits option.splits)+

lemma defence_alerts_cursors [simp]:
  "cs_cursors (defence_alerts rs mode s) = cs_cursors s" "disc_state.more (defence_alerts rs mode s) = disc_state.more s"
  by (simp_all add: defence_alerts_def emit_classify_unknown_rate_high_if_needed_def
      emit_canonical_missing_rate_high_if_needed_def Let_def) (simp_all add: alert_def)

lemma filter_urls_cursors:
  "filter_urls_by_role env urls s = (r, t) \<Longrightarrow> cs_cursors t = cs_cursors s \<and> disc_state.more t = disc_state.more s"
  by (auto simp: filter_urls_by_role_def admit_def Let_def split: if_splits prod.splits dest!: classify_all_cursors)

lemma write_pool_batch_cursors:
  "write_pool_batch env batch s = (r, t) \<Longrightarrow> cs_cursors t = cs_cursors s \<and> disc_state.more t = disc_state.more s"
  by (auto simp: write_pool_batch_def with_gate_def alert_def split: sum.splits prod.splits if_splits)

lemma save_loop_cursors:
  "save_loop env mp deadline known index urls batch new s = (r, t) \<Longrightarrow> cs_cursors t = cs_cursors s \<and> disc_state.more t = disc_state.more s"
proof (induction env mp deadline known index urls batch new s rule: save_loop.induct)
  case (1 env mp deadline known index batch new s)
  then show ?case by (auto split: if_splits sum.splits prod.splits dest: write_pool_batch_cursors)
next
  case (2 env mp deadline known index url urls batch new s)
  show ?case
  proof (cases "url_hash env url \<in> set known")
    case True
    with 2 show ?thesis by simp
  next
    case False
    let ?batch = "batch @ [pool_dto env mp url (ds_uuids s)]" and ?s1 = "s\<lparr>ds_uuids := Suc (ds_uuids s)\<rparr>"
    obtain w s2 where w: "write_pool_batch env ?batch ?s1 = (w, s2)" by fastforce
    show ?thesis
    proof (cases "SAVE_PRODUCT_URLS_BATCH_SIZE \<le> length ?batch")
      case True
      with "2.prems" False w write_pool_batch_cursors [OF w] "2.IH"(2) [OF refl False refl refl True w [symmetric]] show ?thesis
        by (auto simp: Let_def clock_read_def split: sum.splits if_splits)
    next
      case short: False
      with "2.prems" False "2.IH"(3) [OF refl False refl refl short] show ?thesis by (simp add: Let_def)
    qed
  qed
qed

lemma save_cursors:
  "save_product_urls env mp urls start_offset deadline s = (r, t) \<Longrightarrow> cs_cursors t = cs_cursors s \<and> disc_state.more t = disc_state.more s"
  by (auto simp: save_product_urls_def load_existing_url_hashes_def Let_def alert_def
      split: if_splits sum.splits prod.splits dest!: save_loop_cursors)

interpretation pool_frame: harvest_frame "filter_urls_by_role env" "\<lambda>urls d. save_product_urls env mp urls 0 d"
  "\<lambda>s :: 's disc_state_scheme. (cs_cursors s, disc_state.more s)"
  for env :: "('page, 'e) disc_env_scheme" and mp
proof
  fix s t :: "'s disc_state_scheme"
  assume "cs_cursors t = cs_cursors s" "crawl_state.more t = crawl_state.more s"
  then show "(cs_cursors t, disc_state.more t) = (cs_cursors s, disc_state.more s)" by (cases s; cases t) simp
qed (auto dest: filter_urls_cursors save_cursors)

lemma harvest_next_index:
  assumes "run_harvest env mp base deadline categories start s = (Inr (n, j, remaining), t)"
  shows "if remaining then j < length categories else j = 0"
  using pool_harvest.run_product_harvest_result [OF assms] by (cases remaining) auto

abbreviation category_start :: "int \<Rightarrow> discover_state \<Rightarrow> discover_state" where
  \<comment> \<open>the state in which the category path starts to harvest\<close>
  "category_start remaining s \<equiv>
     (let found = int (Suc (length (get_discovered_category_urls (cs_cursors s)))); accepted = min found remaining
      in s\<lparr>lv_candidate_urls_found := found, lv_accepted_urls := accepted, lv_rejected_urls := max 0 (found - accepted),
           lv_pages_scanned := accepted\<rparr>)"

definition harvested_urls :: "int \<Rightarrow> mp_cursors \<Rightarrow> string list" where
  \<comment> \<open>the addresses the harvest gets: as many as there are slots for products\<close>
  "harvested_urls remaining m = take (nat remaining) (mc_base_url m # get_discovered_category_urls m)"

lemma take_accepted: "take (nat (min (int (length xs)) n)) xs = take (nat n) xs"
  by (cases "int (length xs) \<le> n") (auto simp: min_def)

lemma category_harvest_run:
  assumes "run_harvest env mp (mc_base_url (cs_cursors s)) deadline (harvested_urls remaining (cs_cursors s))
      (nat (get_category_resume_index (cs_cursors s))) (category_start remaining s) = (r, t)"
  shows "case category_harvest env mp deadline remaining s of (q, u) \<Rightarrow> committed u = committed t \<and> cs_fetched u = cs_fetched t
    \<and> lv_errors u = lv_errors t \<and> (case r of Inl e \<Rightarrow> q = Inl e
      | Inr (n, j, left) \<Rightarrow> q = Inr () \<and> lv_persisted_listings u = int n \<and> lv_partial_budget u = left
          \<and> cs_cursors u = set_category_resume_index (int j) (cs_cursors t))"
proof -
  have "take (nat (min (int (length (mc_base_url m # get_discovered_category_urls m))) remaining))
      (mc_base_url m # get_discovered_category_urls m) = harvested_urls remaining m" for m
    unfolding harvested_urls_def by (rule take_accepted)
  then show ?thesis
    using assms by (simp add: category_harvest_def Let_def set_cursors_def committed_def split: prod.splits sum.splits)
qed

text \<open>
  The cursor a harvest leaves is always valid: it points at the base address or at one of the
  discovered categories, and at the base address unless work remains. The next run finds a backlog
  exactly when there are categories; yet when just the last one is left to harvest, a regular
  position since the list harvested begins with the base address, it reports
  the cursor as out of step with the categories.
\<close>

theorem backlog_false_alarm:
  "case category_harvest env mp deadline remaining s of (Inl e, t) \<Rightarrow> True
   | (Inr u, t) \<Rightarrow>
       (let i = get_category_resume_index (cs_cursors t); n = int (length (get_discovered_category_urls (cs_cursors t)))
        in 0 \<le> i \<and> (if lv_partial_budget t then i \<le> n else i = 0)
           \<and> resolve_category_backlog t = (0 < n, if i = n \<and> 0 < n then alert ''resume_index_desync'' t else t))"
proof -
  let ?m = "cs_cursors s"
  obtain r t where run: "run_harvest env mp (mc_base_url ?m) deadline (harvested_urls remaining ?m)
      (nat (get_category_resume_index ?m)) (category_start remaining s) = (r, t)" by fastforce
  obtain q u where harvest: "category_harvest env mp deadline remaining s = (q, u)" by fastforce
  note result = category_harvest_run [OF run, unfolded harvest prod.case]
  show ?thesis
  proof (cases r)
    case (Inl e)
    with result show ?thesis by (simp add: harvest)
  next
    case (Inr x)
    obtain n j left where x: "x = (n, j, left)" by (metis prod_cases3)
    have t: "cs_cursors t = ?m" using pool_frame.run_frame [OF run] by (simp add: Let_def)
    have "if left then j < length (harvested_urls remaining ?m) else j = 0" using harvest_next_index run Inr x by blast
    moreover have "length (harvested_urls remaining ?m) \<le> Suc (length (get_discovered_category_urls ?m))"
      by (simp add: harvested_urls_def)
    ultimately have j: "if left then j \<le> length (get_discovered_category_urls ?m) else j = 0" by (auto split: if_splits)
    have u: "q = Inr ()" "lv_partial_budget u = left" "get_category_resume_index (cs_cursors u) = int j"
      "get_discovered_category_urls (cs_cursors u) = get_discovered_category_urls ?m"
      using result Inr x t
      by (simp_all add: get_category_resume_index_def set_category_resume_index_def or_0_def get_discovered_category_urls_def)
    show ?thesis using j by (auto simp: harvest u resolve_category_backlog_def Let_def split: if_splits)
  qed
qed

text \<open>
  The list of categories is cut to the number of free slots for products. A marketplace whose
  cursor is at or beyond its free slots has nothing harvested: no page is asked for and
  nothing is stored; the cursor goes back to the start, and the run is not a partial one.
\<close>

theorem slots_cut_categories:
  assumes "nat remaining \<le> nat (get_category_resume_index (cs_cursors s))"
  shows "\<exists>t. category_harvest env mp deadline remaining s = (Inr (), t) \<and> committed t = committed s \<and> cs_fetched t = []
    \<and> lv_persisted_listings t = 0 \<and> \<not> lv_partial_budget t \<and> get_category_resume_index (cs_cursors t) = 0"
proof -
  let ?m = "cs_cursors s" and ?start = "nat (get_category_resume_index (cs_cursors s))"
  have cut: "length (harvested_urls remaining ?m) \<le> ?start" using assms by (simp add: harvested_urls_def)
  have "run_harvest env mp (mc_base_url ?m) deadline (harvested_urls remaining ?m) ?start (category_start remaining s)
    = (Inr (0, 0, False), (category_start remaining s)\<lparr>cs_fetched := [], cs_empty := 0\<rparr>)"
    using cut by (simp add: run_product_harvest_def no_harvest_def harvest_cursor_def harvest_alert_def
        emit_fetch_empty_soup_spike_if_needed_def CATEGORY_CONVERGENCE_STREAK_def FETCH_EMPTY_SOUP_MIN_SAMPLES_def Let_def)
  from category_harvest_run [OF this] show ?thesis
    by (auto simp: get_category_resume_index_def set_category_resume_index_def or_0_def committed_def Let_def split: prod.splits)
qed

lemma slots_cut_categories_witness:
  "\<exists>t. category_harvest small_discovery ''m'' None 1 small_run = (Inr (), t) \<and> committed t = committed small_run \<and> cs_fetched t = []
    \<and> lv_persisted_listings t = 0 \<and> \<not> lv_partial_budget t \<and> get_category_resume_index (cs_cursors t) = 0"
  by (rule slots_cut_categories) code_simp

text \<open>
  A timeout of the sitemap phase makes a run fail that the category crawl completes. The error
  the timeout noted stays with the run, whose status after the category path is \<open>error\<close>, recorded
  as failed, exactly when the path finished and found nothing new, as in a catalogue that is already known.
\<close>

theorem sitemap_timeout_fails_run:
  "case category_path env mp deadline remaining (s\<lparr>lv_errors := [''sitemap_phase_timeout'']\<rparr>) of (Inl e, t) \<Rightarrow> True
   | (Inr u, t) \<Rightarrow> lv_errors t = [''sitemap_phase_timeout'']
       \<and> (discover_status t = ''error'') = (lv_persisted_listings t \<le> 0 \<and> \<not> lv_partial_budget t)"
proof -
  have harvest: "lv_errors t = lv_errors s" if "category_harvest env mp deadline remaining s = (q, t)" for deadline s q t
  proof -
    obtain r u where run: "run_harvest env mp (mc_base_url (cs_cursors s)) deadline (harvested_urls remaining (cs_cursors s))
      (nat (get_category_resume_index (cs_cursors s))) (category_start remaining s) = (r, u)" by fastforce
    have "disc_state.more u = disc_state.more (category_start remaining s)"
      using pool_frame.run_frame [OF run] by simp
    then have "lv_errors u = lv_errors s" by (cases u; cases s) (simp add: Let_def)
    with category_harvest_run [OF run] that show ?thesis by simp
  qed
  have recon: "lv_errors t = lv_errors s" if "category_recon env deadline s = (q, t)" for deadline s q t
    using that by (auto simp: category_recon_def split: prod.splits)
  have backlog: "lv_errors t = lv_errors s" if "resolve_category_backlog s = (b, t)" for s b t
    using that by (auto simp: resolve_category_backlog_def Let_def split: if_splits)
  let ?s = "s\<lparr>lv_errors := [''sitemap_phase_timeout'']\<rparr>"
  obtain q t where path: "category_path env mp deadline remaining ?s = (q, t)" by fastforce
  then have "lv_errors t = [''sitemap_phase_timeout'']"
    by (auto simp: category_path_def Let_def bindA_def retA_def clock_read_def split: prod.splits sum.splits if_splits
        dest!: harvest recon backlog)
  then show ?thesis by (auto simp: path discover_status_def split: sum.splits)
qed

end
