(* ===== verification/PriceMath.thy ===== *)
theory PriceMath
  imports PoolSave
begin

text \<open>
  Arithmetic on prices: the percentage of a price change (\<open>compute_price_change_pct\<close> of
  \<open>persist/writer.py\<close>) and the conversion to EUR (\<open>currency/price_eur_resolver.py\<close>). A decimal is
  here its value, a rational; every context operation computes the exact result and rounds it
  once to 28 significant digits, ties to even. The exponents stay far from the limits of the context.
\<close>

section \<open>Decimals by value\<close>

datatype decval = DFin rat | DInf bool | DNan

definition ratio_value :: "int \<times> int \<Rightarrow> rat" where
  "ratio_value r = of_int (fst r) / of_int (snd r)"

definition dec_value :: "pydec \<Rightarrow> rat" where
  "dec_value d = ratio_value (dec_ratio d)"

definition to_decimal :: "pyval \<Rightarrow> decval res" where
  \<comment> \<open>\<open>v if isinstance(v, Decimal) else Decimal(str(v))\<close> of a number; no column and no extractor delivers a price as text\<close>
  "to_decimal v = (case v of
     PDecimal d \<Rightarrow> Inr (DFin (dec_value d))
   | PInt i \<Rightarrow> Inr (DFin (of_int i))
   | PFloat f \<Rightarrow> Inr (case f of FNan \<Rightarrow> DNan | FInf neg \<Rightarrow> DInf neg
       | FFin _ _ _ \<Rightarrow> (case dec_of_float f of Some d \<Rightarrow> DFin (dec_value d) | None \<Rightarrow> DNan))
   | _ \<Rightarrow> Inl InvalidOperation)"

definition context_round :: "rat \<Rightarrow> rat" where
  "context_round q = (if q = 0 then 0 else
     case quotient_of \<bar>q\<bar> of (n, d) \<Rightarrow>
       (let x = dec_exp n d - 27; c = round_half_even (n * pow10 (- x)) (d * pow10 x)
        in sgn q * ratio_value (c * pow10 x, pow10 (- x))))"

definition quantize_half_up :: "nat \<Rightarrow> rat \<Rightarrow> pydec" where
  \<comment> \<open>\<open>quantize(Decimal(1).scaleb(-k), ROUND_HALF_UP)\<close>\<close>
  "quantize_half_up k q = Dec (q < 0) (nat \<lfloor>\<bar>q\<bar> * 10 ^ k + 1 / 2\<rfloor>) (- int k)"

section \<open>The change of a price\<close>

definition MAX_ABS_PRICE_CHANGE_PCT :: rat where "MAX_ABS_PRICE_CHANGE_PCT = 99999999 / 10000"

definition clamp_pct :: "rat \<Rightarrow> rat" where
  "clamp_pct pct =
     (if MAX_ABS_PRICE_CHANGE_PCT < pct then MAX_ABS_PRICE_CHANGE_PCT
      else if pct < - MAX_ABS_PRICE_CHANGE_PCT then - MAX_ABS_PRICE_CHANGE_PCT else pct)"

definition compute_price_change_pct :: "pyval \<Rightarrow> pyval \<Rightarrow> pydec option res" where
  \<comment> \<open>an infinite new price exceeds the clamp; a NaN cannot be compared\<close>
  "compute_price_change_pct new_price prior_last_price =
     (if prior_last_price = PNone then Inr None
      else bindE (to_decimal prior_last_price) (\<lambda>prior.
        if prior = DFin 0 then Inr None
        else bindE (to_decimal new_price) (\<lambda>new. case (new, prior) of
            (DFin a, DFin b) \<Rightarrow>
              Inr (Some (quantize_half_up 4 (clamp_pct (context_round (context_round (context_round (a - b) / b) * 100)))))
          | (DInf neg, DFin b) \<Rightarrow>
              Inr (Some (quantize_half_up 4 (if neg = (b < 0) then MAX_ABS_PRICE_CHANGE_PCT else - MAX_ABS_PRICE_CHANGE_PCT)))
          | _ \<Rightarrow> Inl InvalidOperation)))"

definition dec_to_float :: "pydec \<Rightarrow> pyfloat" where
  "dec_to_float d = (case d of Dec neg c x \<Rightarrow> float_of_dec neg (int c) x)"

definition build_fact_price_fields ::
    "string \<Rightarrow> int \<Rightarrow> pyfloat \<Rightarrow> string \<Rightarrow> pyfloat option \<Rightarrow> pyfloat option \<Rightarrow> pyfloat option \<Rightarrow> string \<Rightarrow> string option
      \<Rightarrow> pyfloat option \<Rightarrow> pydict" where
  "build_fact_price_fields listing_id date_id price currency_code original_price discount_pct price_change_pct scraped_at
       scrape_job_id price_eur =
     (let number = (\<lambda>x. case x of None \<Rightarrow> PNone | Some f \<Rightarrow> PFloat f)
      in [(''listing_id'', PUuid listing_id), (''date_id'', PInt date_id), (''price'', PFloat price),
          (''currency_code'', PStr currency_code), (''original_price'', number original_price),
          (''discount_pct'', number discount_pct), (''price_change_pct'', number price_change_pct),
          (''scraped_at'', PDatetime scraped_at),
          (''scrape_job_id'', case scrape_job_id of None \<Rightarrow> PNone | Some j \<Rightarrow> PUuid j),
          (''price_eur'', number price_eur)])"

section \<open>The price in EUR\<close>

definition RATE_SOURCE_PRIORITY :: "string list" where
  "RATE_SOURCE_PRIORITY = [''ecb'', ''openexchangerates'', ''cbr'', ''nbu'', ''nbk'', ''nbb'', ''cbu'', ''nbg'', ''cba'', ''cbar'', ''custom'']"

fun index_of :: "'a \<Rightarrow> 'a list \<Rightarrow> nat" where
  \<comment> \<open>the length of the list when the element is not in it\<close>
  "index_of x [] = 0"
| "index_of x (y # ys) = (if x = y then 0 else Suc (index_of x ys))"

definition source_rank :: "string \<Rightarrow> nat" where
  "source_rank src = index_of (py_lower (py_strip src)) RATE_SOURCE_PRIORITY"

definition quantize_price_eur :: "rat \<Rightarrow> pydec res" where
  \<comment> \<open>a coefficient longer than the precision of the context is refused\<close>
  "quantize_price_eur q = (case quantize_half_up 2 q of Dec neg c x \<Rightarrow>
     if 10 ^ 28 \<le> c then Inl InvalidOperation else Inr (Dec neg c x))"

definition best_rate :: "(pyval \<times> string) list \<Rightarrow> pyval option" where
  \<comment> \<open>the first rate of the best source\<close>
  "best_rate rows = (case rows of [] \<Rightarrow> None
     | r # rs \<Rightarrow> Some (fst (foldl (\<lambda>best row. if source_rank (snd row) < source_rank (snd best) then row else best) r rs)))"

definition eur_value :: "decval \<Rightarrow> pyval res" where
  \<comment> \<open>a quiet NaN stays one, here as the float; an infinite value cannot be quantized\<close>
  "eur_value v = (case v of
     DFin q \<Rightarrow> map_sum id PDecimal (quantize_price_eur q)
   | DNan \<Rightarrow> Inr (PFloat FNan)
   | DInf _ \<Rightarrow> Inl InvalidOperation)"

definition dec_times :: "decval \<Rightarrow> decval \<Rightarrow> decval res" where
  "dec_times x y = (case (x, y) of
     (DNan, _) \<Rightarrow> Inr DNan
   | (_, DNan) \<Rightarrow> Inr DNan
   | (DFin a, DFin b) \<Rightarrow> Inr (DFin (context_round (a * b)))
   | (DInf m, DInf n) \<Rightarrow> Inr (DInf (m \<noteq> n))
   | (DInf m, DFin b) \<Rightarrow> if b = 0 then Inl InvalidOperation else Inr (DInf (m \<noteq> (b < 0)))
   | (DFin a, DInf n) \<Rightarrow> if a = 0 then Inl InvalidOperation else Inr (DInf (n \<noteq> (a < 0))))"

definition resolve_price_eur :: "(string \<Rightarrow> ('s, (pyval \<times> string) list) act) \<Rightarrow> pyfloat \<Rightarrow> string \<Rightarrow> ('s, pyval) act" where
  \<comment> \<open>given the query for the rates of a currency on the day of the scrape\<close>
  "resolve_price_eur rates price currency_code =
     (let code = py_upper (py_strip currency_code)
      in if code = [] then retA PNone
         else bindA (liftA (to_decimal (PFloat price))) (\<lambda>p.
           if code = ''EUR'' then liftA (eur_value p)
           else bindA (rates code) (\<lambda>rows. case best_rate rows of
               None \<Rightarrow> retA PNone
             | Some rate \<Rightarrow> liftA (bindE (to_decimal rate) (\<lambda>r. bindE (dec_times p r) eur_value)))))"

section \<open>Facts\<close>

lemma clamp_pct_range: "- MAX_ABS_PRICE_CHANGE_PCT \<le> clamp_pct q \<and> clamp_pct q \<le> MAX_ABS_PRICE_CHANGE_PCT"
  by (auto simp: clamp_pct_def MAX_ABS_PRICE_CHANGE_PCT_def)

end
