(* ===== verification/Ingestion.thy ===== *)
theory Ingestion
  imports PriceMath
begin

text \<open>
  The write-and-enrich half of a scrape (\<open>ingestion/service.py\<close>, \<open>ingestion/taxonomy.py\<close>,
  \<open>ingestion/gate.py\<close>), with the operational alerts of \<open>common/ops_alerts.py\<close>. Everything runs
  on the session of the caller: a read fails once the transaction is aborted or the session demands a
  rollback. ORM rows in memory are dicts of their columns. What the database holds is an answer to what was written
  before; the day, the time and the fresh ids are given. The quality score of the compiled core only
  observes and is left out, as is log output.
\<close>

record ingest_state = firewall_state +
  ig_last_emit :: "((string \<times> string \<times> string \<times> string) \<times> int) list"
  ig_uuids :: nat
  ig_listing :: pydict

record ingest_env = persist_env +
  ie_currency_db :: currency_db
  ie_product :: "gate_statement list \<Rightarrow> string \<Rightarrow> pydict option"
  ie_dim_date :: "gate_statement list \<Rightarrow> int \<Rightarrow> bool"
  ie_brand :: "gate_statement list \<Rightarrow> string \<Rightarrow> string option"
  ie_category :: "gate_statement list \<Rightarrow> string \<Rightarrow> string option"
  ie_rates :: "gate_statement list \<Rightarrow> int \<Rightarrow> string \<Rightarrow> (pyval \<times> string) list"
  ie_uuid4 :: "nat \<Rightarrow> string"
  ie_today :: "int \<times> int \<times> int"
  ie_now :: string

record product_data = extracted +
  xp_original_price :: pyval
  xp_image_url :: "string option"
  xp_description :: "string option"
  xp_price_raw_text :: "string option"
  xp_brand :: "string option"
  xp_category_path :: "string list option"
  xp_gtin :: "string option"
  xp_mpn :: "string option"

definition session_read :: "(gate_statement list \<Rightarrow> 'a) \<Rightarrow> ('s gate_state_scheme, 'a) act" where
  \<comment> \<open>a SELECT on the session\<close>
  "session_read answer s = (case gs_session s of
     SessionLive \<Rightarrow> (Inr (answer (gs_committed_writes s @ gs_session_writes s)), s)
   | TransactionAborted \<Rightarrow> (Inl (DBAPIError aborted_message), s)
   | RollbackPending \<Rightarrow> (Inl PendingRollbackError, s))"

definition given_text :: "string option \<Rightarrow> string option" where
  \<comment> \<open>a text that is not blank\<close>
  "given_text t = (case t of None \<Rightarrow> None | Some s \<Rightarrow> if py_strip s = [] then None else Some s)"

definition col_text :: "pydict \<Rightarrow> string \<Rightarrow> string" where
  "col_text row k = (case dict_get row k of PStr s \<Rightarrow> s | PUuid s \<Rightarrow> s | _ \<Rightarrow> [])"

section \<open>Operational alerts\<close>

definition VALID_SEVERITIES :: "string list" where "VALID_SEVERITIES = [''info'', ''warning'', ''error'', ''critical'']"
definition RATE_LIMIT_MS :: int where "RATE_LIMIT_MS = 300000"

definition rate_limited :: "string \<times> string \<times> string \<times> string \<Rightarrow> 's ingest_state_scheme \<Rightarrow> bool \<times> 's ingest_state_scheme" where
  \<comment> \<open>\<open>_rate_limited\<close>, with the guard against growth\<close>
  "rate_limited key s =
     (let now = gs_now s; last_at = map_of (ig_last_emit s) key
      in if (case last_at of None \<Rightarrow> False | Some t \<Rightarrow> now - t < RATE_LIMIT_MS) then (True, s)
         else
           (let emitted = dict_set (ig_last_emit s) key now;
                kept = (if 4096 < length emitted then filter (\<lambda>(k, t). now - RATE_LIMIT_MS \<le> t) emitted else emitted)
            in (False, s\<lparr>ig_last_emit := kept\<rparr>)))"

definition build_service_alert_fields :: "string \<Rightarrow> string \<Rightarrow> string \<Rightarrow> string \<Rightarrow> string \<Rightarrow> string \<Rightarrow> pydict option \<Rightarrow> pydict" where
  "build_service_alert_fields row_id modul submodule severity anomaly_type message ctx =
     [(''id'', PStr row_id), (''alert_class'', PStr ''service''), (''module'', PStr modul), (''submodule'', PStr submodule),
      (''severity'', PStr severity), (''anomaly_type'', PStr anomaly_type), (''message'', PStr message)]
     @ (case ctx of None \<Rightarrow> [] | Some c \<Rightarrow> [(''context'', PDict c)])"

definition emit_ops_alert ::
    "('e) ingest_env_scheme \<Rightarrow> string \<Rightarrow> string \<Rightarrow> string \<Rightarrow> string \<Rightarrow> string \<Rightarrow> string \<Rightarrow> pydict \<Rightarrow> 's ingest_state_scheme \<Rightarrow> 's ingest_state_scheme" where
  \<comment> \<open>never raises; its result is not used by the callers modelled here\<close>
  "emit_ops_alert env modul submodule severity anomaly_type message entity ctx s =
     (if severity \<notin> set VALID_SEVERITIES then s
      else case rate_limited (modul, submodule, anomaly_type, entity) s of
        (True, s1) \<Rightarrow> s1
      | (False, s1) \<Rightarrow>
          snd (write_service_alert_sync env
                 (build_service_alert_fields (ie_uuid4 env (ig_uuids s1)) modul submodule severity anomaly_type message (Some ctx))
                 modul (s1\<lparr>ig_uuids := Suc (ig_uuids s1)\<rparr>)))"

section \<open>Updates of a scrape\<close>

definition scrape_context :: "string \<Rightarrow> int option \<Rightarrow> pydict \<Rightarrow> PersistContext" where
  "scrape_context src date_id listing =
     \<lparr> pc_source = src, pc_marketplace_id = Some (col_text listing ''marketplace_id''),
       pc_listing_id = Some (col_text listing ''id''), pc_date_id = date_id \<rparr>"

definition sync_columns :: "pydict \<Rightarrow> pydict \<Rightarrow> pydict" where
  \<comment> \<open>the row in memory takes over what the gate wrote, its locator apart\<close>
  "sync_columns flds row = foldl (\<lambda>r (k, v). if k \<in> {''url_hash'', ''id''} then r else dict_set r k v) row flds"

definition persist_scrape_update ::
    "('e) ingest_env_scheme \<Rightarrow> string \<Rightarrow> string \<Rightarrow> pydict \<Rightarrow> string \<Rightarrow> int option \<Rightarrow> ('s ingest_state_scheme, bool) act" where
  "persist_scrape_update env table kind flds src date_id =
     bindA (authorize_scrape_update env table kind flds True src) (\<lambda>outcome.
       if \<not> fo_passed outcome \<or> fo_signed_record outcome = None then retA False
       else (\<lambda>s. bindA (write_sync env (scrape_context src date_id (ig_listing s)) (fo_signed_record outcome)) (\<lambda>result t.
              (Inr (pr_ok result),
               if pr_ok result \<and> table = ''fact_listing'' then t\<lparr>ig_listing := sync_columns flds (ig_listing t)\<rparr> else t)) s))"

definition build_listing_update_fields :: "pydict \<Rightarrow> pydict \<Rightarrow> pydict" where
  "build_listing_update_fields listing delta = (''url_hash'', PStr (col_text listing ''url_hash'')) # delta"

definition update_listing :: "('e) ingest_env_scheme \<Rightarrow> string \<Rightarrow> string \<Rightarrow> int option \<Rightarrow> pydict \<Rightarrow> ('s ingest_state_scheme, bool) act" where
  "update_listing env kind src date_id delta s =
     persist_scrape_update env ''fact_listing'' kind (build_listing_update_fields (ig_listing s) delta) src date_id s"

section \<open>The day\<close>

definition is_leap :: "int \<Rightarrow> bool" where
  "is_leap y = (y mod 4 = 0 \<and> (y mod 100 \<noteq> 0 \<or> y mod 400 = 0))"

definition month_days :: "int \<Rightarrow> int \<Rightarrow> int" where
  "month_days y m = (if m = 2 then (if is_leap y then 29 else 28) else if m \<in> {4, 6, 9, 11} then 30 else 31)"

definition day_ordinal :: "int \<Rightarrow> int \<Rightarrow> int \<Rightarrow> int" where
  \<comment> \<open>\<open>date.toordinal()\<close>\<close>
  "day_ordinal y m d =
     (let y' = y - 1 in y' * 365 + y' div 4 - y' div 100 + y' div 400 + sum_list (map (month_days y) [1..m - 1]) + d)"

definition iso_week1_monday :: "int \<Rightarrow> int" where
  "iso_week1_monday y =
     (let first = day_ordinal y 1 1; weekday = (first + 6) mod 7; monday = first - weekday
      in if 3 < weekday then monday + 7 else monday)"

definition isocalendar :: "int \<Rightarrow> int \<Rightarrow> int \<Rightarrow> int \<times> int" where
  \<comment> \<open>the week and the day of the week\<close>
  "isocalendar y m d =
     (let today = day_ordinal y m d; w = (today - iso_week1_monday y) div 7; day = (today - iso_week1_monday y) mod 7
      in if w < 0 then ((today - iso_week1_monday (y - 1)) div 7 + 1, (today - iso_week1_monday (y - 1)) mod 7 + 1)
         else if 52 \<le> w \<and> iso_week1_monday (y + 1) \<le> today then (1, day + 1)
         else (w + 1, day + 1))"

definition month_name :: "int \<Rightarrow> string" where
  "month_name m = [''January'', ''February'', ''March'', ''April'', ''May'', ''June'', ''July'', ''August'', ''September'',
     ''October'', ''November'', ''December''] ! nat (m - 1)"

definition day_name :: "int \<Rightarrow> string" where
  "day_name d = [''Monday'', ''Tuesday'', ''Wednesday'', ''Thursday'', ''Friday'', ''Saturday'', ''Sunday''] ! nat (d - 1)"

definition padded :: "nat \<Rightarrow> int \<Rightarrow> string" where
  "padded k n = (let t = int_str n in replicate (k - length t) (CHR ''0'') @ t)"

definition date_id_of :: "int \<times> int \<times> int \<Rightarrow> int" where
  "date_id_of day = (case day of (y, m, d) \<Rightarrow> y * 10000 + m * 100 + d)"

definition dim_date_row_for_day :: "int \<times> int \<times> int \<Rightarrow> pydict" where
  "dim_date_row_for_day today = (case today of (y, m, d) \<Rightarrow> (case isocalendar y m d of (iso_week, iso_weekday) \<Rightarrow>
     [(''date_id'', PInt (date_id_of today)), (''full_date'', PDate (padded 4 y @ ''-'' @ padded 2 m @ ''-'' @ padded 2 d)),
      (''year'', PInt y), (''quarter'', PInt ((m - 1) div 3 + 1)), (''month'', PInt m), (''month_name'', PStr (month_name m)),
      (''week_iso'', PInt iso_week), (''day_of_month'', PInt d), (''day_of_week'', PInt iso_weekday),
      (''day_name'', PStr (day_name iso_weekday)), (''is_weekend'', PBool (6 \<le> iso_weekday)),
      (''is_last_day_of_month'', PBool (d = month_days y m))]))"

definition today_date_id :: "('e) ingest_env_scheme \<Rightarrow> ('s ingest_state_scheme, int) act" where
  "today_date_id env =
     (let date_id = date_id_of (ie_today env)
      in bindA (session_read (\<lambda>log. ie_dim_date env log date_id)) (\<lambda>present.
           if present then retA date_id
           else bindA (evaluate_market env (dim_date_row_for_day (ie_today env)) ''dim_date'' ''insert'' True ''ingestion_dim_date'') (\<lambda>outcome.
                bindA (if fo_passed outcome \<and> fo_signed_record outcome \<noteq> None
                       then bindA (write_sync env ((source_context ''ingestion_dim_date'')\<lparr>pc_date_id := Some date_id\<rparr>) (fo_signed_record outcome)) (\<lambda>_. retA ())
                       else retA ()) (\<lambda>_.
                bindA (session_read (\<lambda>log. ie_dim_date env log date_id)) (\<lambda>present.
                  if present then retA date_id else raiseA RuntimeError)))))"

section \<open>Brands and categories\<close>

definition MAX_NAME_LEN :: nat where "MAX_NAME_LEN = 200"
definition MAX_CATEGORY_DEPTH :: nat where "MAX_CATEGORY_DEPTH = 6"

definition collapse_spaces :: "string \<Rightarrow> string" where
  \<comment> \<open>\<open>re.sub(r"\s+", " ", s.strip())\<close>\<close>
  "collapse_spaces s = join_with '' '' (find_runs (\<lambda>c. \<not> py_isspace c) s)"

definition normalize_taxonomy_name :: "string \<Rightarrow> string" where
  "normalize_taxonomy_name raw = take MAX_NAME_LEN (collapse_spaces (py_lower raw))"

definition slugify :: "string \<Rightarrow> string" where
  \<comment> \<open>runs of word characters joined by hyphens: no two hyphens are left to collapse\<close>
  "slugify raw = take MAX_NAME_LEN (join_with ''-'' (find_runs word_char (py_lower raw)))"

definition gate_insert :: "('e) ingest_env_scheme \<Rightarrow> string \<Rightarrow> pydict \<Rightarrow> string \<Rightarrow> ('s ingest_state_scheme, bool) act" where
  "gate_insert env table flds reject_source =
     bindA (evaluate_market env flds table ''insert'' True reject_source) (\<lambda>outcome.
       if \<not> fo_passed outcome \<or> fo_signed_record outcome = None then retA False
       else catch_gate_error
              (bindA (write_sync env (source_context reject_source) (fo_signed_record outcome)) (\<lambda>result. retA (pr_ok result)))
              (\<lambda>kind message. retA False))"

definition fresh_id :: "('e) ingest_env_scheme \<Rightarrow> ('s ingest_state_scheme, string) act" where
  "fresh_id env s = (Inr (ie_uuid4 env (ig_uuids s)), s\<lparr>ig_uuids := Suc (ig_uuids s)\<rparr>)"

definition ensure_brand :: "('e) ingest_env_scheme \<Rightarrow> string \<Rightarrow> ('s ingest_state_scheme, string option) act" where
  "ensure_brand env brand_name =
     (let name = take MAX_NAME_LEN (py_strip brand_name); normalized = normalize_taxonomy_name name; slug = slugify name
      in if name = [] \<or> normalized = [] \<or> slug = [] then retA None
         else bindA (session_read (\<lambda>log. ie_brand env log normalized)) (\<lambda>existing. case existing of
             Some i \<Rightarrow> retA (Some i)
           | None \<Rightarrow>
               bindA (fresh_id env) (\<lambda>brand_id.
               bindA (gate_insert env ''dim_brand''
                        [(''id'', PStr brand_id), (''name'', PStr name), (''slug'', PStr slug), (''name_normalized'', PStr normalized),
                         (''is_active'', PBool True)] ''ingestion_brand'') (\<lambda>inserted.
                 if inserted then retA (Some brand_id)
                 else session_read (\<lambda>log. ie_brand env log normalized)))))"

fun category_chain :: "('e) ingest_env_scheme \<Rightarrow> string option \<Rightarrow> string list \<Rightarrow> int \<Rightarrow> string list \<Rightarrow> ('s ingest_state_scheme, string option) act" where
  \<comment> \<open>parent, names so far, level of the next name, names left\<close>
  "category_chain env parent_id cumulative level [] = retA parent_id"
| "category_chain env parent_id cumulative level (name # names) =
     (let path_str = join_with '' > '' (cumulative @ [name]); slug = slugify path_str
      in if slug = [] then retA None
         else bindA (session_read (\<lambda>log. ie_category env log slug)) (\<lambda>existing. case existing of
             Some i \<Rightarrow> category_chain env (Some i) (cumulative @ [name]) (level + 1) names
           | None \<Rightarrow>
               bindA (fresh_id env) (\<lambda>category_id.
               bindA (gate_insert env ''dim_category''
                        [(''id'', PStr category_id), (''name'', PStr name), (''slug'', PStr slug),
                         (''parent_id'', case parent_id of None \<Rightarrow> PNone | Some p \<Rightarrow> PStr p), (''level'', PInt level),
                         (''path'', PStr path_str), (''is_active'', PBool True), (''product_count'', PInt 0)]
                        ''ingestion_category'') (\<lambda>inserted.
                 if inserted then category_chain env (Some category_id) (cumulative @ [name]) (level + 1) names
                 else bindA (session_read (\<lambda>log. ie_category env log slug)) (\<lambda>refetched. case refetched of
                     None \<Rightarrow> retA None
                   | Some i \<Rightarrow> category_chain env (Some i) (cumulative @ [name]) (level + 1) names)))))"

definition ensure_category_chain :: "('e) ingest_env_scheme \<Rightarrow> string list \<Rightarrow> ('s ingest_state_scheme, string option) act" where
  "ensure_category_chain env category_path =
     category_chain env None [] 1
       (take MAX_CATEGORY_DEPTH (map (\<lambda>p. take MAX_NAME_LEN (py_strip p)) (filter (\<lambda>p. py_strip p \<noteq> []) category_path)))"

section \<open>Enrichment of the product\<close>

definition is_digit_like :: "char \<Rightarrow> bool" where
  \<comment> \<open>\<open>str.isdigit\<close> below 256: digits and superscripts\<close>
  "is_digit_like c = (let n = (of_char c :: int) in (48 \<le> n \<and> n \<le> 57) \<or> n \<in> {178, 179, 185})"

definition should_replace_placeholder_name :: "string \<Rightarrow> string \<Rightarrow> bool" where
  "should_replace_placeholder_name name external_url =
     (let n = py_strip name; compact = filter (\<lambda>c. c \<notin> {CHR '' '', CHR ''-'', CHR ''_''}) n
      in n = [] \<or> py_lower n = ''product'' \<or> n = external_url \<or> (compact \<noteq> [] \<and> list_all is_digit_like compact))"

definition normalize_product_name :: "string \<Rightarrow> string" where
  "normalize_product_name raw = take 500 (collapse_spaces (py_lower raw))"

definition product_label :: "'x product_data_scheme \<Rightarrow> string option" where
  "product_label data = (case given_text (ex_product_name data) of
     Some pn \<Rightarrow> Some (take 500 (py_strip pn))
   | None \<Rightarrow> map_option (\<lambda>t. take 500 (py_strip t)) (given_text (ex_title data)))"

definition name_delta :: "string \<Rightarrow> string \<Rightarrow> 'x product_data_scheme \<Rightarrow> pydict" where
  \<comment> \<open>given the name so far and the URL of the listing\<close>
  "name_delta name url data = (case product_label data of
     None \<Rightarrow> []
   | Some label \<Rightarrow>
       if given_text (ex_product_name data) = None \<or> should_replace_placeholder_name name url
       then [(''name'', PStr (take 500 label)), (''name_normalized'', PStr (normalize_product_name label))] else [])"

definition once_delta :: "pydict \<Rightarrow> string \<Rightarrow> string option \<Rightarrow> pydict" where
  \<comment> \<open>an identifier that is written once\<close>
  "once_delta product k t = (case given_text t of
     None \<Rightarrow> [] | Some s \<Rightarrow> if py_truth (dict_get product k) then [] else [(k, PStr (take 100 (py_strip s)))])"

definition image_delta :: "pydict \<Rightarrow> string option \<Rightarrow> pydict" where
  "image_delta product image_url = (case image_url of
     None \<Rightarrow> [] | Some u \<Rightarrow> if u = [] \<or> py_truth (dict_get product ''image_url'') then [] else [(''image_url'', PStr u)])"

definition description_delta :: "pydict \<Rightarrow> string option \<Rightarrow> pydict" where
  "description_delta product description = (case given_text description of
     None \<Rightarrow> []
   | Some t \<Rightarrow>
       (let attrs = (case dict_get product ''attributes'' of PDict a \<Rightarrow> a | _ \<Rightarrow> [])
        in if py_truth (dict_get attrs ''description'') then []
           else [(''attributes'', PDict (dict_set attrs ''description'' (PStr (take 2000 (py_strip t)))))]))"

definition id_delta :: "string \<Rightarrow> string option \<Rightarrow> pydict" where
  "id_delta k i = (case i of None \<Rightarrow> [] | Some x \<Rightarrow> [(k, PStr x)])"

definition enrich_dim_product :: "('e) ingest_env_scheme \<Rightarrow> 'x product_data_scheme \<Rightarrow> ('s ingest_state_scheme, unit) act" where
  "enrich_dim_product env data s =
     (let product_id = col_text (ig_listing s) ''product_id'' in
      bindA (session_read (\<lambda>log. ie_product env log product_id)) (\<lambda>found. case found of
        None \<Rightarrow> retA ()
      | Some product \<Rightarrow>
          bindA (case given_text (xp_brand data) of
                   Some b \<Rightarrow> if dict_get product ''brand_id'' = PNone then ensure_brand env b else retA None
                 | None \<Rightarrow> retA None) (\<lambda>brand_id.
          bindA (case xp_category_path data of
                   Some path \<Rightarrow> if path \<noteq> [] \<and> dict_get product ''category_id'' = PNone then ensure_category_chain env path else retA None
                 | None \<Rightarrow> retA None) (\<lambda>category_id t.
            (let delta = name_delta (col_text product ''name'') (col_text (ig_listing t) ''external_url'') data
                   @ image_delta product (xp_image_url data) @ once_delta product ''sku_universal'' (xp_gtin data)
                   @ once_delta product ''mpn'' (xp_mpn data) @ id_delta ''brand_id'' brand_id
                   @ description_delta product (xp_description data) @ id_delta ''category_id'' category_id
             in if delta = [] then (Inr (), t)
                else bindA (persist_scrape_update env ''dim_product'' ''product_enrich'' ((''id'', PStr product_id) # delta)
                              ''ingestion_product_enrich'' None) (\<lambda>_. retA ()) t)))) s)"

section \<open>The currency token\<close>

definition AMBIGUOUS_CURRENCY_SIBLINGS :: "(string \<times> string list) list" where
  "AMBIGUOUS_CURRENCY_SIBLINGS = [(''RON'', [''MDL'']), (''MDL'', [''RON'']), (''SEK'', [''NOK'', ''DKK'', ''ISK'']),
     (''NOK'', [''SEK'', ''DKK'', ''ISK'']), (''DKK'', [''SEK'', ''NOK'', ''ISK'']), (''ISK'', [''SEK'', ''NOK'', ''DKK''])]"

definition AMBIGUOUS_TOKENS :: "string list" where
  \<comment> \<open>the token in Cyrillic letters cannot occur in these texts\<close>
  "AMBIGUOUS_TOKENS = [''lei'', ''kr'', ''kr.'']"

definition currency_token_is_ambiguous :: "string \<Rightarrow> bool" where
  "currency_token_is_ambiguous raw_text =
     (raw_text \<noteq> [] \<and> list_ex (contains_sub (py_lower (py_strip raw_text))) AMBIGUOUS_TOKENS)"

definition disambiguate_currency :: "string \<Rightarrow> string \<Rightarrow> string set \<Rightarrow> string" where
  \<comment> \<open>of a detected token that is not empty\<close>
  "disambiguate_currency detected raw_text whitelist =
     (let code = py_upper (py_strip detected)
      in if code \<in> whitelist \<or> whitelist = {} then detected
         else if \<not> currency_token_is_ambiguous raw_text then detected
         else case sort (filter (\<lambda>c. c \<in> whitelist)
                     (case map_of AMBIGUOUS_CURRENCY_SIBLINGS code of None \<Rightarrow> [] | Some cs \<Rightarrow> cs)) of
                [c] \<Rightarrow> c | _ \<Rightarrow> detected)"

definition read_whitelist :: "('e) ingest_env_scheme \<Rightarrow> string \<Rightarrow> ('s ingest_state_scheme, string set) act" where
  \<comment> \<open>\<open>CurrencyResolver.whitelist_for\<close>: the first call of an ingestion reads\<close>
  "read_whitelist env marketplace_id =
     bindA (\<lambda>s. if map_of (fs_currency_cache s) marketplace_id = None then session_read (\<lambda>_. ()) s else (Inr (), s)) (\<lambda>_ s.
       case whitelist_for (ie_currency_db env) marketplace_id (fs_currency_cache s) of (w, cache) \<Rightarrow>
         (Inr w, s\<lparr>fs_currency_cache := cache\<rparr>))"

definition resolve_currency :: "('e) ingest_env_scheme \<Rightarrow> 'x product_data_scheme \<Rightarrow> ('s ingest_state_scheme, 'x product_data_scheme) act" where
  \<comment> \<open>the extract with its currency disambiguated\<close>
  "resolve_currency env data s = (case ex_currency data of
     None \<Rightarrow> (Inr data, s)
   | Some curr_raw \<Rightarrow>
       if curr_raw = [] then (Inr data, s)
       else
         (let raw = (case ex_currency_raw data of Some r \<Rightarrow> if r = [] then None else Some r | None \<Rightarrow> None);
              raw_text = (case raw of Some r \<Rightarrow> r | None \<Rightarrow> (case xp_price_raw_text data of None \<Rightarrow> [] | Some t \<Rightarrow> t))
          in bindA (read_whitelist env (col_text (ig_listing s) ''marketplace_id'')) (\<lambda>whitelist.
               (let code = disambiguate_currency curr_raw raw_text whitelist
                in retA (if code \<noteq> [] then data\<lparr>ex_currency := Some code\<rparr> else data))) s))"

section \<open>Ingestion of an extract\<close>

definition BASE_SCRAPE_INTERVAL_MINUTES :: int where "BASE_SCRAPE_INTERVAL_MINUTES = 360"
definition MAX_SCRAPE_INTERVAL_MINUTES :: int where "MAX_SCRAPE_INTERVAL_MINUTES = 10080"

definition next_scrape_interval :: "pyval \<Rightarrow> bool \<Rightarrow> int" where
  "next_scrape_interval current price_changed =
     (if price_changed then BASE_SCRAPE_INTERVAL_MINUTES
      else
        (let base = (case current of PInt n \<Rightarrow> if n = 0 then BASE_SCRAPE_INTERVAL_MINUTES else n | _ \<Rightarrow> BASE_SCRAPE_INTERVAL_MINUTES);
             base = max base BASE_SCRAPE_INTERVAL_MINUTES
         in min (base * 2) MAX_SCRAPE_INTERVAL_MINUTES))"

definition float_close :: "pyfloat \<Rightarrow> pyfloat \<Rightarrow> bool" where
  \<comment> \<open>\<open>abs(x - y) < 0.001\<close>: false of infinities and NaN\<close>
  "float_close x y = (case (x, y) of
     (FFin _ _ _, FFin _ _ _) \<Rightarrow>
       (case quotient_of (float_value x - float_value y) of (n, d) \<Rightarrow> float_lt (round_ratio False \<bar>n\<bar> d) (float_of_dec False 1 (- 3)))
   | _ \<Rightarrow> False)"

definition should_skip_price_record :: "pydict \<Rightarrow> pyval \<Rightarrow> string option \<Rightarrow> bool res" where
  "should_skip_price_record listing new_price new_currency =
     (let last_price = dict_get listing ''last_price''; last_currency = dict_get listing ''last_currency_code''
      in if last_price = PNone \<or> last_currency = PNone then Inr False
         else case new_currency of None \<Rightarrow> Inr False
         | Some currency \<Rightarrow>
             if new_price = PNone then Inr False
             else bindE (py_float new_price) (\<lambda>x. bindE (py_float last_price) (\<lambda>y.
               Inr (float_close x y \<and> py_upper (py_strip currency) = py_upper (py_strip (col_text listing ''last_currency_code''))))))"

record IngestionResult =
  ir_persisted :: bool
  ir_log_status :: "string option"
  ir_skip_reason :: "string option"
  ir_price_found :: "pyfloat option"
  ir_persist_failed :: bool
  ir_read_only_failed :: bool

definition float_opt :: "pyval \<Rightarrow> pyfloat option res" where
  \<comment> \<open>\<open>float(v) if v is not None else None\<close>\<close>
  "float_opt v = (if v = PNone then Inr None else map_sum id Some (py_float v))"

definition price_fields ::
    "('e) ingest_env_scheme \<Rightarrow> 'x product_data_scheme \<Rightarrow> string option \<Rightarrow> ('s ingest_state_scheme, pydict option) act" where
  \<comment> \<open>the columns of the price row, when the extract has a price and a currency\<close>
  "price_fields env data scrape_job_id s = (case ex_currency data of
     None \<Rightarrow> (Inr None, s)
   | Some currency_code \<Rightarrow>
       if currency_code = [] \<or> ex_price data = PNone then (Inr None, s)
       else
         (let listing = ig_listing s in
          bindA (today_date_id env) (\<lambda>date_id.
          bindA (liftA (py_float (ex_price data))) (\<lambda>price.
          bindA (resolve_price_eur (\<lambda>code. session_read (\<lambda>log. ie_rates env log date_id code)) price currency_code) (\<lambda>resolved_eur.
          bindA (liftA (float_opt resolved_eur)) (\<lambda>price_eur.
          bindA (liftA (float_opt (xp_original_price data))) (\<lambda>original_price.
          bindA (liftA (compute_price_change_pct (ex_price data) (dict_get listing ''last_price''))) (\<lambda>pct.
            retA (Some (build_fact_price_fields (col_text listing ''id'') date_id price currency_code original_price None
                    (map_option dec_to_float pct) (ie_now env) scrape_job_id price_eur)))))))) s))"

definition denorm_no_change :: "('e) ingest_env_scheme \<Rightarrow> 'x product_data_scheme \<Rightarrow> pydict option \<Rightarrow> pydict \<Rightarrow> pydict" where
  "denorm_no_change env data persist_fields listing =
     (let of_row = (\<lambda>k. case persist_fields of None \<Rightarrow> PNone | Some f \<Rightarrow> dict_get f k)
      in [(''last_checked_at'', PDatetime (ie_now env)), (''last_price'', ex_price data),
          (''last_currency_code'', of_row ''currency_code''), (''last_price_eur'', of_row ''price_eur''),
          (''scrape_interval_minutes'', PInt (next_scrape_interval (dict_get listing ''scrape_interval_minutes'') False))])"

definition denorm_success :: "'x product_data_scheme \<Rightarrow> pydict \<Rightarrow> pydict \<Rightarrow> pydict" where
  "denorm_success data persist_fields listing =
     [(''last_price'', ex_price data), (''last_currency_code'', dict_get persist_fields ''currency_code''),
      (''last_price_changed_at'', dict_get persist_fields ''scraped_at''), (''last_price_eur'', dict_get persist_fields ''price_eur''),
      (''last_price_change_pct'', dict_get persist_fields ''price_change_pct''),
      (''scrape_interval_minutes'', PInt (next_scrape_interval (dict_get listing ''scrape_interval_minutes'') True))]"

definition date_id_of_fields :: "pydict option \<Rightarrow> int option" where
  "date_id_of_fields persist_fields = (case persist_fields of None \<Rightarrow> None
     | Some f \<Rightarrow> (case dict_get f ''date_id'' of PInt n \<Rightarrow> Some n | _ \<Rightarrow> None))"

definition store_price ::
    "('e) ingest_env_scheme \<Rightarrow> 'x product_data_scheme \<Rightarrow> pydict option \<Rightarrow> FirewallOutcome \<Rightarrow> ('s ingest_state_scheme, bool \<times> string option) act" where
  \<comment> \<open>what follows the verdict: whether a row was persisted, and the status for the log\<close>
  "store_price env data persist_fields outcome s =
     (if \<not> fo_passed outcome then (Inr (False, fo_forced_log_status outcome), s)
      else bindA (liftA (should_skip_price_record (ig_listing s) (ex_price data) (ex_currency data))) (\<lambda>skip t.
        if skip then
          bindA (update_listing env ''listing_denorm_no_change'' ''ingestion_denorm_no_change'' None
                   (denorm_no_change env data persist_fields (ig_listing t))) (\<lambda>_. retA (False, Some ''no_change'')) t
        else
          bindA (write_sync env (scrape_context ''ecommerce_scrape'' (date_id_of_fields persist_fields) (ig_listing t)) (fo_signed_record outcome))
            (\<lambda>result u. case persist_fields of
               Some f \<Rightarrow>
                 if pr_ok result \<and> f \<noteq> [] then
                   bindA (update_listing env ''listing_denorm_success'' ''ingestion_denorm_success'' (date_id_of_fields persist_fields)
                            (denorm_success data f (ig_listing u))) (\<lambda>_. retA (True, Some ''success'')) u
                 else (Inr (False, Some ''persist_failed''), u)
             | None \<Rightarrow> (Inr (False, Some ''persist_failed''), u)) t) s)"

definition is_read_only_error :: "pyexc \<Rightarrow> bool" where
  \<comment> \<open>\<open>is_read_only_sql_error\<close>, by the message\<close>
  "is_read_only_error e = (case e of
     DBAPIError message \<Rightarrow> contains_sub (py_lower message) ''read-only transaction''
   | GateRpcError _ message \<Rightarrow> contains_sub (py_lower message) ''read-only transaction''
   | _ \<Rightarrow> False)"

definition emit_empty_extraction :: "('e) ingest_env_scheme \<Rightarrow> 'x product_data_scheme \<Rightarrow> 's ingest_state_scheme \<Rightarrow> 's ingest_state_scheme" where
  "emit_empty_extraction env data s =
     (let mp = col_text (ig_listing s) ''marketplace_id''
      in if ex_title data = None \<and> ex_price data = PNone \<and> ex_page_role data = Some ''product''
         then emit_ops_alert env ''parser'' ''extraction'' ''warning'' ''extraction_empty''
                (''Extraction yielded no title and no price for a product page marketplace_id='' @ mp) mp
                [(''marketplace_id'', PStr mp)] s
         else s)"

definition persist_extracted ::
    "('e) ingest_env_scheme \<Rightarrow> 'x product_data_scheme \<Rightarrow> string option \<Rightarrow> ('s ingest_state_scheme, IngestionResult) act" where
  \<comment> \<open>with a resolver of its own\<close>
  "persist_extracted env data0 scrape_job_id s0 =
     bindA (enrich_dim_product env data0) (\<lambda>_.
     bindA (resolve_currency env data0) (\<lambda>data.
     bindA (price_fields env data scrape_job_id) (\<lambda>persist_fields s.
       (let mp = col_text (ig_listing s) ''marketplace_id'' in
        bindA (read_whitelist env mp) (\<lambda>_.
        bindA (evaluate_ecommerce env (ie_currency_db env) (Some (extracted.truncate data)) mp (ex_page_role data) persist_fields
                 ''fact_price'' True ''ecommerce_scrape'' (Some (col_text (ig_listing s) ''id''))) (\<lambda>outcome.
        bindA (store_price env data persist_fields outcome) (\<lambda>(persisted, log_status).
        bindA (liftA (float_opt (ex_price data))) (\<lambda>price_found t.
          (let result = \<lparr> ir_persisted = persisted, ir_log_status = log_status, ir_skip_reason = fo_reject_reason outcome,
                 ir_price_found = price_found, ir_persist_failed = False, ir_read_only_failed = False \<rparr>
           in case commit_session t of
                (Inr _, u) \<Rightarrow> (Inr result, u)
              | (Inl e, u) \<Rightarrow>
                  (Inr (if is_read_only_error e then result\<lparr>ir_persisted := False, ir_read_only_failed := True\<rparr>
                        else result\<lparr>ir_persisted := False, ir_persist_failed := True\<rparr>), rollback_session u))))))
          (emit_empty_extraction env data s))))) (s0\<lparr>fs_currency_cache := []\<rparr>)"

end
