(* ===== verification/ScrapeService.thy ===== *)
theory ScrapeService
  imports Ingestion
begin

text \<open>
  The persistence of a scrape (\<open>scraper/service.py\<close>): what one fetched and extracted page does
  to its listing, to the price facts and to the log of scrapes. Fetching and extraction are
  parameters, as are the rows the database holds; the policies for hosts and log output are left out.
\<close>

record PoolScrapeResult =
  rs_success :: bool
  rs_url :: string
  rs_error :: "string option"
  rs_data :: "product_data option"
  rs_fetch_backend :: "string option"
  rs_duration_ms :: "int option"
  rs_is_partial :: bool
  rs_is_empty :: bool
  rs_missing_fields :: "string list"
  rs_log_status :: "string option"
  rs_page_role :: "string option"

record scrape_state = ingest_state +
  sc_pending_logs :: "pydict list"

record scrape_env = ingest_env +
  se_listing :: "gate_statement list \<Rightarrow> string \<Rightarrow> pydict option"
  se_listing_count :: "gate_statement list \<Rightarrow> string \<Rightarrow> nat"
  se_scrape :: "string \<Rightarrow> PoolScrapeResult res"
  se_extract :: "string \<Rightarrow> string \<Rightarrow> PoolScrapeResult"
  se_exc_text :: "pyexc \<Rightarrow> string"

definition failed_result :: "string \<Rightarrow> product_data option \<Rightarrow> string \<Rightarrow> PoolScrapeResult" where
  \<comment> \<open>\<open>PoolScrapeResult(success=False, url=..., data=..., error=...)\<close>\<close>
  "failed_result url data error =
     \<lparr> rs_success = False, rs_url = url, rs_error = Some error, rs_data = data, rs_fetch_backend = None, rs_duration_ms = None,
       rs_is_partial = False, rs_is_empty = False, rs_missing_fields = [], rs_log_status = None, rs_page_role = None \<rparr>"

definition error_text :: "PoolScrapeResult \<Rightarrow> string" where
  "error_text result = (case rs_error result of None \<Rightarrow> [] | Some e \<Rightarrow> e)"

section \<open>Statuses\<close>

definition is_failure_log_status :: "string \<Rightarrow> bool" where
  "is_failure_log_status log_status = (log_status \<notin> {''success'', ''no_change''})"

definition STATUS_ERROR_CATEGORY :: "(string \<times> string) list" where
  "STATUS_ERROR_CATEGORY = [(''parse_error'', ''parse''), (''currency_rejected'', ''data_quality''), (''not_a_product'', ''data_quality''),
     (''missing_critical_data'', ''data_quality''), (''price_not_found'', ''parse''), (''technical_error'', ''technical''),
     (''timeout'', ''network''), (''blocked'', ''auth''), (''captcha'', ''auth''), (''error'', ''network''), (''not_found'', ''parse'')]"

definition categorize_error_text :: "string \<Rightarrow> string option" where
  "categorize_error_text error =
     (let has = contains_sub (py_lower error)
      in if error = [] then None
         else if has ''fetch'' \<or> has ''network'' then Some ''network''
         else if has ''parse'' \<or> has ''extract'' then Some ''parse''
         else if has ''timeout'' then Some ''network''
         else if has ''blocked'' \<or> has ''captcha'' then Some ''auth''
         else if has ''rate'' then Some ''rate_limit''
         else Some ''parse'')"

definition resolve_scrape_log_diagnostics :: "PoolScrapeResult \<Rightarrow> string \<Rightarrow> string option \<Rightarrow> string option \<times> string option" where
  "resolve_scrape_log_diagnostics result log_status gate_skip_reason =
     (if error_text result \<noteq> [] then (rs_error result, categorize_error_text (error_text result))
      else
        (if is_failure_log_status log_status then
           (case gate_skip_reason of
              Some r \<Rightarrow> if r = [] then Some (''status:'' @ log_status) else Some (''gate:'' @ r)
            | None \<Rightarrow> Some (''status:'' @ log_status))
         else if \<not> rs_success result then Some (''status:'' @ log_status)
         else rs_error result,
         map_of STATUS_ERROR_CATEGORY log_status))"

definition is_honest_absent_scrape_result :: "PoolScrapeResult \<Rightarrow> bool" where
  "is_honest_absent_scrape_result result =
     (let has = contains_sub (py_lower (error_text result))
      in \<not> rs_success result \<and> (has ''price_not_found'' \<or> has ''not_found'' \<or> has ''product_gone'' \<or> has ''product gone''))"

definition status_of_error :: "string \<Rightarrow> string" where
  \<comment> \<open>the status of a failed scrape\<close>
  "status_of_error err =
     (let error = py_lower err; has = contains_sub error
      in if startswith error ''exception:'' then ''technical_error''
         else if has ''currency_rejected'' then ''currency_rejected''
         else if has ''parse_error'' then ''parse_error''
         else if has ''price_not_found'' then ''price_not_found''
         else if has ''not_found'' then ''not_found''
         else if has ''captcha'' then ''captcha''
         else if has ''blocked'' then ''blocked''
         else if has ''timeout'' then ''timeout''
         else ''error'')"

definition determine_log_status :: "PoolScrapeResult \<Rightarrow> bool \<Rightarrow> product_data option \<Rightarrow> string" where
  \<comment> \<open>as the code calls it, without the flags of the tests; the payload is an extract, which has a product name field\<close>
  "determine_log_status result is_partial data =
     (if \<not> rs_success result then status_of_error (error_text result)
      else if rs_is_empty result then ''missing_critical_data''
      else
        (let payload = (case data of Some d \<Rightarrow> Some d | None \<Rightarrow> rs_data result);
             final = (if is_partial then ''missing_critical_data'' else ''success'')
         in case payload of
              None \<Rightarrow> final
            | Some p \<Rightarrow>
                if ''currency'' \<in> set (rs_missing_fields result) \<and> ex_price p \<noteq> PNone then ''missing_critical_data''
                else if data = None then final
                else if given_text (ex_product_name p) = None then ''missing_critical_data''
                else if ex_price p = PNone then ''price_not_found''
                else if given_text (ex_currency p) = None then ''missing_critical_data''
                else final))"

section \<open>Scrape logs\<close>

definition opt_field :: "string \<Rightarrow> ('a \<Rightarrow> pyval) \<Rightarrow> 'a option \<Rightarrow> pydict" where
  "opt_field k f x = (case x of None \<Rightarrow> [] | Some v \<Rightarrow> [(k, f v)])"

definition build_scrape_log_fields ::
    "pydict \<Rightarrow> string \<Rightarrow> string option \<Rightarrow> pyfloat option \<Rightarrow> int option \<Rightarrow> string option \<Rightarrow> string option \<Rightarrow> string option \<Rightarrow> pydict" where
  \<comment> \<open>with the values the scraper passes\<close>
  "build_scrape_log_fields listing log_status scrape_job_id price_found duration_ms scraper_type error_message error_category =
     [(''listing_id'', PStr (col_text listing ''id'')), (''marketplace_id'', PStr (col_text listing ''marketplace_id'')),
      (''status'', PStr log_status), (''url'', PStr (col_text listing ''external_url'')), (''retry_count'', PInt 0)]
     @ opt_field ''scrape_job_id'' PStr scrape_job_id @ opt_field ''price_found'' PFloat price_found
     @ opt_field ''duration_ms'' PInt duration_ms @ opt_field ''scraper_type'' PStr scraper_type
     @ opt_field ''error_message'' PStr error_message @ opt_field ''error_category'' PStr error_category"

definition flush_scrape_logs :: "('e) scrape_env_scheme \<Rightarrow> scrape_state \<Rightarrow> bool \<times> scrape_state" where
  "flush_scrape_logs env s =
     (if sc_pending_logs s = [] then (True, s)
      else case persist_logs_batch env ''scrape_logs'' (sc_pending_logs s) ''scraper_pool'' True (s\<lparr>sc_pending_logs := []\<rparr>) of
        (Inr result, s1) \<Rightarrow> (lw_ok result, s1)
      | (Inl e, s1) \<Rightarrow> (False, rollback_session s1))"

definition persist_scrape_log ::
    "('e) scrape_env_scheme \<Rightarrow> string option \<Rightarrow> string \<Rightarrow> pyfloat option \<Rightarrow> PoolScrapeResult \<Rightarrow> string option \<Rightarrow> string option \<Rightarrow> bool
      \<Rightarrow> scrape_state \<Rightarrow> scrape_state" where
  \<comment> \<open>a failure of the write does not stop the scrape\<close>
  "persist_scrape_log env scrape_job_id log_status price_found result error_message error_category flush s =
     (let row = build_scrape_log_fields (ig_listing s) log_status scrape_job_id price_found (rs_duration_ms result)
            (rs_fetch_backend result) error_message error_category;
          s1 = s\<lparr>sc_pending_logs := sc_pending_logs s @ [row]\<rparr>
      in if flush then snd (flush_scrape_logs env s1) else s1)"

section \<open>The listing of a scrape\<close>

definition LISTING_DEACTIVATE_AFTER_ERRORS :: int where "LISTING_DEACTIVATE_AFTER_ERRORS = 15"

definition PROXY_PROVIDER_SKIP_ERRORS :: "string list" where
  "PROXY_PROVIDER_SKIP_ERRORS = [''proxy_provider_deadline'', ''proxy_provider_budget'']"

definition col_count :: "pydict \<Rightarrow> string \<Rightarrow> int" where
  \<comment> \<open>\<open>row.k or 0\<close>\<close>
  "col_count row k = (case dict_get row k of PInt n \<Rightarrow> n | _ \<Rightarrow> 0)"

definition route_scrape_start_reset :: "('e) scrape_env_scheme \<Rightarrow> (scrape_state, bool) act" where
  "route_scrape_start_reset env =
     update_listing env ''listing_scrape_start_reset'' ''scraper_listing_scrape_start_reset'' None
       [(''consecutive_errors'', PInt 0), (''last_error'', PNone)]"

definition route_success_streak_reset :: "('e) scrape_env_scheme \<Rightarrow> (scrape_state, bool) act" where
  "route_success_streak_reset env =
     update_listing env ''listing_success_streak_reset'' ''scraper_listing_success_streak_reset'' None [(''failure_streak'', PInt 0)]"

definition route_listing_checked :: "('e) scrape_env_scheme \<Rightarrow> (scrape_state, bool) act" where
  "route_listing_checked env =
     update_listing env ''listing_checked'' ''scraper_listing_checked'' None [(''last_checked_at'', PDatetime (ie_now env))]"

definition streak_context :: "pydict \<Rightarrow> int \<Rightarrow> pydict" where
  "streak_context listing streak =
     [(''marketplace_id'', PStr (col_text listing ''marketplace_id'')), (''listing_id'', PStr (col_text listing ''id'')),
      (''failure_streak'', PInt streak)]"

definition route_failure_housekeeping_updates :: "('e) scrape_env_scheme \<Rightarrow> PoolScrapeResult \<Rightarrow> (scrape_state, unit) act" where
  "route_failure_housekeeping_updates env result s =
     (if rs_success result then (Inr (), s)
      else
        (let listing = ig_listing s; mp = col_text listing ''marketplace_id'';
             streak = col_count listing ''failure_streak'' + 1;
             err = (if error_text result = [] then ''scrape_failed'' else error_text result);
             warn = (\<lambda>t. if streak = 3
               then emit_ops_alert env ''scraper'' ''listing'' ''warning'' ''listing_failure_streak''
                      (''Listing failing 3 scrapes in a row marketplace_id='' @ mp @ '' error='' @ take 120 err) mp
                      (streak_context listing streak) t
               else t)
         in bindA (update_listing env ''listing_housekeeping_failure'' ''scraper_listing_housekeeping_failure'' None
                     [(''consecutive_errors'', PInt (col_count listing ''consecutive_errors'' + 1)), (''last_error'', PStr err),
                      (''failure_streak'', PInt streak)]) (\<lambda>_ t.
              (if streak < LISTING_DEACTIVATE_AFTER_ERRORS then (Inr (), warn t)
               else bindA (update_listing env ''listing_deactivate'' ''scraper_listing_deactivate'' None [(''is_active'', PBool False)])
                      (\<lambda>ok u. (Inr (), if ok
                         then emit_ops_alert env ''scraper'' ''listing'' ''error'' ''listing_deactivated''
                                (''Listing deactivated after '' @ int_str streak @ '' failures marketplace_id='' @ mp)
                                (col_text listing ''id'') (streak_context listing streak) u
                         else u)) (warn t))) s))"

definition persist_housekeeping_or_fail :: "string \<Rightarrow> product_data option \<Rightarrow> scrape_state \<Rightarrow> PoolScrapeResult option \<times> scrape_state" where
  "persist_housekeeping_or_fail url data s = (case commit_session s of
     (Inr _, t) \<Rightarrow> (None, t)
   | (Inl e, t) \<Rightarrow>
       (Some (failed_result url data (if is_read_only_error e then ''read_only_retriable'' else ''persist_failed'')), rollback_session t))"

section \<open>Pruning\<close>

definition confirmed_nonproduct_page_role :: "PoolScrapeResult \<Rightarrow> string option" where
  "confirmed_nonproduct_page_role result =
     (if rs_page_role result \<in> {Some ''listing'', Some ''hub''} then rs_page_role result
      else case rs_data result of None \<Rightarrow> None
         | Some d \<Rightarrow> if ex_page_role d \<in> {Some ''listing'', Some ''hub''} then ex_page_role d else None)"

definition gated_delete :: "('e) scrape_env_scheme \<Rightarrow> PersistContext \<Rightarrow> string \<Rightarrow> pydict \<Rightarrow> (scrape_state, bool) act" where
  \<comment> \<open>one of the two deletes: refused or failed, the session is rolled back\<close>
  "gated_delete env ctx table flds =
     bindA (authorize_scrape_delete env table flds True ''scraper_prune'') (\<lambda>outcome.
       if \<not> fo_passed outcome \<or> fo_signed_record outcome = None then (\<lambda>s. (Inr False, rollback_session s))
       else bindA (write_sync env ctx (fo_signed_record outcome)) (\<lambda>result s.
         if pr_ok result then (Inr True, s) else (Inr False, rollback_session s)))"

definition prune_confirmed_nonproduct :: "('e) scrape_env_scheme \<Rightarrow> (scrape_state, bool) act" where
  "prune_confirmed_nonproduct env s =
     (let listing = ig_listing s; product_id = col_text listing ''product_id'';
          ctx = scrape_context ''scraper_prune'' None listing;
          finish = (\<lambda>t. case commit_session t of (Inr _, u) \<Rightarrow> (Inr True, u) | (Inl e, u) \<Rightarrow> (Inr False, rollback_session u))
      in bindA (gated_delete env ctx ''fact_listing'' [(''url_hash'', PStr (col_text listing ''url_hash''))]) (\<lambda>deleted.
           if \<not> deleted then retA False
           else bindA (session_read (\<lambda>log. se_listing_count env log product_id)) (\<lambda>others.
             if others \<noteq> 0 then finish
             else bindA (gated_delete env ctx ''dim_product'' [(''id'', PStr product_id)]) (\<lambda>deleted.
               if deleted then finish else retA False))) s)"

section \<open>One result\<close>

definition log_scrape_result ::
    "('e) scrape_env_scheme \<Rightarrow> string option \<Rightarrow> PoolScrapeResult \<Rightarrow> bool \<Rightarrow> string option \<times> string option \<times> bool
      \<Rightarrow> (scrape_state, PoolScrapeResult) act" where
  \<comment> \<open>the last part: status, diagnostics and the log row\<close>
  "log_scrape_result env job result flush verdict = (case verdict of (forced_log_status, gate_skip_reason, is_partial) \<Rightarrow>
     (let data = (if rs_success result then rs_data result else None);
          log_status = (case forced_log_status of Some st \<Rightarrow> st | None \<Rightarrow> determine_log_status result is_partial data);
          (error_message, error_category) = resolve_scrape_log_diagnostics result log_status gate_skip_reason
      in bindA (liftA (case data of Some d \<Rightarrow> float_opt (ex_price d) | None \<Rightarrow> Inr None)) (\<lambda>price_found s.
           (Inr (result\<lparr>rs_log_status := Some log_status\<rparr>),
            persist_scrape_log env job log_status price_found result error_message error_category flush s))))"

definition persist_without_data ::
    "('e) scrape_env_scheme \<Rightarrow> string option \<Rightarrow> PoolScrapeResult \<Rightarrow> bool \<Rightarrow> (scrape_state, PoolScrapeResult) act" where
  \<comment> \<open>a failure, or a success without an extract\<close>
  "persist_without_data env job result flush =
     bindA (if \<not> rs_success result \<and> error_text result \<notin> set PROXY_PROVIDER_SKIP_ERRORS
            then route_failure_housekeeping_updates env result else retA ()) (\<lambda>_.
     bindA (if is_honest_absent_scrape_result result then route_listing_checked env else retA True) (\<lambda>_ s.
       (case persist_housekeeping_or_fail (col_text (ig_listing s) ''external_url'') (rs_data result) s of
          (Some failed, t) \<Rightarrow> (Inr failed, t)
        | (None, t) \<Rightarrow> log_scrape_result env job result flush (None, None, rs_is_partial result) t)))"

definition persist_with_data ::
    "('e) scrape_env_scheme \<Rightarrow> string option \<Rightarrow> PoolScrapeResult \<Rightarrow> product_data \<Rightarrow> bool \<Rightarrow> (scrape_state, PoolScrapeResult) act" where
  "persist_with_data env job result d flush =
     bindA (route_listing_checked env) (\<lambda>_.
     bindA (persist_extracted env d job) (\<lambda>ing s.
       (let url = col_text (ig_listing s) ''external_url'' in
        if ir_read_only_failed ing then (Inr (failed_result url (Some d) ''read_only_retriable''), s)
        else if ir_persist_failed ing then (Inr (failed_result url (Some d) ''persist_failed''), s)
        else log_scrape_result env job result flush (ir_log_status ing, ir_skip_reason ing,
               rs_is_partial result \<or> \<not> (text_given (ex_product_name d) \<or> text_given (ex_title d))) s)))"

definition persist_scrape_pool_result ::
    "('e) scrape_env_scheme \<Rightarrow> string option \<Rightarrow> PoolScrapeResult \<Rightarrow> bool \<Rightarrow> (scrape_state, PoolScrapeResult) act" where
  "persist_scrape_pool_result env job result flush s =
     (case confirmed_nonproduct_page_role result of
        Some role \<Rightarrow>
          bindA (prune_confirmed_nonproduct env) (\<lambda>_. retA (result\<lparr>rs_log_status := Some ''not_a_product''\<rparr>))
            (persist_scrape_log env job ''not_a_product'' None result (Some (''page_role:'' @ role)) (Some ''parse'') True s)
      | None \<Rightarrow>
          bindA (if rs_success result then route_success_streak_reset env else retA True) (\<lambda>_.
            (case (if rs_success result then rs_data result else None) of
               None \<Rightarrow> persist_without_data env job result flush
             | Some d \<Rightarrow> persist_with_data env job result d flush)) s)"

definition with_listing ::
    "('e) scrape_env_scheme \<Rightarrow> string \<Rightarrow> (scrape_state, PoolScrapeResult) act \<Rightarrow> (scrape_state, PoolScrapeResult) act" where
  \<comment> \<open>the listing, its marketplace, and the reset that opens a scrape\<close>
  "with_listing env listing_id rest =
     bindA (session_read (\<lambda>log. se_listing env log listing_id)) (\<lambda>found. case found of
       None \<Rightarrow> retA (failed_result [] None ''listing_not_found'')
     | Some listing \<Rightarrow>
         bindA (\<lambda>s. session_read (\<lambda>_. ()) (s\<lparr>ig_listing := listing\<rparr>)) (\<lambda>_.
         bindA (route_scrape_start_reset env) (\<lambda>_. rest)))"

definition scrape_product :: "('e) scrape_env_scheme \<Rightarrow> string option \<Rightarrow> string \<Rightarrow> (scrape_state, PoolScrapeResult) act" where
  "scrape_product env job listing_id =
     with_listing env listing_id (\<lambda>s.
       let url = col_text (ig_listing s) ''external_url''
       in persist_scrape_pool_result env job
            (case se_scrape env url of
               Inr result \<Rightarrow> result
             | Inl e \<Rightarrow> failed_result url None (take 2000 (''exception:'' @ se_exc_text env e))) True s)"

record ListingFetchResult =
  lf_html :: "string option"
  lf_used_backend :: "string option"
  lf_last_error :: string
  lf_duration_ms :: int
  lf_deadline_skipped :: bool

definition scrape_listing_from_fetch ::
    "('e) scrape_env_scheme \<Rightarrow> string option \<Rightarrow> string \<Rightarrow> ListingFetchResult \<Rightarrow> (scrape_state, PoolScrapeResult option) act" where
  "scrape_listing_from_fetch env job listing_id fetch =
     (if lf_deadline_skipped fetch then retA None
      else bindA (with_listing env listing_id (\<lambda>s.
        let url = col_text (ig_listing s) ''external_url''
        in persist_scrape_pool_result env job
             (case lf_html fetch of
                Some html \<Rightarrow> if html \<noteq> [] then se_extract env html url
                  else (failed_result url None (lf_last_error fetch))
                         \<lparr>rs_fetch_backend := lf_used_backend fetch, rs_duration_ms := Some (lf_duration_ms fetch), rs_is_empty := True\<rparr>
              | None \<Rightarrow> (failed_result url None (lf_last_error fetch))
                         \<lparr>rs_fetch_backend := lf_used_backend fetch, rs_duration_ms := Some (lf_duration_ms fetch), rs_is_empty := True\<rparr>)
             False s)) (\<lambda>result. retA (Some result)))"

end
