(* ===== verification/RailFrames.thy ===== *)
theory RailFrames
  imports RailFacts OrchestratorFacts
begin

text \<open>
  What the rails leave alone: whatever a component keeps beyond the session and the gate is the same
  after a write as before it, whichever way the write ends.
\<close>

named_theorems rail_frame "what the rails leave alone"

lemma keeps_reject [simp]:
  "gate_state.more (write_reject_data env row s) = gate_state.more s"
  "gate_state.more (write_reject_data_isolated env row s) = gate_state.more s"
  "gate_state.more (write_service_alert_isolated env a s) = gate_state.more s"
  "gate_state.more (rollback_session s) = gate_state.more s"
  by (simp_all add: write_reject_data_def write_reject_data_isolated_def write_service_alert_isolated_def rollback_session_def
      signal_reject_def fail_flush_def record_reject_spike_signal_def Let_def)

lemma keeps_ret [rail_frame]:
  "preserves f (retA x)" "preserves f (raiseA e)" "preserves f (\<lambda>s. (Inr x, s))" "preserves f (\<lambda>s. (r, s))"
  by (simp_all add: preserves_def)

lemma keeps_exec [rail_frame]: "preserves gate_state.more (exec_statement env st)"
  by (auto simp: preserves_def exec_statement_def split: session_status.splits sum.splits)

lemma keeps_lift [rail_frame]: "preserves f (liftA m)" by (simp add: preserves_def)

lemma keeps_catch:
  "preserves f m \<Longrightarrow> (\<And>kind message. preserves f (handler kind message)) \<Longrightarrow> preserves f (catch_gate_error m handler)"
  unfolding preserves_def catch_gate_error_def by (auto split: prod.splits sum.splits pyexc.splits) (metis snd_conv)+

lemma keeps_then: "(\<And>s. f (upd s) = f s) \<Longrightarrow> preserves f m \<Longrightarrow> preserves f (thenA upd m)"
  by (simp add: preserves_def)

lemma keeps_write_sync [rail_frame]: "preserves gate_state.more (write_sync env ctx r)"
  unfolding write_sync_def reject_persist_def execute_record_def exec_write_record_def handle_gate_invalid_signature_def
    handle_gate_signing_unavailable_def handle_gate_rpc_error_def
  by (auto intro!: rail_frame preserves_bindA keeps_catch keeps_then split: option.splits)

lemma keeps_settle [rail_frame]: "preserves gate_state.more (settle env has_db src t p f verdict)"
  unfolding settle_def isolated_reject_def
  by (auto intro!: rail_frame preserves_bindA keeps_then split: door_verdict.splits)

lemma keeps_market [rail_frame]: "preserves gate_state.more (evaluate_market env f t p has_db src)"
  unfolding evaluate_market_def
  by (auto intro!: rail_frame preserves_bindA keeps_then simp: Let_def split: option.splits)


lemma keeps_commit [rail_frame]: "preserves gate_state.more commit_session"
  by (auto simp: preserves_def commit_session_def rollback_session_def split: session_status.splits)

lemma keeps_all_isolated [simp]: "gate_state.more (write_all_isolated env rows s) = gate_state.more s"
  by (induction rows arbitrary: s) (simp_all add: write_all_isolated_def)

lemma keeps_rows [rail_frame]: "preserves gate_state.more (validate_rows env c table has_db src rows)"
  by (induction rows) (auto intro!: rail_frame preserves_bindA keeps_then simp: Let_def simp del: bindA_liftA_apply split: option.splits)

lemma keeps_logs [rail_frame]: "preserves gate_state.more (evaluate_logs env rows table has_db src)"
  unfolding evaluate_logs_def
  by (auto intro!: rail_frame preserves_bindA keeps_then simp: Let_def split: option.splits)

lemma keeps_session [rail_frame]:
  "preserves gate_state.more m \<Longrightarrow> preserves gate_state.more (in_new_session m)"
  "preserves gate_state.more m \<Longrightarrow> preserves gate_state.more (rollback_on_error m)"
  by (auto simp: preserves_def in_new_session_def rollback_on_error_def split: prod.splits sum.splits) (metis keeps_reject(4) snd_conv)+

lemma keeps_service_alert [rail_frame]: "preserves gate_state.more (write_service_alert_sync env flds src)"
  unfolding write_service_alert_sync_def write_meta_sync_def gated_write_def
  by (auto intro!: rail_frame preserves_bindA keeps_then split: option.splits)

lemma keeps_write_batch [rail_frame]: "preserves gate_state.more (write_batch_sync env ctx b)"
  unfolding write_batch_sync_def reject_persist_def execute_batch_def exec_write_batch_def handle_gate_batch_rpc_error_def
  by (auto intro!: rail_frame preserves_bindA keeps_catch keeps_then split: option.splits)

lemma keeps_logs_batch [rail_frame]: "preserves gate_state.more (persist_logs_batch env table rows src commit)"
  unfolding persist_logs_batch_def
  by (auto intro!: rail_frame preserves_bindA keeps_then split: option.splits)

end
