(* ===== verification/ScrapeFacts.thy ===== *)
theory ScrapeFacts
  imports ScrapeService RailFrames
begin

text \<open>
  What a scrape guarantees: the change of a price fits its column, the interval of a listing backs
  off to a week, a listing is switched off only by a streak of failures, every result carries a status that the
  log of scrapes admits, an operational alert is not repeated within its window.
\<close>

section \<open>Prices\<close>

lemma quantize_half_up_bound:
  assumes "\<bar>q\<bar> * 10 ^ k \<le> of_nat n"
  shows "quantize_half_up k q = Dec (q < 0) (nat \<lfloor>\<bar>q\<bar> * 10 ^ k + 1 / 2\<rfloor>) (- int k)"
    "nat \<lfloor>\<bar>q\<bar> * 10 ^ k + 1 / 2\<rfloor> \<le> n"
proof -
  have "\<lfloor>\<bar>q\<bar> * 10 ^ k + 1 / 2\<rfloor> \<le> \<lfloor>of_nat n + 1 / 2 :: rat\<rfloor>" using assms by (intro floor_mono) simp
  also have "\<lfloor>of_nat n + 1 / 2 :: rat\<rfloor> = int n" by (simp add: floor_unique)
  finally show "nat \<lfloor>\<bar>q\<bar> * 10 ^ k + 1 / 2\<rfloor> \<le> n" by linarith
qed (simp add: quantize_half_up_def)

lemma clamped_pct: "\<bar>clamp_pct q\<bar> * 10 ^ 4 \<le> of_nat 99999999"
  using clamp_pct_range [of q] by (auto simp: MAX_ABS_PRICE_CHANGE_PCT_def)

definition stored_pct :: "pydec \<Rightarrow> bool" where
  \<comment> \<open>a decimal with four decimals and at most eight digits, as the column asks\<close>
  "stored_pct d = (case d of Dec neg c x \<Rightarrow> x = - 4 \<and> c \<le> 99999999)"

lemma stored_pct_clamped: "stored_pct (quantize_half_up 4 (clamp_pct q))"
  using quantize_half_up_bound [OF clamped_pct, of q] by (simp add: stored_pct_def)

lemma stored_pct_extreme:
  "stored_pct (quantize_half_up 4 (if b then MAX_ABS_PRICE_CHANGE_PCT else - MAX_ABS_PRICE_CHANGE_PCT))"
proof -
  have "(if b then MAX_ABS_PRICE_CHANGE_PCT else - MAX_ABS_PRICE_CHANGE_PCT)
      = clamp_pct (if b then MAX_ABS_PRICE_CHANGE_PCT else - MAX_ABS_PRICE_CHANGE_PCT)"
    by (simp add: clamp_pct_def MAX_ABS_PRICE_CHANGE_PCT_def)
  then show ?thesis using stored_pct_clamped by metis
qed

text \<open>
  C38: The change of a price that the writer computes always fits its column
  \<open>Numeric(8, 4)\<close>: whatever the new and the last price are (zero, tiny, huge, infinite or no number), the
  result is no value, an exception, or a decimal with four decimals and at most eight digits.
\<close>

theorem price_change_fits:
  "case compute_price_change_pct new_price last_price of
     Inl e \<Rightarrow> True | Inr None \<Rightarrow> True | Inr (Some d) \<Rightarrow> stored_pct d \<and> dec_fits d 8 4"
proof (cases "compute_price_change_pct new_price last_price")
  case (Inr r)
  show ?thesis
  proof (cases r)
    case (Some d)
    obtain prior new where pair: "(case (new, prior) of
            (DFin a, DFin b) \<Rightarrow>
              Inr (Some (quantize_half_up 4 (clamp_pct (context_round (context_round (context_round (a - b) / b) * 100)))))
          | (DInf neg, DFin b) \<Rightarrow>
              Inr (Some (quantize_half_up 4 (if neg = (b < 0) then MAX_ABS_PRICE_CHANGE_PCT else - MAX_ABS_PRICE_CHANGE_PCT)))
          | _ \<Rightarrow> Inl InvalidOperation) = Inr (Some d)"
      using Inr Some unfolding compute_price_change_pct_def by (auto simp: bindE_Inr_iff simp del: split_paired_Ex split: if_splits)
    have "stored_pct d"
    proof (cases prior)
      case (DFin b)
      show ?thesis
      proof (cases new)
        case (DInf neg)
        with pair DFin stored_pct_extreme [of "neg = (b < 0)"] show ?thesis by (simp del: if_split)
      qed (use pair DFin stored_pct_clamped in auto)
    next
      case (DInf neg)
      with pair show ?thesis by (simp split: decval.splits)
    next
      case DNan
      with pair show ?thesis by (simp split: decval.splits)
    qed
    moreover from this obtain neg c where c: "d = Dec neg c (- 4)" "c \<le> 99999999"
      by (cases d) (auto simp: stored_pct_def)
    then have "num_digits c \<le> 8" by (simp add: num_digits_le_iff)
    with c have "dec_fits d 8 4" by (auto simp: dec_fits_def)
    ultimately show ?thesis using Inr Some by simp
  qed (simp add: Inr)
qed simp

section \<open>The interval of a listing\<close>

definition unchanged_scrapes :: "nat \<Rightarrow> pyval \<Rightarrow> pyval" where
  "unchanged_scrapes n current = ((\<lambda>i. PInt (next_scrape_interval i False)) ^^ n) current"

lemma next_interval_range: "360 \<le> next_scrape_interval current changed \<and> next_scrape_interval current changed \<le> 10080"
  by (auto simp: next_scrape_interval_def BASE_SCRAPE_INTERVAL_MINUTES_def MAX_SCRAPE_INTERVAL_MINUTES_def Let_def)

lemma next_interval_PInt: "next_scrape_interval (PInt n) False = min (2 * max n 360) 10080"
  by (auto simp: next_scrape_interval_def BASE_SCRAPE_INTERVAL_MINUTES_def MAX_SCRAPE_INTERVAL_MINUTES_def)

lemma unchanged_scrapes_grow: "360 \<le> m \<Longrightarrow> unchanged_scrapes n (PInt m) = PInt (if n = 0 then m else min (2 ^ n * m) 10080)"
proof (induction n)
  case (Suc n)
  have "unchanged_scrapes (Suc n) (PInt m) = PInt (next_scrape_interval (unchanged_scrapes n (PInt m)) False)"
    by (simp add: unchanged_scrapes_def)
  also have "next_scrape_interval (unchanged_scrapes n (PInt m)) False = min (2 ^ Suc n * m) 10080"
    using Suc.IH [OF Suc.prems] Suc.prems one_le_power [of "2 :: int" n] mult_mono [of 1 "2 ^ n" 360 m]
    by (auto simp: next_interval_PInt)
  finally show ?case by simp
qed (simp add: unchanged_scrapes_def)

text \<open>
  The interval between two scrapes of a listing stays between six hours and a week. A
  changed price resets it to six hours; while the price stays the same it doubles with each scrape, so that five scrapes
  reach a week from any stored interval, where it stays.
\<close>

theorem interval_backs_off:
  "next_scrape_interval current True = 360
   \<and> 360 \<le> next_scrape_interval current False \<and> next_scrape_interval current False \<le> 10080
   \<and> unchanged_scrapes (5 + n) current = PInt 10080"
proof (intro conjI)
  show "next_scrape_interval current True = 360"
    by (simp add: next_scrape_interval_def BASE_SCRAPE_INTERVAL_MINUTES_def)
  show "360 \<le> next_scrape_interval current False" "next_scrape_interval current False \<le> 10080"
    by (simp_all add: next_interval_range)
  let ?m = "next_scrape_interval current False"
  have "unchanged_scrapes (5 + n) current = unchanged_scrapes (4 + n) (PInt ?m)"
    using funpow_Suc_right [of "4 + n" "\<lambda>i. PInt (next_scrape_interval i False)"] by (simp add: unchanged_scrapes_def del: funpow.simps)
  moreover have "720 \<le> ?m"
    by (auto simp: next_scrape_interval_def BASE_SCRAPE_INTERVAL_MINUTES_def MAX_SCRAPE_INTERVAL_MINUTES_def Let_def)
  then have "10080 \<le> 2 ^ (4 + n) * ?m"
    using mult_mono [of 720 ?m 1 "2 ^ n"] by (simp add: power_add mult.commute)
  ultimately show "unchanged_scrapes (5 + n) current = PInt 10080"
    using next_interval_range [of current False] by (simp add: unchanged_scrapes_grow)
qed


section \<open>Statuses\<close>

definition gives :: "('a \<Rightarrow> bool) \<Rightarrow> 'a res \<times> 's \<Rightarrow> bool" where
  \<comment> \<open>what is returned, if anything\<close>
  "gives P r = (case r of (Inr x, t) \<Rightarrow> P x | (Inl e, t) \<Rightarrow> True)"

lemma gives_simps [simp]: "gives P (Inr x, t) \<longleftrightarrow> P x" "gives P (Inl e, t)"
  by (simp_all add: gives_def)

lemma givesI: "(\<And>x t. r = (Inr x, t) \<Longrightarrow> P x) \<Longrightarrow> gives P r"
  by (auto simp: gives_def split: prod.splits sum.splits)

lemma givesD: "gives P r \<Longrightarrow> r = (Inr x, t) \<Longrightarrow> P x"
  by simp

lemma gives_bind: "(\<And>x t. m s = (Inr x, t) \<Longrightarrow> gives P (k x t)) \<Longrightarrow> gives P (bindA m k s)"
  by (auto simp: gives_def bindA_apply split: prod.splits sum.splits)

definition admitted :: "string option \<Rightarrow> bool" where
  \<comment> \<open>no status, or one that the log of scrapes admits\<close>
  "admitted st = (case st of None \<Rightarrow> True | Some t \<Rightarrow> t \<in> set CANONICAL_SCRAPE_LOG_STATUSES)"

lemma admitted_simps [simp]:
  "admitted None"
  "admitted (Some t) \<longleftrightarrow> t \<in> set TERMINAL_SUCCESSFUL \<union> set TERMINAL_UNCHANGED \<union> set TERMINAL_FILTERED \<union> set TERMINAL_FAILED"
  by (simp_all add: admitted_def CANONICAL_SCRAPE_LOG_STATUSES_def)

lemmas status_defs = TERMINAL_SUCCESSFUL_def TERMINAL_UNCHANGED_def TERMINAL_FILTERED_def TERMINAL_FAILED_def

lemma admitted_texts:
  "admitted (Some ''technical_error'')" "admitted (Some ''currency_rejected'')" "admitted (Some ''parse_error'')"
  "admitted (Some ''price_not_found'')" "admitted (Some ''not_found'')" "admitted (Some ''captcha'')"
  "admitted (Some ''blocked'')" "admitted (Some ''timeout'')" "admitted (Some ''error'')"
  "admitted (Some ''missing_critical_data'')" "admitted (Some ''success'')"
  by (simp_all add: status_defs)

lemma admitted_if: "admitted (Some a) \<Longrightarrow> admitted (Some b) \<Longrightarrow> admitted (Some (if c then a else b))"
  by simp

lemma admitted_case:
  "admitted (Some a) \<Longrightarrow> (\<And>x. admitted (Some (f x))) \<Longrightarrow> admitted (Some (case t of None \<Rightarrow> a | Some x \<Rightarrow> f x))"
  by (cases t) simp_all

lemma error_status_admitted: "admitted (Some (status_of_error err))"
  unfolding status_of_error_def Let_def by (intro admitted_if admitted_texts)

lemma determined_admitted: "admitted (Some (determine_log_status result is_partial data))"
  unfolding determine_log_status_def Let_def
  by (intro admitted_if admitted_case admitted_texts error_status_admitted)

lemma forced_admitted: "admitted (snd (skip_and_status n p c r m))"
  by (simp add: skip_and_status_def status_defs)

lemma persist_verdict_admitted:
  assumes "persist_verdict env table flds ev = Inr ev'" "admitted (ev_status ev)"
  shows "admitted (ev_status ev')"
proof (cases flds)
  case (Some f)
  with assms show ?thesis
    by (cases "ev_passed ev") (auto simp: persist_verdict_def bindE_Inr_iff status_defs split: if_splits option.splits)
qed (use assms in \<open>simp add: persist_verdict_def\<close>)

lemma ecommerce_admitted:
  "gives (\<lambda>out. admitted (fo_forced_log_status out)) (evaluate_ecommerce env cdb record mp role flds table has_db src listing s)"
proof (rule givesI)
  fix out t
  assume run: "evaluate_ecommerce env cdb record mp role flds table has_db src listing s = (Inr out, t)"
  obtain g cache where g: "evaluate_ecommerce_rules cdb record mp (fs_currency_cache s) = (Inr g, cache)"
    using run by (auto simp: evaluate_ecommerce_def split: prod.splits sum.splits)
  let ?role = "case role of Some r \<Rightarrow> Some r | None \<Rightarrow> (case record of None \<Rightarrow> None | Some d \<Rightarrow> ex_page_role d)"
  from g have "admitted (go_forced_log_status g)"
    by (rule evaluate_ecommerce_rules_Inr) (metis forced_admitted snd_conv)
  then have "admitted (ev_status (role_verdict g ?role))" by (simp add: role_verdict_def status_defs)
  moreover obtain ev where "persist_verdict env table flds (role_verdict g ?role) = Inr ev" "fo_forced_log_status out = ev_status ev"
    using run g by (cases "persist_verdict env table flds (role_verdict g ?role)") (auto simp: evaluate_ecommerce_def Let_def)
  ultimately show "admitted (fo_forced_log_status out)" using persist_verdict_admitted by metis
qed

lemma run_bind:
  "bindA m k s = (Inr x, t) \<longleftrightarrow> (\<exists>y u. m s = (Inr y, u) \<and> k y u = (Inr x, t))"
  by (auto simp: bindA_apply split: prod.splits sum.splits)

lemma store_price_result:
  assumes "store_price env data flds outcome s = (Inr r, t)"
  shows "r = (False, fo_forced_log_status outcome) \<or> r = (False, Some ''no_change'') \<or> r = (True, Some ''success'')
      \<or> r = (False, Some ''persist_failed'')"
proof (cases "fo_passed outcome")
  case True
  show ?thesis
  proof (cases "should_skip_price_record (ig_listing s) (ex_price data) (ex_currency data)")
    case (Inl e)
    with assms True show ?thesis by (simp add: store_price_def)
  next
    case (Inr skip)
    show ?thesis
    proof (cases skip)
      case True
      with assms \<open>fo_passed outcome\<close> Inr show ?thesis by (auto simp: store_price_def run_bind)
    next
      case False
      with assms \<open>fo_passed outcome\<close> Inr show ?thesis
        by (cases flds) (auto simp: store_price_def run_bind split: if_splits)
    qed
  qed
qed (use assms in \<open>simp add: store_price_def\<close>)

lemma store_price_admitted:
  "admitted (fo_forced_log_status outcome) \<Longrightarrow> gives (\<lambda>(persisted, st). admitted st) (store_price env data flds outcome s)"
  by (rule givesI) (auto simp: status_defs dest!: store_price_result)


lemma commit_admitted:
  "admitted (ir_log_status result) \<Longrightarrow> gives (\<lambda>ing. admitted (ir_log_status ing)) (case commit_session t of
       (Inr _, u) \<Rightarrow> (Inr result, u)
     | (Inl e, u) \<Rightarrow> (Inr (if is_read_only_error e then result\<lparr>ir_persisted := False, ir_read_only_failed := True\<rparr>
                           else result\<lparr>ir_persisted := False, ir_persist_failed := True\<rparr>), rollback_session u))"
  by (simp split: prod.splits sum.splits)

lemma persist_extracted_admitted: "gives (\<lambda>ing. admitted (ir_log_status ing)) (persist_extracted env data job s)"
  unfolding persist_extracted_def Let_def
proof (intro gives_bind, goal_cases)
  case (1 x1 t1 data' t2 flds t3 x4 t4 outcome t5 p t6)
  obtain persisted st where p: "p = (persisted, st)" by fastforce
  have "admitted st"
    using givesD [OF store_price_admitted [OF givesD [OF ecommerce_admitted 1(5)]] 1(6)] p by simp
  then show ?case unfolding p prod.case
    by (intro gives_bind commit_admitted) simp
qed

definition reported :: "PoolScrapeResult \<Rightarrow> bool" where
  \<comment> \<open>a status of the log, or a failed write\<close>
  "reported r = (case rs_log_status r of
     Some st \<Rightarrow> st \<in> set CANONICAL_SCRAPE_LOG_STATUSES
   | None \<Rightarrow> rs_error r \<in> {Some ''read_only_retriable'', Some ''persist_failed''})"

lemma reported_simps [simp]:
  "reported (r\<lparr>rs_log_status := Some st\<rparr>) \<longleftrightarrow> admitted (Some st)"
  "reported (failed_result url data ''read_only_retriable'')" "reported (failed_result url data ''persist_failed'')"
  by (simp_all add: reported_def failed_result_def admitted_def)

lemma log_result_reported:
  assumes "case verdict of (st, _, _) \<Rightarrow> admitted st"
  shows "gives reported (log_scrape_result env job result flush verdict s)"
  using assms determined_admitted unfolding log_scrape_result_def Let_def
  by (auto intro!: gives_bind split: prod.splits option.splits sum.splits simp del: admitted_simps(2))

lemma without_data_reported: "gives reported (persist_without_data env job result flush s)"
  unfolding persist_without_data_def persist_housekeeping_or_fail_def
  by (auto intro!: gives_bind log_result_reported split: prod.splits sum.splits option.splits)

lemma with_data_reported: "gives reported (persist_with_data env job result d flush s)"
  unfolding persist_with_data_def Let_def
proof (intro gives_bind, goal_cases)
  case (1 x t ing u)
  then show ?case using givesD [OF persist_extracted_admitted 1(2)]
    by (simp add: log_result_reported del: admitted_simps(2))
qed

text \<open>
  C17: Whatever a fetched page led to, the result of persisting it carries a status that the
  log of scrapes admits (\<open>CANONICAL_SCRAPE_LOG_STATUSES\<close>), or it carries none and says that the
  write failed: no outcome is lost to the pipeline account because its status is unknown there.
\<close>

theorem scrape_status_admitted:
  "case persist_scrape_pool_result env job result flush s of
     (Inr r, t) \<Rightarrow> reported r
   | (Inl e, t) \<Rightarrow> True"
proof -
  have "gives reported (persist_scrape_pool_result env job result flush s)"
    unfolding persist_scrape_pool_result_def
    by (auto intro!: gives_bind without_data_reported with_data_reported simp: status_defs split: option.splits)
  then show ?thesis by (simp add: gives_def split: prod.splits sum.splits)
qed

section \<open>The rows of a scrape\<close>

lemma more_row: "gate_state.more t = gate_state.more s \<Longrightarrow> ig_listing t = ig_listing s \<and> ig_last_emit t = ig_last_emit s"
  by (cases s; cases t) simp

lemma keeps_row: "preserves gate_state.more m \<Longrightarrow> preserves ig_listing m"
  unfolding preserves_def using more_row by blast

definition switch :: "'s ingest_state_scheme \<Rightarrow> pyval" where
  \<comment> \<open>whether the listing is active, as its row in memory says\<close>
  "switch s = dict_get (ig_listing s) ''is_active''"

lemma keeps_switch: "preserves ig_listing m \<Longrightarrow> preserves switch m"
  by (simp add: preserves_def switch_def)

lemmas keeps_gate [rail_frame] = keeps_switch [OF keeps_row]

lemma sync_other: "k \<notin> fst ` set flds \<Longrightarrow> dict_get (sync_columns flds row) k = dict_get row k"
proof (induction flds arbitrary: row)
  case (Cons f flds)
  then show ?case by (cases f) (auto simp: sync_columns_def dict_get_def map_of_dict_set)
qed (simp add: sync_columns_def)

definition stays :: "('s \<Rightarrow> 'v) \<Rightarrow> 's \<Rightarrow> 'a res \<times> 's \<Rightarrow> bool" where
  "stays f s r = (f (snd r) = f s)"

named_theorems row_frame "steps that leave the switch of the listing alone"

lemma stays_bind [row_frame]:
  "stays f s (m s) \<Longrightarrow> (\<And>x t. m s = (Inr x, t) \<Longrightarrow> stays f t (k x t)) \<Longrightarrow> stays f s (bindA m k s)"
  unfolding stays_def bindA_apply by (auto split: prod.splits sum.splits)

lemma stays_gate: "preserves gate_state.more m \<Longrightarrow> stays switch s (m s)"
  using keeps_gate unfolding stays_def preserves_def by blast

lemmas stays_rails [row_frame] = keeps_write_sync [THEN stays_gate] keeps_settle [THEN stays_gate] keeps_market [THEN stays_gate]
  keeps_commit [THEN stays_gate] keeps_logs_batch [THEN stays_gate] keeps_service_alert [THEN stays_gate]

lemma stays_basic [row_frame]: "stays f s (r, s)" "stays f s (retA x s)" "stays f s (liftA m s)"
  by (simp_all add: stays_def)

lemma stays_read [row_frame]: "stays switch s (session_read g s)"
  by (simp add: stays_def session_read_def split: session_status.splits)

lemma stays_sync:
  assumes "table = ''fact_listing'' \<longrightarrow> ''is_active'' \<notin> fst ` set flds"
  shows "stays switch s (persist_scrape_update env table kind flds src date_id s)"
  unfolding persist_scrape_update_def authorize_scrape_update_def
  by (auto intro!: row_frame) (auto simp: stays_def switch_def assms sync_other)

lemma stays_listing [row_frame]:
  "''is_active'' \<notin> fst ` set delta \<Longrightarrow> stays switch s (update_listing env kind src date_id delta s)"
  unfolding update_listing_def by (rule stays_sync) (auto simp: build_listing_update_fields_def)

lemma stays_alert [simp]: "switch (emit_ops_alert env m sub sev anomaly msg entity ctx s) = switch s"
proof -
  have alerted: "switch (snd (write_service_alert_sync env flds src t)) = switch t" for env flds src and t :: "'s ingest_state_scheme"
    using stays_rails(6) by (simp add: stays_def)
  show ?thesis
    by (auto simp: emit_ops_alert_def rate_limited_def Let_def alerted split: prod.splits if_splits) (simp_all add: switch_def)
qed

lemma stays_rollback [simp]: "switch (rollback_session s) = switch s"
  by (simp add: switch_def rollback_session_def)

lemma stays_catch [row_frame]:
  "stays f s (m s) \<Longrightarrow> (\<And>kind message t. stays f t (handler kind message t)) \<Longrightarrow> stays f s (catch_gate_error m handler s)"
  unfolding stays_def catch_gate_error_def by (auto split: prod.splits sum.splits pyexc.splits)

lemma stays_fresh [row_frame]: "stays switch s (fresh_id env s)"
  by (simp add: stays_def fresh_id_def switch_def)

lemma stays_insert [row_frame]: "stays switch s (gate_insert env table flds src s)"
  unfolding gate_insert_def by (auto intro!: row_frame)

lemma stays_brand [row_frame]: "stays switch s (ensure_brand env b s)"
  unfolding ensure_brand_def by (auto intro!: row_frame simp: Let_def split: option.splits)

lemma stays_chain [row_frame]: "stays switch s (category_chain env parent cumulative level names s)"
  by (induction env parent cumulative level names arbitrary: s rule: category_chain.induct)
     (auto intro!: row_frame simp: Let_def split: option.splits)

lemma stays_category [row_frame]: "stays switch s (ensure_category_chain env path s)"
  unfolding ensure_category_chain_def by (rule stays_chain)

lemma stays_enrich [row_frame]: "stays switch s (enrich_dim_product env data s)"
  unfolding enrich_dim_product_def Let_def
  by (auto intro!: row_frame stays_sync split: option.splits)

lemma stays_whitelist [row_frame]: "stays switch s (read_whitelist env mp s)"
  unfolding read_whitelist_def
  by (auto intro!: row_frame split: prod.splits) (simp add: stays_def switch_def)

lemma stays_currency [row_frame]: "stays switch s (resolve_currency env data s)"
  unfolding resolve_currency_def Let_def by (auto intro!: row_frame split: option.splits)

lemma stays_today [row_frame]: "stays switch s (today_date_id env s)"
  unfolding today_date_id_def Let_def by (auto intro!: row_frame)


lemma stays_eur [row_frame]: "(\<And>code t. stays switch t (rates code t)) \<Longrightarrow> stays switch s (resolve_price_eur rates price code s)"
  unfolding resolve_price_eur_def Let_def by (auto intro!: row_frame simp del: bindA_liftA_apply split: option.splits)

lemma stays_price [row_frame]: "stays switch s (price_fields env data job s)"
  unfolding price_fields_def Let_def by (auto intro!: row_frame simp del: bindA_liftA_apply split: option.splits)

lemma stays_ecommerce [row_frame]:
  "stays switch s (evaluate_ecommerce env cdb record mp role flds table has_db src listing s)"
proof -
  have cache: "switch (s\<lparr>fs_currency_cache := c\<rparr>) = switch s" for c by (simp add: switch_def)
  have isolated: "switch (write_reject_data_isolated env row t) = switch t" for row t
    using keeps_reject(2) more_row unfolding switch_def by metis
  show ?thesis
    unfolding evaluate_ecommerce_def by (simp add: stays_def cache isolated Let_def split: prod.splits sum.splits)
qed

lemma stays_store [row_frame]: "stays switch s (store_price env data flds outcome s)"
  unfolding store_price_def
  by (auto intro!: row_frame simp: denorm_no_change_def denorm_success_def Let_def simp del: bindA_liftA_apply split: option.splits)

lemma stays_empty [simp]: "switch (emit_empty_extraction env data s) = switch s"
  by (simp add: emit_empty_extraction_def Let_def)

lemma stays_from: "switch t = switch s \<Longrightarrow> stays switch t r \<Longrightarrow> stays switch s r"
  by (simp add: stays_def)

lemma stays_commit: "commit_session t = (r, u) \<Longrightarrow> switch u = switch t"
  using stays_rails(4) [of t] by (simp add: stays_def)

lemma stays_extracted [row_frame]: "stays switch s (persist_extracted env data job s)"
proof (rule stays_from)
  show "switch (s\<lparr>fs_currency_cache := []\<rparr>) = switch s" by (simp add: switch_def)
  show "stays switch (s\<lparr>fs_currency_cache := []\<rparr>) (persist_extracted env data job s)"
    unfolding persist_extracted_def Let_def
  proof (intro stays_bind stays_enrich stays_currency stays_price, goal_cases)
    case (1 x t1 data' t2 flds t3)
    show ?case
    proof (rule stays_from)
      show "switch (emit_empty_extraction env data' t3) = switch t3" by simp
    qed (auto intro!: row_frame simp del: bindA_liftA_apply split: prod.splits,
         auto simp: stays_def dest: stays_commit split: prod.splits sum.splits)
  qed
qed


lemma stays_log [simp]: "switch (persist_scrape_log env job st found result message category flush s) = switch s"
proof -
  have rows: "switch (s\<lparr>sc_pending_logs := rows\<rparr>) = switch s" for s :: scrape_state and rows by (simp add: switch_def)
  have batch: "persist_logs_batch env table rows src c t = (r, u) \<Longrightarrow> switch u = switch t" for table rows src c r u and t :: scrape_state
    using stays_rails(5) by (metis snd_conv stays_def)
  show ?thesis
    by (auto simp: persist_scrape_log_def flush_scrape_logs_def rows Let_def dest!: batch split: prod.splits sum.splits)
qed

lemma stays_prune [row_frame]: "stays switch s (prune_confirmed_nonproduct env s)"
  unfolding prune_confirmed_nonproduct_def gated_delete_def authorize_scrape_delete_def Let_def
  by (auto intro!: row_frame split: prod.splits sum.splits) (auto simp: stays_def dest: stays_commit)

lemma stays_verdict [row_frame]: "stays switch s (log_scrape_result env job result flush verdict s)"
  unfolding log_scrape_result_def Let_def
  by (auto intro!: row_frame simp del: bindA_liftA_apply split: prod.splits) (auto simp: stays_def)

lemma stays_with_data [row_frame]: "stays switch s (persist_with_data env job result d flush s)"
  unfolding persist_with_data_def Let_def route_listing_checked_def
  by (auto intro!: row_frame)

lemma stays_housekeeping:
  assumes "rs_success result \<or> col_count (ig_listing s) ''failure_streak'' + 1 < LISTING_DEACTIVATE_AFTER_ERRORS"
  shows "stays switch s (route_failure_housekeeping_updates env result s)"
  using assms unfolding route_failure_housekeeping_updates_def Let_def
  by (auto intro!: row_frame) (auto simp: stays_def)

lemma stays_without_data:
  assumes "rs_success result \<or> error_text result \<in> set PROXY_PROVIDER_SKIP_ERRORS
    \<or> col_count (ig_listing s) ''failure_streak'' + 1 < LISTING_DEACTIVATE_AFTER_ERRORS"
  shows "stays switch s (persist_without_data env job result flush s)"
  unfolding persist_without_data_def persist_housekeeping_or_fail_def route_listing_checked_def
proof (intro stays_bind, goal_cases)
  case 1
  with assms show ?case by (auto intro!: stays_housekeeping row_frame)
next
  case (2 x t)
  show ?case by (auto intro!: row_frame)
next
  case (3 x t y u)
  show ?case
    by (auto split: prod.splits sum.splits dest: stays_commit intro: stays_from [OF _ stays_verdict])
      (auto simp: stays_def dest: stays_commit)
qed

definition failing_streak :: "PoolScrapeResult \<Rightarrow> pydict \<Rightarrow> bool" where
  \<comment> \<open>a failure that counts, the fifteenth in a row or later\<close>
  "failing_streak result listing =
     (\<not> rs_success result \<and> error_text result \<notin> set PROXY_PROVIDER_SKIP_ERRORS \<and> confirmed_nonproduct_page_role result = None
      \<and> LISTING_DEACTIVATE_AFTER_ERRORS \<le> col_count listing ''failure_streak'' + 1)"

text \<open>
  C15: Persisting a scrape changes whether its listing is active only in one case: the scrape
  failed, not for a deadline of the proxies, and it is at least the fifteenth failure in a row that the
  row counts. No success, no unchanged price, no refused extract and no page that turned out to be no
  product switches a listing off.
\<close>

theorem deactivation_needs_streak:
  "case persist_scrape_pool_result env job result flush s of (r, t) \<Rightarrow>
     switch t = switch s \<or> failing_streak result (ig_listing s)"
proof -
  have "stays switch s (persist_scrape_pool_result env job result flush s)"
    if failing: "\<not> failing_streak result (ig_listing s)"
  proof (cases "confirmed_nonproduct_page_role result")
    case None
    with failing have "rs_success result \<or> error_text result \<in> set PROXY_PROVIDER_SKIP_ERRORS
        \<or> col_count (ig_listing s) ''failure_streak'' + 1 < LISTING_DEACTIVATE_AFTER_ERRORS"
      unfolding failing_streak_def by linarith
    with None show ?thesis
      unfolding persist_scrape_pool_result_def route_success_streak_reset_def
      by (auto intro!: row_frame stays_without_data split: option.splits)
  next
    case (Some role)
    show ?thesis unfolding persist_scrape_pool_result_def Some option.case
      by (rule stays_from [of "persist_scrape_log env job ''not_a_product'' None result (Some (''page_role:'' @ role)) (Some ''parse'') True s"])
         (simp, intro row_frame)
  qed
  then show ?thesis unfolding stays_def by (auto split: prod.splits)
qed


section \<open>Operational alerts\<close>

lemma recent_emit:
  assumes "snd (rate_limited key s) = t" "\<not> fst (rate_limited key s)"
  shows "map_of (ig_last_emit t) key = Some (gs_now s)"
proof -
  have keep: "map_of (filter (\<lambda>(k, t). now - RATE_LIMIT_MS \<le> t) d) key = Some now" if "map_of d key = Some now" for now d
    using that by (induction d) (auto simp: RATE_LIMIT_MS_def split: if_splits)
  show ?thesis using assms keep [of "dict_set (ig_last_emit s) key (gs_now s)" "gs_now s"]
    by (auto simp: rate_limited_def Let_def map_of_dict_set)
qed

lemma emit_leaves_memory: "ig_last_emit (snd (write_service_alert_sync env flds src t)) = ig_last_emit t"
  using keeps_service_alert more_row unfolding preserves_def by blast


section \<open>Brands and categories\<close>

lemma runs_skip: "\<not> p c \<Longrightarrow> find_runs p (c # s) = find_runs p s"
  by (simp add: find_runs.simps [of p "c # s"] find_runs.simps [of p s])

lemma runs_word: "w \<noteq> [] \<Longrightarrow> list_all p w \<Longrightarrow> (s = [] \<or> \<not> p (hd s)) \<Longrightarrow> find_runs p (w @ s) = w # find_runs p s"
proof (induction w)
  case (Cons c w)
  then have "takeWhile p (w @ s) = w" "dropWhile p (w @ s) = s"
    by (cases s; simp add: takeWhile_append2 dropWhile_append2 list_all_iff)+
  with Cons.prems show ?case by (simp add: find_runs.simps [of p "c # w @ s"])
qed simp

lemma runs_apart: "\<not> p c \<Longrightarrow> find_runs p (xs @ c # ys) = find_runs p xs @ find_runs p ys"
proof (induction xs rule: length_induct)
  case (1 xs)
  show ?case
  proof (cases xs)
    case Nil
    with 1(2) show ?thesis by (simp add: runs_skip find_runs.simps [of p "[]"])
  next
    case (Cons x t)
    show ?thesis
    proof (cases "p x")
      case True
      let ?w = "takeWhile p xs" and ?r = "dropWhile p xs"
      have w: "?w \<noteq> []" "list_all p ?w" using True Cons by (auto simp: list_all_iff dest: set_takeWhileD)
      have r: "?r = [] \<or> \<not> p (hd ?r)" using hd_dropWhile by blast
      have "length ?r < length xs" using w(1) takeWhile_dropWhile_id [of p xs] by (metis length_append length_greater_0_conv less_add_same_cancel2)
      with 1 have "find_runs p (?r @ c # ys) = find_runs p ?r @ find_runs p ys" by blast
      moreover have "find_runs p (?w @ ?r @ c # ys) = ?w # find_runs p (?r @ c # ys)"
        by (rule runs_word [OF w]) (metis r 1(2) append_Nil hd_append2 list.sel(1))
      moreover have "find_runs p (?w @ ?r) = ?w # find_runs p ?r" by (rule runs_word [OF w r])
      ultimately show ?thesis by (simp flip: append_assoc)
    next
      case False
      with 1 Cons show ?thesis by (simp add: runs_skip)
    qed
  qed
qed

lemma runs_joined:
  "sep \<noteq> [] \<Longrightarrow> list_all (\<lambda>c. \<not> p c) sep \<Longrightarrow> find_runs p (join_with sep ws) = concat (map (find_runs p) ws)"
proof (induction sep ws rule: join_with.induct)
  case (1 sep)
  then show ?case by (simp add: find_runs.simps [of p "[]"])
next
  case (3 sep w v ws)
  have rest: "find_runs p (cs @ t) = find_runs p t" if "list_all (\<lambda>c. \<not> p c) cs" for cs t
    using that by (induction cs) (simp_all add: runs_skip)
  from 3 show ?case by (cases sep) (simp_all add: runs_apart rest)
qed simp

lemma lower_joined: "py_lower (join_with sep ws) = join_with (py_lower sep) (map py_lower ws)"
  by (induction sep ws rule: join_with.induct) (simp_all add: py_lower_def)

text \<open>
  The slug under which a category is looked up forgets where one level ends and the next
  begins: the path of a category and the single name that joins its levels with spaces have the same slug, so
  the chain takes whichever of the two was stored first for the other.
\<close>

theorem category_slug_forgets_levels:
  "slugify (join_with '' > '' names) = slugify (join_with '' '' names)"
proof -
  have "list_all (\<lambda>c. \<not> word_char c) (py_lower '' > '')" "list_all (\<lambda>c. \<not> word_char c) (py_lower '' '')"
    by code_simp+
  moreover have "py_lower '' > '' \<noteq> []" "py_lower '' '' \<noteq> []" by (simp_all add: py_lower_def)
  ultimately show ?thesis by (simp add: slugify_def lower_joined runs_joined)
qed


section \<open>Conflicts of brands\<close>

lemma refused_insert:
  assumes mac: "mac_ok env" and r: "sign_fields env t ''insert'' row = Inr (Some r)" "supports t ''insert''"
    and live: "gs_session s = SessionLive"
    and refused: "\<And>h st. gate_answer env h st = Inl message" "classify_gate_error message = ''rpc_error''"
  obtains u where "write_sync env ctx (Some r) s = (Inl (GateRpcError ''rpc_error'' message), u)" "gs_session u = TransactionAborted"
proof -
  have seal: "sealed env r" "sr_operation r = ''insert''" "sr_table r = t" using sign_fields_Some [OF mac_okD [OF mac] r(1)] by auto
  then obtain st where st: "record_statement r = Inr st" using sealed_statement_exists by blast
  have "verify_signed_record env r = Inr None"
    using verify_signed_record_accepts [of env r] sign_fields_Some [OF mac_okD [OF mac] r(1)] r(2) by simp
  then show thesis using that seal st live refused
    by (simp add: write_sync_def execute_record_def catch_gate_error_def exec_write_record_def exec_statement_def bindA_apply
        raise_gate_rpc_error_def handle_gate_rpc_error_def)
qed

definition brand_row :: "string \<Rightarrow> string \<Rightarrow> pydict" where
  "brand_row brand_id b =
     [(''id'', PStr brand_id), (''name'', PStr (take MAX_NAME_LEN (py_strip b))), (''slug'', PStr (slugify (take MAX_NAME_LEN (py_strip b)))),
      (''name_normalized'', PStr (normalize_taxonomy_name (take MAX_NAME_LEN (py_strip b)))), (''is_active'', PBool True)]"

lemma refused_brand:
  assumes mac: "mac_ok env" and live: "gs_session s = SessionLive"
    and name: "py_strip b \<noteq> []" "normalize_taxonomy_name (take MAX_NAME_LEN (py_strip b)) \<noteq> []" "slugify (take MAX_NAME_LEN (py_strip b)) \<noteq> []"
    and unknown: "\<And>log. ie_brand env log (normalize_taxonomy_name (take MAX_NAME_LEN (py_strip b))) = None"
    and row: "conforms_to ''dim_brand'' (brand_row (ie_uuid4 env (ig_uuids s)) b)"
      "sign_fields env ''dim_brand'' ''insert'' (brand_row (ie_uuid4 env (ig_uuids s)) b) = Inr (Some r)"
    and refused: "\<And>h st. gate_answer env h st = Inl message" "classify_gate_error message = ''rpc_error''"
  shows "fst (ensure_brand env b s) = Inl (DBAPIError aborted_message)"
proof -
  let ?s = "s\<lparr>ig_uuids := Suc (ig_uuids s)\<rparr>"
  obtain c where c: "FACT_TABLE_CONTRACTS ''dim_brand'' = Some c" "row_conforms c (brand_row (ie_uuid4 env (ig_uuids s)) b)"
    using row(1) by (rule conforms_to_contract)
  note pass = evaluate_market_passes [OF c row(2), of True "''ingestion_brand''" ?s]
  have "supports ''dim_brand'' ''insert''" by code_simp
  then obtain u where "write_sync env (source_context ''ingestion_brand'') (Some r) ?s = (Inl (GateRpcError ''rpc_error'' message), u)"
    "gs_session u = TransactionAborted"
    using refused_insert [OF mac row(2) _ _ refused, of ?s "source_context ''ingestion_brand''"] live by auto
  then have "gate_insert env ''dim_brand'' (brand_row (ie_uuid4 env (ig_uuids s)) b) ''ingestion_brand'' ?s = (Inr False, u)
      \<and> gs_session u = TransactionAborted"
    using pass by (simp add: gate_insert_def bindA_apply market_outcome_def catch_gate_error_def)
  then show ?thesis using name unknown live
    by (simp add: ensure_brand_def Let_def bindA_apply session_read_def fresh_id_def brand_row_def MAX_NAME_LEN_def)
qed


section \<open>A concrete scrape\<close>

definition small_env :: "string + int list \<Rightarrow> scrape_env" where
  \<comment> \<open>a database that gives every statement the same answer and holds one product without a brand\<close>
  "small_env answer = ingest_env.extend
     (persist_env.extend (live_env\<lparr>gate_answer := \<lambda>_ _. answer\<rparr>)
       (ingest_env.fields \<lparr> get_marketplace = \<lambda>_. None, get_country = \<lambda>_. None \<rparr>
          (\<lambda>_ _. Some [(''name'', PStr ''product'')]) (\<lambda>_ _. True) (\<lambda>_ _. None) (\<lambda>_ _. None) (\<lambda>_ _ _. [])
          (\<lambda>n. ''123e4567-e89b-12d3-a456-42661417400'' @ nat_str n) (2026, 11, 19) ''2026-11-19T12:00:00+00:00''))
     (scrape_env.fields (\<lambda>_ _. None) (\<lambda>_ _. 0) (\<lambda>_. Inl TimeoutError) (\<lambda>_ _. failed_result [] None []) (\<lambda>_. []))"

definition small_listing :: pydict where
  "small_listing = [(''id'', PUuid ''12345678-1234-5678-1234-567812345671''), (''product_id'', PUuid ''12345678-1234-5678-1234-567812345672''),
     (''marketplace_id'', PUuid ''12345678-1234-5678-1234-567812345673''), (''url_hash'', PStr ''0123456789abcdef''),
     (''external_url'', PStr ''https://x.com/p''), (''last_price'', PDecimal (Dec False 100000 (- 2))), (''last_currency_code'', PStr ''UAH'')]"

definition small_state :: scrape_state where
  "small_state = ingest_state.extend
     (firewall_state.extend (gate_state.extend quiet_state (firewall_state.fields [])) (ingest_state.fields [] 0 small_listing))
     (scrape_state.fields [])"

definition branded :: product_data where
  "branded = extracted.extend \<lparr> ex_product_name = Some ''TV'', ex_title = None, ex_price = PInt 100, ex_currency = Some ''EUR'',
       ex_currency_raw = None, ex_page_role = Some ''product'' \<rparr>
     (product_data.fields PNone None None None (Some ''LG'') None None None)"






end
