(* ===== verification/AlertEngine.thy ===== *)
theory AlertEngine
  imports PriceMath
begin

text \<open>
  Alert rules of users: their service (\<open>alerts/service.py\<close>) and the engine that evaluates them
  against fresh prices (\<open>alerts/engine.py\<close>). Instants are microseconds; the text of an instant, the rows the
  database holds and the delivery of a message are given, a read may raise. Log output is left out.
\<close>

section \<open>Rows\<close>

record alert_rule =
  ar_id :: string
  ar_user_id :: string
  ar_listing_id :: "string option"
  ar_alert_type :: string
  ar_threshold_pct :: "pydec option"
  ar_channel :: "string option"
  ar_channels :: pyval
  ar_webhook_url :: "string option"
  ar_cooldown_minutes :: int
  ar_last_triggered_at :: "int option"
  ar_created_at :: int
  ar_trigger_count :: int

record alert_user =
  au_email :: string
  au_telegram_chat_id :: "int option"

record price_row =
  fp_id :: int
  fp_listing_id :: string
  fp_price :: pydec
  fp_change_pct :: "pydec option"
  fp_currency_code :: "string option"
  fp_scraped_at :: int

record alert_event =
  ev_alert_id :: string
  ev_new_value :: "pyfloat option"
  ev_triggered_at :: int

record rule_row =
  rw_rule :: alert_rule
  rw_listing_active :: bool
  rw_external_name :: "string option"
  rw_user :: alert_user
  rw_product_name :: "string option"

record alert_state = gate_state +
  al_sent :: "(string \<times> string \<times> string) list"

record alert_env = persist_env +
  ae_rule_rows :: "gate_statement list \<Rightarrow> rule_row list res"
  ae_price_rows :: "gate_statement list \<Rightarrow> price_row list res"
  ae_events :: "gate_statement list \<Rightarrow> alert_event list res"
  ae_send :: "(string \<times> string \<times> string) list \<Rightarrow> string \<Rightarrow> string \<Rightarrow> string \<Rightarrow> bool res"
  ae_now :: int
  ae_isoformat :: "int \<Rightarrow> string"

definition query_rows :: "(gate_statement list \<Rightarrow> 'a res) \<Rightarrow> ('s gate_state_scheme, 'a) act" where
  "query_rows answer s = (answer (gs_committed_writes s), s)"

section \<open>Columns\<close>

definition serialize_alert_value :: "pyval \<Rightarrow> pyval" where
  \<comment> \<open>an instant is given by its text\<close>
  "serialize_alert_value v = (case v of
     PUuid u \<Rightarrow> PStr u | PDatetime t \<Rightarrow> PStr t | PDecimal d \<Rightarrow> PFloat (dec_to_float d) | _ \<Rightarrow> v)"

definition build_alert_rule_fields :: "string \<Rightarrow> pydict \<Rightarrow> pydict" where
  "build_alert_rule_fields rule_id columns =
     foldl (\<lambda>d (k, v). dict_set d k (serialize_alert_value v)) [(''id'', PStr rule_id)] columns"

definition build_alert_event_fields :: "pydict \<Rightarrow> pydict" where
  "build_alert_event_fields columns = map (\<lambda>(k, v). (k, serialize_alert_value v)) (filter (\<lambda>(k, v). v \<noteq> PNone) columns)"

section \<open>Channels\<close>

definition rule_channels :: "alert_rule \<Rightarrow> string list" where
  "rule_channels rule = (case ar_channels rule of
     PList (v # vs) \<Rightarrow> map py_str (v # vs)
   | _ \<Rightarrow> [case ar_channel rule of None \<Rightarrow> ''email'' | Some c \<Rightarrow> if c = [] then ''email'' else c])"

definition recipient_for :: "string \<Rightarrow> alert_rule \<Rightarrow> alert_user \<Rightarrow> string option" where
  "recipient_for channel rule user =
     (if channel = ''email'' then Some (au_email user)
      else if channel = ''telegram'' then map_option int_str (au_telegram_chat_id user)
      else if channel = ''webhook'' then ar_webhook_url rule
      else None)"

definition CHANNELS :: "string list" where "CHANNELS = [''email'', ''telegram'', ''webhook'']"

definition send_via :: "('e) alert_env_scheme \<Rightarrow> string \<Rightarrow> string \<Rightarrow> string \<Rightarrow> 's alert_state_scheme \<Rightarrow> bool \<times> 's alert_state_scheme" where
  \<comment> \<open>an exception of a channel counts as not delivered\<close>
  "send_via env channel recipient message s =
     (case ae_send env (al_sent s) channel recipient message of
        Inr True \<Rightarrow> (True, s\<lparr>al_sent := al_sent s @ [(channel, recipient, message)]\<rparr>)
      | _ \<Rightarrow> (False, s))"

fun deliver_channels :: "('e) alert_env_scheme \<Rightarrow> alert_rule \<Rightarrow> alert_user \<Rightarrow> string \<Rightarrow> string list \<Rightarrow> 's alert_state_scheme
      \<Rightarrow> string list \<times> 's alert_state_scheme" where
  "deliver_channels env rule user message [] s = ([], s)"
| "deliver_channels env rule user message (channel # channels) s =
     (if channel = ''in_app''
      then (case deliver_channels env rule user message channels s of (ds, t) \<Rightarrow> (channel # ds, t))
      else case recipient_for channel rule user of
        None \<Rightarrow> deliver_channels env rule user message channels s
      | Some recipient \<Rightarrow>
          if channel \<notin> set CHANNELS \<or> recipient = [] then deliver_channels env rule user message channels s
          else (case send_via env channel recipient message s of (sent, t) \<Rightarrow>
             (case deliver_channels env rule user message channels t of (ds, u) \<Rightarrow> (if sent then channel # ds else ds, u))))"

definition deliver :: "('e) alert_env_scheme \<Rightarrow> alert_rule \<Rightarrow> alert_user \<Rightarrow> string \<Rightarrow> 's alert_state_scheme \<Rightarrow> string list \<times> 's alert_state_scheme" where
  "deliver env rule user message = deliver_channels env rule user message (rule_channels rule)"

section \<open>Decisions\<close>

record TriggerDecision =
  td_fire :: bool
  td_old_value :: "pyfloat option"
  td_new_value :: "pyfloat option"
  td_change_pct :: "pyfloat option"
  td_severity :: string
  td_fact_price_id :: "int option"
  td_message :: string

definition no_trigger :: TriggerDecision where
  \<comment> \<open>\<open>TriggerDecision(fire=False)\<close>\<close>
  "no_trigger = \<lparr> td_fire = False, td_old_value = None, td_new_value = None, td_change_pct = None, td_severity = ''medium'',
     td_fact_price_id = None, td_message = [] \<rparr>"

definition in_cooldown :: "alert_rule \<Rightarrow> int \<Rightarrow> bool" where
  "in_cooldown rule now = (case ar_last_triggered_at rule of None \<Rightarrow> False
     | Some t \<Rightarrow> now < t + 60000000 * ar_cooldown_minutes rule)"

definition price_watermark :: "alert_rule \<Rightarrow> int" where
  "price_watermark rule = (case ar_last_triggered_at rule of
     Some t \<Rightarrow> if ar_created_at rule < t then t else ar_created_at rule
   | None \<Rightarrow> ar_created_at rule)"

definition quantize_half_even :: "nat \<Rightarrow> rat \<Rightarrow> pydec" where
  "quantize_half_even k q = (case quotient_of (\<bar>q\<bar> * 10 ^ k) of (n, d) \<Rightarrow> Dec (q < 0) (nat (round_half_even n d)) (- int k))"

definition old_price_from_change :: "rat \<Rightarrow> rat \<Rightarrow> pydec option" where
  \<comment> \<open>prices and changes of stored rows: no coefficient reaches the precision of the context\<close>
  "old_price_from_change new_price change_pct =
     (let denominator = context_round (1 + context_round (change_pct / 100))
      in if denominator = 0 then None else Some (quantize_half_up 2 (context_round (new_price / denominator))))"

definition threshold_value :: "pyfloat \<Rightarrow> rat" where
  \<comment> \<open>\<open>Decimal(str(threshold_pct))\<close> of a finite float\<close>
  "threshold_value f = (case dec_of_float f of Some d \<Rightarrow> dec_value d | None \<Rightarrow> 0)"

definition price_message :: "string \<Rightarrow> rat \<Rightarrow> pydec option \<Rightarrow> rat \<Rightarrow> string option \<Rightarrow> string" where
  "price_message title pct old_price price currency =
     (let direction = (if pct < 0 then ''dropped'' else ''rose'');
          unit = (case currency of None \<Rightarrow> [] | Some c \<Rightarrow> if c = [] then [] else '' '' @ c);
          old_text = (case old_price of None \<Rightarrow> [] | Some d \<Rightarrow> py_str (PDecimal d) @ unit @ '' -> '')
      in title @ '': price '' @ direction @ '' '' @ py_str (PDecimal (quantize_half_even 1 \<bar>pct\<bar>)) @ ''% ('' @ old_text
         @ py_str (PDecimal (quantize_half_even 2 price)) @ unit @ '')'')"

definition decide_price_trigger :: "string \<Rightarrow> pyfloat \<Rightarrow> price_row \<Rightarrow> string \<Rightarrow> TriggerDecision" where
  "decide_price_trigger alert_type threshold_pct row title = (case fp_change_pct row of
     None \<Rightarrow> no_trigger
   | Some change \<Rightarrow>
       (let pct = dec_value change; threshold = threshold_value threshold_pct; price = dec_value (fp_price row)
        in if alert_type = ''price_drop'' \<and> \<not> pct \<le> - threshold then no_trigger
           else if alert_type = ''price_rise'' \<and> \<not> threshold \<le> pct then no_trigger
           else
             (let old_price = old_price_from_change price pct
              in \<lparr> td_fire = True, td_old_value = map_option dec_to_float old_price, td_new_value = Some (dec_to_float (fp_price row)),
                   td_change_pct = Some (dec_to_float change),
                   td_severity = (if context_round (threshold * 2) \<le> \<bar>pct\<bar> then ''high'' else ''medium''),
                   td_fact_price_id = Some (fp_id row),
                   td_message = price_message title pct old_price price (fp_currency_code row) \<rparr>)))"

definition decide_availability_trigger :: "bool \<Rightarrow> bool \<Rightarrow> string \<Rightarrow> TriggerDecision" where
  "decide_availability_trigger listing_is_active previous_state_active title =
     (if listing_is_active = previous_state_active then no_trigger
      else if listing_is_active then
        no_trigger\<lparr>td_fire := True, td_old_value := Some (float_of_int 0), td_new_value := Some (float_of_int 1),
          td_message := title @ '': listing is available again''\<rparr>
      else
        no_trigger\<lparr>td_fire := True, td_old_value := Some (float_of_int 1), td_new_value := Some (float_of_int 0), td_severity := ''high'',
          td_message := title @ '': listing became unavailable''\<rparr>)"

section \<open>Facts in bulk\<close>

definition latest_of :: "('a \<Rightarrow> int) \<Rightarrow> 'a list \<Rightarrow> 'a option" where
  \<comment> \<open>the first row of a descending order\<close>
  "latest_of instant rows = (case rows of [] \<Rightarrow> None | r # rs \<Rightarrow> Some (foldl (\<lambda>best x. if instant best < instant x then x else best) r rs))"

definition latest_price_row :: "price_row list \<Rightarrow> string option \<Rightarrow> price_row option" where
  "latest_price_row rows listing = (case listing of None \<Rightarrow> None
     | Some l \<Rightarrow> latest_of fp_scraped_at (filter (\<lambda>r. fp_listing_id r = l) rows))"

definition previous_availability :: "alert_event list \<Rightarrow> string list \<Rightarrow> (string \<times> bool) list res" where
  \<comment> \<open>an event without a value raises\<close>
  "previous_availability events rule_ids =
     mapE (\<lambda>(rule_id, e). case ev_new_value e of None \<Rightarrow> Inl TypeError | Some v \<Rightarrow> Inr (rule_id, float_le (float_of_int 1) v))
       (concat (map (\<lambda>r. case latest_of ev_triggered_at (filter (\<lambda>e. ev_alert_id e = r) events) of
            None \<Rightarrow> [] | Some e \<Rightarrow> [(r, e)]) rule_ids))"

section \<open>Firing\<close>

definition float_val :: "pyfloat option \<Rightarrow> pyval" where
  "float_val f = (case f of None \<Rightarrow> PNone | Some x \<Rightarrow> PFloat x)"

definition firing_fields :: "('e) alert_env_scheme \<Rightarrow> alert_rule \<Rightarrow> TriggerDecision \<Rightarrow> string list \<Rightarrow> pydict" where
  "firing_fields env rule decision delivered_via =
     (let now = ae_isoformat env (ae_now env)
      in build_alert_event_fields
           [(''alert_id'', PUuid (ar_id rule)), (''alert_class'', PStr ''analytic''),
            (''listing_id'', case ar_listing_id rule of None \<Rightarrow> PNone | Some l \<Rightarrow> PUuid l),
            (''fact_price_id'', case td_fact_price_id decision of None \<Rightarrow> PNone | Some i \<Rightarrow> PInt i),
            (''old_value'', float_val (td_old_value decision)), (''new_value'', float_val (td_new_value decision)),
            (''change_pct'', float_val (td_change_pct decision)), (''message'', PStr (td_message decision)),
            (''severity'', PStr (td_severity decision)),
            (''sent_via'', case delivered_via of [] \<Rightarrow> PNone | d # _ \<Rightarrow> PStr d),
            (''delivered_at'', if delivered_via = [] then PNone else PDatetime now), (''triggered_at'', PDatetime now)])"

definition trigger_fields :: "('e) alert_env_scheme \<Rightarrow> alert_rule \<Rightarrow> pydict" where
  "trigger_fields env rule =
     build_alert_rule_fields (ar_id rule)
       [(''last_triggered_at'', PDatetime (ae_isoformat env (ae_now env))), (''trigger_count'', PInt (ar_trigger_count rule + 1))]"

definition persist_firing ::
    "('e) alert_env_scheme \<Rightarrow> alert_rule \<Rightarrow> TriggerDecision \<Rightarrow> string list \<Rightarrow> ('s alert_state_scheme, bool) act" where
  "persist_firing env rule decision delivered_via =
     bindA (write_alert_sync env ''event_create'' (firing_fields env rule decision delivered_via) ''alerts_trigger_engine'') (\<lambda>event_result.
       if \<not> pr_ok event_result then retA False
       else bindA (write_alert_sync env ''rule_trigger'' (trigger_fields env rule) ''alerts_trigger_engine'') (\<lambda>_. retA True))"

definition listing_title :: "rule_row \<Rightarrow> string" where
  "listing_title row =
     (case (rw_product_name row, rw_external_name row) of
        (Some n, _) \<Rightarrow> if n \<noteq> [] then n else (case rw_external_name row of Some e \<Rightarrow> if e \<noteq> [] then e else ''Tracked listing'' | None \<Rightarrow> ''Tracked listing'')
      | (None, Some e) \<Rightarrow> if e \<noteq> [] then e else ''Tracked listing''
      | (None, None) \<Rightarrow> ''Tracked listing'')"

definition decide :: "(string \<times> bool) list \<Rightarrow> price_row list \<Rightarrow> rule_row \<Rightarrow> TriggerDecision" where
  \<comment> \<open>what follows the check of the cooldown; a rule that is passed over decides not to fire\<close>
  "decide availability prices row =
     (let rule = rw_rule row; title = listing_title row
      in if ar_alert_type rule = ''availability'' then
           decide_availability_trigger (rw_listing_active row)
             (case map_of availability (ar_id rule) of None \<Rightarrow> True | Some b \<Rightarrow> b) title
         else case ar_threshold_pct rule of None \<Rightarrow> no_trigger
         | Some threshold \<Rightarrow>
             (case latest_price_row prices (ar_listing_id rule) of
                None \<Rightarrow> no_trigger
              | Some price \<Rightarrow>
                  if fp_scraped_at price \<le> price_watermark rule then no_trigger
                  else decide_price_trigger (ar_alert_type rule) (dec_to_float threshold) price title))"

record alert_summary =
  as_considered :: nat
  as_fired :: nat
  as_delivered :: nat
  as_cooldown_skips :: nat

fun evaluate_rules ::
    "('e) alert_env_scheme \<Rightarrow> (string \<times> bool) list \<Rightarrow> price_row list \<Rightarrow> rule_row list \<Rightarrow> alert_summary \<Rightarrow> ('s alert_state_scheme, alert_summary) act" where
  \<comment> \<open>the loop over the rules\<close>
  "evaluate_rules env availability prices [] acc = retA acc"
| "evaluate_rules env availability prices (row # rows) acc =
     (let rule = rw_rule row
      in if in_cooldown rule (ae_now env) then
           evaluate_rules env availability prices rows (acc\<lparr>as_cooldown_skips := Suc (as_cooldown_skips acc)\<rparr>)
         else
           (let decision = decide availability prices row
            in if \<not> td_fire decision then evaluate_rules env availability prices rows acc
               else (\<lambda>s. case deliver env rule (rw_user row) (td_message decision) s of (delivered_via, t) \<Rightarrow>
                  bindA (persist_firing env rule decision delivered_via) (\<lambda>recorded.
                    evaluate_rules env availability prices rows
                      (if \<not> recorded then acc
                       else acc\<lparr>as_fired := Suc (as_fired acc),
                                as_delivered := as_delivered acc + (if delivered_via = [] then 0 else 1)\<rparr>)) t)))"

definition evaluate_alert_rules :: "('e) alert_env_scheme \<Rightarrow> ('s alert_state_scheme, alert_summary) act" where
  \<comment> \<open>a list of ids that is empty asks no question\<close>
  "evaluate_alert_rules env =
     bindA (query_rows (ae_rule_rows env)) (\<lambda>rows.
     bindA (if list_all (\<lambda>r. ar_alert_type (rw_rule r) = ''availability'') rows then retA [] else query_rows (ae_price_rows env)) (\<lambda>prices.
     bindA (if list_all (\<lambda>r. ar_alert_type (rw_rule r) \<noteq> ''availability'') rows then retA [] else query_rows (ae_events env)) (\<lambda>events.
     bindA (liftA (previous_availability events
              (map (\<lambda>r. ar_id (rw_rule r)) (filter (\<lambda>r. ar_alert_type (rw_rule r) = ''availability'') rows)))) (\<lambda>availability.
       evaluate_rules env availability prices rows
         \<lparr> as_considered = length rows, as_fired = 0, as_delivered = 0, as_cooldown_skips = 0 \<rparr>))))"

end
