(* ===== verification/AlertFacts.thy ===== *)
theory AlertFacts
  imports AlertEngine RailFrames
begin

text \<open>
  What the engine of alert rules guarantees: the account of a run agrees with what became durable,
  a rule fires on the crossing of its threshold only, and a firing that cannot be recorded is delivered again by
  every run.
\<close>

section \<open>Writes of a firing\<close>

definition appends :: "('e) persist_env_scheme \<Rightarrow> nat \<Rightarrow> nat \<Rightarrow> 's gate_state_scheme \<Rightarrow> 's gate_state_scheme \<Rightarrow> bool" where
  \<comment> \<open>between \<open>m\<close> and \<open>n\<close> more durable statements, each with the signature of its content\<close>
  "appends env m n s t = (\<exists>sts. gs_committed_writes t = gs_committed_writes s @ sts \<and> m \<le> length sts \<and> length sts \<le> n
     \<and> list_all (record_statement_signed env) sts)"

lemma appends_refl [simp]: "appends env 0 n s s"
  by (simp add: appends_def)

lemma appends_trans: "appends env m n s t \<Longrightarrow> appends env m' n' t u \<Longrightarrow> appends env (m + m') (n + n') s u"
proof -
  assume "appends env m n s t" "appends env m' n' t u"
  then obtain xs ys where "gs_committed_writes t = gs_committed_writes s @ xs" "m \<le> length xs" "length xs \<le> n"
      "list_all (record_statement_signed env) xs" "gs_committed_writes u = gs_committed_writes t @ ys" "m' \<le> length ys"
      "length ys \<le> n'" "list_all (record_statement_signed env) ys"
    unfolding appends_def by blast
  then have "gs_committed_writes u = gs_committed_writes s @ (xs @ ys) \<and> m + m' \<le> length (xs @ ys) \<and> length (xs @ ys) \<le> n + n'
      \<and> list_all (record_statement_signed env) (xs @ ys)" by simp
  then show ?thesis unfolding appends_def by blast
qed

lemma appends_same: "gs_committed_writes t = gs_committed_writes s \<Longrightarrow> appends env 0 n s t"
  by (simp add: appends_def)

lemma alert_write_appends:
  assumes mac: "mac_ok env" and run: "write_alert_sync env kind flds src s = (Inr result, t)"
  shows "if pr_ok result then appends env 1 1 s t else gs_committed_writes t = gs_committed_writes s"
  using alert_rail.rail_once(1) [OF mac run [unfolded write_alert_sync_def]]
  by (auto simp: wrote_once_def appends_def persist_failed_def persist_result_from_rowcount_def)

lemma firing_appends:
  assumes mac: "mac_ok env" and run: "persist_firing env rule decision via s = (Inr recorded, t)"
  shows "if recorded then appends env 1 2 s t else gs_committed_writes t = gs_committed_writes s"
proof -
  obtain event u where event: "write_alert_sync env ''event_create'' (firing_fields env rule decision via) ''alerts_trigger_engine'' s = (Inr event, u)"
    using run by (auto simp: persist_firing_def bindA_apply split: prod.splits sum.splits)
  show ?thesis
  proof (cases "pr_ok event")
    case True
    with run event obtain trigger where trigger: "recorded"
      "write_alert_sync env ''rule_trigger'' (trigger_fields env rule) ''alerts_trigger_engine'' u = (Inr trigger, t)"
      by (auto simp: persist_firing_def bindA_apply split: prod.splits sum.splits)
    have "appends env 1 1 s u" using alert_write_appends [OF mac event] True by simp
    moreover have "appends env 0 1 u t"
      using alert_write_appends [OF mac trigger(2)] by (auto simp: appends_def split: if_splits)
    ultimately show ?thesis using trigger(1) appends_trans [of env 1 1 s u 0 1 t] by (simp add: numeral_2_eq_2)
  next
    case False
    with run event have "\<not> recorded" "t = u" by (auto simp: persist_firing_def bindA_apply)
    with alert_write_appends [OF mac event] False show ?thesis by simp
  qed
qed

lemma send_keeps [simp]: "gs_committed_writes (snd (send_via env channel recipient message s)) = gs_committed_writes s"
  by (simp add: send_via_def split: sum.splits bool.splits)

lemma deliver_keeps [simp]: "gs_committed_writes (snd (deliver_channels env rule user message channels s)) = gs_committed_writes s"
proof (induction channels arbitrary: s)
  case (Cons channel channels)
  obtain ds t where rest: "deliver_channels env rule user message channels s = (ds, t)" by fastforce
  show ?case
  proof (cases "channel = ''in_app'' \<or> recipient_for channel rule user = None \<or> channel \<notin> set CHANNELS
      \<or> recipient_for channel rule user = Some []")
    case True
    with rest Cons.IH [of s] show ?thesis by (cases "recipient_for channel rule user") auto
  next
    case False
    then obtain recipient where r: "recipient_for channel rule user = Some recipient" by auto
    obtain sent u where send: "send_via env channel recipient message s = (sent, u)" by fastforce
    obtain ds' v where rest': "deliver_channels env rule user message channels u = (ds', v)" by fastforce
    from False r send rest' Cons.IH [of u] send_keeps [of env channel recipient message s] show ?thesis by simp
  qed
qed simp

section \<open>The account of a run\<close>

definition accounted :: "('e) persist_env_scheme \<Rightarrow> alert_summary \<Rightarrow> alert_summary \<Rightarrow> nat \<Rightarrow> 's gate_state_scheme \<Rightarrow> 's gate_state_scheme \<Rightarrow> bool" where
  \<comment> \<open>what the rules from one account to the next added\<close>
  "accounted env acc sm rules s t = (\<exists>fired delivered skips.
     as_considered sm = as_considered acc \<and> as_fired sm = as_fired acc + fired \<and> as_delivered sm = as_delivered acc + delivered
     \<and> as_cooldown_skips sm = as_cooldown_skips acc + skips \<and> delivered \<le> fired \<and> fired + skips \<le> rules
     \<and> appends env fired (2 * fired) s t)"

lemma accountedI:
  "as_considered sm = as_considered acc \<Longrightarrow> as_fired sm = as_fired acc + fired \<Longrightarrow> as_delivered sm = as_delivered acc + delivered \<Longrightarrow>
   as_cooldown_skips sm = as_cooldown_skips acc + skips \<Longrightarrow> delivered \<le> fired \<Longrightarrow> fired + skips \<le> rules \<Longrightarrow>
   appends env fired (2 * fired) s t \<Longrightarrow> accounted env acc sm rules s t"
  unfolding accounted_def by blast

lemma accounted_skip:
  "accounted env (acc\<lparr>as_cooldown_skips := Suc (as_cooldown_skips acc)\<rparr>) sm rules s t \<Longrightarrow> accounted env acc sm (Suc rules) s t"
  unfolding accounted_def by clarsimp

lemma accounted_pass: "accounted env acc sm rules s t \<Longrightarrow> accounted env acc sm (Suc rules) s t"
  unfolding accounted_def using le_SucI by blast

lemma accounted_from: "gs_committed_writes v = gs_committed_writes s \<Longrightarrow> accounted env acc sm rules v t \<Longrightarrow> accounted env acc sm rules s t"
  unfolding accounted_def appends_def by simp

lemma accounted_fired:
  assumes "accounted env (acc\<lparr>as_fired := Suc (as_fired acc), as_delivered := as_delivered acc + d\<rparr>) sm rules v t" "d \<le> 1"
    and "appends env 1 2 s v"
  shows "accounted env acc sm (Suc rules) s t"
proof -
  from assms(1) obtain fired delivered skips where r: "as_considered sm = as_considered acc" "as_fired sm = Suc (as_fired acc) + fired"
      "as_delivered sm = as_delivered acc + d + delivered" "as_cooldown_skips sm = as_cooldown_skips acc + skips" "delivered \<le> fired"
      "fired + skips \<le> rules" "appends env fired (2 * fired) v t"
    unfolding accounted_def by auto
  have "appends env (Suc fired) (2 * Suc fired) s t" using appends_trans [OF assms(3) r(7)] by simp
  with r assms(2) show ?thesis
    by (intro accountedI [where fired = "Suc fired" and delivered = "d + delivered" and skips = skips]) simp_all
qed

lemma rules_accounted:
  assumes mac: "mac_ok env"
  shows "evaluate_rules env availability prices rows acc s = (Inr sm, t) \<Longrightarrow> accounted env acc sm (length rows) s t"
proof (induction rows arbitrary: acc s)
  case Nil
  then show ?case by (simp add: accounted_def)
next
  case (Cons row rows)
  let ?d = "decide availability prices row"
  consider (cooling) "in_cooldown (rw_rule row) (ae_now env)"
    | (quiet) "\<not> in_cooldown (rw_rule row) (ae_now env)" "\<not> td_fire ?d"
    | (fires) "\<not> in_cooldown (rw_rule row) (ae_now env)" "td_fire ?d" by blast
  then show ?case
  proof cases
    case cooling
    with Cons.prems have "accounted env (acc\<lparr>as_cooldown_skips := Suc (as_cooldown_skips acc)\<rparr>) sm (length rows) s t"
      by (intro Cons.IH) (simp add: Let_def)
    then show ?thesis by (simp add: accounted_skip)
  next
    case quiet
    with Cons.prems have "accounted env acc sm (length rows) s t" by (intro Cons.IH) (simp add: Let_def)
    then show ?thesis by (simp add: accounted_pass)
  next
    case fires
    obtain via u where via: "deliver env (rw_rule row) (rw_user row) (td_message ?d) s = (via, u)" by fastforce
    then have same: "gs_committed_writes u = gs_committed_writes s"
      using deliver_keeps [of env "rw_rule row" "rw_user row" "td_message ?d" "rule_channels (rw_rule row)" s] by (simp add: deliver_def)
    from fires via Cons.prems obtain recorded v where firing: "persist_firing env (rw_rule row) ?d via u = (Inr recorded, v)"
      and rest: "evaluate_rules env availability prices rows
          (if \<not> recorded then acc else acc\<lparr>as_fired := Suc (as_fired acc), as_delivered := as_delivered acc + (if via = [] then 0 else 1)\<rparr>) v
        = (Inr sm, t)"
      by (simp add: bindA_apply Let_def split: prod.splits sum.splits)
    show ?thesis
    proof (cases recorded)
      case True
      have "appends env 1 2 s v" using firing_appends [OF mac firing] True same by (simp add: appends_def)
      with Cons.IH [OF rest] True show ?thesis
        by (auto intro: accounted_fired [where d = "if via = [] then 0 else 1"])
    next
      case False
      with firing_appends [OF mac firing] same have "gs_committed_writes v = gs_committed_writes s" by simp
      with Cons.IH [OF rest] False show ?thesis by (auto intro: accounted_pass accounted_from)
    qed
  qed
qed



section \<open>Firings that cannot be recorded\<close>

lemma unsigned_never_granted:
  assumes "signing_secret env = None"
  shows "alert_write_verdict env kind flds \<noteq> Inr (Grant r n)"
proof
  assume grant: "alert_write_verdict env kind flds = Inr (Grant r n)"
  obtain table operation where t: "alert_target kind = (table, operation)" by fastforce
  let ?sign = "bindE (sign_fields env table operation flds) (\<lambda>ro. Inr (case ro of
       None \<Rightarrow> alert_refuse table ''signing_unavailable'' [''signing_secret_missing'']
     | Some r \<Rightarrow> Grant r [(''table'', PStr table), (''kind'', PStr kind)]))"
  from grant have "contract_then table flds (Some [(''table'', PStr table)]) ?sign = Inr (Grant r n)"
    by (auto simp: alert_write_verdict_def t Let_def bindE_Inr_iff split: option.splits if_splits)
  then have "?sign = Inr (Grant r n)" using contract_then_Grant by blast
  then show False using assms by (auto simp: bindE_Inr_iff sign_fields_def sign_def split: option.splits)
qed

lemma refused_write:
  assumes "signing_secret env = None"
  shows "gs_committed_writes (snd (write_alert_sync env kind flds src s)) = gs_committed_writes s"
    and "write_alert_sync env kind flds src s = (Inr result, t) \<Longrightarrow> \<not> pr_ok result"
proof -
  let ?s = "rollback_session s"
  obtain x u where door: "authorize_alert_write env flds kind src ?s = (x, u)" by fastforce
  have u: "gs_committed_writes u = gs_committed_writes s"
    using alert_rail.frame [OF door] by (simp add: same_session_def rollback_session_def)
  have unsigned: "fo_signed_record out = None" if "x = Inr out" for out
    using door that unsigned_never_granted [OF assms, of kind flds]
    by (cases "alert_write_verdict env kind flds")
      (auto simp: authorize_alert_write_def settle_def reject_outcome_def split: door_verdict.splits)
  have gated: "gated_write env (source_context src) (authorize_alert_write env flds kind src) ?s
      = (case x of Inl e \<Rightarrow> (Inl e, u) | Inr out \<Rightarrow> (Inr persist_failed, rollback_session u))"
    using door unsigned by (auto simp: gated_write_def bindA_apply split: sum.splits)
  show "gs_committed_writes (snd (write_alert_sync env kind flds src s)) = gs_committed_writes s"
    using gated u by (auto simp: write_alert_sync_def in_new_session_def rollback_on_error_def rollback_session_def split: sum.splits)
  show "\<not> pr_ok result" if "write_alert_sync env kind flds src s = (Inr result, t)"
    using that gated by (auto simp: write_alert_sync_def in_new_session_def rollback_on_error_def persist_failed_def split: sum.splits)
qed

lemma keeps_alert [rail_frame]: "preserves gate_state.more (write_alert_sync env kind flds src)"
  unfolding write_alert_sync_def gated_write_def authorize_alert_write_def
  by (auto intro!: rail_frame preserves_bindA keeps_then split: option.splits)

lemma more_sent: "gate_state.more t = gate_state.more s \<Longrightarrow> al_sent t = al_sent s"
  by (cases s; cases t) simp

lemma firing_sends_nothing: "al_sent (snd (persist_firing env rule decision via s)) = al_sent s"
proof -
  have "preserves gate_state.more (persist_firing env rule decision via)"
    unfolding persist_firing_def by (auto intro!: rail_frame preserves_bindA)
  then show ?thesis unfolding preserves_def by (auto intro: more_sent)
qed

lemma unsigned_firing:
  assumes "signing_secret env = None" "persist_firing env rule decision via s = (Inr recorded, t)"
  shows "\<not> recorded" "gs_committed_writes t = gs_committed_writes s"
proof -
  obtain event u where event: "write_alert_sync env ''event_create'' (firing_fields env rule decision via) ''alerts_trigger_engine'' s = (Inr event, u)"
    using assms(2) by (auto simp: persist_firing_def bindA_apply split: prod.splits sum.splits)
  with assms(2) refused_write(2) [OF assms(1) event] have "\<not> recorded \<and> t = u" by (auto simp: persist_firing_def bindA_apply)
  with refused_write(1) [OF assms(1), of "''event_create''" "firing_fields env rule decision via" "''alerts_trigger_engine''" s] event
  show "\<not> recorded" "gs_committed_writes t = gs_committed_writes s" by simp_all
qed

section \<open>What a run sends\<close>

definition addressed :: "alert_rule \<Rightarrow> alert_user \<Rightarrow> string \<Rightarrow> string \<Rightarrow> (string \<times> string \<times> string) list" where
  \<comment> \<open>the message a channel of the rule has to carry\<close>
  "addressed rule user message channel =
     (case recipient_for channel rule user of None \<Rightarrow> []
      | Some recipient \<Rightarrow> if channel \<notin> set CHANNELS \<or> recipient = [] then [] else [(channel, recipient, message)])"

definition due :: "int \<Rightarrow> (string \<times> bool) list \<Rightarrow> price_row list \<Rightarrow> rule_row \<Rightarrow> (string \<times> string \<times> string) list" where
  "due now availability prices row =
     (let decision = decide availability prices row
      in if in_cooldown (rw_rule row) now \<or> \<not> td_fire decision then []
         else concat (map (addressed (rw_rule row) (rw_user row) (td_message decision)) (rule_channels (rw_rule row))))"

definition due_messages :: "('e) alert_env_scheme \<Rightarrow> gate_statement list \<Rightarrow> (string \<times> string \<times> string) list res" where
  \<comment> \<open>by what the database holds\<close>
  "due_messages env writes =
     bindE (ae_rule_rows env writes) (\<lambda>rows.
     bindE (if list_all (\<lambda>r. ar_alert_type (rw_rule r) = ''availability'') rows then Inr [] else ae_price_rows env writes) (\<lambda>prices.
     bindE (if list_all (\<lambda>r. ar_alert_type (rw_rule r) \<noteq> ''availability'') rows then Inr [] else ae_events env writes) (\<lambda>events.
     bindE (previous_availability events
              (map (\<lambda>r. ar_id (rw_rule r)) (filter (\<lambda>r. ar_alert_type (rw_rule r) = ''availability'') rows))) (\<lambda>availability.
       Inr (concat (map (due (ae_now env) availability prices) rows))))))"

lemma deliver_sends:
  assumes "\<And>sent c r m. ae_send env sent c r m = Inr True"
  shows "al_sent (snd (deliver_channels env rule user message channels s)) = al_sent s @ concat (map (addressed rule user message) channels)"
proof (induction channels arbitrary: s)
  case (Cons channel channels)
  have app: "''in_app'' \<notin> set CHANNELS" by (simp add: CHANNELS_def)
  show ?case
    using Cons.IH assms app by (cases "recipient_for channel rule user") (simp_all add: addressed_def send_via_def case_prod_beta)
qed simp

lemma rules_send:
  assumes "\<And>sent c r m. ae_send env sent c r m = Inr True"
  shows "evaluate_rules env availability prices rows acc s = (Inr sm, t) \<Longrightarrow>
    al_sent t = al_sent s @ concat (map (due (ae_now env) availability prices) rows)"
proof (induction rows arbitrary: acc s)
  case (Cons row rows)
  let ?d = "decide availability prices row"
  show ?case
  proof (cases "in_cooldown (rw_rule row) (ae_now env) \<or> \<not> td_fire ?d")
    case True
    with Cons.prems Cons.IH [of _ s] show ?thesis by (auto simp: Let_def due_def split: if_splits)
  next
    case False
    obtain via u where via: "deliver env (rw_rule row) (rw_user row) (td_message ?d) s = (via, u)" by fastforce
    from False have u: "al_sent u = al_sent s @ due (ae_now env) availability prices row"
      using deliver_sends [OF assms, of "rw_rule row" "rw_user row" "td_message ?d" "rule_channels (rw_rule row)" s] via
      by (simp add: deliver_def due_def Let_def)
    from False via Cons.prems obtain recorded v acc' where firing: "persist_firing env (rw_rule row) ?d via u = (Inr recorded, v)"
      and rest: "evaluate_rules env availability prices rows acc' v = (Inr sm, t)"
      by (auto simp: bindA_apply Let_def split: prod.splits sum.splits)
    show ?thesis using Cons.IH [OF rest] u firing_sends_nothing [of env "rw_rule row" ?d via u] firing by simp
  qed
qed simp

lemma unsigned_rules:
  assumes "signing_secret env = None"
  shows "evaluate_rules env availability prices rows acc s = (Inr sm, t) \<Longrightarrow>
    gs_committed_writes t = gs_committed_writes s \<and> as_fired sm = as_fired acc"
proof (induction rows arbitrary: acc s)
  case (Cons row rows)
  let ?d = "decide availability prices row"
  show ?case
  proof (cases "in_cooldown (rw_rule row) (ae_now env) \<or> \<not> td_fire ?d")
    case True
    with Cons.prems Cons.IH [of _ s] show ?thesis by (auto simp: Let_def split: if_splits)
  next
    case False
    obtain via u where via: "deliver env (rw_rule row) (rw_user row) (td_message ?d) s = (via, u)" by fastforce
    then have u: "gs_committed_writes u = gs_committed_writes s"
      using deliver_keeps [of env "rw_rule row" "rw_user row" "td_message ?d" "rule_channels (rw_rule row)" s] by (simp add: deliver_def)
    from False via Cons.prems obtain recorded v where firing: "persist_firing env (rw_rule row) ?d via u = (Inr recorded, v)"
      and rest: "evaluate_rules env availability prices rows
          (if \<not> recorded then acc else acc\<lparr>as_fired := Suc (as_fired acc), as_delivered := as_delivered acc + (if via = [] then 0 else 1)\<rparr>) v
        = (Inr sm, t)"
      by (simp add: bindA_apply Let_def split: prod.splits sum.splits)
    show ?thesis using Cons.IH [OF rest] unsigned_firing [OF assms firing] u by simp
  qed
qed simp

lemma run_sends:
  assumes "\<And>sent c r m. ae_send env sent c r m = Inr True" "evaluate_alert_rules env s = (Inr sm, t)"
  obtains ms where "due_messages env (gs_committed_writes s) = Inr ms" "al_sent t = al_sent s @ ms"
    "signing_secret env = None \<Longrightarrow> gs_committed_writes t = gs_committed_writes s \<and> as_fired sm = 0"
proof -
  from assms(2) obtain rows prices events availability where
      q: "ae_rule_rows env (gs_committed_writes s) = Inr rows"
        "(if list_all (\<lambda>r. ar_alert_type (rw_rule r) = ''availability'') rows then Inr [] else ae_price_rows env (gs_committed_writes s)) = Inr prices"
        "(if list_all (\<lambda>r. ar_alert_type (rw_rule r) \<noteq> ''availability'') rows then Inr [] else ae_events env (gs_committed_writes s)) = Inr events"
        "previous_availability events (map (\<lambda>r. ar_id (rw_rule r)) (filter (\<lambda>r. ar_alert_type (rw_rule r) = ''availability'') rows)) = Inr availability"
      and run: "evaluate_rules env availability prices rows
        \<lparr> as_considered = length rows, as_fired = 0, as_delivered = 0, as_cooldown_skips = 0 \<rparr> s = (Inr sm, t)"
    by (auto simp: evaluate_alert_rules_def query_rows_def bindA_apply split: prod.splits sum.splits if_splits)
  show thesis
  proof (rule that)
    show "due_messages env (gs_committed_writes s) = Inr (concat (map (due (ae_now env) availability prices) rows))"
      using q by (simp add: due_messages_def)
    show "al_sent t = al_sent s @ concat (map (due (ae_now env) availability prices) rows)" by (rule rules_send [OF assms(1) run])
    show "gs_committed_writes t = gs_committed_writes s \<and> as_fired sm = 0" if "signing_secret env = None"
      using unsigned_rules [OF that run] by simp
  qed
qed

fun alert_runs :: "nat \<Rightarrow> ('e) alert_env_scheme \<Rightarrow> ('s alert_state_scheme, unit) act" where
  \<comment> \<open>one run after the other\<close>
  "alert_runs 0 env = retA ()"
| "alert_runs (Suc n) env = bindA (evaluate_alert_rules env) (\<lambda>_. alert_runs n env)"

lemma runs_repeat:
  assumes "signing_secret env = None" "\<And>sent c r m. ae_send env sent c r m = Inr True"
  shows "alert_runs n env s = (Inr (), t) \<Longrightarrow> 0 < n \<Longrightarrow> gs_committed_writes t = gs_committed_writes s
    \<and> (\<exists>ms. due_messages env (gs_committed_writes s) = Inr ms \<and> al_sent t = al_sent s @ concat (replicate n ms))"
proof (induction n arbitrary: s)
  case (Suc n)
  then obtain sm u where first: "evaluate_alert_rules env s = (Inr sm, u)" and rest: "alert_runs n env u = (Inr (), t)"
    by (auto simp: bindA_apply split: prod.splits sum.splits)
  from run_sends [OF assms(2) first] assms(1) obtain ms where ms: "due_messages env (gs_committed_writes s) = Inr ms"
    "al_sent u = al_sent s @ ms" "gs_committed_writes u = gs_committed_writes s" by metis
  show ?case
  proof (cases n)
    case 0
    with rest ms show ?thesis by simp
  next
    case (Suc m)
    with Suc.IH [OF rest] ms show ?thesis by auto
  qed
qed simp

text \<open>
  C28: An alert is delivered before it is recorded. While firings cannot be recorded, here because no signing
  secret is configured, nothing keeps a rule from firing again: runs of the engine add nothing durable and, where the
  channels take every message, each of them sends the same messages once more.
\<close>

theorem unrecorded_firing_repeats:
  assumes "signing_secret env = None" "\<And>sent c r m. ae_send env sent c r m = Inr True" "0 < n"
  shows "case alert_runs n env s of
      (Inr _, t) \<Rightarrow> gs_committed_writes t = gs_committed_writes s
        \<and> (\<exists>ms. due_messages env (gs_committed_writes s) = Inr ms \<and> al_sent t = al_sent s @ concat (replicate n ms))
    | (Inl e, t) \<Rightarrow> True"
  using runs_repeat [OF assms(1,2), of n s] assms(3) by (auto split: prod.splits sum.splits)

section \<open>A concrete run\<close>

definition lost_listing :: rule_row where
  "lost_listing = \<lparr> rw_rule = \<lparr> ar_id = ''12345678-1234-5678-1234-567812345671'', ar_user_id = ''12345678-1234-5678-1234-567812345672'',
       ar_listing_id = Some ''12345678-1234-5678-1234-567812345673'', ar_alert_type = ''availability'', ar_threshold_pct = None,
       ar_channel = None, ar_channels = PNone, ar_webhook_url = None, ar_cooldown_minutes = 60, ar_last_triggered_at = None,
       ar_created_at = 0, ar_trigger_count = 0 \<rparr>,
     rw_listing_active = False, rw_external_name = Some ''TV'', rw_user = \<lparr> au_email = ''a@b.c'', au_telegram_chat_id = None \<rparr>,
     rw_product_name = None \<rparr>"

definition alert_sample :: "string option \<Rightarrow> alert_env" where
  \<comment> \<open>one rule on a listing that went away, and channels that take every message\<close>
  "alert_sample secret = persist_env.extend (live_env\<lparr>data_firewall_signing_secret := secret\<rparr>)
     (alert_env.fields (\<lambda>_. Inr [lost_listing]) (\<lambda>_. Inr []) (\<lambda>_. Inr []) (\<lambda>_ _ _ _. Inr True) 0 (\<lambda>_. ''2026-11-19T12:00:00+00:00''))"

definition alert_start :: alert_state where
  "alert_start = gate_state.extend quiet_state (alert_state.fields [])"

definition lost_event :: pydict where
  \<comment> \<open>the event of its firing\<close>
  "lost_event = [(''alert_id'', PStr ''12345678-1234-5678-1234-567812345671''), (''alert_class'', PStr ''analytic''),
     (''listing_id'', PStr ''12345678-1234-5678-1234-567812345673''), (''old_value'', PFloat (float_of_int 1)),
     (''new_value'', PFloat (float_of_int 0)), (''message'', PStr ''TV: listing became unavailable''), (''severity'', PStr ''high''),
     (''sent_via'', PStr ''email''), (''delivered_at'', PStr ''2026-11-19T12:00:00+00:00''),
     (''triggered_at'', PStr ''2026-11-19T12:00:00+00:00'')]"

definition readable :: "pyval \<Rightarrow> bool" where
  "readable v = (case v of PFloat f \<Rightarrow> dec_of_float f \<noteq> None | _ \<Rightarrow> True)"

lemma finite_readable: "(case f of FFin _ _ _ \<Rightarrow> True | _ \<Rightarrow> False) \<Longrightarrow> readable (PFloat f)"
  by (auto simp: readable_def dec_of_float_def Let_def split: pyfloat.splits prod.splits)

lemma readable_other [simp]: "readable (PStr x)" by (simp add: readable_def)

lemma readable_column: "readable v \<Longrightarrow> column_failures spec name v \<noteq> Inl e"
  by (cases v) (auto simp: readable_def column_failures_def numeric_fits_def split: option.splits)

lemma readable_contract:
  assumes "list_all (\<lambda>kv. readable (snd kv)) row"
  shows "\<exists>fs. mapE (field_failures c) row = Inr fs"
  using assms
proof (induction row)
  case (Cons kv row)
  then obtain fs where "mapE (field_failures c) row = Inr fs" by auto
  moreover obtain f where "field_failures c kv = Inr f"
    using Cons.prems readable_column by (cases "field_failures c kv") (auto simp: field_failures_def split: option.splits)
  ultimately show ?case by simp
qed simp

lemma unsigned_refusal:
  assumes "signing_secret env = None" "list_all (\<lambda>kv. readable (snd kv)) flds" "event_semantic_failures ''event_create'' flds = Inr []"
    "extract_locator ''alert_events'' flds = Inr locator"
  shows "\<exists>t. write_alert_sync env ''event_create'' flds src s = (Inr persist_failed, t)"
proof -
  have target: "alert_target ''event_create'' = (''alert_events'', ''insert'')" "''alert_events'' \<noteq> ALERTS_TABLE" by code_simp+
  have "case FACT_TABLE_CONTRACTS ''alert_events'' of None \<Rightarrow> False | Some _ \<Rightarrow> True" by code_simp
  then obtain c where c: "FACT_TABLE_CONTRACTS ''alert_events'' = Some c" by (auto split: option.splits)
  obtain fs where fs: "mapE (field_failures c) flds = Inr fs" using readable_contract [OF assms(2)] by blast
  have "\<exists>why failed ns. alert_write_verdict env ''event_create'' flds = Inr (Refuse why failed ns)"
    using assms(1,3,4) fs
    by (auto simp: alert_write_verdict_def target contract_then_def validate_contract_subset_def c validate_against_contract_def
        alert_refuse_def sign_fields_def sign_def Let_def split: option.splits)
  then obtain why failed ns where v: "alert_write_verdict env ''event_create'' flds = Inr (Refuse why failed ns)" by blast
  then obtain out u where door: "authorize_alert_write env flds ''event_create'' src (rollback_session s) = (Inr out, u)"
    "fo_signed_record out = None"
    by (simp add: authorize_alert_write_def settle_def reject_outcome_def)
  then show ?thesis
    by (simp add: write_alert_sync_def in_new_session_def rollback_on_error_def gated_write_def bindA_apply)
qed

lemma sample_simps:
  "signing_secret (alert_sample None) = None"
  "ae_send (alert_sample x) sent c r m = Inr True" "ae_rule_rows (alert_sample x) w = Inr [lost_listing]"
  "ae_events (alert_sample x) w = Inr []" "ae_now (alert_sample x) = 0"
  by (simp_all add: alert_sample_def signing_secret_def live_env_def accepting_env_def alert_env.defs persist_env.defs gate_env.defs)

lemma lost_decision:
  "decide [] [] lost_listing = no_trigger\<lparr>td_fire := True, td_old_value := Some (float_of_int 1), td_new_value := Some (float_of_int 0),
     td_severity := ''high'', td_message := ''TV: listing became unavailable''\<rparr>"
  "rule_channels (rw_rule lost_listing) = [''email'']" "recipient_for ''email'' (rw_rule lost_listing) (rw_user lost_listing) = Some ''a@b.c''"
  "ar_alert_type (rw_rule lost_listing) = ''availability''" "in_cooldown (rw_rule lost_listing) 0 = False"
  "previous_availability [] [ar_id (rw_rule lost_listing)] = Inr []"
  by code_simp+

lemma lost_fields:
  "firing_fields (alert_sample x) (rw_rule lost_listing) (decide [] [] lost_listing) [''email''] = lost_event"
  unfolding lost_decision
  by (simp add: firing_fields_def lost_event_def alert_sample_def alert_env.defs persist_env.defs build_alert_event_fields_def
      lost_listing_def no_trigger_def float_val_def serialize_alert_value_def Let_def)

lemma lost_refused:
  "\<exists>t. persist_firing (alert_sample None) (rw_rule lost_listing) (decide [] [] lost_listing) [''email''] s = (Inr False, t)"
proof -
  have "case float_of_int 0 of FFin _ _ _ \<Rightarrow> True | _ \<Rightarrow> False" "case float_of_int 1 of FFin _ _ _ \<Rightarrow> True | _ \<Rightarrow> False" by code_simp+
  then have "list_all (\<lambda>kv. readable (snd kv)) lost_event" by (simp add: lost_event_def finite_readable)
  moreover have "event_semantic_failures ''event_create'' lost_event = Inr []" by code_simp
  moreover have "extract_locator ''alert_events'' lost_event = Inr []" by code_simp
  ultimately obtain t where "write_alert_sync (alert_sample None) ''event_create'' lost_event ''alerts_trigger_engine'' s = (Inr persist_failed, t)"
    using unsigned_refusal [OF sample_simps(1)] by blast
  then show ?thesis by (simp add: persist_firing_def lost_fields bindA_apply persist_failed_def)
qed

lemma lost_run: "\<exists>sm t. evaluate_alert_rules (alert_sample None) s = (Inr sm, t)"
proof -
  let ?u = "s\<lparr>al_sent := al_sent s @ [(''email'', ''a@b.c'', ''TV: listing became unavailable'')]\<rparr>"
  have "deliver (alert_sample None) (rw_rule lost_listing) (rw_user lost_listing) (td_message (decide [] [] lost_listing)) s = ([''email''], ?u)"
    by (simp add: deliver_def lost_decision CHANNELS_def send_via_def sample_simps)
  moreover obtain t where "persist_firing (alert_sample None) (rw_rule lost_listing) (decide [] [] lost_listing) [''email''] ?u = (Inr False, t)"
    using lost_refused by blast
  moreover have "td_fire (decide [] [] lost_listing)" by (simp add: lost_decision)
  ultimately show ?thesis
    by (simp add: evaluate_alert_rules_def query_rows_def bindA_apply sample_simps lost_decision(4-6) Let_def)
qed

theorem unrecorded_firing_repeats_witness:
  "case alert_runs 2 (alert_sample None) alert_start of
     (Inr _, t) \<Rightarrow> al_sent t = [(''email'', ''a@b.c'', ''TV: listing became unavailable''), (''email'', ''a@b.c'', ''TV: listing became unavailable'')]
   | (Inl e, t) \<Rightarrow> False"
proof -
  have "due_messages (alert_sample None) [] = Inr [(''email'', ''a@b.c'', ''TV: listing became unavailable'')]" by code_simp
  moreover have "gs_committed_writes alert_start = [] \<and> al_sent alert_start = []"
    by (simp add: alert_start_def quiet_state_def alert_state.defs gate_state.defs)
  moreover obtain sm u where "evaluate_alert_rules (alert_sample None) alert_start = (Inr sm, u)" using lost_run by blast
  moreover obtain sm' t where "evaluate_alert_rules (alert_sample None) u = (Inr sm', t)" using lost_run by blast
  ultimately show ?thesis
    using unrecorded_firing_repeats [OF sample_simps(1,2), of 2 alert_start] by (simp add: numeral_2_eq_2 bindA_apply)
qed


end
