(* ===== verification/Spec2Isabelle.thy ===== *)
theory Spec2Isabelle
  imports Integrity DoorFacts MatchFacts OrchestratorRuns CrawlFacts DiscoveryFacts ScrapeFacts AlertFacts
begin

text \<open>
  Imperecta, a price-monitoring backend (Python, \<open>src/backend/app\<close>; all paths below are relative to it).
  This library models the program's way from a shop's page to a durable row, and the machinery that drives it.

  \<^bold>\<open>The program.\<close> Marketplaces are registered shops. A pipeline run (\<open>modules/scraper/pipeline\<close>) is
  a parent job whose ticks dispatch children: first one discovery per marketplace, then scrapes of cohorts
  of listings. A discovery (\<open>modules/discovery\<close>) finds product URLs in sitemaps or by crawling categories and
  puts them into the pool of products and listings. A scrape (\<open>modules/scraper/service.py\<close>) fetches and
  extracts the page of one listing and hands the extract to the ingestion (\<open>modules/ingestion\<close>), which enriches
  the product, computes the price row and updates the listing. A matching tick (\<open>modules/matching\<close>) groups equal products of
  different shops. Nothing writes a table directly: every write passes a door of the data firewall
  (\<open>modules/data_firewall\<close>), which checks the payload against rules, an allowlist and the contract of its table and
  signs it; the persist layer (\<open>modules/persist\<close>) verifies the signature and sends the record to SQL functions
  of the database (\<open>gate.exec_write\<close> and relatives) that verify it once more. What is refused goes to \<open>reject_data\<close>.

  \<^bold>\<open>How code becomes definitions.\<close> A function that may raise returns \<open>pyexc + 'a\<close>; one that has effects
  is an \<open>act\<close>, a function from a state record to such a result and the new state (\<open>Prelude\<close>: \<open>bindE\<close>, \<open>bindA\<close>).
  Every \<open>try\<close>, early return and \<open>raise\<close> of the source is a branch. Records of state extend each other as the
  callers do: \<open>gate_state\<close> (what is durable, and the session with its unflushed and uncommitted writes, its aborted
  transaction or its demand for a rollback) is extended by \<open>firewall_state\<close>, \<open>ingest_state\<close>, \<open>scrape_state\<close>, \<open>crawl_state\<close>, \<open>disc_state\<close>,
  so that a lower layer is used unchanged, polymorphic in the rest of the record, by the upper ones. What the code reads
  from outside (the answers of the database to a statement, given everything written before; fetched pages, the classifier and
  link extraction; fresh UUIDs and instants; HMAC-SHA256 and version-5 UUIDs) is a field of an environment record. Integers of Python are
  \<open>int\<close>; bytes are \<open>8 word\<close>; floats are IEEE doubles with their rounding written out (\<open>PyFloat\<close>); decimals are
  sign, coefficient and exponent. Texts are lists of characters below 256.

  \<^bold>\<open>The theories.\<close>
  \<^item> \<open>Prelude\<close>, \<open>PyFloat\<close>, \<open>PyValue\<close>, \<open>PyNumber\<close>, \<open>PyUrl\<close>: Python's exceptions, results, floats and their
    shortest text, decimals, dynamic values with \<open>str\<close>, truth and dicts, UTF-8, \<open>int()\<close> and \<open>float()\<close> of texts, URL joining.
  \<^item> \<open>Signing\<close>, \<open>Canonical\<close> (locale \<open>prefix_code\<close>), \<open>Integrity\<close>: \<open>data_firewall/signing.py\<close> and \<open>signing_ordered.py\<close>. The
    byte form of a record or batch is injective on column-like keys, records and batches are separated, the pre-sorted wire form
    has the same bytes, what is signed verifies; with arbitrary keys there is a collision.
  \<^item> \<open>Schema\<close> (every mapped class of \<open>models/\<close> as a table model), \<open>Contracts\<close>, \<open>SchemaFacts\<close>: \<open>data_firewall/contracts.py\<close>.
    Contracts agree with the tables, foreign keys resolve, locator columns are mandatory.
  \<^item> \<open>RejectStore\<close>, \<open>Rules\<close>, \<open>Firewall\<close>, \<open>FirewallFacts\<close>: \<open>reject_store.py\<close>, \<open>service_alert_store.py\<close>, \<open>rules.py\<close>,
    \<open>firewall.py\<close>. The e-commerce, market and logs rails sign exactly what conforms and account for every other row.
  \<^item> \<open>Verification\<close> (locales \<open>signing_door\<close>, \<open>write_door\<close>), \<open>Doors\<close>, \<open>UpdateValidator\<close>, \<open>UserDoor\<close>, \<open>ChatDoor\<close>, \<open>AlertDoor\<close>,
    \<open>RetentionGate\<close>, \<open>DoorFacts\<close>: the doors for scrape updates and deletes, users, chats, alert rules and bulk deletes, each an
    interpretation of the locale, and what each of them lets pass.
  \<^item> \<open>GateRpc\<close>, \<open>Writer\<close>, \<open>WriterFacts\<close>: \<open>persist/gate_rpc.py\<close> and \<open>persist/writer.py\<close>. A statement binds exactly the
    signed content; what \<open>write_sync\<close> and \<open>write_batch_sync\<close> can leave in a session.
  \<^item> \<open>Rails\<close>, \<open>RailFacts\<close> (locales \<open>rail\<close>, \<open>live_rail\<close>), \<open>MetaBuilders\<close>: the remaining files of \<open>persist/\<close>. A call
    makes at most one statement durable and reports it exactly then; granted writes are made; array columns read back as written.
  \<^item> \<open>MatchSignature\<close>, \<open>TitleMerge\<close>, \<open>MatchEngine\<close>, \<open>MatchFacts\<close>: \<open>matching/signature.py\<close>, \<open>matching/engine.py\<close>. Soundness of
    signatures and keys, the title merge as connected components, writes settled record by record, resweeps that cover.
  \<^item> \<open>Pipeline\<close>, \<open>Orchestrator\<close>, \<open>OrchestratorFacts\<close>, \<open>OrchestratorRuns\<close>: \<open>scraper/pipeline/outcome_buckets.py\<close>,
    \<open>child_aggregation.py\<close>, \<open>job_completion.py\<close>, \<open>tick_orchestrator.py\<close>, \<open>metadata_store.py\<close>. The account of a run is closed;
    ticks go on, are capped and fair; runs of ticks and task work as lists of steps with an invariant.
  \<^item> \<open>Frontier\<close>, \<open>CategoryBfs\<close>, \<open>CrawlFacts\<close>: \<open>discovery/cursor_store.py\<close>, \<open>bfs_walker.py\<close>, \<open>fetch_adapter.py\<close>. Over all its runs
    the crawl asks for no page twice, and for a bounded number.
  \<^item> \<open>PoolWrite\<close>, \<open>PoolSave\<close>, \<open>UrlGate\<close>, \<open>ProductHarvest\<close>, \<open>DiscoveryRun\<close>, \<open>DiscoveryFacts\<close>: \<open>discovery/gate_persist.py\<close>,
    \<open>url_canonicalizer.py\<close>, \<open>category_processor.py\<close>, \<open>sitemap_harvester.py\<close>, \<open>budget_governor.py\<close>, \<open>alerting.py\<close>, \<open>orchestrator.py\<close>. Pairs are written
    whole, only new and classified URLs are stored, harvests cover the categories (locale \<open>harvest_callbacks\<close> for what gate and save promise, \<open>harvest_frame\<close> for what they leave alone), a discovery always settles.
  \<^item> \<open>PriceMath\<close>, \<open>Ingestion\<close>, \<open>ScrapeService\<close>, \<open>ScrapeFacts\<close>: \<open>persist/writer.py\<close> (price change), \<open>currency/price_eur_resolver.py\<close>,
    \<open>ingestion/service.py\<close>, \<open>taxonomy.py\<close>, \<open>gate.py\<close>, \<open>common/ops_alerts.py\<close>, \<open>scraper/service.py\<close>. The change of a price fits its column,
    statuses are admitted by the log, only a streak of failures switches a listing off, a refused brand stops a product's scrape.
  \<^item> \<open>AlertEngine\<close>, \<open>AlertFacts\<close>: \<open>alerts/engine.py\<close>, \<open>rule_channels\<close> of \<open>alerts/service.py\<close>, the builders of \<open>persist/alerts_write.py\<close>.
    The account of a run agrees with what became durable; firings that cannot be recorded are delivered by every run again.
  \<^item> \<open>RailFrames\<close>: what a write leaves alone in the state of its callers, for the scrape service and the alert engine.

  \<^bold>\<open>Termination and bounds.\<close> No definition uses fuel. Recursion is structural except for the loops below. The root of a merged
  group (\<open>resolve\<close>) is a \<open>partial_function\<close>, as the code's \<open>while\<close> would not end on a cycle; \<open>title_merge_clusters\<close> shows that the merge of titles
  always has a result. The crawl (\<open>bfs_loop\<close>) ends since every page replaces an entry of the frontier by deeper ones, up to depth three
  (\<open>frontier_order\<close>); \<open>crawl_bounded\<close> gives the number of requests. The dispatch of scrapes ends by the length of its queue, the search for
  the shortest text of a float by its 17 digits, the readers of words and of array columns by the length of their input. Loops that
  the code bounds by a cap (pages per category, parallel children, chunks) recurse on the remaining list or on the remaining cap.

  \<^bold>\<open>Concrete runs.\<close> \<open>accepting_env\<close>, \<open>live_env\<close>, \<open>small_harvest\<close>, \<open>small_discovery\<close>, \<open>small_env\<close>, \<open>alert_sample\<close> are environments on which
  the witnesses evaluate.

  \<^bold>\<open>Not modelled.\<close>
  \<^item> What a web page is: HTTP and browser backends, the page cache, throttles and proxies (\<open>scraper/fetch_backends.py\<close> and neighbours), the
    extractors over HTML, the page classifier, link extraction, sitemap download. Results of these are fields of the environments; a fetch may
    raise or give nothing, and a timeout of the sitemap phase is one of its answers.
  \<^item> PostgreSQL: queries are functions of the statements made durable before, the gate functions answer with a row or an error message.
    Constraints, the identity map and lazy loading of the ORM, and concurrent transactions have no state of their own. What
    one transaction sees of its own uncommitted writes is modelled where the code depends on it.
  \<^item> Celery, Redis and Supabase: the broker, heartbeats, the relay of worker logs, tokens. A tick sees what tasks did to their jobs between two
    ticks; the wrappers of \<open>asyncio\<close> that move a call to a thread are the call.
  \<^item> Log output, Sentry and the quality score, which observe and change nothing; the alert rows of a discovery,
    of which only the name is kept.
  \<^item> Market data, news, visualisation, admin, accounts, product pool, analyst, telegram and workers: HTTP endpoints over SQL reads and web
    services. Their writes go through the doors and rails of this library. The API of \<open>alerts/service.py\<close> and the senders of notifications; of
    a message only its body is kept, not title and data.
  \<^item> Characters from 256 on: the Cyrillic words among the tokens of currencies and the case folding of such letters are outside the texts
    of the model. Errors of \<open>urlparse\<close> on malformed addresses are not raised.
  \<^item> Migrations, the Rust twins (\<open>rust_core\<close>, \<open>data_ops\<close>), the front end and the tests.
\<close>

end
